(* ===== verification/K6_Prelude.thy ===== *)
theory K6_Prelude
  imports
    "HOL-Library.State_Monad"
    "HOL-Library.Word"
    "HOL-Library.List_Lexorder"
    "HOL-Library.Char_ord"
    "HOL-Library.AList"
begin

text \<open>
  Shared vocabulary of the development.
  \<^item> The part of Go's standard library that the operator calls on strings
    (\<open>strings\<close>, \<open>strconv\<close>, \<open>path/filepath\<close>, \<open>net.JoinHostPort\<close>, \<open>fmt.Sprintf\<close> of integers
    and booleans), over byte strings; letters and white space are the ASCII ones.
  \<^item> Go maps with string keys as association lists (\<open>gomap\<close>), the order of the list standing
    for the unspecified iteration order.
  \<^item> Programs with effects as state transformers over the list of calls made so far
    (\<open>('c, 'a) io\<close>), with a weakest-precondition calculus (collection \<open>wp\<close>) and a calculus for
    the calls a program may make and what it returns (collection \<open>only_rules\<close>).
\<close>

named_theorems wp "weakest-precondition rules for effectful programs"
named_theorems only_rules "which calls an effectful program may make"
named_theorems go_str "lemmas on Go's string functions"

section \<open>Decimal printing\<close>

definition digit_char :: "nat \<Rightarrow> char" where
  "digit_char d = char_of (48 + d)"

fun dec_nat :: "nat \<Rightarrow> string" where
  "dec_nat n = (if n < 10 then [digit_char n] else dec_nat (n div 10) @ [digit_char (n mod 10)])"

declare dec_nat.simps [simp del]

text \<open>\<open>fmt.Sprintf\<close> with the verb \<open>%d\<close> on a signed integer.\<close>

definition itoa :: "int \<Rightarrow> string" where
  "itoa i = (if i < 0 then CHR ''-'' # dec_nat (nat (- i)) else dec_nat (nat i))"

definition char_digit :: "char \<Rightarrow> nat" where
  "char_digit c = of_char c - 48"

fun undec :: "nat \<Rightarrow> string \<Rightarrow> nat" where
  "undec a [] = a"
| "undec a (c # cs) = undec (10 * a + char_digit c) cs"

lemma char_digit_digit_char [simp]: "d < 10 \<Longrightarrow> char_digit (digit_char d) = d"
  by (simp add: char_digit_def digit_char_def)

lemma undec_append [simp]: "undec a (xs @ ys) = undec (undec a xs) ys"
  by (induction xs arbitrary: a) auto

lemma undec_dec_nat: "undec 0 (dec_nat n) = n"
proof (induction n rule: dec_nat.induct)
  case (1 n)
  then show ?case
    by (cases "n < 10") (auto simp: dec_nat.simps [of n])
qed

lemma dec_nat_inj [simp]: "dec_nat m = dec_nat n \<longleftrightarrow> m = n"
  by (metis undec_dec_nat)

lemma digit_char_not: "d < 10 \<Longrightarrow> 48 \<le> (of_char (digit_char d) :: nat) \<and> (of_char (digit_char d) :: nat) < 58"
  by (simp add: digit_char_def)

lemma dec_nat_digits: "c \<in> set (dec_nat n) \<Longrightarrow> 48 \<le> (of_char c :: nat) \<and> (of_char c :: nat) < 58"
proof (induction n rule: dec_nat.induct)
  case (1 n)
  then show ?case
    by (cases "n < 10") (auto simp: dec_nat.simps [of n] digit_char_def)
qed

lemma dec_nat_nonempty [simp]: "dec_nat n \<noteq> []"
  by (subst dec_nat.simps) simp

lemma not_digit_dec_nat:
  assumes "\<not> (48 \<le> (of_char c :: nat) \<and> (of_char c :: nat) < 58)"
  shows "c \<notin> set (dec_nat n)"
  using assms dec_nat_digits by blast

lemma minus_notin_dec_nat [simp]: "CHR ''-'' \<notin> set (dec_nat n)"
  by (rule not_digit_dec_nat) (simp add: of_char_def)

lemma slash_notin_dec_nat [simp]: "CHR ''/'' \<notin> set (dec_nat n)"
  by (rule not_digit_dec_nat) (simp add: of_char_def)

lemma itoa_inj [simp]: "itoa i = itoa j \<longleftrightarrow> i = j"
proof
  assume eq: "itoa i = itoa j"
  have neg: "False" if "CHR ''-'' # xs = dec_nat n" for xs n
    using minus_notin_dec_nat [of n] that by (metis list.set_intros(1))
  show "i = j"
    using eq neg neg [OF sym] unfolding itoa_def by (auto split: if_splits)
qed simp

lemma itoa_nonempty [simp]: "itoa i \<noteq> []"
  by (simp add: itoa_def)

lemma itoa_of_nat [simp]: "0 \<le> i \<Longrightarrow> itoa i = dec_nat (nat i)"
  by (simp add: itoa_def)

section \<open>Go's string functions\<close>

definition HasPrefix :: "string \<Rightarrow> string \<Rightarrow> bool" where
  "HasPrefix s p \<longleftrightarrow> take (length p) s = p"

definition HasSuffix :: "string \<Rightarrow> string \<Rightarrow> bool" where
  "HasSuffix s p \<longleftrightarrow> HasPrefix (rev s) (rev p)"

definition TrimSuffix :: "string \<Rightarrow> string \<Rightarrow> string" where
  "TrimSuffix s p = (if HasSuffix s p then take (length s - length p) s else s)"

fun Contains :: "string \<Rightarrow> string \<Rightarrow> bool" where
  "Contains [] p \<longleftrightarrow> p = []"
| "Contains (c # s) p \<longleftrightarrow> HasPrefix (c # s) p \<or> Contains s p"

fun Join :: "string list \<Rightarrow> string \<Rightarrow> string" where
  "Join [] sep = []"
| "Join [s] sep = s"
| "Join (s # t # ss) sep = s @ sep @ Join (t # ss) sep"

text \<open>\<open>strings.Split\<close> with a separator of one byte.\<close>

fun Split :: "string \<Rightarrow> char \<Rightarrow> string list" where
  "Split [] sep = [[]]"
| "Split (c # s) sep =
     (if c = sep then [] # Split s sep
      else (case Split s sep of [] \<Rightarrow> [[c]] | w # ws \<Rightarrow> (c # w) # ws))"

definition is_space :: "char \<Rightarrow> bool" where
  "is_space c \<longleftrightarrow> of_char c \<in> {9, 10, 11, 12, 13, 32 :: nat}"

text \<open>\<open>strings.Fields\<close>: the maximal runs of characters that are not white space.\<close>

fun fields_acc :: "string \<Rightarrow> string \<Rightarrow> string list" where
  "fields_acc acc [] = (if acc = [] then [] else [acc])"
| "fields_acc acc (c # s) =
     (if is_space c then (if acc = [] then fields_acc [] s else acc # fields_acc [] s)
      else fields_acc (acc @ [c]) s)"

definition Fields :: "string \<Rightarrow> string list" where
  "Fields s = fields_acc [] s"

text \<open>\<open>strings.ReplaceAll\<close> where the replaced string is one byte.\<close>

definition ReplaceAll :: "string \<Rightarrow> char \<Rightarrow> string \<Rightarrow> string" where
  "ReplaceAll s c r = concat (map (\<lambda>x. if x = c then r else [x]) s)"

text \<open>\<open>strconv.ParseBool\<close>; the callers drop the error, with which the value is \<open>False\<close>.\<close>

definition ParseBool :: "string \<Rightarrow> bool" where
  "ParseBool s \<longleftrightarrow> s \<in> {''1'', ''t'', ''T'', ''TRUE'', ''true'', ''True''}"

definition FormatBool :: "bool \<Rightarrow> string" where
  "FormatBool b = (if b then ''true'' else ''false'')"

text \<open>\<open>filepath.Split\<close>: the file name is what follows the last slash.\<close>

definition filepath_Split :: "string \<Rightarrow> string \<times> string" where
  "filepath_Split p =
     (let file = rev (takeWhile (\<lambda>c. c \<noteq> CHR ''/'') (rev p))
      in (take (length p - length file) p, file))"

definition filepath_IsAbs :: "string \<Rightarrow> bool" where
  "filepath_IsAbs p \<longleftrightarrow> HasPrefix p ''/''"

text \<open>\<open>net.JoinHostPort\<close>: an IPv6 literal is put in brackets.\<close>

definition JoinHostPort :: "string \<Rightarrow> string \<Rightarrow> string" where
  "JoinHostPort host port =
     (if CHR '':'' \<in> set host then ''['' @ host @ '']:'' @ port else host @ '':'' @ port)"

lemma HasPrefix_append [simp]: "HasPrefix (p @ s) p"
  by (simp add: HasPrefix_def)

lemma HasPrefix_iff [go_str]: "HasPrefix s p \<longleftrightarrow> (\<exists>r. s = p @ r)"
  unfolding HasPrefix_def by (metis append_take_drop_id append_eq_conv_conj)

lemma HasSuffix_append [simp]: "HasSuffix (s @ p) p"
  by (simp add: HasSuffix_def)

lemma TrimSuffix_append [simp]: "TrimSuffix (s @ p) p = s"
  by (simp add: TrimSuffix_def)

lemma Split_nonempty [simp]: "Split s c \<noteq> []"
  by (induction s c rule: Split.induct) (auto split: list.splits)

lemma Split_no_sep [go_str]: "c \<notin> set s \<Longrightarrow> Split s c = [s]"
  by (induction s c rule: Split.induct) auto

lemma Split_append_sep [go_str]: "c \<notin> set s \<Longrightarrow> Split (s @ c # t) c = s # Split t c"
  by (induction s) auto

lemma Split_Join:
  "ss \<noteq> [] \<Longrightarrow> (\<And>s. s \<in> set ss \<Longrightarrow> c \<notin> set s) \<Longrightarrow> Split (Join ss [c]) c = ss"
  by (induction ss "[c]" rule: Join.induct) (auto simp: go_str)

lemma Join_Cons [go_str]: "ss \<noteq> [] \<Longrightarrow> Join (s # ss) sep = s @ sep @ Join ss sep"
  by (cases ss) auto

lemma filepath_Split_join [simp]: "fst (filepath_Split p) @ snd (filepath_Split p) = p"
proof -
  let ?f = "rev (takeWhile (\<lambda>c. c \<noteq> CHR ''/'') (rev p))"
  have "rev p = takeWhile (\<lambda>c. c \<noteq> CHR ''/'') (rev p) @ dropWhile (\<lambda>c. c \<noteq> CHR ''/'') (rev p)"
    by simp
  then have eq: "p = rev (dropWhile (\<lambda>c. c \<noteq> CHR ''/'') (rev p)) @ ?f"
    by (metis rev_append rev_rev_ident)
  then have "take (length p - length ?f) p = rev (dropWhile (\<lambda>c. c \<noteq> CHR ''/'') (rev p))"
    by (metis append_eq_conv_conj diff_add_inverse2 length_append)
  with eq show ?thesis by (simp add: filepath_Split_def Let_def)
qed

lemma filepath_Split_file_no_slash: "CHR ''/'' \<notin> set (snd (filepath_Split p))"
  by (auto simp: filepath_Split_def Let_def dest: set_takeWhileD)

lemma filepath_Split_IsAbs: "filepath_IsAbs (fst (filepath_Split p)) \<longleftrightarrow> filepath_IsAbs p"
proof -
  obtain d f where df: "filepath_Split p = (d, f)" by fastforce
  then have p: "p = d @ f" and f: "CHR ''/'' \<notin> set f"
    using filepath_Split_join [of p] filepath_Split_file_no_slash [of p] by auto
  have "filepath_IsAbs d \<longleftrightarrow> filepath_IsAbs (d @ f)"
    using f by (cases d; cases f) (auto simp: filepath_IsAbs_def HasPrefix_def)
  with df p show ?thesis by (metis fst_conv)
qed

lemma fields_acc_no_empty: "[] \<notin> set (fields_acc acc s)"
  by (induction acc s rule: fields_acc.induct) auto

lemma Fields_no_empty [simp]: "[] \<notin> set (Fields s)"
  by (simp add: Fields_def fields_acc_no_empty)

lemma ReplaceAll_Cons [simp]:
  "ReplaceAll (x # s) c r = (if x = c then r else [x]) @ ReplaceAll s c r"
  by (simp add: ReplaceAll_def)

lemma ReplaceAll_Nil [simp]: "ReplaceAll [] c r = []"
  by (simp add: ReplaceAll_def)

section \<open>Go maps\<close>

type_synonym 'v gomap = "(string \<times> 'v) list"

definition gomap_get :: "'v gomap \<Rightarrow> string \<Rightarrow> 'v option" where
  "gomap_get m k = map_of m k"

definition gomap_set :: "'v gomap \<Rightarrow> string \<Rightarrow> 'v \<Rightarrow> 'v gomap" where
  "gomap_set m k v = AList.update k v m"

definition gomap_delete :: "'v gomap \<Rightarrow> string \<Rightarrow> 'v gomap" where
  "gomap_delete m k = AList.delete k m"

definition gomap_keys :: "'v gomap \<Rightarrow> string list" where
  "gomap_keys m = map fst m"

definition gomap_ok :: "'v gomap \<Rightarrow> bool" where
  "gomap_ok m \<longleftrightarrow> distinct (gomap_keys m)"

lemma gomap_get_simps:
  "gomap_get [] k = None"
  "gomap_get ((k', v) # m) k = (if k = k' then Some v else gomap_get m k)"
  by (simp_all add: gomap_get_def)

lemma gomap_get_set [simp]: "gomap_get (gomap_set m k v) k' = (if k' = k then Some v else gomap_get m k')"
  by (simp add: gomap_get_def gomap_set_def update_conv')

lemma gomap_get_delete [simp]: "gomap_get (gomap_delete m k) k' = (if k' = k then None else gomap_get m k')"
  by (simp add: gomap_get_def gomap_delete_def delete_conv')

lemma gomap_ok_set [simp]: "gomap_ok m \<Longrightarrow> gomap_ok (gomap_set m k v)"
  by (simp add: gomap_ok_def gomap_set_def gomap_keys_def distinct_update)

lemma gomap_ok_delete [simp]: "gomap_ok m \<Longrightarrow> gomap_ok (gomap_delete m k)"
  by (simp add: gomap_ok_def gomap_delete_def gomap_keys_def distinct_delete)

lemma set_gomap_keys [simp]: "set (gomap_keys m) = dom (gomap_get m)"
  by (simp add: gomap_keys_def gomap_get_def [abs_def] dom_map_of_conv_image_fst)

section \<open>Programs with effects\<close>

text \<open>
  A program is a state transformer over the history of the calls it made to the outside. What a
  call returns is given by a function of the history before the call, so the environment may
  answer two equal calls differently.
\<close>

type_synonym ('c, 'a) io = "('c list, 'a) state"

definition perform :: "('c list \<Rightarrow> 'a) \<Rightarrow> 'c \<Rightarrow> ('c, 'a) io" where
  "perform resp c = State (\<lambda>tr. (resp tr, tr @ [c]))"

lemma run_state_perform [simp]: "run_state (perform resp c) tr = (resp tr, tr @ [c])"
  by (simp add: perform_def)

definition wpre :: "('c, 'a) io \<Rightarrow> ('a \<Rightarrow> 'c list \<Rightarrow> bool) \<Rightarrow> 'c list \<Rightarrow> bool" where
  "wpre m Q tr \<longleftrightarrow> (case run_state m tr of (a, tr') \<Rightarrow> Q a tr')"

lemma wpre_return [wp]: "wpre (State_Monad.return a) Q tr \<longleftrightarrow> Q a tr"
  by (simp add: wpre_def)

lemma wpre_bind [wp]: "wpre (State_Monad.bind m f) Q tr \<longleftrightarrow> wpre m (\<lambda>a. wpre (f a) Q) tr"
  by (simp add: wpre_def split: prod.splits)

lemma wpre_perform [wp]: "wpre (perform resp c) Q tr \<longleftrightarrow> Q (resp tr) (tr @ [c])"
  by (simp add: wpre_def)

lemma wpre_if [wp]: "wpre (if b then m else n) Q tr \<longleftrightarrow> (if b then wpre m Q tr else wpre n Q tr)"
  by simp

lemma wpre_mono: "wpre m Q tr \<Longrightarrow> (\<And>a tr'. Q a tr' \<Longrightarrow> R a tr') \<Longrightarrow> wpre m R tr"
  by (auto simp: wpre_def split: prod.splits)

lemma wpre_run: "wpre m Q tr \<Longrightarrow> run_state m tr = (a, tr') \<Longrightarrow> Q a tr'"
  by (simp add: wpre_def)

lemma wpre_runI: "(\<And>a tr'. run_state m tr = (a, tr') \<Longrightarrow> Q a tr') \<Longrightarrow> wpre m Q tr"
  by (auto simp: wpre_def split: prod.splits)

text \<open>
  \<open>ensures_in I P Q m\<close>: from a history that satisfies the invariant \<open>I\<close>, and whatever the environment
  answers, \<open>m\<close> only adds calls that satisfy \<open>P\<close>, leads to a history that satisfies \<open>I\<close> again, and
  its result satisfies \<open>Q\<close>. The rules are syntax-directed; the collection \<open>only_rules\<close> also holds
  the rules for the operations of the components.
\<close>

definition ensures_in ::
    "('c list \<Rightarrow> bool) \<Rightarrow> ('c \<Rightarrow> bool) \<Rightarrow> ('a \<Rightarrow> bool) \<Rightarrow> ('c, 'a) io \<Rightarrow> bool" where
  "ensures_in I P Q m \<longleftrightarrow>
     (\<forall>tr. I tr \<longrightarrow> (\<exists>cs. snd (run_state m tr) = tr @ cs \<and> list_all P cs
        \<and> I (snd (run_state m tr)) \<and> Q (fst (run_state m tr))))"

definition permits :: "('c list \<Rightarrow> bool) \<Rightarrow> ('c \<Rightarrow> bool) \<Rightarrow> 'c \<Rightarrow> bool" where
  "permits I P c \<longleftrightarrow> P c \<and> (\<forall>tr. I tr \<longrightarrow> I (tr @ [c]))"

abbreviation any_history :: "'c list \<Rightarrow> bool" where
  "any_history \<equiv> \<lambda>_. True"

abbreviation only_in :: "('c list \<Rightarrow> bool) \<Rightarrow> ('c \<Rightarrow> bool) \<Rightarrow> ('c, 'a) io \<Rightarrow> bool" where
  "only_in I P m \<equiv> ensures_in I P (\<lambda>_. True) m"

abbreviation ensures :: "('c \<Rightarrow> bool) \<Rightarrow> ('a \<Rightarrow> bool) \<Rightarrow> ('c, 'a) io \<Rightarrow> bool" where
  "ensures P Q m \<equiv> ensures_in any_history P Q m"

abbreviation only :: "('c \<Rightarrow> bool) \<Rightarrow> ('c, 'a) io \<Rightarrow> bool" where
  "only P m \<equiv> ensures P (\<lambda>_. True) m"

lemma permits_any [simp]: "permits any_history P c \<longleftrightarrow> P c"
  by (simp add: permits_def)

lemma ensures_return [only_rules]: "Q a \<Longrightarrow> ensures_in I P Q (State_Monad.return a)"
  by (simp add: ensures_in_def)

lemma ensures_perform [only_rules]:
  "permits I P c \<Longrightarrow> (\<And>tr. I tr \<Longrightarrow> Q (resp tr)) \<Longrightarrow> ensures_in I P Q (perform resp c)"
  by (simp add: ensures_in_def permits_def)

lemma ensures_bind:
  assumes "ensures_in I P R m" and "\<And>a. R a \<Longrightarrow> ensures_in I P Q (f a)"
  shows "ensures_in I P Q (State_Monad.bind m f)"
  unfolding ensures_in_def
proof (intro allI impI)
  fix tr assume I: "I tr"
  obtain a tr' where m: "run_state m tr = (a, tr')" by fastforce
  with assms(1) I obtain cs where cs: "tr' = tr @ cs" "list_all P cs" "I tr'" "R a"
    unfolding ensures_in_def by (metis fst_conv snd_conv)
  with assms(2) obtain ds where ds: "snd (run_state (f a) tr') = tr' @ ds" "list_all P ds"
    "I (snd (run_state (f a) tr'))" "Q (fst (run_state (f a) tr'))"
    unfolding ensures_in_def by blast
  with m cs show "\<exists>cs. snd (run_state (State_Monad.bind m f) tr) = tr @ cs \<and> list_all P cs
      \<and> I (snd (run_state (State_Monad.bind m f) tr)) \<and> Q (fst (run_state (State_Monad.bind m f) tr))"
    by (intro exI [of _ "cs @ ds"]) simp
qed

lemma ensures_bind_perform [only_rules]:
  assumes "permits I P c" and "\<And>tr. I tr \<Longrightarrow> ensures_in I P Q (f (resp tr))"
  shows "ensures_in I P Q (State_Monad.bind (perform resp c) f)"
  by (rule ensures_bind [where R = "\<lambda>a. \<exists>tr. I tr \<and> a = resp tr"]) (use assms in \<open>auto intro: only_rules\<close>)

lemma ensures_bind_return [only_rules]:
  "ensures_in I P Q (f a) \<Longrightarrow> ensures_in I P Q (State_Monad.bind (State_Monad.return a) f)"
  by (simp add: ensures_in_def)

lemma ensures_if [only_rules]:
  "(b \<Longrightarrow> ensures_in I P Q m) \<Longrightarrow> (\<not> b \<Longrightarrow> ensures_in I P Q n) \<Longrightarrow> ensures_in I P Q (if b then m else n)"
  by simp

lemma ensures_Let [only_rules]: "ensures_in I P Q (f a) \<Longrightarrow> ensures_in I P Q (Let a f)"
  by simp

lemma ensures_case_option [only_rules]:
  "(x = None \<Longrightarrow> ensures_in I P Q m) \<Longrightarrow> (\<And>a. x = Some a \<Longrightarrow> ensures_in I P Q (f a)) \<Longrightarrow>
   ensures_in I P Q (case x of None \<Rightarrow> m | Some a \<Rightarrow> f a)"
  by (cases x) auto

lemma ensures_case_sum [only_rules]:
  "(\<And>a. x = Inl a \<Longrightarrow> ensures_in I P Q (f a)) \<Longrightarrow> (\<And>b. x = Inr b \<Longrightarrow> ensures_in I P Q (g b)) \<Longrightarrow>
   ensures_in I P Q (case x of Inl a \<Rightarrow> f a | Inr b \<Rightarrow> g b)"
  by (cases x) auto

lemma ensures_case_prod [only_rules]:
  "(\<And>a b. x = (a, b) \<Longrightarrow> ensures_in I P Q (f a b)) \<Longrightarrow> ensures_in I P Q (case x of (a, b) \<Rightarrow> f a b)"
  by (cases x) auto

lemma ensures_case_list [only_rules]:
  "(xs = [] \<Longrightarrow> ensures_in I P Q m) \<Longrightarrow> (\<And>y ys. xs = y # ys \<Longrightarrow> ensures_in I P Q (f y ys)) \<Longrightarrow>
   ensures_in I P Q (case xs of [] \<Rightarrow> m | y # ys \<Rightarrow> f y ys)"
  by (cases xs) auto

lemma ensures_weaken:
  "ensures_in I P Q m \<Longrightarrow> (\<And>c. P c \<Longrightarrow> P' c) \<Longrightarrow> (\<And>a. Q a \<Longrightarrow> Q' a) \<Longrightarrow> ensures_in I P' Q' m"
  unfolding ensures_in_def by (metis list_all_iff)

lemma ensures_in_run:
  assumes "ensures_in I P Q m" and "run_state m tr = (a, tr')" and "I tr"
  obtains cs where "tr' = tr @ cs" and "list_all P cs" and "I tr'" and "Q a"
  using assms unfolding ensures_in_def by (metis fst_conv snd_conv)

lemma ensures_run:
  assumes "ensures P Q m" and "run_state m tr = (a, tr')"
  obtains cs where "tr' = tr @ cs" and "list_all P cs" and "Q a"
  using ensures_in_run [OF assms] by blast

end
