(* ===== verification/K6_Segmentation.thy ===== *)
theory K6_Segmentation
  imports K6_Prelude Complex_Main
begin

text \<open>
  \<open>pkg/segmentation\<close>: the execution segments that split one test between the runners.
  \<open>NewCommandFragments\<close> prints the two k6 options; the reading of what they say is
  \<open>part_value\<close>, which gives a printed boundary its rational value.
\<close>

section \<open>Definitions\<close>

text \<open>The boundaries \<open>1/total\<close> to \<open>(total-1)/total\<close> of the loop, as the loop index runs up.\<close>

definition frac_part :: "int \<Rightarrow> int \<Rightarrow> string" where
  "frac_part i tot = itoa i @ ''/'' @ itoa tot"

definition sequence_parts :: "int \<Rightarrow> string list" where
  "sequence_parts tot =
     [''0''] @ map (\<lambda>i. frac_part i tot) [1 .. tot - 1] @ [''1'']"

definition getSegmentPart :: "int \<Rightarrow> int \<Rightarrow> string" where
  "getSegmentPart index tot =
     (if index = 0 then ''0'' else if index = tot then ''1'' else frac_part index tot)"

definition segment_of :: "int \<Rightarrow> int \<Rightarrow> string" where
  "segment_of index tot = getSegmentPart (index - 1) tot @ '':'' @ getSegmentPart index tot"

definition NewCommandFragments :: "int \<Rightarrow> int \<Rightarrow> string + string list" where
  "NewCommandFragments index tot =
     (if index > tot then Inl ''node index exceeds configured parallelism''
      else Inr [''--execution-segment='' @ segment_of index tot,
                ''--execution-segment-sequence='' @ Join (sequence_parts tot) '',''])"

section \<open>The value of a printed boundary\<close>

text \<open>A boundary is a number or a quotient of two numbers, in decimal.\<close>

definition part_value :: "string \<Rightarrow> rat" where
  "part_value s =
     (case Split s (CHR ''/'') of
        [a] \<Rightarrow> of_nat (undec 0 a)
      | a # b # _ \<Rightarrow> of_nat (undec 0 a) / of_nat (undec 0 b))"

text \<open>A segment \<open>from:to\<close> covers the reals between its two boundaries.\<close>

definition segment_bounds :: "int \<Rightarrow> int \<Rightarrow> rat \<times> rat" where
  "segment_bounds index tot =
     (case Split (segment_of index tot) (CHR '':'') of
        [a, b] \<Rightarrow> (part_value a, part_value b)
      | _ \<Rightarrow> (0, 0))"

lemma part_value_frac [simp]:
  "0 \<le> i \<Longrightarrow> 0 \<le> n \<Longrightarrow> part_value (frac_part i n) = of_int i / of_int n"
  by (simp add: part_value_def frac_part_def go_str undec_dec_nat of_nat_nat)

lemma part_value_consts [simp]: "part_value ''0'' = 0" "part_value ''1'' = 1"
  by (simp_all add: part_value_def char_digit_def of_char_def)

lemma part_value_getSegmentPart [simp]:
  "0 \<le> i \<Longrightarrow> i \<le> n \<Longrightarrow> 0 < n \<Longrightarrow> part_value (getSegmentPart i n) = of_int i / of_int n"
  by (auto simp: getSegmentPart_def)

lemma colon_notin_dec_nat [simp]: "CHR '':'' \<notin> set (dec_nat n)"
  by (rule not_digit_dec_nat) (simp add: of_char_def)

lemma colon_notin_part [simp]: "CHR '':'' \<notin> set (getSegmentPart i n)"
  by (auto simp: getSegmentPart_def frac_part_def itoa_def)

lemma segment_split [simp]:
  "Split (segment_of i n) (CHR '':'') = [getSegmentPart (i - 1) n, getSegmentPart i n]"
  by (simp add: segment_of_def go_str)

lemma segment_bounds_eq:
  "1 \<le> i \<Longrightarrow> i \<le> n \<Longrightarrow> segment_bounds i n = (of_int (i - 1) / of_int n, of_int i / of_int n)"
  by (simp add: segment_bounds_def)

lemma sequence_parts_nth:
  assumes "0 \<le> i" "i \<le> n" "1 \<le> n"
  shows "sequence_parts n ! nat i = getSegmentPart i n"
proof -
  consider "i = 0" | "0 < i" "i < n" | "0 < i" "i = n" using assms by linarith
  then show ?thesis
  proof cases
    case 1
    then show ?thesis using assms by (simp add: sequence_parts_def getSegmentPart_def)
  next
    case 2
    then have "sequence_parts n ! nat i = (map (\<lambda>i. frac_part i n) [1 .. n - 1]) ! (nat i - 1)"
      by (auto simp: sequence_parts_def nth_append nth_Cons')
    also have "\<dots> = frac_part i n"
      using 2 nth_upto [of 1 "nat i - 1" "n - 1"] by (simp add: of_nat_diff)
    finally show ?thesis using 2 by (simp add: getSegmentPart_def)
  next
    case 3
    then show ?thesis by (auto simp: sequence_parts_def nth_append nth_Cons' getSegmentPart_def)
  qed
qed

section \<open>Properties\<close>

text \<open>
  C11. With parallelism \<open>n\<close>, every index from 1 to \<open>n\<close> gets command fragments, and the segments
  they carry are, read as rationals, exactly the \<open>n\<close> intervals \<open>[(i-1)/n, i/n]\<close>: the first starts
  at 0, each ends where the next begins, the last ends at 1. The runners share the whole test
  without gap or overlap.
\<close>

theorem segments_partition_unit_interval:
  assumes "1 \<le> n"
  shows "fst (segment_bounds 1 n) = 0 \<and> snd (segment_bounds n n) = 1
    \<and> (\<forall>i. 1 \<le> i \<and> i < n \<longrightarrow> snd (segment_bounds i n) = fst (segment_bounds (i + 1) n))
    \<and> (\<forall>i. 1 \<le> i \<and> i \<le> n \<longrightarrow>
         fst (segment_bounds i n) < snd (segment_bounds i n)
         \<and> (\<exists>rest. NewCommandFragments i n =
               Inr ((''--execution-segment='' @ segment_of i n) # rest)))"
  using assms
  by (auto simp: segment_bounds_eq NewCommandFragments_def divide_strict_right_mono)

theorem segments_partition_unit_interval_witness:
  "(1::int) \<le> 4 \<and> fst (segment_bounds 1 4) = 0 \<and> snd (segment_bounds 4 4) = 1"
  using segments_partition_unit_interval [of 4] by simp

text \<open>
  The segment of every runner is made of two neighbouring points of the announced sequence,
  and the sequence has one point more than there are runners, so all runners agree on where the
  boundaries lie.
\<close>

lemma segment_lies_on_sequence:
  assumes "1 \<le> i" "i \<le> n"
  shows "NewCommandFragments i n =
      Inr [''--execution-segment='' @ sequence_parts n ! nat (i - 1) @ '':'' @ sequence_parts n ! nat i,
           ''--execution-segment-sequence='' @ Join (sequence_parts n) '','']
    \<and> length (sequence_parts n) = nat n + 1"
proof -
  have "sequence_parts n ! nat (i - 1) = getSegmentPart (i - 1) n"
    "sequence_parts n ! nat i = getSegmentPart i n"
    using assms by (simp_all add: sequence_parts_nth)
  then show ?thesis
    using assms by (simp add: NewCommandFragments_def segment_of_def sequence_parts_def)
qed

end
