(* ===== verification/K6_Conditions.thy ===== *)
theory K6_Conditions
  imports K6_Prelude
begin

text \<open>
  \<open>pkg/types/conditions.go\<close>: status conditions. The functions of the Kubernetes package
  \<open>k8s.io/apimachinery/pkg/api/meta\<close> that the operator calls are parameters, gathered in the
  record \<open>meta_api\<close>; the locale \<open>status_conditions\<close> states what their documentation promises.
  \<open>merge_condition\<close> is the specification of what \<open>SetIfNewer\<close> does to one condition.
\<close>

section \<open>Conditions and the meta package\<close>

datatype ConditionStatus = ConditionTrue | ConditionFalse | ConditionUnknown

text \<open>\<open>metav1.Condition\<close> with the fields the operator sets; times are \<open>UnixNano\<close> values.\<close>

record condition =
  ctype :: string
  cstatus :: ConditionStatus
  ctime :: int
  creason :: string
  cmessage :: string

type_synonym conditions = "condition list"

record meta_api =
  SetStatusCondition :: "conditions \<Rightarrow> condition \<Rightarrow> conditions"
  FindStatusCondition :: "conditions \<Rightarrow> string \<Rightarrow> condition option"
  IsStatusConditionTrue :: "conditions \<Rightarrow> string \<Rightarrow> bool"
  IsStatusConditionFalse :: "conditions \<Rightarrow> string \<Rightarrow> bool"

primrec status_string :: "ConditionStatus \<Rightarrow> string" where
  "status_string ConditionTrue = ''True''"
| "status_string ConditionFalse = ''False''"
| "status_string ConditionUnknown = ''Unknown''"

section \<open>UpdateCondition and SetIfNewer\<close>

definition reasons :: "string gomap" where
  "reasons =
    [(''TestRunRunningUnknown'', ''TestRunPreparation''),
     (''TestRunRunningTrue'', ''TestRunRunningTrue''),
     (''TestRunRunningFalse'', ''TestRunRunningFalse''),
     (''TeardownExecutedUnknown'', ''TestRunPreparation''),
     (''TeardownExecutedFalse'', ''TeardownExecutedFalse''),
     (''TeardownExecutedTrue'', ''TeardownExecutedTrue''),
     (''CloudTestRunUnknown'', ''TestRunTypeUnknown''),
     (''CloudTestRunTrue'', ''CloudTestRunTrue''),
     (''CloudTestRunFalse'', ''CloudTestRunFalse''),
     (''CloudTestRunCreatedUnknown'', ''CloudTestRunCreatedUnknown''),
     (''CloudTestRunCreatedTrue'', ''CloudTestRunCreatedTrue''),
     (''CloudTestRunCreatedFalse'', ''CloudTestRunCreatedFalse''),
     (''CloudTestRunFinalizedUnknown'', ''CloudTestRunFinalizedUnknown''),
     (''CloudTestRunFinalizedTrue'', ''CloudTestRunFinalizedTrue''),
     (''CloudTestRunFinalizedFalse'', ''CloudTestRunFinalizedFalse''),
     (''CloudPLZTestRunUnknown'', ''CloudPLZTestRunUnknown''),
     (''CloudPLZTestRunTrue'', ''CloudPLZTestRunTrue''),
     (''CloudPLZTestRunFalse'', ''CloudPLZTestRunFalse''),
     (''PLZRegisteredUnknown'', ''PLZRegisteredUnknown''),
     (''PLZRegisteredTrue'', ''PLZRegisteredTrue''),
     (''PLZRegisteredFalse'', ''PLZRegisteredFalse''),
     (''CloudTestRunAbortedUnknown'', ''CloudTestRunAbortedUnknown''),
     (''CloudTestRunAbortedTrue'', ''CloudTestRunAbortedTrue''),
     (''CloudTestRunAbortedFalse'', ''CloudTestRunAbortedFalse'')]"

text \<open>\<open>Inl\<close> is the panic on a pair of type and status that has no reason.\<close>

definition UpdateCondition ::
    "meta_api \<Rightarrow> int \<Rightarrow> conditions \<Rightarrow> string \<Rightarrow> ConditionStatus \<Rightarrow> string + conditions" where
  "UpdateCondition M now conds conditionType conditionStatus =
     (case gomap_get reasons (conditionType @ status_string conditionStatus) of
        None \<Rightarrow> Inl (''Invalid condition type and status! `''
                 @ conditionType @ status_string conditionStatus
                 @ ''` - this should never happen!'')
      | Some reason \<Rightarrow> Inr (SetStatusCondition M conds
          \<lparr>ctype = conditionType, cstatus = conditionStatus, ctime = now,
           creason = reason, cmessage = ''''\<rparr>))"

text \<open>The map filled by the first loop: of two conditions of one type the later one stays.\<close>

definition existing_conditions :: "conditions \<Rightarrow> string \<rightharpoonup> condition" where
  "existing_conditions conds = fold (\<lambda>c m. m(ctype c \<mapsto> c)) conds Map.empty"

text \<open>
  The loop over the proposed conditions. The callback is a closure of the caller: it works on the
  variables \<open>'s\<close> it captures and tells whether it accepted a change.
\<close>

fun SetIfNewer_loop ::
    "meta_api \<Rightarrow> (string \<rightharpoonup> condition) \<Rightarrow> ('s \<Rightarrow> condition \<Rightarrow> 's \<times> bool) option \<Rightarrow>
     conditions \<Rightarrow> conditions \<Rightarrow> 's \<Rightarrow> bool \<Rightarrow> conditions \<times> 's \<times> bool" where
  "SetIfNewer_loop M ex cb [] cond s isNewer = (cond, s, isNewer)"
| "SetIfNewer_loop M ex cb (p # ps) cond s isNewer =
     (let (cond', isNewer') =
            (case ex (ctype p) of
               None \<Rightarrow> (cond @ [p], True)
             | Some e \<Rightarrow>
                 if cstatus p \<noteq> ConditionUnknown then
                   if ctime e < ctime p then (SetStatusCondition M cond p, True)
                   else (cond, isNewer)
                 else (cond, isNewer));
          (s', isNewer'') =
            (case cb of
               None \<Rightarrow> (s, isNewer')
             | Some f \<Rightarrow> (case f s p of (s', r) \<Rightarrow> (s', if r then r else isNewer')))
      in SetIfNewer_loop M ex cb ps cond' s' isNewer'')"

definition SetIfNewer ::
    "meta_api \<Rightarrow> conditions \<Rightarrow> conditions \<Rightarrow> ('s \<Rightarrow> condition \<Rightarrow> 's \<times> bool) option \<Rightarrow> 's \<Rightarrow>
     conditions \<times> 's \<times> bool" where
  "SetIfNewer M cond proposedCond cb s =
     SetIfNewer_loop M (existing_conditions cond) cb proposedCond cond s False"

section \<open>What the meta package promises\<close>

abbreviation types_of :: "conditions \<Rightarrow> string list" where
  "types_of cs \<equiv> map ctype cs"

text \<open>
  A condition that is set again keeps its transition time unless its status changes; a condition
  that is not there yet is appended. The library stamps a condition that comes without a transition
  time with its own clock; the operator always gives one, so the laws leave that case out.
\<close>

locale status_conditions =
  fixes M :: meta_api
  assumes find_first: "FindStatusCondition M cs t = List.find (\<lambda>c. ctype c = t) cs"
    and is_true: "IsStatusConditionTrue M cs t \<longleftrightarrow>
      (case FindStatusCondition M cs t of None \<Rightarrow> False | Some c \<Rightarrow> cstatus c = ConditionTrue)"
    and is_false: "IsStatusConditionFalse M cs t \<longleftrightarrow>
      (case FindStatusCondition M cs t of None \<Rightarrow> False | Some c \<Rightarrow> cstatus c = ConditionFalse)"
    and set_absent: "FindStatusCondition M cs (ctype c) = None \<Longrightarrow> SetStatusCondition M cs c = cs @ [c]"
    and set_present_types: "FindStatusCondition M cs (ctype c) = Some e \<Longrightarrow>
      types_of (SetStatusCondition M cs c) = types_of cs"
    and set_present: "FindStatusCondition M cs (ctype c) = Some e \<Longrightarrow>
      FindStatusCondition M (SetStatusCondition M cs c) (ctype c) =
        Some (c\<lparr>ctime := if cstatus e = cstatus c then ctime e else ctime c\<rparr>)"
    and set_other: "t \<noteq> ctype c \<Longrightarrow>
      FindStatusCondition M (SetStatusCondition M cs c) t = FindStatusCondition M cs t"
begin

abbreviation lookup :: "conditions \<Rightarrow> string \<Rightarrow> condition option" where
  "lookup \<equiv> FindStatusCondition M"

lemma lookup_None_iff: "lookup cs t = None \<longleftrightarrow> t \<notin> set (types_of cs)"
  by (auto simp: find_first find_None_iff)

lemma lookup_Some_type: "lookup cs t = Some c \<Longrightarrow> ctype c = t \<and> c \<in> set cs"
  by (auto simp: find_first find_Some_iff)

lemma lookup_append: "lookup (cs @ ds) t = (case lookup cs t of None \<Rightarrow> lookup ds t | r \<Rightarrow> r)"
  by (induction cs) (auto simp: find_first)

lemma lookup_Nil [simp]: "lookup [] t = None"
  by (simp add: find_first)

lemma lookup_Cons [simp]: "lookup (c # cs) t = (if ctype c = t then Some c else lookup cs t)"
  by (simp add: find_first)

lemma lookup_set_same:
  "lookup (SetStatusCondition M cs c) (ctype c) =
     Some (case lookup cs (ctype c) of
             None \<Rightarrow> c
           | Some e \<Rightarrow> c\<lparr>ctime := if cstatus e = cstatus c then ctime e else ctime c\<rparr>)"
  by (auto simp: set_absent set_present lookup_append split: option.splits)

lemma types_of_set:
  "types_of (SetStatusCondition M cs c) =
     (if ctype c \<in> set (types_of cs) then types_of cs else types_of cs @ [ctype c])"
  using lookup_None_iff [of cs "ctype c"]
  by (cases "lookup cs (ctype c)") (auto simp: set_absent set_present_types)

lemma distinct_set:
  "distinct (types_of cs) \<Longrightarrow> distinct (types_of (SetStatusCondition M cs c))"
  by (simp add: types_of_set)

lemma existing_conditions_eq:
  assumes "distinct (types_of cs)"
  shows "existing_conditions cs t = lookup cs t"
proof -
  have "fold (\<lambda>c m. m(ctype c \<mapsto> c)) cs m t = (if t \<in> set (types_of cs) then lookup cs t else m t)" for m
    using assms by (induction cs arbitrary: m) auto
  then show ?thesis
    using lookup_None_iff [of cs t] by (auto simp: existing_conditions_def)
qed

end

section \<open>Specification of the merge\<close>

text \<open>What becomes of one condition \<open>e\<close> when \<open>p\<close> is proposed for its type.\<close>

definition merge_condition :: "condition option \<Rightarrow> condition option \<Rightarrow> condition option" where
  "merge_condition e p =
     (case p of
        None \<Rightarrow> e
      | Some pc \<Rightarrow>
          (case e of
             None \<Rightarrow> Some pc
           | Some ec \<Rightarrow>
               if cstatus pc \<noteq> ConditionUnknown \<and> ctime ec < ctime pc
               then Some (pc\<lparr>ctime := if cstatus ec = cstatus pc then ctime ec else ctime pc\<rparr>)
               else Some ec))"

text \<open>One turn of the loop, for the conditions alone.\<close>

definition accept_condition ::
    "meta_api \<Rightarrow> (string \<rightharpoonup> condition) \<Rightarrow> condition \<Rightarrow> conditions \<Rightarrow> conditions" where
  "accept_condition M ex p cond =
     (case ex (ctype p) of
        None \<Rightarrow> cond @ [p]
      | Some e \<Rightarrow> if cstatus p \<noteq> ConditionUnknown \<and> ctime e < ctime p
                  then SetStatusCondition M cond p else cond)"

definition accepted :: "(string \<rightharpoonup> condition) \<Rightarrow> condition \<Rightarrow> bool" where
  "accepted ex p \<longleftrightarrow>
     (case ex (ctype p) of
        None \<Rightarrow> True
      | Some e \<Rightarrow> cstatus p \<noteq> ConditionUnknown \<and> ctime e < ctime p)"

lemma SetIfNewer_loop_conds:
  "fst (SetIfNewer_loop M ex cb ps cond s n) = fold (accept_condition M ex) ps cond"
  by (induction M ex cb ps cond s n rule: SetIfNewer_loop.induct)
    (auto simp: Let_def accept_condition_def split: option.splits prod.splits)

text \<open>The captured variables: a fold of the callback.\<close>

fun callback_fold ::
    "('s \<Rightarrow> condition \<Rightarrow> 's \<times> bool) \<Rightarrow> conditions \<Rightarrow> 's \<Rightarrow> 's \<times> bool" where
  "callback_fold f [] s = (s, False)"
| "callback_fold f (p # ps) s =
     (case f s p of (s', r) \<Rightarrow> (case callback_fold f ps s' of (s'', r') \<Rightarrow> (s'', r \<or> r')))"

lemma SetIfNewer_loop_Some:
  "snd (SetIfNewer_loop M ex (Some f) ps cond s n) =
     (fst (callback_fold f ps s),
      n \<or> (\<exists>p \<in> set ps. accepted ex p) \<or> snd (callback_fold f ps s))"
proof (induction ps arbitrary: cond s n)
  case (Cons p ps)
  then show ?case
    by (cases "f s p"; cases "callback_fold f ps (fst (f s p))")
      (auto simp: Let_def accepted_def split: option.splits)
qed simp

lemma SetIfNewer_loop_None:
  "snd (SetIfNewer_loop M ex None ps cond s n) = (s, n \<or> (\<exists>p \<in> set ps. accepted ex p))"
  by (induction ps arbitrary: cond n)
    (auto simp: Let_def accepted_def split: option.splits)

context status_conditions
begin

lemma lookup_accept:
  assumes "ex (ctype p) = lookup cond (ctype p)"
  shows "lookup (accept_condition M ex p cond) t =
    (if t = ctype p then merge_condition (lookup cond t) (Some p) else lookup cond t)"
  using assms lookup_set_same [of cond p]
  by (auto simp: accept_condition_def merge_condition_def lookup_append set_other
      split: option.splits)

lemma types_of_accept:
  assumes "ex (ctype p) = lookup cond (ctype p)"
  shows "types_of (accept_condition M ex p cond) =
    (if ctype p \<in> set (types_of cond) then types_of cond else types_of cond @ [ctype p])"
  using assms lookup_None_iff [of cond "ctype p"]
  by (auto simp: accept_condition_def types_of_set split: option.splits)

lemma fold_accept:
  assumes "distinct (types_of ps)" and "\<And>t. t \<in> set (types_of ps) \<Longrightarrow> ex t = lookup cond t"
  shows "lookup (fold (accept_condition M ex) ps cond) t =
      merge_condition (lookup cond t) (lookup ps t)
    \<and> (distinct (types_of cond) \<longrightarrow> distinct (types_of (fold (accept_condition M ex) ps cond)))
    \<and> set (types_of (fold (accept_condition M ex) ps cond)) = set (types_of cond) \<union> set (types_of ps)"
  using assms
proof (induction ps arbitrary: cond)
  case Nil
  then show ?case by (simp add: merge_condition_def)
next
  case (Cons p ps)
  have ex: "ex (ctype p) = lookup cond (ctype p)" using Cons.prems(2) by simp
  let ?c = "accept_condition M ex p cond"
  have "ex t = lookup ?c t" if "t \<in> set (types_of ps)" for t
  proof -
    have "t \<noteq> ctype p" using that Cons.prems(1) by (metis distinct.simps(2) list.simps(9))
    then show ?thesis
      using Cons.prems(2) [of t] that
      by (simp add: lookup_accept [where ex = ex and p = p and cond = cond, OF ex])
  qed
  then have IH: "lookup (fold (accept_condition M ex) ps ?c) t =
      merge_condition (lookup ?c t) (lookup ps t)"
    "distinct (types_of ?c) \<Longrightarrow> distinct (types_of (fold (accept_condition M ex) ps ?c))"
    "set (types_of (fold (accept_condition M ex) ps ?c)) = set (types_of ?c) \<union> set (types_of ps)"
    using Cons.IH [of ?c] Cons.prems(1) by auto
  have "lookup ps t = None" if "t = ctype p"
    using that Cons.prems(1) by (simp add: lookup_None_iff)
  then have "merge_condition (lookup ?c t) (lookup ps t) =
      merge_condition (lookup cond t) (lookup (p # ps) t)"
    by (auto simp: lookup_accept [where ex = ex and p = p and cond = cond, OF ex]) (simp add: merge_condition_def)
  with IH show ?case by (auto simp: types_of_accept [where ex = ex and p = p and cond = cond, OF ex])
qed

lemma SetIfNewer_conds:
  assumes "distinct (types_of cs)" and "distinct (types_of ps)"
  shows "lookup (fst (SetIfNewer M cs ps cb s)) t = merge_condition (lookup cs t) (lookup ps t)"
    and "distinct (types_of (fst (SetIfNewer M cs ps cb s)))"
    and "set (types_of (fst (SetIfNewer M cs ps cb s))) = set (types_of cs) \<union> set (types_of ps)"
  using fold_accept [of ps "existing_conditions cs" cs t] assms
  by (auto simp: SetIfNewer_def SetIfNewer_loop_conds existing_conditions_eq)

end

lemma SetIfNewer_Some_eq:
  "SetIfNewer M cs ps (Some f) s =
     (fold (accept_condition M (existing_conditions cs)) ps cs,
      fst (callback_fold f ps s),
      (\<exists>p \<in> set ps. accepted (existing_conditions cs) p) \<or> snd (callback_fold f ps s))"
  by (rule prod_eqI) (simp_all add: SetIfNewer_def SetIfNewer_loop_conds SetIfNewer_loop_Some)

lemma SetIfNewer_None_eq:
  "SetIfNewer M cs ps None s =
     (fold (accept_condition M (existing_conditions cs)) ps cs, s,
      (\<exists>p \<in> set ps. accepted (existing_conditions cs) p))"
  by (rule prod_eqI) (simp_all add: SetIfNewer_def SetIfNewer_loop_conds SetIfNewer_loop_None)

lemma fold_accept_none:
  "(\<And>p. p \<in> set ps \<Longrightarrow> \<not> accepted ex p) \<Longrightarrow> fold (accept_condition M ex) ps cond = cond"
proof (induction ps arbitrary: cond)
  case (Cons p ps)
  then have "\<not> accepted ex p" by simp
  then have "accept_condition M ex p cond = cond"
    by (auto simp: accept_condition_def accepted_def split: option.splits)
  with Cons show ?case by simp
qed simp

lemma SetIfNewer_unchanged:
  assumes "\<not> snd (snd (SetIfNewer M cs ps cb s))"
  shows "fst (SetIfNewer M cs ps cb s) = cs"
  using assms
  by (cases cb) (auto simp: SetIfNewer_def SetIfNewer_loop_conds SetIfNewer_loop_Some
      SetIfNewer_loop_None intro: fold_accept_none)

section \<open>The documented behaviour, as a program\<close>

text \<open>
  An implementation of the four functions that does what their documentation says; it shows that
  the laws of \<open>status_conditions\<close> can be met and serves the witnesses.
\<close>

fun set_status_documented :: "conditions \<Rightarrow> condition \<Rightarrow> conditions" where
  "set_status_documented [] c = [c]"
| "set_status_documented (e # es) c =
     (if ctype e = ctype c
      then c\<lparr>ctime := if cstatus e = cstatus c then ctime e else ctime c\<rparr> # es
      else e # set_status_documented es c)"

definition has_status :: "ConditionStatus \<Rightarrow> conditions \<Rightarrow> string \<Rightarrow> bool" where
  "has_status st cs t \<longleftrightarrow>
     (case List.find (\<lambda>c. ctype c = t) cs of None \<Rightarrow> False | Some c \<Rightarrow> cstatus c = st)"

definition documented_meta :: meta_api where
  "documented_meta =
     \<lparr>SetStatusCondition = set_status_documented,
      FindStatusCondition = (\<lambda>cs t. List.find (\<lambda>c. ctype c = t) cs),
      IsStatusConditionTrue = has_status ConditionTrue,
      IsStatusConditionFalse = has_status ConditionFalse\<rparr>"

interpretation documented: status_conditions documented_meta
proof (unfold_locales, goal_cases)
  case (1 cs t) show ?case by (simp add: documented_meta_def)
next
  case (2 cs t) show ?case by (simp add: documented_meta_def has_status_def)
next
  case (3 cs t) show ?case by (simp add: documented_meta_def has_status_def)
next
  case (4 cs c) then show ?case
    by (induction cs) (auto simp: documented_meta_def split: if_splits)
next
  case (5 cs c e) then show ?case
    by (induction cs) (auto simp: documented_meta_def split: if_splits)
next
  case (6 cs c e) then show ?case
    by (induction cs) (auto simp: documented_meta_def split: if_splits)
next
  case (7 t c cs) then show ?case
    by (induction cs) (auto simp: documented_meta_def)
qed

definition example_condition :: "string \<Rightarrow> ConditionStatus \<Rightarrow> int \<Rightarrow> condition" where
  "example_condition t st n = \<lparr>ctype = t, cstatus = st, ctime = n, creason = '''', cmessage = ''''\<rparr>"

definition operator_condition_types :: "string list" where
  "operator_condition_types =
     [''TestRunRunning'', ''TeardownExecuted'', ''CloudTestRun'', ''CloudTestRunCreated'',
      ''CloudTestRunFinalized'', ''CloudPLZTestRun'', ''CloudTestRunAborted'', ''PLZRegistered'']"

lemma operator_reasons:
  "t \<in> set operator_condition_types \<Longrightarrow> \<exists>r. gomap_get reasons (t @ status_string st) = Some r"
  by (cases st) (auto simp: operator_condition_types_def reasons_def gomap_get_def)

text \<open>A list of conditions, seen as the statuses of the condition types.\<close>

definition status_of :: "meta_api \<Rightarrow> conditions \<Rightarrow> string \<Rightarrow> ConditionStatus option" where
  "status_of M cs t = map_option cstatus (FindStatusCondition M cs t)"

context status_conditions
begin

lemma is_true_iff: "IsStatusConditionTrue M cs t \<longleftrightarrow> status_of M cs t = Some ConditionTrue"
  by (auto simp: is_true status_of_def split: option.splits)

lemma is_false_iff: "IsStatusConditionFalse M cs t \<longleftrightarrow> status_of M cs t = Some ConditionFalse"
  by (auto simp: is_false status_of_def split: option.splits)

lemma status_of_set:
  "status_of M (SetStatusCondition M cs c) = (status_of M cs)(ctype c \<mapsto> cstatus c)"
proof
  fix t
  show "status_of M (SetStatusCondition M cs c) t = ((status_of M cs)(ctype c \<mapsto> cstatus c)) t"
    using lookup_set_same [of cs c] set_other [of t c cs]
    by (auto simp: status_of_def split: option.splits)
qed

text \<open>For the operator's own types an update is a functional update of the statuses.\<close>

lemma UpdateCondition_effect:
  assumes "t \<in> set operator_condition_types"
  obtains cs' where "UpdateCondition M now cs t st = Inr cs'"
    and "status_of M cs' = (status_of M cs)(t \<mapsto> st)"
    and "types_of cs' = (if t \<in> set (types_of cs) then types_of cs else types_of cs @ [t])"
    and "\<And>u. u \<noteq> t \<Longrightarrow> lookup cs' u = lookup cs u"
proof -
  obtain r where "gomap_get reasons (t @ status_string st) = Some r"
    using operator_reasons [OF assms] by blast
  then have "UpdateCondition M now cs t st = Inr (SetStatusCondition M cs
      \<lparr>ctype = t, cstatus = st, ctime = now, creason = r, cmessage = ''''\<rparr>)"
    by (simp add: UpdateCondition_def)
  then show ?thesis using that status_of_set types_of_set set_other by fastforce
qed

end

section \<open>Properties\<close>

text \<open>
  C10. \<open>SetIfNewer\<close> implements the merge of conditions: for statuses in which every condition type
  occurs once, each type ends up with the merge of its old and its proposed condition, no type is
  lost, none is doubled, and the types present are those of the old and the proposed list.
\<close>

theorem SetIfNewer_refines_merge:
  assumes "status_conditions M"
    and "distinct (types_of cs)" and "distinct (types_of ps)"
    and "SetIfNewer M cs ps cb s = (cs', s', isNewer)"
  shows "FindStatusCondition M cs' t =
      merge_condition (FindStatusCondition M cs t) (FindStatusCondition M ps t)
    \<and> distinct (types_of cs') \<and> set (types_of cs') = set (types_of cs) \<union> set (types_of ps)"
  using status_conditions.SetIfNewer_conds [OF assms(1-3), of cb s] assms(4) by auto

theorem SetIfNewer_refines_merge_witness:
  "SetIfNewer documented_meta [example_condition ''A'' ConditionFalse 1]
     [example_condition ''A'' ConditionTrue 2, example_condition ''B'' ConditionUnknown 2] None ()
   = ([example_condition ''A'' ConditionTrue 2, example_condition ''B'' ConditionUnknown 2], (), True)
   \<and> FindStatusCondition documented_meta
       [example_condition ''A'' ConditionTrue 2, example_condition ''B'' ConditionUnknown 2] ''A''
     = merge_condition (Some (example_condition ''A'' ConditionFalse 1))
         (Some (example_condition ''A'' ConditionTrue 2))"
proof -
  have run: "SetIfNewer documented_meta [example_condition ''A'' ConditionFalse 1]
     [example_condition ''A'' ConditionTrue 2, example_condition ''B'' ConditionUnknown 2] None ()
   = ([example_condition ''A'' ConditionTrue 2, example_condition ''B'' ConditionUnknown 2], (), True)"
    by code_simp
  show ?thesis
    using SetIfNewer_refines_merge [OF documented.status_conditions_axioms _ _ run, of "''A''"] run
    by (simp add: example_condition_def)
qed

text \<open>
  C19. A condition that is there never goes back to \<open>Unknown\<close> and never gets an older transition
  time, whatever is proposed; and proposing the same conditions again changes nothing.
\<close>

theorem SetIfNewer_monotone:
  assumes "status_conditions M"
    and "distinct (types_of cs)" and "distinct (types_of ps)"
    and "fst (SetIfNewer M cs ps cb s) = cs'" and "fst (SetIfNewer M cs' ps cb' s') = cs''"
    and "FindStatusCondition M cs t = Some c"
  shows "\<exists>c'. FindStatusCondition M cs' t = Some c' \<and> ctime c \<le> ctime c'
      \<and> (cstatus c \<noteq> ConditionUnknown \<longrightarrow> cstatus c' \<noteq> ConditionUnknown)
      \<and> FindStatusCondition M cs'' t = Some c'"
proof -
  note conds = status_conditions.SetIfNewer_conds [OF assms(1)]
  have d: "distinct (types_of cs')" using conds(2) [OF assms(2,3)] assms(4) by metis
  have "FindStatusCondition M cs' t = merge_condition (Some c) (FindStatusCondition M ps t)"
    "FindStatusCondition M cs'' t =
       merge_condition (FindStatusCondition M cs' t) (FindStatusCondition M ps t)"
    using conds(1) [OF assms(2,3), of cb s t] conds(1) [OF d assms(3), of cb' s' t] assms(4-6)
    by auto
  then show ?thesis by (auto simp: merge_condition_def split: option.splits)
qed

theorem SetIfNewer_monotone_witness:
  "\<exists>c'. FindStatusCondition documented_meta
        (fst (SetIfNewer documented_meta [example_condition ''A'' ConditionFalse 1]
           [example_condition ''A'' ConditionUnknown 5] None ())) ''A'' = Some c'
      \<and> 1 \<le> ctime c' \<and> cstatus c' \<noteq> ConditionUnknown"
proof -
  let ?c = "example_condition ''A'' ConditionFalse 1"
  have "FindStatusCondition documented_meta [?c] ''A'' = Some ?c"
    by (simp add: example_condition_def)
  from SetIfNewer_monotone [OF documented.status_conditions_axioms _ _ refl refl this,
      of "[example_condition ''A'' ConditionUnknown 5]" None "()" None "()"]
  show ?thesis by (auto simp: example_condition_def)
qed

text \<open>
  The condition types of the operator have a reason for each of the three statuses, so
  \<open>UpdateCondition\<close> never panics on them; it leaves the condition with the given status, keeps the
  transition time of a condition whose status does not change, and leaves all other types alone.
\<close>

lemma UpdateCondition_ok:
  assumes "status_conditions M" and "t \<in> set operator_condition_types"
  shows "\<exists>cs'. UpdateCondition M now cs t st = Inr cs'
      \<and> (\<exists>c. FindStatusCondition M cs' t = Some c \<and> cstatus c = st
           \<and> ctime c = (case FindStatusCondition M cs t of
                          Some e \<Rightarrow> if cstatus e = st then ctime e else now
                        | None \<Rightarrow> now))
      \<and> (\<forall>u. u \<noteq> t \<longrightarrow> FindStatusCondition M cs' u = FindStatusCondition M cs u)"
proof -
  obtain r where "gomap_get reasons (t @ status_string st) = Some r"
    using operator_reasons [OF assms(2)] by blast
  then show ?thesis
    using status_conditions.lookup_set_same [OF assms(1), of cs
        "\<lparr>ctype = t, cstatus = st, ctime = now, creason = r, cmessage = ''''\<rparr>"]
    by (auto simp: UpdateCondition_def status_conditions.set_other [OF assms(1)] split: option.splits)
qed

end
