(* ===== verification/K6_API.thy ===== *)
theory K6_API
  imports K6_Conditions
begin

text \<open>
  The Kubernetes objects the operator builds and reads, with the fields its code names. A field
  the operator only passes on, without looking inside, has the type \<open>opaque\<close>. The constants
  \<open>zero_\<dots>\<close> are Go's zero values of the structs, from which composite literals start.
\<close>

type_synonym opaque = string

record namespaced_name =
  nn_namespace :: string
  nn_name :: string

record object_meta =
  om_name :: string
  om_namespace :: string
  om_labels :: "string gomap"
  om_annotations :: "string gomap"

datatype volume_source =
    PersistentVolumeClaimSource string
  | ConfigMapSource string
  | EmptyDirSource
  | OtherVolumeSource opaque

record volume =
  vol_name :: string
  vol_source :: volume_source

record volume_mount =
  vm_name :: string
  vm_mountPath :: string
  vm_readOnly :: bool

datatype env_source = SecretKeyRef string string | OtherEnvSource opaque

record env_var =
  ev_name :: string
  ev_value :: string
  ev_valueFrom :: "env_source option"

definition env_value :: "string \<Rightarrow> string \<Rightarrow> env_var" where
  "env_value n v = \<lparr>ev_name = n, ev_value = v, ev_valueFrom = None\<rparr>"

record env_from_source =
  ef_configMapRef :: "opaque option"
  ef_secretRef :: "opaque option"

record container_port =
  cp_containerPort :: int
  cp_name :: string

datatype probe = HTTPGetProbe string int string | ConfiguredProbe opaque

record label_requirement =
  lr_key :: string
  lr_operator :: string
  lr_values :: "string list"

record pod_affinity_term =
  pat_matchExpressions :: "label_requirement list"
  pat_topologyKey :: string

datatype affinity = RequiredPodAntiAffinity "pod_affinity_term list" | ConfiguredAffinity opaque

datatype quantity_format = DecimalSI | BinarySI

datatype quantity = NewMilliQuantity int quantity_format | NewQuantity int quantity_format | ParsedQuantity string

record resource_requirements =
  rr_requests :: "quantity gomap"
  rr_limits :: "quantity gomap"

definition zero_resources :: resource_requirements where
  "zero_resources = \<lparr>rr_requests = [], rr_limits = []\<rparr>"

record container =
  c_name :: string
  c_image :: string
  c_imagePullPolicy :: string
  c_command :: "string list"
  c_args :: "string list"
  c_workingDir :: string
  c_env :: "env_var list"
  c_envFrom :: "env_from_source list"
  c_resources :: resource_requirements
  c_volumeMounts :: "volume_mount list"
  c_ports :: "container_port list"
  c_livenessProbe :: "probe option"
  c_readinessProbe :: "probe option"
  c_securityContext :: "opaque option"
  c_restartPolicy :: "opaque option"

definition zero_container :: container where
  "zero_container =
     \<lparr>c_name = '''', c_image = '''', c_imagePullPolicy = '''', c_command = [], c_args = [],
      c_workingDir = '''', c_env = [], c_envFrom = [], c_resources = zero_resources,
      c_volumeMounts = [], c_ports = [], c_livenessProbe = None, c_readinessProbe = None,
      c_securityContext = None, c_restartPolicy = None\<rparr>"

record pod_spec =
  ps_automountServiceAccountToken :: "bool option"
  ps_serviceAccountName :: string
  ps_hostname :: string
  ps_restartPolicy :: string
  ps_schedulerName :: string
  ps_affinity :: "affinity option"
  ps_nodeSelector :: "string gomap"
  ps_tolerations :: "opaque list"
  ps_topologySpreadConstraints :: "opaque list"
  ps_securityContext :: "opaque option"
  ps_imagePullSecrets :: "string list"
  ps_initContainers :: "container list"
  ps_containers :: "container list"
  ps_volumes :: "volume list"
  ps_priorityClassName :: string

definition zero_pod_spec :: pod_spec where
  "zero_pod_spec =
     \<lparr>ps_automountServiceAccountToken = None, ps_serviceAccountName = '''', ps_hostname = '''',
      ps_restartPolicy = '''', ps_schedulerName = '''', ps_affinity = None, ps_nodeSelector = [],
      ps_tolerations = [], ps_topologySpreadConstraints = [], ps_securityContext = None,
      ps_imagePullSecrets = [], ps_initContainers = [], ps_containers = [], ps_volumes = [],
      ps_priorityClassName = ''''\<rparr>"

record job =
  job_meta :: object_meta
  job_backoffLimit :: "int option"
  job_podLabels :: "string gomap"
  job_podAnnotations :: "string gomap"
  job_podSpec :: pod_spec

record service_port =
  sp_name :: string
  sp_port :: int
  sp_protocol :: string

record service =
  svc_meta :: object_meta
  svc_ports :: "service_port list"
  svc_selector :: "string gomap"
  svc_clusterIP :: string

text \<open>What the operator reads of the objects a list call returns.\<close>

record pod_item =
  pi_name :: string
  pi_phase :: string

record job_item =
  ji_name :: string
  ji_active :: "32 word"
  ji_failed :: "32 word"

record service_item =
  si_name :: string
  si_clusterIP :: string

text \<open>A label selector made from a set of pairs: all of them have to be present.\<close>

record list_options =
  lo_namespace :: string
  lo_selector :: "string gomap"

definition selects :: "list_options \<Rightarrow> object_meta \<Rightarrow> bool" where
  "selects opts m \<longleftrightarrow> om_namespace m = lo_namespace opts
     \<and> (\<forall>(k, v) \<in> set (lo_selector opts). gomap_get (om_labels m) k = Some v)"

end
