(* ===== verification/K6_CLI.thy ===== *)
theory K6_CLI
  imports K6_Prelude "HOL-Library.Sublist"
begin

text \<open>
  \<open>pkg/types/k6cli.go\<close>: the parser that picks, from the k6 arguments of a test run, those that
  suit the \<open>k6 archive\<close> call of the initializer, and notices a cloud output. The loops over
  indices of the source are kept; \<open>cli_groups\<close> is the reference reading of the same arguments as
  flags with their values, against which the loops are proved.
\<close>

section \<open>Definitions\<close>

record CLI =
  ArchiveArgs :: "string list"
  HasCloudOut :: bool

definition is_flag :: "string \<Rightarrow> bool" where
  "is_flag a \<longleftrightarrow> a \<noteq> [] \<and> hd a = CHR ''-''"

text \<open>The closure \<open>lastArgV\<close>: the end of the values that follow a flag.\<close>

function lastArgV_loop :: "nat \<Rightarrow> string list \<Rightarrow> nat \<Rightarrow> nat" where
  "lastArgV_loop start args e =
     (if e < length args then
        if args ! e = [] then (if e = start then e + 1 else e)
        else if hd (args ! e) = CHR ''-'' then e
        else lastArgV_loop start args (e + 1)
      else e)"
  by pat_completeness auto
termination
  by (relation "measure (\<lambda>(start, args, e). length args - e)") auto

declare lastArgV_loop.simps [simp del]

definition lastArgV :: "nat \<Rightarrow> string list \<Rightarrow> nat" where
  "lastArgV start args = lastArgV_loop start args start"

lemma lastArgV_loop_ge: "e \<le> lastArgV_loop start args e"
proof (induction start args e rule: lastArgV_loop.induct)
  case (1 start args e)
  then show ?case by (subst lastArgV_loop.simps) (fastforce split: if_splits)
qed

lemma lastArgV_ge: "start \<le> lastArgV start args"
  by (simp add: lastArgV_def lastArgV_loop_ge)

text \<open>The \<open>switch\<close> of the main loop, for the flag at \<open>i\<close> whose values end before \<open>e\<close>.\<close>

definition parse_flag :: "string list \<Rightarrow> nat \<Rightarrow> nat \<Rightarrow> CLI \<Rightarrow> CLI" where
  "parse_flag argv i e cli =
     (let a = argv ! i in
      if HasPrefix a ''--log-output'' then cli
      else if HasPrefix a ''--block-hostnames'' \<or> HasPrefix a ''--blacklist-ip''
        \<or> HasPrefix a ''--user-agent'' then cli
      else if a = ''-o'' \<or> a = ''--out'' then
        (if i + 1 < e \<and> argv ! (i + 1) = ''cloud'' then cli\<lparr>HasCloudOut := True\<rparr> else cli)
      else if a = ''-l'' \<or> a = ''--linger'' \<or> a = ''--no-usage-report'' then cli
      else if a = ''--verbose'' \<or> a = ''-v'' then cli
      else cli\<lparr>ArchiveArgs := ArchiveArgs cli @ take (e - i) (drop i argv)\<rparr>)"

definition cli_error :: "string \<Rightarrow> string" where
  "cli_error a = ''encountered an invalid value for k6 CLI argument: `'' @ a @ ''`''"

function parse_loop :: "string list \<Rightarrow> nat \<Rightarrow> CLI \<Rightarrow> CLI \<times> string option" where
  "parse_loop argv i cli =
     (if i < length argv then
        if is_flag (argv ! i) then
          let e = lastArgV (i + 1) argv in parse_loop argv e (parse_flag argv i e cli)
        else (cli, Some (cli_error (argv ! i)))
      else (cli, None))"
  by pat_completeness auto
termination
proof (relation "measure (\<lambda>(argv, i, cli). length argv - i)", goal_cases)
  case (2 argv i cli e)
  then show ?case using lastArgV_ge [of "i + 1" argv] by auto
qed simp

declare parse_loop.simps [simp del]

definition ParseCLI :: "string list \<Rightarrow> CLI \<times> string option" where
  "ParseCLI argv = parse_loop argv 0 \<lparr>ArchiveArgs = [], HasCloudOut = False\<rparr>"

section \<open>Reference reading of the arguments\<close>

text \<open>
  The values of a flag: an empty argument right behind the flag, or else the longest run of
  non-empty arguments that are not flags.
\<close>

definition flag_values :: "string list \<Rightarrow> string list" where
  "flag_values as =
     (case as of
        [] # _ \<Rightarrow> [[]]
      | _ \<Rightarrow> takeWhile (\<lambda>a. a \<noteq> [] \<and> \<not> is_flag a) as)"

text \<open>The groups of flag and values at the front, and the rest that starts with no flag.\<close>

function cli_groups :: "string list \<Rightarrow> string list list \<times> string list" where
  "cli_groups [] = ([], [])"
| "cli_groups (a # as) =
     (if is_flag a then
        (let v = flag_values as; (gs, r) = cli_groups (drop (length v) as) in ((a # v) # gs, r))
      else ([], a # as))"
  by pat_completeness auto
termination
  by (relation "measure length") auto

definition not_for_archive :: "string \<Rightarrow> bool" where
  "not_for_archive a \<longleftrightarrow>
     HasPrefix a ''--log-output'' \<or> HasPrefix a ''--block-hostnames''
     \<or> HasPrefix a ''--blacklist-ip'' \<or> HasPrefix a ''--user-agent''
     \<or> a \<in> {''-o'', ''--out'', ''-l'', ''--linger'', ''--no-usage-report'', ''--verbose'', ''-v''}"

definition is_cloud_out :: "string list \<Rightarrow> bool" where
  "is_cloud_out g \<longleftrightarrow> (\<exists>vs. g = ''-o'' # ''cloud'' # vs \<or> g = ''--out'' # ''cloud'' # vs)"

section \<open>The loops against the reference\<close>

lemma lastArgV_loop_run:
  "e \<le> length args \<Longrightarrow> (e = start \<Longrightarrow> \<not> (e < length args \<and> args ! e = [])) \<Longrightarrow> start \<le> e \<Longrightarrow>
   lastArgV_loop start args e =
     e + length (takeWhile (\<lambda>a. a \<noteq> [] \<and> \<not> is_flag a) (drop e args))"
proof (induction start args e rule: lastArgV_loop.induct)
  case (1 start args e)
  show ?case
  proof (cases "e < length args")
    case True
    then have d: "drop e args = args ! e # drop (Suc e) args" by (simp add: Cons_nth_drop_Suc)
    show ?thesis
      using 1 True unfolding lastArgV_loop.simps [of start args e] d
      by (auto simp: is_flag_def)
  qed (simp add: lastArgV_loop.simps)
qed

lemma lastArgV_eq:
  assumes "s \<le> length args"
  shows "lastArgV s args = s + length (flag_values (drop s args))"
proof (cases "s < length args \<and> args ! s = []")
  case True
  then show ?thesis
    by (simp add: lastArgV_def lastArgV_loop.simps [of s args s] flag_values_def
        flip: Cons_nth_drop_Suc)
next
  case False
  then have "drop s args = [] \<or> hd (drop s args) \<noteq> []"
    using hd_drop_conv_nth [of s args] by (cases "s < length args") auto
  then have "flag_values (drop s args) = takeWhile (\<lambda>a. a \<noteq> [] \<and> \<not> is_flag a) (drop s args)"
    by (auto simp: flag_values_def split: list.splits)
  with False assms show ?thesis
    by (simp add: lastArgV_def lastArgV_loop_run)
qed

lemma flag_values_prefix: "take (length (flag_values as)) as = flag_values as"
proof -
  have tw: "take (length (takeWhile P xs)) xs = takeWhile P xs" for P and xs :: "string list"
    by (metis append_eq_conv_conj takeWhile_dropWhile_id)
  show ?thesis by (auto simp: flag_values_def tw split: list.splits)
qed

lemma parse_flag_eq:
  assumes "i < length argv" and "e = i + 1 + length (flag_values (drop (i + 1) argv))"
    and g: "g = argv ! i # flag_values (drop (i + 1) argv)"
  shows "parse_flag argv i e cli =
    cli\<lparr>ArchiveArgs := ArchiveArgs cli @ (if not_for_archive (hd g) then [] else g),
        HasCloudOut := HasCloudOut cli \<or> is_cloud_out g\<rparr>"
proof -
  let ?v = "flag_values (drop (i + 1) argv)"
  have "take (e - i) (drop i argv) = g"
    using assms flag_values_prefix [of "drop (i + 1) argv"]
    by (simp add: Cons_nth_drop_Suc [symmetric])
  moreover have "(i + 1 < e \<and> argv ! (i + 1) = ''cloud'') \<longleftrightarrow> (\<exists>vs. ?v = ''cloud'' # vs)"
  proof (cases ?v)
    case Nil
    then show ?thesis using assms(2) by simp
  next
    case (Cons w ws)
    then have "take (length ?v) (drop (i + 1) argv) = w # ws"
      using flag_values_prefix by metis
    then have "argv ! (i + 1) = w"
      by (metis Cons take_Cons' list.distinct(1) list.inject hd_drop_conv_nth drop_eq_Nil
          not_le_imp_less hd_Cons_tl list.size(3) take_eq_Nil)
    with Cons assms(2) show ?thesis by simp
  qed
  ultimately show ?thesis
    by (auto simp: parse_flag_def Let_def g not_for_archive_def is_cloud_out_def HasPrefix_def)
qed

lemma parse_loop_eq:
  "i \<le> length argv \<Longrightarrow> cli_groups (drop i argv) = (gs, r) \<Longrightarrow>
   parse_loop argv i cli =
     (cli\<lparr>ArchiveArgs := ArchiveArgs cli @ concat (filter (\<lambda>g. \<not> not_for_archive (hd g)) gs),
          HasCloudOut := HasCloudOut cli \<or> (\<exists>g \<in> set gs. is_cloud_out g)\<rparr>,
      if r = [] then None else Some (cli_error (hd r)))"
proof (induction argv i cli arbitrary: gs r rule: parse_loop.induct)
  case (1 argv i cli)
  show ?case
  proof (cases "i < length argv \<and> is_flag (argv ! i)")
    case True
    let ?v = "flag_values (drop (i + 1) argv)" and ?e = "lastArgV (i + 1) argv"
    have e: "?e = i + 1 + length ?v" using True lastArgV_eq [of "i + 1" argv] by simp
    have len: "?e \<le> length argv"
      using True e flag_values_prefix [of "drop (i + 1) argv"]
      by (metis Suc_eq_plus1 Suc_leI add_le_cancel_left le_add_diff_inverse length_drop length_take
          min.cobounded1)
    have d: "drop i argv = argv ! i # drop (i + 1) argv" using True by (simp add: Cons_nth_drop_Suc)
    obtain gs' where gs': "cli_groups (drop ?e argv) = (gs', r)" "gs = (argv ! i # ?v) # gs'"
      using "1.prems"(2) True unfolding d e by (auto simp: Let_def add.commute split: prod.splits)
    have pf: "parse_flag argv i ?e cli = cli\<lparr>ArchiveArgs := ArchiveArgs cli
          @ (if not_for_archive (argv ! i) then [] else argv ! i # ?v),
        HasCloudOut := HasCloudOut cli \<or> is_cloud_out (argv ! i # ?v)\<rparr>"
      using parse_flag_eq [of i argv ?e "argv ! i # ?v" cli] True e by simp
    show ?thesis
      using "1.IH" [of ?e gs' r] True len gs'
      by (subst parse_loop.simps) (auto simp: Let_def pf [simplified])
  next
    case False
    show ?thesis
    proof (cases "i < length argv")
      case True
      with False "1.prems"(2) show ?thesis
        by (auto simp: Cons_nth_drop_Suc [symmetric] parse_loop.simps)
    next
      case False
      with "1.prems" show ?thesis by (simp add: parse_loop.simps)
    qed
  qed
qed

lemma cli_groups_concat: "cli_groups as = (gs, r) \<Longrightarrow> concat gs @ r = as"
proof (induction as arbitrary: gs r rule: cli_groups.induct)
  case (2 a as)
  then show ?case
    by (auto simp: Let_def split: if_splits prod.splits)
      (metis append_take_drop_id flag_values_prefix append_assoc)+
qed simp

lemma ParseCLI_eq:
  "cli_groups argv = (gs, r) \<Longrightarrow> ParseCLI argv =
     (\<lparr>ArchiveArgs = concat (filter (\<lambda>g. \<not> not_for_archive (hd g)) gs),
       HasCloudOut = (\<exists>g \<in> set gs. is_cloud_out g)\<rparr>,
      if r = [] then None else Some (cli_error (hd r)))"
  using parse_loop_eq [of 0 argv gs r] by (simp add: ParseCLI_def)

lemma subseq_concat_filter: "subseq (concat (filter P xss)) (concat xss)"
  by (induction xss) (auto intro: list_emb_append_mono)

section \<open>Properties\<close>

text \<open>
  C12. \<open>ParseCLI\<close> reads the arguments as groups, each a flag with the values behind it. It fails
  exactly when something that is not a flag stands where a flag is due, naming that argument.
  The archive arguments are the groups whose flag suits \<open>k6 archive\<close>, whole and in order, and a
  cloud output is noticed exactly when a group starts with \<open>-o cloud\<close> or \<open>--out cloud\<close>.
\<close>

theorem ParseCLI_refines_groups:
  "ParseCLI argv =
     (let (gs, r) = cli_groups argv in
      (\<lparr>ArchiveArgs = concat (filter (\<lambda>g. \<not> not_for_archive (hd g)) gs),
        HasCloudOut = (\<exists>g \<in> set gs. is_cloud_out g)\<rparr>,
       if r = [] then None else Some (cli_error (hd r))))"
  by (cases "cli_groups argv") (simp add: ParseCLI_eq)

text \<open>
  No argument is invented or reordered: the archive arguments are a subsequence of the given
  ones, and when parsing succeeds every given argument belongs to exactly one group, so nothing is
  lost but the groups left out on purpose.
\<close>

lemma ParseCLI_archive_args_subseq:
  assumes "ParseCLI argv = (cli, err)"
  shows "subseq (ArchiveArgs cli) argv
    \<and> (err = None \<longleftrightarrow> concat (fst (cli_groups argv)) = argv)"
proof -
  obtain gs r where g: "cli_groups argv = (gs, r)" by fastforce
  then have c: "concat gs @ r = argv" by (rule cli_groups_concat)
  have "cli = fst (ParseCLI argv)" "err = snd (ParseCLI argv)" using assms by simp_all
  then have cli: "ArchiveArgs cli = concat (filter (\<lambda>g. \<not> not_for_archive (hd g)) gs)"
    and err: "err = None \<longleftrightarrow> r = []"
    using ParseCLI_eq [OF g] by (auto split: if_splits)
  have "subseq (ArchiveArgs cli) (concat gs)" by (simp add: cli subseq_concat_filter)
  then have "subseq (ArchiveArgs cli) argv" using c by (metis subseq_rev_drop_many)
  moreover have "err = None \<longleftrightarrow> concat gs = argv" using c err by auto
  ultimately show ?thesis using g by simp
qed

end
