(* ===== verification/K6_Cloud.thy ===== *)
theory K6_Cloud
  imports K6_API K6_CLI
begin

text \<open>
  \<open>pkg/cloud\<close>, the part without effects: aggregation settings (\<open>aggregation.go\<close>), the data of a
  test run received from Grafana Cloud k6 and what the runners get of it, the events sent back
  (\<open>apitypes.go\<close>), the output of \<open>k6 inspect\<close> (\<open>inspect.go\<close>), the request that creates a test run
  (\<open>cloud_output.go\<close>), addresses (\<open>plz.go\<close>) and the token record (\<open>token.go\<close>). Types and
  constants of the package \<open>cloudapi\<close> of k6 are parameters or plain values.
\<close>

section \<open>Aggregation settings\<close>

text \<open>
  The fields of \<open>cloudapi.Config\<close> that are read; the periods are given by what their \<open>String\<close>
  method returns.
\<close>

record runtime_config =
  rc_aggregationPeriod :: string
  rc_aggregationWaitPeriod :: string
  rc_metricPushInterval :: string
  rc_metricPushConcurrency :: int

definition aggregationVarNames :: "string list" where
  "aggregationVarNames =
     [''K6_CLOUD_API_VERSION'', ''K6_CLOUD_AGGREGATION_PERIOD'', ''K6_CLOUD_AGGREGATION_WAIT_PERIOD'',
      ''K6_CLOUD_METRIC_PUSH_INTERVAL'', ''K6_CLOUD_METRIC_PUSH_CONCURRENCY'']"

definition EncodeAggregationConfig :: "runtime_config \<Rightarrow> string" where
  "EncodeAggregationConfig c =
     itoa 2 @ ''|'' @ rc_aggregationPeriod c @ ''|'' @ rc_aggregationWaitPeriod c @ ''|''
     @ rc_metricPushInterval c @ ''|'' @ itoa (rc_metricPushConcurrency c)"

definition DecodeAggregationConfig :: "string \<Rightarrow> string + env_var list" where
  "DecodeAggregationConfig encoded =
     (let values = Split encoded (CHR ''|'') in
      if length values \<noteq> length aggregationVarNames then
        Inl (''aggregation vars got corrupted: there are '' @ itoa (int (length values))
             @ '' values instead of '' @ itoa (int (length aggregationVarNames))
             @ ''. Encoded value: `'' @ encoded @ ''`'')
      else Inr (map (\<lambda>i. env_value (aggregationVarNames ! i) (values ! i)) [0 ..< length values]))"

definition AggregationEnvVars :: "runtime_config \<Rightarrow> env_var list" where
  "AggregationEnvVars c =
     (case DecodeAggregationConfig (EncodeAggregationConfig c) of Inl _ \<Rightarrow> [] | Inr vs \<Rightarrow> vs)"

section \<open>Data of a cloud test run\<close>

record SecretsConfig =
  sec_endpoint :: string
  sec_responsePath :: string

record Distribution =
  dist_loadZone :: string
  dist_percent :: int

type_synonym LZDistribution = "Distribution gomap"

record TestRunData =
  trd_testRunId :: int
  trd_instances :: int
  trd_runnerImage :: string
  trd_instanceCount :: int
  trd_archiveURL :: string
  trd_blacklistIPs :: "string list"
  trd_blockedHostnames :: "string list"
  trd_includeSystemEnvVars :: bool
  trd_userAgent :: string
  trd_tags :: "string gomap"
  trd_environment :: "string gomap"
  trd_gck6EnvVars :: "string gomap"
  trd_runStatus :: int
  trd_runtimeConfig :: runtime_config
  trd_secretsToken :: string
  trd_secretsConfig :: "SecretsConfig option"
  trd_lzDistribution :: LZDistribution
  trd_tagArgs :: "string list"
  trd_envArgs :: "string list"
  trd_runnerEnvVars :: "env_var list"

definition reservedGCk6EnvVars :: "unit gomap" where
  "reservedGCk6EnvVars = []"

definition lzCloudExecVar :: string where "lzCloudExecVar = ''K6_CLOUDRUN_LOAD_ZONE''"
definition distrCloudExecVar :: string where "distrCloudExecVar = ''K6_CLOUDRUN_DISTRIBUTION''"
definition trIDCloudExecVar :: string where "trIDCloudExecVar = ''K6_CLOUDRUN_TEST_RUN_ID''"
definition IIDCloudExecVar :: string where "IIDCloudExecVar = ''K6_CLOUDRUN_INSTANCE_ID''"

definition trd_TestRunID :: "TestRunData \<Rightarrow> string" where
  "trd_TestRunID trd = itoa (trd_testRunId trd)"

definition escapeKubeExpansion :: "string \<Rightarrow> string" where
  "escapeKubeExpansion value = ReplaceAll value (CHR ''$'') ''$$''"

definition LZLabel :: "LZDistribution \<Rightarrow> string" where
  "LZLabel lzd = (case lzd of [] \<Rightarrow> ''unknown_lz_label'' | (k, _) # _ \<Rightarrow> k)"

definition LZName :: "LZDistribution \<Rightarrow> string" where
  "LZName lzd = (case lzd of [] \<Rightarrow> ''unknown_lz_name'' | (_, d) # _ \<Rightarrow> dist_loadZone d)"

text \<open>The value a map is read at for a key that is there; Go gives the zero value otherwise.\<close>

definition gomap_at :: "string gomap \<Rightarrow> string \<Rightarrow> string" where
  "gomap_at m k = (case gomap_get m k of None \<Rightarrow> '''' | Some v \<Rightarrow> v)"

definition key_value_args :: "string \<Rightarrow> string gomap \<Rightarrow> string list \<Rightarrow> string list" where
  "key_value_args flag m keys =
     concat (map (\<lambda>k. [flag, escapeKubeExpansion k @ ''='' @ escapeKubeExpansion (gomap_at m k)]) keys)"

definition preprocessTags :: "TestRunData \<Rightarrow> TestRunData" where
  "preprocessTags trd =
     (let tags = gomap_set (trd_tags trd) ''load_zone'' (LZName (trd_lzDistribution trd));
          keys = sort (filter (\<lambda>k. length k > 0 \<and> length (gomap_at tags k) > 0) (gomap_keys tags))
      in trd\<lparr>trd_tags := tags, trd_tagArgs := key_value_args ''--tag'' tags keys\<rparr>)"

definition reservedEnvVars :: "string gomap \<Rightarrow> env_var list" where
  "reservedEnvVars gck6 =
     sort_key ev_name
       (map (\<lambda>(k, v). env_value k v)
          (filter (\<lambda>(k, v). gomap_get reservedGCk6EnvVars k \<noteq> None) gck6))"

definition secretsEnvVars :: "TestRunData \<Rightarrow> env_var list" where
  "secretsEnvVars trd =
     (case trd_secretsConfig trd of
        None \<Rightarrow> []
      | Some sc \<Rightarrow>
          [env_value ''K6_SECRET_SOURCE'' ''url'',
           env_value ''K6_SECRET_SOURCE_URL_URL_TEMPLATE'' (sec_endpoint sc),
           env_value ''K6_SECRET_SOURCE_URL_RESPONSE_PATH'' (sec_responsePath sc)]
          @ (if trd_secretsToken trd \<noteq> '''' then
               [env_value ''K6_SECRET_SOURCE_URL_HEADER_AUTHORIZATION'' (''Bearer '' @ trd_secretsToken trd)]
             else []))"

text \<open>The variable \<open>K6_CLOUD_HOST\<close> of the operator's own environment, if it is set.\<close>

definition K6CloudHost :: "string option \<Rightarrow> string" where
  "K6CloudHost lookup = (case lookup of None \<Rightarrow> ''https://ingest.k6.io'' | Some host \<Rightarrow> host)"

definition preprocess_env_vars :: "string option \<Rightarrow> TestRunData \<Rightarrow> env_var list" where
  "preprocess_env_vars host trd =
     trd_runnerEnvVars trd
     @ (if length (trd_userAgent trd) > 0
        then [env_value ''K6_USER_AGENT'' (escapeKubeExpansion (trd_userAgent trd))] else [])
     @ (if length (trd_blacklistIPs trd) > 0
        then [env_value ''K6_BLACKLIST_IPS'' (Join (trd_blacklistIPs trd) '','')] else [])
     @ (if length (trd_blockedHostnames trd) > 0
        then [env_value ''K6_BLOCK_HOSTNAMES'' (Join (trd_blockedHostnames trd) '','')] else [])
     @ AggregationEnvVars (trd_runtimeConfig trd)
     @ secretsEnvVars trd
     @ reservedEnvVars (trd_gck6EnvVars trd)
     @ [env_value ''K6_CLOUD_HOST'' (K6CloudHost host)]"

definition preprocess_environment :: "TestRunData \<Rightarrow> string gomap" where
  "preprocess_environment trd =
     gomap_delete
       (gomap_set
          (gomap_set
             (gomap_set (trd_environment trd) lzCloudExecVar (LZName (trd_lzDistribution trd)))
             distrCloudExecVar (LZLabel (trd_lzDistribution trd)))
          trIDCloudExecVar (trd_TestRunID trd))
       IIDCloudExecVar"

definition show_distribution :: "LZDistribution \<Rightarrow> string" where
  "show_distribution lzd =
     ''map['' @ Join (map (\<lambda>(k, d). k @ '':{LoadZone:'' @ dist_loadZone d @ '' Percent:''
        @ itoa (dist_percent d) @ ''}'') (sort_key fst lzd)) '' '' @ '']''"

definition Preprocess :: "string option \<Rightarrow> TestRunData \<Rightarrow> string + TestRunData" where
  "Preprocess host trd =
     (if length (trd_lzDistribution trd) \<noteq> 1 then
        Inl (''only tests with one load zone are supported, provided: ''
             @ show_distribution (trd_lzDistribution trd))
      else
        (let trd1 = preprocessTags trd;
             trd2 = trd1\<lparr>trd_runnerEnvVars := preprocess_env_vars host trd1\<rparr>;
             env = preprocess_environment trd2;
             keys = sort (gomap_keys env)
         in Inr (trd2\<lparr>trd_environment := env, trd_envArgs := key_value_args ''-e'' env keys\<rparr>)))"

text \<open>\<open>Aborted\<close>, given the constant \<open>cloudapi.RunStatusTimedOut\<close>.\<close>

definition Aborted :: "int \<Rightarrow> int \<Rightarrow> bool" where
  "Aborted runStatusTimedOut trs \<longleftrightarrow> trs \<ge> runStatusTimedOut"

section \<open>Events\<close>

datatype EventType = abortEvent | errorEvent

record EventPayload =
  ep_eventType :: EventType
  ep_origin :: string
  ep_errorCode :: nat
  ep_reason :: string
  ep_detail :: string
  ep_publicDetail :: string

type_synonym Events = "EventPayload list"

definition zero_event :: EventPayload where
  "zero_event = \<lparr>ep_eventType = errorEvent, ep_origin = '''', ep_errorCode = 0, ep_reason = '''',
     ep_detail = '''', ep_publicDetail = ''''\<rparr>"

definition SetupError :: nat where "SetupError = 8030"
definition K6OperatorStartError :: nat where "K6OperatorStartError = 8050"
definition K6OperatorAbortError :: nat where "K6OperatorAbortError = 8051"
definition K6OperatorRunnerError :: nat where "K6OperatorRunnerError = 8052"

definition AbortEvent :: "string \<Rightarrow> EventPayload" where
  "AbortEvent origin = zero_event\<lparr>ep_eventType := abortEvent, ep_origin := origin\<rparr>"

definition ErrorEvent :: "nat \<Rightarrow> Events" where
  "ErrorEvent ec = [zero_event\<lparr>ep_eventType := errorEvent, ep_errorCode := ec\<rparr>]"

fun WithDetail :: "Events \<Rightarrow> string \<Rightarrow> Events" where
  "WithDetail [] s = []"
| "WithDetail (e # es) s =
     (if ep_eventType e = abortEvent then e\<lparr>ep_reason := s\<rparr>
      else e\<lparr>ep_detail := s, ep_publicDetail := s\<rparr>) # es"

fun WithAbort :: "Events \<Rightarrow> Events" where
  "WithAbort [] = []"
| "WithAbort (e # es) =
     (if ep_eventType e = errorEvent then (e # es) @ [AbortEvent ''user''] else e # es)"

section \<open>Output of k6 inspect and creation of a test run\<close>

record InspectOutput =
  io_extName :: string
  io_extProjectID :: int
  io_cloudName :: string
  io_cloudProjectID :: int
  io_totalDuration :: int
  io_maxVUs :: "64 word"
  io_thresholds :: "string list gomap"

definition ProjectID :: "InspectOutput \<Rightarrow> int" where
  "ProjectID out = (if io_cloudProjectID out > 0 then io_cloudProjectID out else io_extProjectID out)"

definition TestName :: "InspectOutput \<Rightarrow> string" where
  "TestName out = (if length (io_cloudName out) > 0 then io_cloudName out else io_extName out)"

definition SetTestName :: "string \<Rightarrow> InspectOutput \<Rightarrow> InspectOutput" where
  "SetTestName name out = out\<lparr>io_cloudName := name\<rparr>"

record CloudTestRun =
  ct_name :: string
  ct_projectID :: int
  ct_vusMax :: int
  ct_thresholds :: "string list gomap"
  ct_duration :: int
  ct_processThresholds :: bool
  ct_instances :: "32 word"

text \<open>
  The body of the request \<open>CreateTestRun\<close> sends; the project of the default configuration of
  \<open>cloudapi\<close> is a parameter. A threshold without sources gets no entry. The duration is cut to whole
  seconds towards zero; the code goes through \<open>float64\<close>, which is the same below \<open>2^23\<close> seconds (97
  days). The entries of the map of thresholds are read as their lists, a nil entry (\<open>null\<close> in the
  output of k6, on which Go panics) is left out.
\<close>

definition CreateTestRun_body :: "int \<Rightarrow> InspectOutput \<Rightarrow> 32 word \<Rightarrow> CloudTestRun" where
  "CreateTestRun_body defaultProject opts instances =
     \<lparr>ct_name = TestName opts,
      ct_projectID = (if ProjectID opts > 0 then ProjectID opts else defaultProject),
      ct_vusMax = sint (io_maxVUs opts),
      ct_thresholds = filter (\<lambda>(n, ts). ts \<noteq> []) (io_thresholds opts),
      ct_duration = sgn (io_totalDuration opts) * (\<bar>io_totalDuration opts\<bar> div 1000000000),
      ct_processThresholds = True,
      ct_instances = instances\<rparr>"

section \<open>Addresses and tokens\<close>

definition ApiURL :: "string \<Rightarrow> string" where
  "ApiURL k6CloudHostEnvVar =
     (if Contains k6CloudHostEnvVar ''staging'' then ''https://api.staging.k6.io''
      else ''https://api.k6.io'')"

definition load_zones_url :: "string \<Rightarrow> string" where
  "load_zones_url baseURL = TrimSuffix baseURL ''/v1'' @ ''/cloud-resources/v1/load-zones''"

definition load_zone_url :: "string \<Rightarrow> string \<Rightarrow> string" where
  "load_zone_url baseURL name = TrimSuffix baseURL ''/v1'' @ ''/cloud-resources/v1/load-zones/'' @ name"

record PLZRegistrationData =
  reg_loadZoneID :: string
  reg_cpu :: string
  reg_memory :: string
  reg_runnerImage :: string
  reg_uid :: string

record TokenInfo =
  ti_value :: string
  ti_secretName :: string
  ti_secretNamespace :: string
  ti_ready :: bool

definition NewTokenInfo :: "string \<Rightarrow> string \<Rightarrow> TokenInfo" where
  "NewTokenInfo name ns =
     \<lparr>ti_value = '''', ti_secretName = name, ti_secretNamespace = ns, ti_ready = False\<rparr>"

section \<open>Lemmas\<close>

lemma bar_notin_dec_nat [simp]: "CHR ''|'' \<notin> set (dec_nat n)"
  by (rule not_digit_dec_nat) (simp add: of_char_def)

lemma bar_notin_itoa [simp]: "CHR ''|'' \<notin> set (itoa i)"
  using not_digit_dec_nat [of "CHR ''|''"] by (simp add: itoa_def of_char_def)

lemma EncodeAggregationConfig_Join:
  "EncodeAggregationConfig c =
     Join [itoa 2, rc_aggregationPeriod c, rc_aggregationWaitPeriod c, rc_metricPushInterval c,
           itoa (rc_metricPushConcurrency c)] [CHR ''|'']"
  by (simp add: EncodeAggregationConfig_def)

definition config_values :: "runtime_config \<Rightarrow> string list" where
  "config_values c = [itoa 2, rc_aggregationPeriod c, rc_aggregationWaitPeriod c,
     rc_metricPushInterval c, itoa (rc_metricPushConcurrency c)]"

text \<open>No separator inside a printed period.\<close>

definition no_bar :: "runtime_config \<Rightarrow> bool" where
  "no_bar c \<longleftrightarrow> CHR ''|'' \<notin> set (rc_aggregationPeriod c) \<union> set (rc_aggregationWaitPeriod c)
     \<union> set (rc_metricPushInterval c)"

lemma Split_Encode: "no_bar c \<Longrightarrow> Split (EncodeAggregationConfig c) (CHR ''|'') = config_values c"
  unfolding EncodeAggregationConfig_Join
  by (subst Split_Join) (auto simp: config_values_def no_bar_def)

lemma Decode_Encode:
  "no_bar c \<Longrightarrow> DecodeAggregationConfig (EncodeAggregationConfig c) =
     Inr (map2 env_value aggregationVarNames (config_values c))"
  by (simp add: DecodeAggregationConfig_def Split_Encode config_values_def aggregationVarNames_def
      upt_rec numeral_eq_Suc)

lemma Decode_names:
  assumes "DecodeAggregationConfig s = Inr vs"
  shows "map ev_name vs = aggregationVarNames"
proof -
  have "length (Split s (CHR ''|'')) = length aggregationVarNames"
    "vs = map (\<lambda>i. env_value (aggregationVarNames ! i) (Split s (CHR ''|'') ! i))
            [0 ..< length (Split s (CHR ''|''))]"
    using assms by (auto simp: DecodeAggregationConfig_def Let_def split: if_splits)
  then show ?thesis by (intro nth_equalityI) (auto simp: env_value_def)
qed

lemma sort_keys_unique:
  assumes "gomap_ok m" "gomap_ok m'" "gomap_get m = gomap_get m'"
  shows "sort (filter P (gomap_keys m)) = sort (filter P (gomap_keys m'))"
proof (rule sorted_distinct_set_unique)
  have "set (gomap_keys m) = set (gomap_keys m')" using assms(3) by simp
  then show "set (sort (filter P (gomap_keys m))) = set (sort (filter P (gomap_keys m')))"
    by simp
qed (use assms in \<open>auto simp: gomap_ok_def\<close>)

lemma Preprocess_fields:
  assumes "Preprocess host trd = Inr a"
  shows "trd_tagArgs a = trd_tagArgs (preprocessTags trd)"
    and "trd_envArgs a = key_value_args ''-e'' (preprocess_environment (preprocessTags trd))
           (sort (gomap_keys (preprocess_environment (preprocessTags trd))))"
    and "trd_runnerEnvVars a = preprocess_env_vars host (preprocessTags trd)"
proof -
  have pe: "preprocess_environment (t\<lparr>trd_runnerEnvVars := vs\<rparr>) = preprocess_environment t" for t vs
    by (simp add: preprocess_environment_def trd_TestRunID_def)
  have a: "a = (preprocessTags trd)
     \<lparr>trd_runnerEnvVars := preprocess_env_vars host (preprocessTags trd),
      trd_environment := preprocess_environment (preprocessTags trd),
      trd_envArgs := key_value_args ''-e'' (preprocess_environment (preprocessTags trd))
        (sort (gomap_keys (preprocess_environment (preprocessTags trd))))\<rparr>"
    using assms by (simp add: Preprocess_def Let_def pe split: if_splits)
  show "trd_tagArgs a = trd_tagArgs (preprocessTags trd)" by (simp add: a)
  show "trd_envArgs a = key_value_args ''-e'' (preprocess_environment (preprocessTags trd))
           (sort (gomap_keys (preprocess_environment (preprocessTags trd))))" by (simp add: a)
  show "trd_runnerEnvVars a = preprocess_env_vars host (preprocessTags trd)" by (simp add: a)
qed

lemma key_value_args_cong: "gomap_get m = gomap_get m' \<Longrightarrow> key_value_args f m ks = key_value_args f m' ks"
  by (simp add: key_value_args_def gomap_at_def)

lemma gomap_at_cong: "gomap_get m = gomap_get m' \<Longrightarrow> gomap_at m = gomap_at m'"
  by (simp add: gomap_at_def [abs_def])

lemma exec_vars_distinct:
  "distinct [lzCloudExecVar, distrCloudExecVar, trIDCloudExecVar, IIDCloudExecVar]"
  by (simp add: lzCloudExecVar_def distrCloudExecVar_def trIDCloudExecVar_def IIDCloudExecVar_def)

lemma preprocessTags_simps [simp]:
  "trd_environment (preprocessTags trd) = trd_environment trd"
  "trd_lzDistribution (preprocessTags trd) = trd_lzDistribution trd"
  "trd_TestRunID (preprocessTags trd) = trd_TestRunID trd"
  "trd_runnerEnvVars (preprocessTags trd) = trd_runnerEnvVars trd"
  "trd_userAgent (preprocessTags trd) = trd_userAgent trd"
  "trd_blacklistIPs (preprocessTags trd) = trd_blacklistIPs trd"
  "trd_blockedHostnames (preprocessTags trd) = trd_blockedHostnames trd"
  "trd_runtimeConfig (preprocessTags trd) = trd_runtimeConfig trd"
  "trd_secretsConfig (preprocessTags trd) = trd_secretsConfig trd"
  "trd_secretsToken (preprocessTags trd) = trd_secretsToken trd"
  "trd_gck6EnvVars (preprocessTags trd) = trd_gck6EnvVars trd"
  by (simp_all add: preprocessTags_def Let_def trd_TestRunID_def)

lemma secretsEnvVars_frame [simp]:
  "secretsEnvVars (preprocessTags trd) = secretsEnvVars trd"
  "secretsEnvVars (trd\<lparr>trd_tags := tags, trd_environment := env\<rparr>) = secretsEnvVars trd"
  by (cases "trd_secretsConfig trd"; simp add: secretsEnvVars_def)+

text \<open>What the kubelet does to a dollar sign in an argument, as its documentation has it.\<close>

definition reduces_dollars :: "(string \<Rightarrow> string) \<Rightarrow> bool" where
  "reduces_dollars expand \<longleftrightarrow> expand [] = [] \<and> (\<forall>s. expand (''$$'' @ s) = ''$'' @ expand s)
     \<and> (\<forall>c s. c \<noteq> CHR ''$'' \<longrightarrow> expand (c # s) = c # expand s)"

fun expand_dollars :: "string \<Rightarrow> string" where
  "expand_dollars [] = []"
| "expand_dollars [c] = [c]"
| "expand_dollars (c # d # s) =
     (if c = CHR ''$'' \<and> d = CHR ''$'' then CHR ''$'' # expand_dollars s else c # expand_dollars (d # s))"

lemma reduces_expand_dollars: "reduces_dollars expand_dollars"
  unfolding reduces_dollars_def
proof (intro conjI allI impI)
  show "expand_dollars (c # s) = c # expand_dollars s" if "c \<noteq> CHR ''$''" for c s
    using that by (cases s) auto
qed auto

definition example_data :: "string gomap \<Rightarrow> TestRunData" where
  "example_data env =
     \<lparr>trd_testRunId = 7, trd_instances = 1, trd_runnerImage = '''', trd_instanceCount = 1,
      trd_archiveURL = '''', trd_blacklistIPs = [], trd_blockedHostnames = [],
      trd_includeSystemEnvVars = False, trd_userAgent = '''', trd_tags = [], trd_environment = env,
      trd_gck6EnvVars = [], trd_runStatus = 0,
      trd_runtimeConfig = \<lparr>rc_aggregationPeriod = ''3s'', rc_aggregationWaitPeriod = ''8s'',
        rc_metricPushInterval = ''6s'', rc_metricPushConcurrency = 10\<rparr>,
      trd_secretsToken = '''', trd_secretsConfig = None,
      trd_lzDistribution = [(''lz'', \<lparr>dist_loadZone = ''zone'', dist_percent = 100\<rparr>)],
      trd_tagArgs = [], trd_envArgs = [], trd_runnerEnvVars = []\<rparr>"

section \<open>Properties\<close>

text \<open>
  C20. The aggregation settings survive the trip through the status: decoding what was encoded gives
  the five variables with the version of the protocol and the values of the settings (the periods
  print without the separator). Whatever else decodes has the five names in their order.
\<close>

theorem aggregation_roundtrip:
  assumes "no_bar c"
  shows "DecodeAggregationConfig (EncodeAggregationConfig c) =
      Inr [env_value ''K6_CLOUD_API_VERSION'' ''2'',
           env_value ''K6_CLOUD_AGGREGATION_PERIOD'' (rc_aggregationPeriod c),
           env_value ''K6_CLOUD_AGGREGATION_WAIT_PERIOD'' (rc_aggregationWaitPeriod c),
           env_value ''K6_CLOUD_METRIC_PUSH_INTERVAL'' (rc_metricPushInterval c),
           env_value ''K6_CLOUD_METRIC_PUSH_CONCURRENCY'' (itoa (rc_metricPushConcurrency c))]
    \<and> Inr (AggregationEnvVars c) = DecodeAggregationConfig (EncodeAggregationConfig c)
    \<and> (\<forall>s vs. DecodeAggregationConfig s = Inr vs \<longrightarrow> map ev_name vs = aggregationVarNames)"
proof -
  have "itoa 2 = ''2''" by code_simp
  then show ?thesis
    using Decode_Encode [OF assms] Decode_names
    by (auto simp: AggregationEnvVars_def config_values_def aggregationVarNames_def)
qed

theorem aggregation_roundtrip_witness:
  "\<exists>vs. DecodeAggregationConfig (EncodeAggregationConfig
       \<lparr>rc_aggregationPeriod = ''3s'', rc_aggregationWaitPeriod = ''8s'',
        rc_metricPushInterval = ''6s'', rc_metricPushConcurrency = 10\<rparr>) = Inr (vs @
       [env_value ''K6_CLOUD_METRIC_PUSH_CONCURRENCY'' (itoa 10)])"
  using aggregation_roundtrip [of "\<lparr>rc_aggregationPeriod = ''3s'', rc_aggregationWaitPeriod = ''8s'',
        rc_metricPushInterval = ''6s'', rc_metricPushConcurrency = 10\<rparr>"]
  by (fastforce simp: no_bar_def)

text \<open>
  C25. Values from the cloud reach k6 as they were sent: an expansion that reduces \<open>$$\<close> to \<open>$\<close> and
  leaves other characters alone undoes \<open>escapeKubeExpansion\<close>, whatever references the value holds.
\<close>

theorem escape_survives_expansion:
  assumes "reduces_dollars expand"
  shows "expand (escapeKubeExpansion v) = v"
  using assms by (induction v) (auto simp: escapeKubeExpansion_def reduces_dollars_def)

theorem escape_survives_expansion_witness:
  "expand_dollars (escapeKubeExpansion ''a$(B)$$'') = ''a$(B)$$''"
  by (rule escape_survives_expansion [OF reduces_expand_dollars])

text \<open>
  C30. \<open>Preprocess\<close> refuses exactly the data that does not name one load zone. Otherwise the
  variables describing the test run win over what the user set under their names, the instance id
  is left out for the runner to fill in, all other variables stay, the load zone tag is set, and
  the arguments are the variables of the environment as \<open>-e key=value\<close> pairs in the order of keys.
\<close>

theorem Preprocess_environment:
  "case Preprocess host trd of
     Inl e \<Rightarrow> length (trd_lzDistribution trd) \<noteq> 1
   | Inr trd' \<Rightarrow>
       (\<exists>lbl d. trd_lzDistribution trd = [(lbl, d)]
          \<and> gomap_get (trd_environment trd') = (gomap_get (trd_environment trd))
              (''K6_CLOUDRUN_LOAD_ZONE'' := Some (dist_loadZone d),
               ''K6_CLOUDRUN_DISTRIBUTION'' := Some lbl,
               ''K6_CLOUDRUN_TEST_RUN_ID'' := Some (trd_TestRunID trd),
               ''K6_CLOUDRUN_INSTANCE_ID'' := None)
          \<and> gomap_get (trd_tags trd') = (gomap_get (trd_tags trd))(''load_zone'' := Some (dist_loadZone d)))
       \<and> trd_envArgs trd' = concat (map (\<lambda>k. [''-e'', escapeKubeExpansion k @ ''=''
              @ escapeKubeExpansion (gomap_at (trd_environment trd') k)])
            (sort (gomap_keys (trd_environment trd'))))"
proof (cases "length (trd_lzDistribution trd) = 1")
  case True
  then obtain lbl d where lz: "trd_lzDistribution trd = [(lbl, d)]"
    by (metis One_nat_def length_0_conv length_Suc_conv surj_pair)
  have env: "gomap_get (preprocess_environment (trd1\<lparr>trd_runnerEnvVars := vs\<rparr>)) =
      (gomap_get (trd_environment trd1))
        (''K6_CLOUDRUN_LOAD_ZONE'' := Some (dist_loadZone d), ''K6_CLOUDRUN_DISTRIBUTION'' := Some lbl,
         ''K6_CLOUDRUN_TEST_RUN_ID'' := Some (trd_TestRunID trd1), ''K6_CLOUDRUN_INSTANCE_ID'' := None)"
    if "trd_lzDistribution trd1 = [(lbl, d)]" for trd1 vs
    by (rule ext) (simp add: preprocess_environment_def that LZName_def LZLabel_def trd_TestRunID_def
        lzCloudExecVar_def distrCloudExecVar_def trIDCloudExecVar_def IIDCloudExecVar_def)
  have tags: "gomap_get (trd_tags (preprocessTags trd)) =
      (gomap_get (trd_tags trd))(''load_zone'' := Some (dist_loadZone d))"
    by (rule ext) (simp add: preprocessTags_def Let_def lz LZName_def)
  show ?thesis
    using True env [of "preprocessTags trd"] tags
    by (simp add: Preprocess_def Let_def key_value_args_def lz)
qed (simp add: Preprocess_def)

text \<open>
  C26. The arguments do not depend on the order in which Go walks its maps: data that differ only in
  the order of tags and environment give the same arguments for the runners.
\<close>

theorem Preprocess_deterministic:
  assumes "gomap_ok (trd_tags trd)" "gomap_ok tags" "gomap_get tags = gomap_get (trd_tags trd)"
    and "gomap_ok (trd_environment trd)" "gomap_ok env" "gomap_get env = gomap_get (trd_environment trd)"
    and "Preprocess host trd = Inr a"
    and "Preprocess host (trd\<lparr>trd_tags := tags, trd_environment := env\<rparr>) = Inr b"
  shows "trd_tagArgs a = trd_tagArgs b \<and> trd_envArgs a = trd_envArgs b
    \<and> trd_runnerEnvVars a = trd_runnerEnvVars b"
proof -
  let ?trd' = "trd\<lparr>trd_tags := tags, trd_environment := env\<rparr>"
  have set_eq: "gomap_get (gomap_set tags k v) = gomap_get (gomap_set (trd_tags trd) k v)" for k v
    by (rule ext) (simp add: assms(3))
  have tag_args: "trd_tagArgs (preprocessTags ?trd') = trd_tagArgs (preprocessTags trd)"
    using sort_keys_unique [OF _ _ set_eq] assms(1,2) key_value_args_cong [OF set_eq] gomap_at_cong [OF set_eq]
    by (simp add: preprocessTags_def Let_def)
  have env_eq: "gomap_get (preprocess_environment (trd2\<lparr>trd_environment := env\<rparr>)) =
      gomap_get (preprocess_environment trd2)" if "trd_environment trd2 = trd_environment trd" for trd2
    by (rule ext) (simp add: preprocess_environment_def that assms(6) trd_TestRunID_def)
  have ok: "gomap_ok (preprocess_environment trd2)" if "gomap_ok (trd_environment trd2)" for trd2
    using that by (simp add: preprocess_environment_def)
  define pa where "pa = preprocess_environment (preprocessTags trd)"
  define pb where "pb = preprocess_environment (preprocessTags ?trd')"
  have same: "gomap_get pb = gomap_get pa" "gomap_ok pa" "gomap_ok pb"
    using ok assms(4-6) unfolding pa_def pb_def
    by (auto simp: preprocess_environment_def preprocessTags_def Let_def trd_TestRunID_def)
  then have env_args: "key_value_args ''-e'' pb (sort (gomap_keys pb)) =
      key_value_args ''-e'' pa (sort (gomap_keys pa))"
    using sort_keys_unique [of pb pa "\<lambda>_. True"] key_value_args_cong [of pb pa] by simp
  note a = Preprocess_fields [OF assms(7)]
  note b = Preprocess_fields [OF assms(8)]
  have "preprocess_env_vars host (preprocessTags ?trd') = preprocess_env_vars host (preprocessTags trd)"
    by (simp add: preprocess_env_vars_def)
  then show ?thesis
    using a b env_args tag_args unfolding pa_def pb_def by (simp only: simp_thms)
qed

theorem Preprocess_deterministic_witness:
  "\<exists>a b. Preprocess None (example_data [(''b'', ''2''), (''a'', ''1'')]) = Inr a
     \<and> Preprocess None (example_data [(''a'', ''1''), (''b'', ''2'')]) = Inr b
     \<and> trd_envArgs a = trd_envArgs b"
proof -
  let ?e = "[(''b'', ''2''), (''a'', ''1'')] :: string gomap" and ?f = "[(''a'', ''1''), (''b'', ''2'')] :: string gomap"
  obtain a where a: "Preprocess None (example_data ?e) = Inr a"
    by (simp add: Preprocess_def example_data_def Let_def)
  obtain b where b: "Preprocess None (example_data ?f) = Inr b"
    by (simp add: Preprocess_def example_data_def Let_def)
  have f: "example_data ?f = (example_data ?e)\<lparr>trd_tags := [], trd_environment := ?f\<rparr>"
    by (simp add: example_data_def)
  have "gomap_get ?f = gomap_get ?e" by (rule ext) (simp add: gomap_get_def)
  then show ?thesis
    using Preprocess_deterministic [of "example_data ?e" "[]" ?f None a b] a b f
    by (simp add: example_data_def gomap_ok_def gomap_keys_def)
qed

end
