(* ===== verification/K6_Script.thy ===== *)
theory K6_Script
  imports K6_API
begin

text \<open>
  \<open>pkg/types/script.go\<close>: where the k6 script of a test run lives and how it gets into a pod.
\<close>

record Script =
  s_Name :: string
  s_ReadOnly :: bool
  s_Filename :: string
  s_Path :: string
  s_Type :: string

definition FullName :: "Script \<Rightarrow> string" where
  "FullName s = s_Path s @ s_Filename s"

definition Volume :: "Script \<Rightarrow> volume list" where
  "Volume s =
     (if s_Type s = ''VolumeClaim'' then
        [\<lparr>vol_name = ''k6-test-volume'', vol_source = PersistentVolumeClaimSource (s_Name s)\<rparr>]
      else if s_Type s = ''ConfigMap'' then
        [\<lparr>vol_name = ''k6-test-volume'', vol_source = ConfigMapSource (s_Name s)\<rparr>]
      else [])"

definition VolumeMount :: "Script \<Rightarrow> volume_mount list" where
  "VolumeMount s =
     (if s_Type s = ''VolumeClaim'' then
        [\<lparr>vm_name = ''k6-test-volume'', vm_mountPath = s_Path s, vm_readOnly = s_ReadOnly s\<rparr>]
      else if s_Type s = ''ConfigMap'' then
        [\<lparr>vm_name = ''k6-test-volume'', vm_mountPath = ''/test'', vm_readOnly = True\<rparr>]
      else [])"

definition newline :: string where
  "newline = [CHR 0x0A]"

definition dquote :: string where
  "dquote = [CHR 0x22]"

definition localFileCheckScript :: string where
  "localFileCheckScript =
     ''if [ ! -f '' @ dquote @ ''$1'' @ dquote @ '' ]; then'' @ newline
     @ ''  echo '' @ dquote @ ''LocalFile not found exiting...'' @ dquote @ newline
     @ ''  exit 1'' @ newline
     @ ''fi'' @ newline
     @ ''shift'' @ newline
     @ ''exec '' @ dquote @ ''$@'' @ dquote"

definition UpdateCommand :: "Script \<Rightarrow> string list \<Rightarrow> bool \<Rightarrow> string list" where
  "UpdateCommand s cmd needsShellCmd =
     (if s_Type s \<noteq> ''LocalFile'' then cmd
      else
        (let cmd' = (if needsShellCmd then [''sh'', ''-c'', Join cmd '' ''] else cmd)
         in [''sh'', ''-c'', localFileCheckScript, ''sh'', FullName s] @ cmd'))"

lemma UpdateCommand_suffix:
  "\<not> needsShellCmd \<Longrightarrow> \<exists>pre. UpdateCommand s cmd needsShellCmd = pre @ cmd"
  by (auto simp: UpdateCommand_def)

text \<open>Every mount of the script has its volume, and only then.\<close>

lemma Volume_VolumeMount_names: "map vol_name (Volume s) = map vm_name (VolumeMount s)"
  by (simp add: Volume_def VolumeMount_def)

end
