(* ===== verification/K6_TestRun.thy ===== *)
theory K6_TestRun
  imports K6_Script K6_CLI
begin

text \<open>
  \<open>api/v1alpha1\<close>: the TestRun resource (\<open>testrun_types.go\<close>) and the operations on its status
  (\<open>k6conditions.go\<close>), with the rules by which a status may move on.
\<close>

section \<open>The resource\<close>

record PodMetadata =
  pm_annotations :: "string gomap"
  pm_labels :: "string gomap"

record InitContainer =
  ic_name :: string
  ic_image :: string
  ic_env :: "env_var list"
  ic_envFrom :: "env_from_source list"
  ic_command :: "string list"
  ic_args :: "string list"
  ic_workingDir :: string
  ic_volumeMounts :: "volume_mount list"
  ic_resources :: resource_requirements
  ic_restartPolicy :: "opaque option"

record Pod =
  pod_disabled :: bool
  pod_affinity :: "affinity option"
  pod_automountServiceAccountToken :: string
  pod_env :: "env_var list"
  pod_image :: string
  pod_imagePullSecrets :: "string list"
  pod_imagePullPolicy :: string
  pod_metadata :: PodMetadata
  pod_nodeSelector :: "string gomap"
  pod_tolerations :: "opaque list"
  pod_topologySpreadConstraints :: "opaque list"
  pod_resources :: resource_requirements
  pod_serviceAccountName :: string
  pod_securityContext :: opaque
  pod_containerSecurityContext :: opaque
  pod_envFrom :: "env_from_source list"
  pod_readinessProbe :: "probe option"
  pod_livenessProbe :: "probe option"
  pod_initContainers :: "InitContainer list"
  pod_volumes :: "volume list"
  pod_volumeMounts :: "volume_mount list"
  pod_priorityClassName :: string
  pod_schedulerName :: string

definition zero_pod :: Pod where
  "zero_pod =
     \<lparr>pod_disabled = False, pod_affinity = None, pod_automountServiceAccountToken = '''',
      pod_env = [], pod_image = '''', pod_imagePullSecrets = [], pod_imagePullPolicy = '''',
      pod_metadata = \<lparr>pm_annotations = [], pm_labels = []\<rparr>, pod_nodeSelector = [],
      pod_tolerations = [], pod_topologySpreadConstraints = [], pod_resources = zero_resources,
      pod_serviceAccountName = '''', pod_securityContext = '''', pod_containerSecurityContext = '''',
      pod_envFrom = [], pod_readinessProbe = None, pod_livenessProbe = None,
      pod_initContainers = [], pod_volumes = [], pod_volumeMounts = [],
      pod_priorityClassName = '''', pod_schedulerName = ''''\<rparr>"

record K6Scuttle =
  sc_enabled :: string
  sc_envoyAdminApi :: string
  sc_neverKillIstio :: bool
  sc_neverKillIstioOnFailure :: bool
  sc_disableLogging :: bool
  sc_startWithoutEnvoy :: bool
  sc_waitForEnvoyTimeout :: string
  sc_istioQuitApi :: string
  sc_genericQuitEndpoint :: string
  sc_quitWithoutEnvoyTimeout :: string

definition zero_scuttle :: K6Scuttle where
  "zero_scuttle =
     \<lparr>sc_enabled = '''', sc_envoyAdminApi = '''', sc_neverKillIstio = False,
      sc_neverKillIstioOnFailure = False, sc_disableLogging = False, sc_startWithoutEnvoy = False,
      sc_waitForEnvoyTimeout = '''', sc_istioQuitApi = '''', sc_genericQuitEndpoint = '''',
      sc_quitWithoutEnvoyTimeout = ''''\<rparr>"

record K6VolumeClaim =
  vc_name :: string
  vc_file :: string
  vc_readOnly :: bool

record K6Configmap =
  cm_name :: string
  cm_file :: string

record K6Script =
  ks_volumeClaim :: K6VolumeClaim
  ks_configMap :: K6Configmap
  ks_localFile :: string

definition zero_script :: K6Script where
  "zero_script =
     \<lparr>ks_volumeClaim = \<lparr>vc_name = '''', vc_file = '''', vc_readOnly = False\<rparr>,
      ks_configMap = \<lparr>cm_name = '''', cm_file = ''''\<rparr>, ks_localFile = ''''\<rparr>"

record TestRunSpec =
  spec_script :: K6Script
  spec_parallelism :: "32 word"
  spec_separate :: bool
  spec_arguments :: string
  spec_args :: "string list"
  spec_ports :: "container_port list"
  spec_initializer :: "Pod option"
  spec_starter :: Pod
  spec_runner :: Pod
  spec_quiet :: string
  spec_paused :: string
  spec_scuttle :: K6Scuttle
  spec_cleanup :: string
  spec_testRunID :: string
  spec_token :: string

definition zero_spec :: TestRunSpec where
  "zero_spec =
     \<lparr>spec_script = zero_script, spec_parallelism = 0, spec_separate = False,
      spec_arguments = '''', spec_args = [], spec_ports = [], spec_initializer = None,
      spec_starter = zero_pod, spec_runner = zero_pod, spec_quiet = '''', spec_paused = '''',
      spec_scuttle = zero_scuttle, spec_cleanup = '''', spec_testRunID = '''', spec_token = ''''\<rparr>"

type_synonym Stage = string

record TestRunStatus =
  st_conditions :: conditions
  st_stage :: Stage
  st_testRunID :: string
  st_aggregationVars :: string

definition zero_status :: TestRunStatus where
  "zero_status = \<lparr>st_conditions = [], st_stage = '''', st_testRunID = '''', st_aggregationVars = ''''\<rparr>"

record TestRun =
  tr_name :: string
  tr_namespace :: string
  tr_spec :: TestRunSpec
  tr_status :: TestRunStatus

section \<open>Operations on the specification\<close>

definition usesArgs :: "TestRunSpec \<Rightarrow> bool" where
  "usesArgs k6 \<longleftrightarrow> length (spec_args k6) > 0"

definition Argv :: "TestRunSpec \<Rightarrow> string list" where
  "Argv k6 =
     (if usesArgs k6 then spec_args k6
      else (let argv = Fields (spec_arguments k6) in if length argv > 0 then argv else []))"

definition NeedsShellCmd :: "TestRunSpec \<Rightarrow> bool" where
  "NeedsShellCmd k6 \<longleftrightarrow> \<not> usesArgs k6"

definition scuttle_warning :: string where
  "scuttle_warning = ''`.spec.scuttle` is deprecated and will be removed in the future. See https://grafana.com/docs/k6/latest/set-up/set-up-distributed-k6/usage/istio/ on how to set up Istio.''"

definition Validate :: "TestRunSpec \<Rightarrow> string list \<times> string option" where
  "Validate k6 =
     ((if length (sc_enabled (spec_scuttle k6)) > 0 then [scuttle_warning] else []),
      snd (ParseCLI (Argv k6)))"

definition parse_volume_claim :: "K6VolumeClaim \<Rightarrow> Script" where
  "parse_volume_claim vc =
     (let (path, filename, ro) =
            (if vc_file vc \<noteq> '''' then
               (let (p, f) = filepath_Split (vc_file vc) in
                if \<not> filepath_IsAbs p then ('''', vc_file vc, vc_readOnly vc)
                else (p, f, vc_readOnly vc))
             else ('''', '''', False));
          path' = (if path = '''' then ''/test/'' else path);
          filename' = (if filename = '''' then ''test.js'' else filename)
      in \<lparr>s_Name = vc_name vc, s_ReadOnly = ro, s_Filename = filename', s_Path = path',
          s_Type = ''VolumeClaim''\<rparr>)"

definition script_error :: string where
  "script_error = ''script definition should contain one of: ConfigMap, VolumeClaim, LocalFile''"

definition ParseScript :: "TestRunSpec \<Rightarrow> string + Script" where
  "ParseScript k6 =
     (let spec = spec_script k6 in
      if vc_name (ks_volumeClaim spec) \<noteq> '''' then Inr (parse_volume_claim (ks_volumeClaim spec))
      else if cm_name (ks_configMap spec) \<noteq> '''' then
        Inr \<lparr>s_Name = cm_name (ks_configMap spec), s_ReadOnly = False,
             s_Filename = (if cm_file (ks_configMap spec) \<noteq> '''' then cm_file (ks_configMap spec)
                           else ''test.js''),
             s_Path = ''/test/'', s_Type = ''ConfigMap''\<rparr>
      else if ks_localFile spec \<noteq> '''' then
        (let (p, f) = filepath_Split (ks_localFile spec) in
         Inr \<lparr>s_Name = ''LocalFile'', s_ReadOnly = False, s_Filename = f, s_Path = p,
              s_Type = ''LocalFile''\<rparr>)
      else Inl script_error)"

definition NamespacedName :: "TestRun \<Rightarrow> namespaced_name" where
  "NamespacedName k6 = \<lparr>nn_namespace = tr_namespace k6, nn_name = tr_name k6\<rparr>"

definition TestRunID :: "TestRun \<Rightarrow> string" where
  "TestRunID k6 =
     (let specId = spec_testRunID (tr_spec k6) in
      if length specId > 0 then specId else st_testRunID (tr_status k6))"

definition ListOptions :: "TestRun \<Rightarrow> list_options" where
  "ListOptions k6 =
     \<lparr>lo_namespace = tr_namespace k6,
      lo_selector = [(''app'', ''k6''), (''k6_cr'', tr_name k6), (''runner'', ''true'')]\<rparr>"

definition IsInitializerDisabled :: "TestRun \<Rightarrow> bool" where
  "IsInitializerDisabled k6 =
     (case spec_initializer (tr_spec k6) of None \<Rightarrow> False | Some p \<Rightarrow> pod_disabled p)"

section \<open>Operations on the status\<close>

abbreviation tr_conditions :: "TestRun \<Rightarrow> conditions" where
  "tr_conditions k6 \<equiv> st_conditions (tr_status k6)"

definition set_conditions :: "conditions \<Rightarrow> TestRun \<Rightarrow> TestRun" where
  "set_conditions cs k6 = k6\<lparr>tr_status := (tr_status k6)\<lparr>st_conditions := cs\<rparr>\<rparr>"

definition set_stage :: "Stage \<Rightarrow> TestRun \<Rightarrow> TestRun" where
  "set_stage s k6 = k6\<lparr>tr_status := (tr_status k6)\<lparr>st_stage := s\<rparr>\<rparr>"

definition TestRun_UpdateCondition ::
    "meta_api \<Rightarrow> int \<Rightarrow> TestRun \<Rightarrow> string \<Rightarrow> ConditionStatus \<Rightarrow> string + TestRun" where
  "TestRun_UpdateCondition M now k6 conditionType conditionStatus =
     map_sum id (\<lambda>cs. set_conditions cs k6)
       (UpdateCondition M now (tr_conditions k6) conditionType conditionStatus)"

definition IsTrue :: "meta_api \<Rightarrow> TestRun \<Rightarrow> string \<Rightarrow> bool" where
  "IsTrue M k6 conditionType = IsStatusConditionTrue M (tr_conditions k6) conditionType"

definition IsFalse :: "meta_api \<Rightarrow> TestRun \<Rightarrow> string \<Rightarrow> bool" where
  "IsFalse M k6 conditionType = IsStatusConditionFalse M (tr_conditions k6) conditionType"

definition IsUnknown :: "meta_api \<Rightarrow> TestRun \<Rightarrow> string \<Rightarrow> bool" where
  "IsUnknown M k6 conditionType \<longleftrightarrow> \<not> IsFalse M k6 conditionType \<and> \<not> IsTrue M k6 conditionType"

definition LastUpdate :: "meta_api \<Rightarrow> int \<Rightarrow> TestRun \<Rightarrow> string \<Rightarrow> int \<times> bool" where
  "LastUpdate M now k6 conditionType =
     (case FindStatusCondition M (tr_conditions k6) conditionType of
        Some c \<Rightarrow> (ctime c, True)
      | None \<Rightarrow> (now, False))"

text \<open>Several condition updates in a row, each at its own reading of the clock.\<close>

fun update_conditions ::
    "meta_api \<Rightarrow> (nat \<Rightarrow> int) \<Rightarrow> nat \<Rightarrow> (string \<times> ConditionStatus) list \<Rightarrow> TestRun \<Rightarrow> string + TestRun" where
  "update_conditions M clk i [] k6 = Inr k6"
| "update_conditions M clk i ((t, st) # us) k6 =
     (case TestRun_UpdateCondition M (clk i) k6 t st of
        Inl p \<Rightarrow> Inl p
      | Inr k6' \<Rightarrow> update_conditions M clk (Suc i) us k6')"

definition initial_conditions :: "int \<Rightarrow> conditions" where
  "initial_conditions t =
     [\<lparr>ctype = ''CloudTestRun'', cstatus = ConditionUnknown, ctime = t,
       creason = ''TestRunTypeUnknown'', cmessage = ''''\<rparr>,
      \<lparr>ctype = ''TestRunRunning'', cstatus = ConditionUnknown, ctime = t,
       creason = ''TestRunPreparation'', cmessage = ''''\<rparr>,
      \<lparr>ctype = ''TeardownExecuted'', cstatus = ConditionFalse, ctime = t,
       creason = ''TeardownExecutedFalse'', cmessage = ''''\<rparr>]"

definition Initialize :: "meta_api \<Rightarrow> (nat \<Rightarrow> int) \<Rightarrow> TestRun \<Rightarrow> string + TestRun" where
  "Initialize M clk k6 =
     (let k6a = set_conditions (initial_conditions (clk 0)) k6 in
      case TestRun_UpdateCondition M (clk 1) k6a ''CloudTestRunAborted'' ConditionFalse of
        Inl p \<Rightarrow> Inl p
      | Inr k6b \<Rightarrow>
          if length (spec_testRunID (tr_spec k6b)) > 0 then
            map_sum id (\<lambda>k6c. k6c\<lparr>tr_status :=
                (tr_status k6c)\<lparr>st_testRunID := spec_testRunID (tr_spec k6c)\<rparr>\<rparr>)
              (update_conditions M clk 2
                 [(''CloudPLZTestRun'', ConditionTrue), (''CloudTestRunCreated'', ConditionTrue),
                  (''CloudTestRunFinalized'', ConditionFalse)] k6b)
          else TestRun_UpdateCondition M (clk 2) k6b ''CloudPLZTestRun'' ConditionFalse)"

text \<open>
  The callback of \<open>SetIfNewer\<close>, on the two fields of the status it captures: the test run id and
  the aggregation variables.
\<close>

definition status_callback ::
    "TestRunStatus \<Rightarrow> string \<times> string \<Rightarrow> condition \<Rightarrow> (string \<times> string) \<times> bool" where
  "status_callback proposed = (\<lambda>(trid, aggr) p.
     let (trid', isNewer) =
           (if ctype p = ''CloudTestRunCreated'' \<and> length trid = 0
               \<and> length (st_testRunID proposed) > 0
            then (st_testRunID proposed, True) else (trid, False));
         aggr' = (if length (st_aggregationVars proposed) > 0 \<and> length aggr = 0
                  then st_aggregationVars proposed else aggr)
     in ((trid', aggr'), isNewer))"

text \<open>The stages the switch lets a status move to.\<close>

definition stage_step :: "Stage \<Rightarrow> Stage \<Rightarrow> bool" where
  "stage_step cur prop \<longleftrightarrow>
     (if cur = '''' \<or> cur = ''initialization'' then True
      else if cur = ''initialized'' then \<not> HasPrefix prop ''init''
      else if cur = ''created'' then
        prop = ''started'' \<or> prop = ''finished'' \<or> prop = ''error'' \<or> prop = ''stopped''
      else if cur = ''started'' then prop = ''stopped'' \<or> prop = ''finished'' \<or> prop = ''error''
      else if cur = ''stopped'' then prop = ''finished'' \<or> prop = ''error''
      else False)"

definition TestRunStatus_SetIfNewer ::
    "meta_api \<Rightarrow> TestRunStatus \<Rightarrow> TestRunStatus \<Rightarrow> TestRunStatus \<times> bool" where
  "TestRunStatus_SetIfNewer M k6status proposed =
     (case SetIfNewer M (st_conditions k6status) (st_conditions proposed)
             (Some (status_callback proposed)) (st_testRunID k6status, st_aggregationVars k6status) of
        (conds, (trid, aggr), isNewer) \<Rightarrow>
          let k6status' = k6status\<lparr>st_conditions := conds, st_testRunID := trid,
                                   st_aggregationVars := aggr\<rparr>
          in if st_stage k6status' \<noteq> st_stage proposed \<and> length (st_stage proposed) > 0
                \<and> stage_step (st_stage k6status') (st_stage proposed)
             then (k6status'\<lparr>st_stage := st_stage proposed\<rparr>, True)
             else (k6status', isNewer))"

section \<open>How a status moves on\<close>

definition stages :: "Stage list" where
  "stages = ['''', ''initialization'', ''initialized'', ''created'', ''started'', ''stopped'',
             ''finished'', ''error'']"

text \<open>The position of a stage in the life of a test run; the two last stages are final.\<close>

definition stage_rank :: "Stage \<Rightarrow> nat" where
  "stage_rank s =
     (if s = '''' then 0 else if s = ''initialization'' then 1 else if s = ''initialized'' then 2
      else if s = ''created'' then 3 else if s = ''started'' then 4 else if s = ''stopped'' then 5
      else 6)"

definition final_stage :: "Stage \<Rightarrow> bool" where
  "final_stage s \<longleftrightarrow> s = ''finished'' \<or> s = ''error''"

lemma stage_step_rank_all:
  "list_all (\<lambda>cur. list_all (\<lambda>prop. prop \<noteq> '''' \<longrightarrow> prop \<noteq> cur \<longrightarrow> stage_step cur prop \<longrightarrow>
     stage_rank cur < stage_rank prop) stages) stages"
  by code_simp

lemma stage_step_rank:
  "cur \<in> set stages \<Longrightarrow> prop \<in> set stages \<Longrightarrow> prop \<noteq> '''' \<Longrightarrow> prop \<noteq> cur \<Longrightarrow>
   stage_step cur prop \<Longrightarrow> stage_rank cur < stage_rank prop"
  using stage_step_rank_all unfolding list_all_iff by blast

lemma stage_step_final: "final_stage cur \<Longrightarrow> \<not> stage_step cur prop"
  by (auto simp: final_stage_def stage_step_def)

lemma callback_fold_status:
  "callback_fold (status_callback prop) cs (trid, aggr) =
     (((if trid = [] \<and> ''CloudTestRunCreated'' \<in> set (types_of cs) then st_testRunID prop else trid),
       (if aggr = [] \<and> cs \<noteq> [] then st_aggregationVars prop else aggr)),
      trid = [] \<and> st_testRunID prop \<noteq> [] \<and> ''CloudTestRunCreated'' \<in> set (types_of cs))"
  by (induction cs arbitrary: trid aggr) (auto simp: status_callback_def)

text \<open>The whole of \<open>SetIfNewer\<close> on a TestRun status, in closed form.\<close>

lemma TestRunStatus_SetIfNewer_eq:
  "TestRunStatus_SetIfNewer M st prop =
     (let ex = existing_conditions (st_conditions st);
          created = ''CloudTestRunCreated'' \<in> set (types_of (st_conditions prop));
          move = st_stage st \<noteq> st_stage prop \<and> st_stage prop \<noteq> [] \<and> stage_step (st_stage st) (st_stage prop)
      in (\<lparr>st_conditions = fold (accept_condition M ex) (st_conditions prop) (st_conditions st),
           st_stage = (if move then st_stage prop else st_stage st),
           st_testRunID = (if st_testRunID st = [] \<and> created then st_testRunID prop else st_testRunID st),
           st_aggregationVars = (if st_aggregationVars st = [] \<and> st_conditions prop \<noteq> []
                                 then st_aggregationVars prop else st_aggregationVars st)\<rparr>,
          move \<or> (\<exists>p \<in> set (st_conditions prop). accepted ex p)
          \<or> st_testRunID st = [] \<and> st_testRunID prop \<noteq> [] \<and> created))"
  by (cases st) (simp add: TestRunStatus_SetIfNewer_def SetIfNewer_Some_eq callback_fold_status Let_def)

section \<open>Conditions of a TestRun\<close>

lemma set_conditions_simps [simp]:
  "tr_conditions (set_conditions cs k6) = cs" "tr_spec (set_conditions cs k6) = tr_spec k6"
  "tr_name (set_conditions cs k6) = tr_name k6" "tr_namespace (set_conditions cs k6) = tr_namespace k6"
  "st_stage (tr_status (set_conditions cs k6)) = st_stage (tr_status k6)"
  "st_testRunID (tr_status (set_conditions cs k6)) = st_testRunID (tr_status k6)"
  "set_conditions cs' (set_conditions cs k6) = set_conditions cs' k6"
  by (simp_all add: set_conditions_def)

lemma TestRun_UpdateCondition_frame:
  "TestRun_UpdateCondition M now k6 t st = Inr k6' \<Longrightarrow> \<exists>cs. k6' = set_conditions cs k6"
  by (auto simp: TestRun_UpdateCondition_def map_sum_def split: sum.splits)

lemma TestRun_UpdateCondition_spec:
  "TestRun_UpdateCondition M now k6 t st = Inr k6' \<Longrightarrow> tr_spec k6' = tr_spec k6"
  by (auto dest: TestRun_UpdateCondition_frame)

context status_conditions
begin

lemmas tr_status_simps = IsTrue_def IsFalse_def IsUnknown_def is_true_iff is_false_iff

lemma TestRun_UpdateCondition_effect:
  assumes "t \<in> set operator_condition_types"
  obtains cs' where "TestRun_UpdateCondition M now k6 t st = Inr (set_conditions cs' k6)"
    and "status_of M cs' = (status_of M (tr_conditions k6))(t \<mapsto> st)"
    and "types_of cs' = (if t \<in> set (types_of (tr_conditions k6)) then types_of (tr_conditions k6)
                         else types_of (tr_conditions k6) @ [t])"
  using UpdateCondition_effect [OF assms, of now "tr_conditions k6" st]
  by (metis TestRun_UpdateCondition_def map_sum.simps(2))

lemma update_conditions_effect:
  assumes "set (map fst us) \<subseteq> set operator_condition_types"
  shows "\<exists>cs'. update_conditions M clk i us k6 = Inr (set_conditions cs' k6)
    \<and> status_of M cs' = status_of M (tr_conditions k6) ++ map_of (rev us)
    \<and> (distinct (types_of (tr_conditions k6)) \<longrightarrow> distinct (types_of cs'))"
  using assms
proof (induction us arbitrary: i k6)
  case Nil
  show ?case by (rule exI [of _ "tr_conditions k6"]) (simp add: set_conditions_def)
next
  case (Cons u us)
  obtain t st where u: "u = (t, st)" by fastforce
  obtain cs1 where cs1: "TestRun_UpdateCondition M (clk i) k6 t st = Inr (set_conditions cs1 k6)"
    "status_of M cs1 = (status_of M (tr_conditions k6))(t \<mapsto> st)"
    "types_of cs1 = (if t \<in> set (types_of (tr_conditions k6)) then types_of (tr_conditions k6)
                     else types_of (tr_conditions k6) @ [t])"
    using TestRun_UpdateCondition_effect [of t "clk i" k6 st] Cons.prems u by auto
  obtain cs' where cs': "update_conditions M clk (Suc i) us (set_conditions cs1 k6) = Inr (set_conditions cs' k6)"
    "status_of M cs' = status_of M cs1 ++ map_of (rev us)"
    "distinct (types_of cs1) \<longrightarrow> distinct (types_of cs')"
    using Cons.IH [of "Suc i" "set_conditions cs1 k6"] Cons.prems by auto
  have "(status_of M (tr_conditions k6))(t \<mapsto> st) ++ map_of (rev us) =
      status_of M (tr_conditions k6) ++ map_of (rev (u # us))"
    by (rule ext) (simp add: u map_add_def split: option.splits)
  moreover have "distinct (types_of (tr_conditions k6)) \<longrightarrow> distinct (types_of cs')"
    using cs1(3) cs'(3) by (simp split: if_splits)
  ultimately show ?case
    using cs1(1,2) cs'(1,2) u by (intro exI [of _ cs'] conjI) simp_all
qed

end

section \<open>Properties\<close>

text \<open>
  C17. The stage of a stored status never goes back: merging any proposed status (with stages of the
  resource definition) leaves the stage where it is or moves it strictly forward in the order
  initialization, initialized, created, started, stopped, finished/error, in which case the merge
  reports a change; the stages finished and error are never left.
\<close>

theorem stage_never_goes_back:
  assumes "TestRunStatus_SetIfNewer M st prop = (st', isNewer)"
    and "st_stage st \<in> set stages" and "st_stage prop \<in> set stages"
  shows "st_stage st' \<in> set stages \<and> stage_rank (st_stage st) \<le> stage_rank (st_stage st')
    \<and> (st_stage st' \<noteq> st_stage st \<longrightarrow>
         isNewer \<and> stage_rank (st_stage st) < stage_rank (st_stage st') \<and> \<not> final_stage (st_stage st))"
proof -
  let ?move = "st_stage st \<noteq> st_stage prop \<and> st_stage prop \<noteq> [] \<and> stage_step (st_stage st) (st_stage prop)"
  have eq: "st_stage st' = (if ?move then st_stage prop else st_stage st)" "?move \<Longrightarrow> isNewer"
    using assms(1) by (auto simp: TestRunStatus_SetIfNewer_eq Let_def)
  show ?thesis
  proof (cases ?move)
    case True
    then have "stage_rank (st_stage st) < stage_rank (st_stage prop)"
      using assms(2,3) by (auto intro: stage_step_rank)
    with True eq assms(3) show ?thesis by (auto dest: stage_step_final)
  qed (use eq assms(2) in auto)
qed

theorem stage_never_goes_back_witness:
  "TestRunStatus_SetIfNewer documented_meta (zero_status\<lparr>st_stage := ''stopped''\<rparr>)
     (zero_status\<lparr>st_stage := ''started''\<rparr>) = (zero_status\<lparr>st_stage := ''stopped''\<rparr>, False)
   \<and> stage_rank ''stopped'' \<le> stage_rank ''stopped''"
proof -
  have run: "TestRunStatus_SetIfNewer documented_meta (zero_status\<lparr>st_stage := ''stopped''\<rparr>)
     (zero_status\<lparr>st_stage := ''started''\<rparr>) = (zero_status\<lparr>st_stage := ''stopped''\<rparr>, False)"
    by code_simp
  show ?thesis using run stage_never_goes_back [OF run] by (simp add: stages_def)
qed

text \<open>
  The test run id and the aggregation variables are written at most once: once set they never
  change, the id is only ever taken from the proposed status, and only together with the condition
  \<open>CloudTestRunCreated\<close>. When no change is reported, conditions, stage and id are as before.
\<close>

lemma test_run_id_written_once:
  assumes "TestRunStatus_SetIfNewer M st prop = (st', isNewer)"
  shows "(st_testRunID st \<noteq> '''' \<longrightarrow> st_testRunID st' = st_testRunID st)
    \<and> (st_aggregationVars st \<noteq> '''' \<longrightarrow> st_aggregationVars st' = st_aggregationVars st)
    \<and> (st_testRunID st' \<noteq> st_testRunID st \<longrightarrow>
         st_testRunID st' = st_testRunID prop \<and> isNewer
         \<and> ''CloudTestRunCreated'' \<in> set (types_of (st_conditions prop)))
    \<and> (\<not> isNewer \<longrightarrow> st_conditions st' = st_conditions st \<and> st_stage st' = st_stage st
         \<and> st_testRunID st' = st_testRunID st)"
proof -
  let ?ex = "existing_conditions (st_conditions st)" and ?ps = "st_conditions prop"
  have st': "st' = fst (TestRunStatus_SetIfNewer M st prop)"
    "isNewer = snd (TestRunStatus_SetIfNewer M st prop)" using assms by simp_all
  have eqs: "st_conditions st' = fold (accept_condition M ?ex) ?ps (st_conditions st)"
    "\<not> isNewer \<Longrightarrow> \<forall>p \<in> set ?ps. \<not> accepted ?ex p"
    using assms by (auto simp: TestRunStatus_SetIfNewer_eq Let_def)
  then have "\<not> isNewer \<Longrightarrow> st_conditions st' = st_conditions st"
    by (simp add: fold_accept_none)
  moreover have "st_testRunID st' = (if st_testRunID st = [] \<and> ''CloudTestRunCreated'' \<in> set (types_of ?ps)
      then st_testRunID prop else st_testRunID st)"
    "st_aggregationVars st' = (if st_aggregationVars st = [] \<and> ?ps \<noteq> []
      then st_aggregationVars prop else st_aggregationVars st)"
    "st_testRunID st = [] \<and> st_testRunID prop \<noteq> [] \<and> ''CloudTestRunCreated'' \<in> set (types_of ?ps) \<Longrightarrow> isNewer"
    "st_stage st' \<noteq> st_stage st \<Longrightarrow> isNewer"
    unfolding st' by (simp_all add: TestRunStatus_SetIfNewer_eq Let_def split: if_splits)
  ultimately show ?thesis by (auto split: if_splits)
qed

text \<open>
  \<open>SetIfNewer\<close> can take over proposed aggregation variables and yet report that nothing changed:
  then the caller does not store them. (Only a status with no other change is affected.)
\<close>

lemma aggregation_vars_not_reported:
  "\<exists>st prop st'. TestRunStatus_SetIfNewer documented_meta st prop = (st', False)
     \<and> st_aggregationVars st' \<noteq> st_aggregationVars st"
proof -
  let ?c = "[example_condition ''CloudTestRun'' ConditionTrue 1]"
  have "TestRunStatus_SetIfNewer documented_meta (zero_status\<lparr>st_conditions := ?c\<rparr>)
      (zero_status\<lparr>st_conditions := ?c, st_aggregationVars := ''2|''\<rparr>) =
      (zero_status\<lparr>st_conditions := ?c, st_aggregationVars := ''2|''\<rparr>, False)"
    by code_simp
  then show ?thesis by (force simp: zero_status_def)
qed

text \<open>The conditions \<open>Initialize\<close> writes after the three initial ones, and what it leaves.\<close>

definition initial_updates :: "TestRun \<Rightarrow> (string \<times> ConditionStatus) list" where
  "initial_updates k6 = (''CloudTestRunAborted'', ConditionFalse)
     # (if spec_testRunID (tr_spec k6) \<noteq> '''' then
         [(''CloudPLZTestRun'', ConditionTrue), (''CloudTestRunCreated'', ConditionTrue),
          (''CloudTestRunFinalized'', ConditionFalse)] else [(''CloudPLZTestRun'', ConditionFalse)])"

definition initial_testRunID :: "TestRun \<Rightarrow> string" where
  "initial_testRunID k6 =
     (if spec_testRunID (tr_spec k6) \<noteq> '''' then spec_testRunID (tr_spec k6) else st_testRunID (tr_status k6))"

lemma Initialize_effect:
  assumes "status_conditions M"
  obtains cs where "Initialize M clk k6 = Inr (k6\<lparr>tr_status :=
      (tr_status k6)\<lparr>st_conditions := cs, st_testRunID := initial_testRunID k6\<rparr>\<rparr>)"
    and "distinct (types_of cs)"
    and "status_of M cs = [''CloudTestRun'' \<mapsto> ConditionUnknown, ''TestRunRunning'' \<mapsto> ConditionUnknown,
      ''TeardownExecuted'' \<mapsto> ConditionFalse] ++ map_of (rev (initial_updates k6))"
proof -
  note ops = status_conditions.update_conditions_effect [OF assms]
  let ?k0 = "set_conditions (initial_conditions (clk 0)) k6"
  have st0: "status_of M (initial_conditions (clk 0)) = [''CloudTestRun'' \<mapsto> ConditionUnknown,
      ''TestRunRunning'' \<mapsto> ConditionUnknown, ''TeardownExecuted'' \<mapsto> ConditionFalse]"
    by (rule ext) (simp add: status_of_def initial_conditions_def
        status_conditions.lookup_Cons [OF assms] status_conditions.lookup_Nil [OF assms])
  have "\<exists>cs. update_conditions M clk 1 (initial_updates k6) ?k0 = Inr (set_conditions cs ?k0)
      \<and> status_of M cs = status_of M (tr_conditions ?k0) ++ map_of (rev (initial_updates k6))
      \<and> (distinct (types_of (tr_conditions ?k0)) \<longrightarrow> distinct (types_of cs))"
    by (rule ops) (simp add: operator_condition_types_def initial_updates_def)
  moreover have "distinct (types_of (tr_conditions ?k0))" by (simp add: initial_conditions_def)
  ultimately obtain cs where cs: "update_conditions M clk 1 (initial_updates k6) ?k0 = Inr (set_conditions cs ?k0)"
    "status_of M cs = status_of M (initial_conditions (clk 0)) ++ map_of (rev (initial_updates k6))"
    "distinct (types_of cs)"
    by auto
  show thesis
  proof (rule that [OF _ cs(3)])
    show "Initialize M clk k6 = Inr (k6\<lparr>tr_status :=
        (tr_status k6)\<lparr>st_conditions := cs, st_testRunID := initial_testRunID k6\<rparr>\<rparr>)"
    proof (cases "spec_testRunID (tr_spec k6) = ''''")
      case True
      with cs(1) have "Initialize M clk k6 = Inr (set_conditions cs k6)"
        by (auto simp: Initialize_def initial_updates_def numeral_2_eq_2
            dest: TestRun_UpdateCondition_spec split: sum.splits)
      with True show ?thesis by (simp add: set_conditions_def initial_testRunID_def)
    next
      case False
      with cs(1) have "Initialize M clk k6 = Inr ((set_conditions cs k6)\<lparr>tr_status :=
          (tr_status (set_conditions cs k6))\<lparr>st_testRunID := spec_testRunID (tr_spec k6)\<rparr>\<rparr>)"
        by (auto simp: Initialize_def initial_updates_def numeral_2_eq_2
            dest: TestRun_UpdateCondition_spec split: sum.splits)
      with False show ?thesis by (simp add: set_conditions_def initial_testRunID_def)
    qed
  qed (simp add: cs(2) st0)
qed

text \<open>
  \<open>Initialize\<close> never panics and leaves a status in which every condition type occurs once, the
  test is not running, its kind is unknown, it is not aborted, and it is a PLZ test run exactly when
  the specification carries a test run id, which is then the id of the status, created and not
  finalized; a run that is no PLZ test run gets no condition on its creation.
\<close>

lemma Initialize_ok:
  assumes "status_conditions M"
  shows "\<exists>k6'. Initialize M clk k6 = Inr k6' \<and> distinct (types_of (tr_conditions k6'))
      \<and> tr_spec k6' = tr_spec k6 \<and> st_stage (tr_status k6') = st_stage (tr_status k6)
      \<and> IsUnknown M k6' ''CloudTestRun'' \<and> IsUnknown M k6' ''TestRunRunning''
      \<and> IsFalse M k6' ''TeardownExecuted'' \<and> IsFalse M k6' ''CloudTestRunAborted''
      \<and> (if spec_testRunID (tr_spec k6) \<noteq> ''''
         then IsTrue M k6' ''CloudPLZTestRun'' \<and> IsTrue M k6' ''CloudTestRunCreated''
           \<and> IsFalse M k6' ''CloudTestRunFinalized''
           \<and> st_testRunID (tr_status k6') = spec_testRunID (tr_spec k6)
         else IsFalse M k6' ''CloudPLZTestRun'' \<and> IsUnknown M k6' ''CloudTestRunCreated''
           \<and> st_testRunID (tr_status k6') = st_testRunID (tr_status k6))"
proof -
  obtain cs where cs: "Initialize M clk k6 = Inr (k6\<lparr>tr_status :=
      (tr_status k6)\<lparr>st_conditions := cs, st_testRunID := initial_testRunID k6\<rparr>\<rparr>)"
    "distinct (types_of cs)"
    "status_of M cs = [''CloudTestRun'' \<mapsto> ConditionUnknown, ''TestRunRunning'' \<mapsto> ConditionUnknown,
      ''TeardownExecuted'' \<mapsto> ConditionFalse] ++ map_of (rev (initial_updates k6))"
    by (rule Initialize_effect [OF assms])
  show ?thesis
    by (simp add: cs IsTrue_def IsFalse_def IsUnknown_def map_add_def initial_updates_def initial_testRunID_def
        status_conditions.is_true_iff [OF assms] status_conditions.is_false_iff [OF assms])
qed

lemma filepath_Split_parts:
  assumes "filepath_Split p = (d, f)"
  shows "p = d @ f" and "f = '''' \<longleftrightarrow> p = '''' \<or> HasSuffix p ''/''"
    and "filepath_IsAbs d \<longleftrightarrow> filepath_IsAbs p"
proof -
  show "p = d @ f" using assms filepath_Split_join [of p] by simp
  have "f = '''' \<longleftrightarrow> takeWhile (\<lambda>c. c \<noteq> CHR ''/'') (rev p) = []"
    using assms by (auto simp: filepath_Split_def Let_def)
  also have "\<dots> \<longleftrightarrow> p = '''' \<or> HasSuffix p ''/''"
    by (cases "rev p") (auto simp: HasSuffix_def HasPrefix_def)
  finally show "f = '''' \<longleftrightarrow> p = '''' \<or> HasSuffix p ''/''" .
  show "filepath_IsAbs d \<longleftrightarrow> filepath_IsAbs p"
    using assms filepath_Split_IsAbs [of p] by simp
qed

text \<open>Where the script of a volume claim is found, given the file the claim names.\<close>

definition volume_claim_script :: "string \<Rightarrow> string" where
  "volume_claim_script file =
     (if file = '''' then ''/test/test.js''
      else if filepath_IsAbs file then (if HasSuffix file ''/'' then file @ ''test.js'' else file)
      else ''/test/'' @ file)"

lemma parse_volume_claim_location:
  "FullName (parse_volume_claim vc) = volume_claim_script (vc_file vc)
   \<and> s_Type (parse_volume_claim vc) = ''VolumeClaim'' \<and> s_Filename (parse_volume_claim vc) \<noteq> ''''"
proof (cases "vc_file vc = ''''")
  case True
  then show ?thesis
    by (simp add: parse_volume_claim_def FullName_def volume_claim_script_def)
next
  case False
  obtain d f where df: "filepath_Split (vc_file vc) = (d, f)" by fastforce
  note parts = filepath_Split_parts [OF df]
  have r: "parse_volume_claim vc = \<lparr>s_Name = vc_name vc, s_ReadOnly = vc_readOnly vc,
      s_Filename = (if filepath_IsAbs d then (if f = [] then ''test.js'' else f) else vc_file vc),
      s_Path = (if filepath_IsAbs d \<and> d \<noteq> [] then d else ''/test/''), s_Type = ''VolumeClaim''\<rparr>"
    using False by (simp add: parse_volume_claim_def df)
  show ?thesis
  proof (cases "filepath_IsAbs d")
    case True
    then have "d \<noteq> []" by (auto simp: filepath_IsAbs_def HasPrefix_def)
    moreover have "volume_claim_script (vc_file vc) =
        (if HasSuffix (vc_file vc) ''/'' then vc_file vc @ ''test.js'' else vc_file vc)"
      using True False parts(3) by (simp add: volume_claim_script_def)
    moreover have "f = [] \<longleftrightarrow> HasSuffix (vc_file vc) ''/''" using False parts(2) by blast
    ultimately have "d @ (if f = [] then ''test.js'' else f) = volume_claim_script (vc_file vc)"
      using parts(1) by (cases "f = []") simp_all
    with \<open>d \<noteq> []\<close> True show ?thesis by (simp add: FullName_def r)
  next
    case nabs: False
    then have "volume_claim_script (vc_file vc) = ''/test/'' @ vc_file vc"
      using False parts(3) by (simp add: volume_claim_script_def)
    with nabs False show ?thesis by (simp add: FullName_def r)
  qed
qed

text \<open>
  \<open>ParseScript\<close> fails exactly when none of the three places is given, and otherwise the script
  is found where the pod has it: whenever a volume is mounted for it, the full name of the script
  lies below the mount path. A local file keeps its name; a file on a volume claim keeps an absolute
  name and is otherwise looked up below \<open>/test/\<close>.
\<close>

lemma ParseScript_location:
  "case ParseScript k6 of
     Inl e \<Rightarrow> vc_name (ks_volumeClaim (spec_script k6)) = '''' \<and> cm_name (ks_configMap (spec_script k6)) = ''''
       \<and> ks_localFile (spec_script k6) = ''''
   | Inr s \<Rightarrow>
       (\<forall>m \<in> set (VolumeMount s). HasPrefix (FullName s) (vm_mountPath m))
       \<and> (s_Type s = ''LocalFile'' \<longrightarrow> FullName s = ks_localFile (spec_script k6))
       \<and> (s_Type s = ''VolumeClaim'' \<longrightarrow>
            FullName s = volume_claim_script (vc_file (ks_volumeClaim (spec_script k6))))
       \<and> (s_Type s \<noteq> ''LocalFile'' \<longrightarrow> s_Filename s \<noteq> '''')"
proof (cases "vc_name (ks_volumeClaim (spec_script k6)) = ''''")
  case True
  then show ?thesis
    by (auto simp: ParseScript_def Let_def FullName_def VolumeMount_def HasPrefix_def
        dest: filepath_Split_parts(1) split: sum.splits if_splits prod.splits)
next
  case False
  let ?s = "parse_volume_claim (ks_volumeClaim (spec_script k6))"
  have "ParseScript k6 = Inr ?s" using False by (simp add: ParseScript_def)
  moreover have "\<forall>m \<in> set (VolumeMount ?s). HasPrefix (FullName ?s) (vm_mountPath m)"
    using parse_volume_claim_location [of "ks_volumeClaim (spec_script k6)", THEN conjunct2]
    by (simp add: VolumeMount_def) (simp add: FullName_def)
  ultimately show ?thesis
    using parse_volume_claim_location [of "ks_volumeClaim (spec_script k6)"] by simp
qed

text \<open>
  A volume claim asked for as read-only without naming the file is mounted writable: the
  setting is read only in the branch that handles a given file name.
\<close>

lemma volume_claim_read_only_ignored:
  assumes "vc_name (ks_volumeClaim (spec_script k6)) \<noteq> ''''"
    and "vc_file (ks_volumeClaim (spec_script k6)) = ''''"
  shows "\<exists>s. ParseScript k6 = Inr s \<and> VolumeMount s =
    [\<lparr>vm_name = ''k6-test-volume'', vm_mountPath = ''/test/'', vm_readOnly = False\<rparr>]"
  using assms by (simp add: ParseScript_def parse_volume_claim_def VolumeMount_def)

end
