(* ===== verification/K6_Jobs.thy ===== *)
theory K6_Jobs
  imports K6_TestRun K6_Cloud K6_Segmentation
begin

text \<open>
  \<open>pkg/resources\<close>: the jobs and services of a test run. \<open>containers/*.go\<close> builds the containers that
  talk to the runners and the one that downloads an archive, \<open>jobs/helpers.go\<close> holds what the
  builders share, then \<open>initializer.go\<close>, \<open>runner.go\<close>, \<open>starter.go\<close> and \<open>stopper.go\<close>. A nil map
  of annotations or labels is the empty map. \<open>NewInitializerJob\<close> writes to the specification of the
  test run it is given, so its model returns the test run as well.
\<close>

section \<open>Containers\<close>

definition squote :: string where
  "squote = [CHR 0x27]"

definition quoted :: "string \<Rightarrow> string" where
  "quoted s = dquote @ s @ dquote"

record StatusAPIRequestDataAttributes =
  sa_paused :: bool
  sa_stopped :: bool

record StatusAPIRequestData =
  sd_attributes :: StatusAPIRequestDataAttributes
  sd_id :: string
  sd_type :: string

text \<open>\<open>json.Marshal\<close> of a \<open>StatusAPIRequest\<close> whose strings need no escapes.\<close>

definition marshal_StatusAPIRequest :: "StatusAPIRequestData \<Rightarrow> string" where
  "marshal_StatusAPIRequest d =
     ''{'' @ quoted ''data'' @ '':{'' @ quoted ''attributes'' @ '':{'' @ quoted ''paused'' @ '':''
     @ FormatBool (sa_paused (sd_attributes d)) @ '','' @ quoted ''stopped'' @ '':''
     @ FormatBool (sa_stopped (sd_attributes d)) @ ''},'' @ quoted ''id'' @ '':'' @ quoted (sd_id d)
     @ '','' @ quoted ''type'' @ '':'' @ quoted (sd_type d) @ ''}}''"

definition start_request :: string where
  "start_request = marshal_StatusAPIRequest
     \<lparr>sd_attributes = \<lparr>sa_paused = False, sa_stopped = False\<rparr>, sd_id = ''default'', sd_type = ''status''\<rparr>"

definition stop_request :: string where
  "stop_request = marshal_StatusAPIRequest
     \<lparr>sd_attributes = \<lparr>sa_paused = False, sa_stopped = True\<rparr>, sd_id = ''default'', sd_type = ''status''\<rparr>"

definition curl_line :: "string \<Rightarrow> string \<Rightarrow> string" where
  "curl_line req hostname =
     ''curl --retry 3 -X PATCH -H '' @ squote @ ''Content-Type: application/json'' @ squote
     @ '' http://'' @ JoinHostPort hostname ''6565'' @ ''/v1/status -d '' @ squote @ req @ squote
     @ '' -s -w '' @ squote @ newline @ ''{'' @ quoted ''http_code'' @ '':%{http_code},''
     @ quoted ''time_total'' @ '':%{time_total},'' @ quoted ''time_starttransfer''
     @ '':%{time_starttransfer},'' @ quoted ''url'' @ '':'' @ quoted ''%{url_effective}'' @ '',''
     @ quoted ''remote_ip'' @ '':'' @ quoted ''%{remote_ip}'' @ '',''
     @ quoted ''errormsg'' @ '':'' @ quoted ''%{errormsg}'' @ ''}'' @ squote"

definition NewStartContainer ::
    "string list \<Rightarrow> string \<Rightarrow> string \<Rightarrow> string list \<Rightarrow> env_var list \<Rightarrow> opaque \<Rightarrow> resource_requirements
     \<Rightarrow> container" where
  "NewStartContainer hostnames img imagePullPolicy command env securityContext resources =
     zero_container\<lparr>c_name := ''k6-curl'', c_image := img, c_imagePullPolicy := imagePullPolicy,
       c_env := env, c_resources := resources,
       c_command := command @ [Join (map (curl_line start_request) hostnames) '';''],
       c_securityContext := Some securityContext\<rparr>"

definition NewStopContainer ::
    "string list \<Rightarrow> string \<Rightarrow> string \<Rightarrow> string list \<Rightarrow> env_var list \<Rightarrow> opaque \<Rightarrow> resource_requirements
     \<Rightarrow> container" where
  "NewStopContainer hostnames img imagePullPolicy command env securityContext resources =
     zero_container\<lparr>c_name := ''k6-curl'', c_image := img, c_imagePullPolicy := imagePullPolicy,
       c_env := env, c_resources := resources,
       c_command := command @ [Join (map (curl_line stop_request) hostnames) '';''],
       c_securityContext := Some securityContext\<rparr>"

definition NewS3InitContainer :: "string \<Rightarrow> string \<Rightarrow> volume_mount \<Rightarrow> InitContainer" where
  "NewS3InitContainer uri img volumeMount =
     \<lparr>ic_name = ''archive-download'', ic_image = img, ic_env = [], ic_envFrom = [],
      ic_command = [''sh'', ''-c'', ''curl -X GET -L '' @ squote @ uri @ squote
        @ '' > /test/archive.tar ; ls -l /test''],
      ic_args = [], ic_workingDir = '''', ic_volumeMounts = [volumeMount],
      ic_resources = zero_resources, ic_restartPolicy = None\<rparr>"

section \<open>Shared parts of the builders\<close>

definition newLabels :: "string \<Rightarrow> string gomap" where
  "newLabels name = [(''app'', ''k6''), (''k6_cr'', name)]"

text \<open>The loop by which every builder adds the labels of the user that are not taken yet.\<close>

fun add_labels :: "string gomap \<Rightarrow> string gomap \<Rightarrow> string gomap" where
  "add_labels labels [] = labels"
| "add_labels labels ((k, v) # user) =
     add_labels (if gomap_get labels k = None then gomap_set labels k v else labels) user"

definition newIstioCommand :: "string \<Rightarrow> string list \<Rightarrow> string list \<times> bool" where
  "newIstioCommand istioEnabled inheritedCommands =
     (let istio = (if istioEnabled \<noteq> '''' then ParseBool istioEnabled else False) in
      ((if istio then [''scuttle''] else []) @ inheritedCommands, istio))"

definition or_default :: "string \<Rightarrow> string \<Rightarrow> string" where
  "or_default s d = (if s \<noteq> '''' then s else d)"

definition newIstioEnvVar :: "K6Scuttle \<Rightarrow> bool \<Rightarrow> env_var list" where
  "newIstioEnvVar istio istioEnabled =
     (if istioEnabled then
        [env_value ''ENVOY_ADMIN_API'' (or_default (sc_envoyAdminApi istio) ''http://127.0.0.1:15000''),
         env_value ''ISTIO_QUIT_API'' (or_default (sc_istioQuitApi istio) ''http://127.0.0.1:15020''),
         env_value ''WAIT_FOR_ENVOY_TIMEOUT'' (or_default (sc_waitForEnvoyTimeout istio) ''15'')]
        @ (if sc_neverKillIstio istio
           then [env_value ''NEVER_KILL_ISTIO'' (FormatBool (sc_neverKillIstio istio))] else [])
        @ (if sc_neverKillIstioOnFailure istio
           then [env_value ''NEVER_KILL_ISTIO_ON_FAILURE'' (FormatBool (sc_neverKillIstioOnFailure istio))]
           else [])
        @ (if sc_disableLogging istio then [env_value ''SCUTTLE_LOGGING'' (FormatBool False)] else [])
        @ (if sc_startWithoutEnvoy istio
           then [env_value ''START_WITHOUT_ENVOY'' (FormatBool (sc_startWithoutEnvoy istio))] else [])
        @ (if sc_genericQuitEndpoint istio \<noteq> ''''
           then [env_value ''GENERIC_QUIT_ENDPOINT'' (sc_genericQuitEndpoint istio)] else [])
        @ (if sc_quitWithoutEnvoyTimeout istio \<noteq> ''''
           then [env_value ''QUIT_WITHOUT_ENVOY_TIMEOUT'' (sc_quitWithoutEnvoyTimeout istio)] else [])
      else [])"

definition init_container_of :: "Pod \<Rightarrow> Script \<Rightarrow> nat \<Rightarrow> InitContainer \<Rightarrow> container" where
  "init_container_of pod script i ic =
     zero_container\<lparr>
       c_name := (if ic_name ic \<noteq> '''' then ic_name ic else ''k6-init-'' @ itoa (int i)),
       c_image := ic_image ic, c_command := ic_command ic, c_args := ic_args ic,
       c_workingDir := ic_workingDir ic, c_envFrom := ic_envFrom ic, c_env := ic_env ic,
       c_volumeMounts := VolumeMount script @ ic_volumeMounts ic,
       c_imagePullPolicy := pod_imagePullPolicy pod,
       c_securityContext := Some (pod_containerSecurityContext pod),
       c_restartPolicy := ic_restartPolicy ic, c_resources := ic_resources ic\<rparr>"

definition getInitContainers :: "Pod \<Rightarrow> Script \<Rightarrow> container list" where
  "getInitContainers pod script =
     map (\<lambda>(i, ic). init_container_of pod script i ic) (enumerate 0 (pod_initContainers pod))"

section \<open>The initializer\<close>

definition initializerMissingK6Message :: string where
  "initializerMissingK6Message =
     ''level=error msg='' @ quoted ''k6 executable not found in PATH; initializer image must contain k6''"

definition initializerShellScript :: "string \<Rightarrow> string \<Rightarrow> string \<Rightarrow> string" where
  "initializerShellScript setup archiveRef archiveCmd =
     (let setup' = (if setup \<noteq> '''' then setup @ newline else setup);
          logs = quoted ''${logs}'' in
      Join
       [''if ! command -v k6 >/dev/null 2>&1; then'',
        ''  echo '' @ squote @ initializerMissingK6Message @ squote @ '' >&2'',
        ''  exit 127'',
        ''fi'',
        '''',
        ''logs=/tmp/k6logs'',
        setup',
        ''if ! mkdir -p '' @ quoted (''$(dirname '' @ archiveRef @ '')'') @ ''; then'',
        ''  exit 1'',
        ''fi'',
        '''',
        ''if ! '' @ archiveCmd @ '' 2> '' @ logs @ ''; then'',
        ''  cat '' @ logs,
        ''  exit 1'',
        ''fi'',
        '''',
        ''if ! k6 inspect --execution-requirements '' @ archiveRef @ '' 2> '' @ logs @ ''; then'',
        ''  cat '' @ logs,
        ''  exit 1'',
        ''fi'',
        '''',
        ''if grep '' @ squote @ ''level.*error'' @ squote @ '' '' @ logs @ ''; then'',
        ''  exit 1'',
        ''fi''] newline)"

definition initializerScript :: string where
  "initializerScript =
     initializerShellScript (''archive='' @ quoted ''$1'' @ newline @ ''shift'')
       (quoted ''${archive}'') (quoted ''$@'')"

definition newInitializerCommand ::
    "string \<Rightarrow> string \<Rightarrow> env_var list \<Rightarrow> string list \<Rightarrow> bool \<Rightarrow> string list" where
  "newInitializerCommand scriptName archiveName env archiveArgs needsShellCmd =
     (if needsShellCmd then
        (let envVarString = concat (map (\<lambda>ev. '' -e '' @ ev_name ev @ ''='' @ quoted (''${'' @ ev_name ev @ ''}'')) env);
             argLine = Join archiveArgs '' '';
             archiveCmd = ''k6 archive '' @ scriptName @ envVarString @ '' -O '' @ archiveName @ '' '' @ argLine
         in [initializerShellScript '''' archiveName archiveCmd])
      else
        [initializerScript, ''sh'', archiveName]
        @ [''k6'', ''archive'', scriptName]
        @ concat (map (\<lambda>ev. [''-e'', ev_name ev @ ''=$('' @ ev_name ev @ '')'']) env)
        @ [''-O'', archiveName] @ archiveArgs)"

definition default_or_parsed :: "string \<Rightarrow> bool \<Rightarrow> bool" where
  "default_or_parsed s d = (if s \<noteq> '''' then ParseBool s else d)"

definition api_port :: container_port where
  "api_port = \<lparr>cp_containerPort = 6565, cp_name = ''''\<rparr>"

text \<open>The test run with the initializer filled in from the runner when there is none.\<close>

definition fill_initializer :: "TestRun \<Rightarrow> TestRun" where
  "fill_initializer k6 =
     (case spec_initializer (tr_spec k6) of
        None \<Rightarrow> k6\<lparr>tr_spec := (tr_spec k6)\<lparr>spec_initializer := Some (spec_runner (tr_spec k6))\<rparr>\<rparr>
      | Some _ \<Rightarrow> k6)"

definition initializer_pod :: "TestRun \<Rightarrow> Pod" where
  "initializer_pod k6 =
     (case spec_initializer (tr_spec k6) of None \<Rightarrow> spec_runner (tr_spec k6) | Some p \<Rightarrow> p)"

definition NewInitializerJob :: "TestRun \<Rightarrow> string list \<Rightarrow> TestRun \<times> (string + job)" where
  "NewInitializerJob k6 archiveArgs =
     (case ParseScript (tr_spec k6) of
        Inl e \<Rightarrow> (k6, Inl e)
      | Inr script \<Rightarrow>
          (let pod = initializer_pod k6;
               labels = add_labels (newLabels (tr_name k6)) (pm_labels (pod_metadata pod));
               annotations = pm_annotations (pod_metadata pod);
               scriptName = FullName script;
               archiveName = ''/tmp/'' @ s_Filename script @ ''.archived.tar'';
               (istioCommand, istioEnabled) =
                 newIstioCommand (sc_enabled (spec_scuttle (tr_spec k6))) [''sh'', ''-c''];
               command = istioCommand @ newInitializerCommand scriptName archiveName (pod_env pod)
                 archiveArgs (NeedsShellCmd (tr_spec k6));
               env = newIstioEnvVar (spec_scuttle (tr_spec k6)) istioEnabled @ pod_env pod;
               cont = zero_container\<lparr>
                 c_image := or_default (pod_image pod) ''grafana/k6:latest'',
                 c_imagePullPolicy := pod_imagePullPolicy pod, c_name := ''k6'',
                 c_command := command, c_env := env, c_resources := pod_resources pod,
                 c_volumeMounts := VolumeMount script @ pod_volumeMounts pod,
                 c_envFrom := pod_envFrom pod, c_ports := api_port # spec_ports (tr_spec k6),
                 c_securityContext := Some (pod_containerSecurityContext pod)\<rparr>
           in (fill_initializer k6, Inr
            \<lparr>job_meta = \<lparr>om_name = tr_name k6 @ ''-initializer'', om_namespace = tr_namespace k6,
                         om_labels = labels, om_annotations = annotations\<rparr>,
             job_backoffLimit = Some 0,
             job_podLabels = labels, job_podAnnotations = annotations,
             job_podSpec = zero_pod_spec\<lparr>
               ps_automountServiceAccountToken :=
                 Some (default_or_parsed (pod_automountServiceAccountToken pod) True),
               ps_serviceAccountName := or_default (pod_serviceAccountName pod) ''default'',
               ps_affinity := pod_affinity pod, ps_nodeSelector := pod_nodeSelector pod,
               ps_tolerations := pod_tolerations pod,
               ps_topologySpreadConstraints := pod_topologySpreadConstraints pod,
               ps_securityContext := Some (pod_securityContext pod),
               ps_restartPolicy := ''Never'',
               ps_schedulerName := or_default (pod_schedulerName pod) ''default-scheduler'',
               ps_imagePullSecrets := pod_imagePullSecrets pod,
               ps_initContainers := getInitContainers pod script,
               ps_containers := [cont],
               ps_volumes := Volume script @ pod_volumes pod,
               ps_priorityClassName := pod_priorityClassName pod\<rparr>\<rparr>)))"

section \<open>The runners\<close>

definition newAntiAffinity :: affinity where
  "newAntiAffinity = RequiredPodAntiAffinity
     [\<lparr>pat_matchExpressions =
         [\<lparr>lr_key = ''app'', lr_operator = ''In'', lr_values = [''k6'']\<rparr>,
          \<lparr>lr_key = ''runner'', lr_operator = ''In'', lr_values = [''true'']\<rparr>],
       pat_topologyKey = ''kubernetes.io/hostname''\<rparr>]"

definition generateProbe :: "probe option \<Rightarrow> probe option" where
  "generateProbe configuredProbe =
     (case configuredProbe of
        Some p \<Rightarrow> Some p
      | None \<Rightarrow> Some (HTTPGetProbe ''/v1/status'' 6565 ''HTTP''))"

definition runner_labels :: "TestRun \<Rightarrow> string gomap" where
  "runner_labels k6 =
     add_labels (gomap_set (newLabels (tr_name k6)) ''runner'' ''true'')
       (pm_labels (pod_metadata (spec_runner (tr_spec k6))))"

definition runner_name :: "TestRun \<Rightarrow> int \<Rightarrow> string" where
  "runner_name k6 index = tr_name k6 @ ''-'' @ itoa index"

text \<open>The command line of the runner before the check for a local file is put around it.\<close>

definition runner_command :: "meta_api \<Rightarrow> TestRun \<Rightarrow> int \<Rightarrow> string list \<Rightarrow> Script \<Rightarrow> string list" where
  "runner_command M k6 index fragments script =
     fst (newIstioCommand (sc_enabled (spec_scuttle (tr_spec k6))) [''k6'', ''run''])
     @ (if default_or_parsed (spec_quiet (tr_spec k6)) True then [''--quiet''] else [])
     @ fragments
     @ Argv (tr_spec k6)
     @ [FullName script, ''--address=0.0.0.0:6565'']
     @ (if default_or_parsed (spec_paused (tr_spec k6)) True then [''--paused''] else [])
     @ [''--tag'', ''instance_id='' @ itoa index]
     @ [''--tag'', ''testrun_name='' @ tr_name k6]
     @ (if IsTrue M k6 ''CloudPLZTestRun'' then [''--no-setup'', ''--no-teardown'', ''--linger''] else [])
     @ (if length (TestRunID k6) > 0 \<and> IsTrue M k6 ''CloudPLZTestRun''
        then [''-e'', IIDCloudExecVar @ ''='' @ itoa index] else [])"

text \<open>The variables of a cloud test run; the aggregation settings may fail to decode.\<close>

definition runner_cloud_env :: "meta_api \<Rightarrow> TestRun \<Rightarrow> TokenInfo \<Rightarrow> string + env_var list" where
  "runner_cloud_env M k6 tokenInfo =
     (if length (TestRunID k6) > 0 then
        (if IsTrue M k6 ''CloudPLZTestRun'' then
           Inr [env_value ''K6_CLOUD_PUSH_REF_ID'' (TestRunID k6),
                \<lparr>ev_name = ''K6_CLOUD_TOKEN'', ev_value = '''',
                 ev_valueFrom = Some (SecretKeyRef (ti_secretName tokenInfo) ''token'')\<rparr>]
         else
           (case DecodeAggregationConfig (st_aggregationVars (tr_status k6)) of
              Inl e \<Rightarrow> Inl e
            | Inr aggregationVars \<Rightarrow>
                Inr (aggregationVars
                     @ [env_value ''K6_CLOUD_PUSH_REF_ID'' (TestRunID k6),
                        env_value ''K6_CLOUD_TOKEN'' (ti_value tokenInfo)])))
      else Inr [])"

definition NewRunnerJob :: "meta_api \<Rightarrow> TestRun \<Rightarrow> int \<Rightarrow> TokenInfo \<Rightarrow> string + job" where
  "NewRunnerJob M k6 index tokenInfo =
     (let name = runner_name k6 index;
          pod = spec_runner (tr_spec k6);
          parallelism = sint (spec_parallelism (tr_spec k6)) in
      case (if parallelism > 1 then NewCommandFragments index parallelism else Inr []) of
        Inl e \<Rightarrow> Inl e
      | Inr fragments \<Rightarrow>
      (case ParseScript (tr_spec k6) of
        Inl e \<Rightarrow> Inl e
      | Inr script \<Rightarrow>
      (case runner_cloud_env M k6 tokenInfo of
        Inl e \<Rightarrow> Inl e
      | Inr cloudEnv \<Rightarrow>
          (let (_, istioEnabled) =
                 newIstioCommand (sc_enabled (spec_scuttle (tr_spec k6))) [''k6'', ''run''];
               cont = zero_container\<lparr>
                 c_image := or_default (pod_image pod) ''grafana/k6:latest'',
                 c_imagePullPolicy := pod_imagePullPolicy pod, c_name := ''k6'',
                 c_command := UpdateCommand script (runner_command M k6 index fragments script)
                   (NeedsShellCmd (tr_spec k6)),
                 c_env := newIstioEnvVar (spec_scuttle (tr_spec k6)) istioEnabled @ cloudEnv @ pod_env pod,
                 c_resources := pod_resources pod,
                 c_volumeMounts := VolumeMount script @ pod_volumeMounts pod,
                 c_ports := api_port # spec_ports (tr_spec k6), c_envFrom := pod_envFrom pod,
                 c_livenessProbe := generateProbe (pod_livenessProbe pod),
                 c_readinessProbe := generateProbe (pod_readinessProbe pod),
                 c_securityContext := Some (pod_containerSecurityContext pod)\<rparr>
           in Inr
            \<lparr>job_meta = \<lparr>om_name = name, om_namespace = tr_namespace k6, om_labels = runner_labels k6,
                         om_annotations = pm_annotations (pod_metadata pod)\<rparr>,
             job_backoffLimit = Some 0,
             job_podLabels = runner_labels k6,
             job_podAnnotations = pm_annotations (pod_metadata pod),
             job_podSpec = zero_pod_spec\<lparr>
               ps_automountServiceAccountToken :=
                 Some (default_or_parsed (pod_automountServiceAccountToken pod) True),
               ps_serviceAccountName := or_default (pod_serviceAccountName pod) ''default'',
               ps_hostname := name,
               ps_restartPolicy := ''Never'',
               ps_schedulerName := or_default (pod_schedulerName pod) ''default-scheduler'',
               ps_affinity := (if spec_separate (tr_spec k6) then Some newAntiAffinity else pod_affinity pod),
               ps_nodeSelector := pod_nodeSelector pod,
               ps_tolerations := pod_tolerations pod,
               ps_topologySpreadConstraints := pod_topologySpreadConstraints pod,
               ps_securityContext := Some (pod_securityContext pod),
               ps_imagePullSecrets := pod_imagePullSecrets pod,
               ps_initContainers := getInitContainers pod script,
               ps_containers := [cont],
               ps_volumes := Volume script @ pod_volumes pod,
               ps_priorityClassName := pod_priorityClassName pod\<rparr>\<rparr>))))"

definition NewRunnerService :: "TestRun \<Rightarrow> int \<Rightarrow> service" where
  "NewRunnerService k6 index =
     \<lparr>svc_meta = \<lparr>om_name = tr_name k6 @ ''-service-'' @ itoa index, om_namespace = tr_namespace k6,
                  om_labels = runner_labels k6,
                  om_annotations = pm_annotations (pod_metadata (spec_runner (tr_spec k6)))\<rparr>,
      svc_ports = [\<lparr>sp_name = ''http-api'', sp_port = 6565, sp_protocol = ''TCP''\<rparr>],
      svc_selector = [(''job-name'', runner_name k6 index)],
      svc_clusterIP = ''''\<rparr>"

section \<open>The starter and the stopper\<close>

definition default_starter_resources :: resource_requirements where
  "default_starter_resources =
     \<lparr>rr_requests = [(''cpu'', NewMilliQuantity 50 DecimalSI), (''memory'', NewQuantity 2097152 BinarySI)],
      rr_limits = [(''cpu'', NewMilliQuantity 100 DecimalSI), (''memory'', NewQuantity 209715200 BinarySI)]\<rparr>"

definition NewStarterJob :: "TestRun \<Rightarrow> string list \<Rightarrow> job" where
  "NewStarterJob k6 hostname =
     (let pod = spec_starter (tr_spec k6);
          labels = add_labels (newLabels (tr_name k6)) (pm_labels (pod_metadata pod));
          annotations = pm_annotations (pod_metadata pod);
          (command, istioEnabled) =
            newIstioCommand (sc_enabled (spec_scuttle (tr_spec k6))) [''sh'', ''-c''];
          env = newIstioEnvVar (spec_scuttle (tr_spec k6)) istioEnabled;
          resourceRequirements =
            (if length (rr_requests (pod_resources pod)) > 0 \<or> length (rr_limits (pod_resources pod)) > 0
             then pod_resources pod else default_starter_resources)
      in \<lparr>job_meta = \<lparr>om_name = tr_name k6 @ ''-starter'', om_namespace = tr_namespace k6,
                      om_labels = labels, om_annotations = annotations\<rparr>,
          job_backoffLimit = Some 0,
          job_podLabels = labels, job_podAnnotations = annotations,
          job_podSpec = zero_pod_spec\<lparr>
            ps_automountServiceAccountToken :=
              Some (default_or_parsed (pod_automountServiceAccountToken pod) True),
            ps_serviceAccountName := or_default (pod_serviceAccountName pod) ''default'',
            ps_affinity := pod_affinity pod, ps_nodeSelector := pod_nodeSelector pod,
            ps_tolerations := pod_tolerations pod,
            ps_topologySpreadConstraints := pod_topologySpreadConstraints pod,
            ps_restartPolicy := ''Never'',
            ps_schedulerName := or_default (pod_schedulerName pod) ''default-scheduler'',
            ps_securityContext := Some (pod_securityContext pod),
            ps_imagePullSecrets := pod_imagePullSecrets pod,
            ps_containers := [NewStartContainer hostname
              (or_default (pod_image pod) ''ghcr.io/grafana/k6-operator:latest-starter'')
              (pod_imagePullPolicy pod) command env (pod_containerSecurityContext pod)
              resourceRequirements],
            ps_priorityClassName := pod_priorityClassName pod\<rparr>\<rparr>)"

definition NewStopJob :: "TestRun \<Rightarrow> string list \<Rightarrow> job" where
  "NewStopJob k6 hostname =
     (let job = NewStarterJob k6 hostname;
          pod = spec_starter (tr_spec k6);
          (command, istioEnabled) =
            newIstioCommand (sc_enabled (spec_scuttle (tr_spec k6))) [''sh'', ''-c''];
          env = newIstioEnvVar (spec_scuttle (tr_spec k6)) istioEnabled
      in job\<lparr>job_meta := (job_meta job)\<lparr>om_name := tr_name k6 @ ''-stopper''\<rparr>,
             job_podSpec := (job_podSpec job)\<lparr>ps_containers := [NewStopContainer hostname
               (or_default (pod_image pod) ''ghcr.io/grafana/k6-operator:latest-starter'')
               (pod_imagePullPolicy pod) command env (pod_containerSecurityContext pod)
               (pod_resources pod)]\<rparr>\<rparr>)"

section \<open>Lemmas\<close>

lemma get_add_labels [simp]:
  "gomap_get (add_labels base user) k =
     (case gomap_get base k of Some v \<Rightarrow> Some v | None \<Rightarrow> gomap_get user k)"
  by (induction base user rule: add_labels.induct) (auto simp: gomap_get_simps split: option.splits)

lemma gomap_get_newLabels [simp]:
  "gomap_get (newLabels name) k =
     (if k = ''app'' then Some ''k6'' else if k = ''k6_cr'' then Some name else None)"
  by (simp add: newLabels_def gomap_get_def)

text \<open>
  What the builders of a test run's objects have in common: the object lives in the namespace of the
  test run and carries the labels \<open>app\<close> and \<open>k6_cr\<close>, a label \<open>runner\<close> if \<open>runner\<close> says so, and
  after these the labels of the user.
\<close>

locale testrun_object =
  fixes meta :: "TestRun \<Rightarrow> object_meta"
    and runner :: bool
    and user :: "TestRun \<Rightarrow> string gomap"
  assumes meta_namespace: "om_namespace (meta k6) = tr_namespace k6"
    and meta_labels: "om_labels (meta k6) = add_labels
      (if runner then gomap_set (newLabels (tr_name k6)) ''runner'' ''true'' else newLabels (tr_name k6))
      (user k6)"
begin

lemma own_labels:
  "gomap_get (om_labels (meta k6)) ''app'' = Some ''k6''"
  "gomap_get (om_labels (meta k6)) ''k6_cr'' = Some (tr_name k6)"
  by (simp_all add: meta_labels)

lemma user_labels:
  "k \<notin> {''app'', ''k6_cr'', ''runner''} \<Longrightarrow> gomap_get (om_labels (meta k6)) k = gomap_get (user k6) k"
  by (simp add: meta_labels)

lemma selected_iff:
  "selects (ListOptions k6') (meta k6) \<longleftrightarrow> tr_namespace k6 = tr_namespace k6' \<and> tr_name k6 = tr_name k6'
     \<and> (runner \<or> gomap_get (user k6) ''runner'' = Some ''true'')"
  by (auto simp: selects_def ListOptions_def meta_namespace meta_labels)

end

definition runner_meta :: "int \<Rightarrow> TestRun \<Rightarrow> object_meta" where
  "runner_meta index k6 =
     \<lparr>om_name = runner_name k6 index, om_namespace = tr_namespace k6, om_labels = runner_labels k6,
      om_annotations = pm_annotations (pod_metadata (spec_runner (tr_spec k6)))\<rparr>"

definition initializer_meta :: "TestRun \<Rightarrow> object_meta" where
  "initializer_meta k6 =
     \<lparr>om_name = tr_name k6 @ ''-initializer'', om_namespace = tr_namespace k6,
      om_labels = add_labels (newLabels (tr_name k6)) (pm_labels (pod_metadata (initializer_pod k6))),
      om_annotations = pm_annotations (pod_metadata (initializer_pod k6))\<rparr>"

lemma NewRunnerJob_meta:
  assumes "NewRunnerJob M k6 index ti = Inr j"
  shows "job_meta j = runner_meta index k6 \<and> job_podLabels j = runner_labels k6"
proof -
  obtain fragments script cloudEnv where
    "(if sint (spec_parallelism (tr_spec k6)) > 1
      then NewCommandFragments index (sint (spec_parallelism (tr_spec k6))) else Inr []) = Inr fragments"
    "ParseScript (tr_spec k6) = Inr script" "runner_cloud_env M k6 ti = Inr cloudEnv"
    using assms by (auto simp: NewRunnerJob_def Let_def split: sum.splits)
  with assms show ?thesis
    by (auto simp: NewRunnerJob_def Let_def runner_meta_def split: prod.splits)
qed

lemma NewInitializerJob_meta:
  assumes "NewInitializerJob k6 args = (k6', Inr j)"
  shows "job_meta j = initializer_meta k6 \<and> job_podLabels j = om_labels (initializer_meta k6)"
  using assms by (auto simp: NewInitializerJob_def Let_def initializer_meta_def split: sum.splits prod.splits)

lemma NewStarterJob_meta:
  "job_meta (NewStarterJob k6 hs) =
     \<lparr>om_name = tr_name k6 @ ''-starter'', om_namespace = tr_namespace k6,
      om_labels = add_labels (newLabels (tr_name k6)) (pm_labels (pod_metadata (spec_starter (tr_spec k6)))),
      om_annotations = pm_annotations (pod_metadata (spec_starter (tr_spec k6)))\<rparr>"
  "job_podLabels (NewStarterJob k6 hs) = om_labels (job_meta (NewStarterJob k6 hs))"
  by (simp_all add: NewStarterJob_def Let_def split: prod.splits)

lemma NewStopJob_meta:
  "job_meta (NewStopJob k6 hs) = (job_meta (NewStarterJob k6 hs))\<lparr>om_name := tr_name k6 @ ''-stopper''\<rparr>"
  "job_podLabels (NewStopJob k6 hs) = job_podLabels (NewStarterJob k6 hs)"
  by (simp_all add: NewStopJob_def Let_def split: prod.splits)

lemma NewRunnerJob_Inr:
  assumes "(if sint (spec_parallelism (tr_spec k6)) > 1
      then NewCommandFragments i (sint (spec_parallelism (tr_spec k6))) else Inr []) = Inr fragments"
    and "ParseScript (tr_spec k6) = Inr script" and "runner_cloud_env M k6 ti = Inr env"
  shows "\<exists>j c. NewRunnerJob M k6 i ti = Inr j \<and> ps_containers (job_podSpec j) = [c]
    \<and> c_command c = UpdateCommand script (runner_command M k6 i fragments script) (NeedsShellCmd (tr_spec k6))"
  using assms by (simp add: NewRunnerJob_def Let_def split: prod.splits)

interpretation runner_object: testrun_object "runner_meta index" True
  "\<lambda>k6. pm_labels (pod_metadata (spec_runner (tr_spec k6)))"
  by unfold_locales (simp_all add: runner_meta_def runner_labels_def)

interpretation service_object: testrun_object "\<lambda>k6. svc_meta (NewRunnerService k6 index)" True
  "\<lambda>k6. pm_labels (pod_metadata (spec_runner (tr_spec k6)))"
  by unfold_locales (simp_all add: NewRunnerService_def runner_labels_def)

interpretation initializer_object: testrun_object initializer_meta False
  "\<lambda>k6. pm_labels (pod_metadata (initializer_pod k6))"
  by unfold_locales (simp_all add: initializer_meta_def)

interpretation starter_object: testrun_object "\<lambda>k6. job_meta (NewStarterJob k6 hs)" False
  "\<lambda>k6. pm_labels (pod_metadata (spec_starter (tr_spec k6)))"
  by unfold_locales (simp_all add: NewStarterJob_meta)

interpretation stopper_object: testrun_object "\<lambda>k6. job_meta (NewStopJob k6 hs)" False
  "\<lambda>k6. pm_labels (pod_metadata (spec_starter (tr_spec k6)))"
  by unfold_locales (simp_all add: NewStarterJob_meta NewStopJob_meta)

subsection \<open>Names\<close>

lemma takeWhile_last_dash:
  "CHR ''-'' \<notin> set s \<Longrightarrow> takeWhile (\<lambda>x. x \<noteq> CHR ''-'') (rev (a @ CHR ''-'' # s)) = rev s"
  by (simp add: takeWhile_tail) (metis set_rev takeWhile_eq_all_conv)

lemma last_dash_unique:
  assumes "CHR ''-'' \<notin> set s" "CHR ''-'' \<notin> set t"
  shows "a @ CHR ''-'' # s = b @ CHR ''-'' # t \<longleftrightarrow> a = b \<and> s = t"
proof
  assume eq: "a @ CHR ''-'' # s = b @ CHR ''-'' # t"
  then have "rev s = rev t"
    using takeWhile_last_dash [OF assms(1), of a] takeWhile_last_dash [OF assms(2), of b] by (simp only:)
  then have "s = t" by simp
  with eq show "a = b \<and> s = t" by simp
qed simp

lemma t_notin_dec_nat: "CHR ''t'' \<notin> set (dec_nat n)"
  by (rule not_digit_dec_nat) (simp add: of_char_def)

lemma role_not_number:
  "dec_nat n \<noteq> ''starter''" "dec_nat n \<noteq> ''stopper''" "dec_nat n \<noteq> ''initializer''"
proof -
  have "CHR ''t'' \<in> set s \<Longrightarrow> dec_nat n \<noteq> s" for s
    using t_notin_dec_nat [of n] by blast
  then show "dec_nat n \<noteq> ''starter''" "dec_nat n \<noteq> ''stopper''" "dec_nat n \<noteq> ''initializer''"
    by simp_all
qed

lemma role_suffixes:
  "a @ ''-starter'' = a @ CHR ''-'' # ''starter''" "a @ ''-stopper'' = a @ CHR ''-'' # ''stopper''"
  "a @ ''-initializer'' = a @ CHR ''-'' # ''initializer''" "a @ ''-'' @ s = a @ CHR ''-'' # s"
  "a @ ''-service-'' @ s = (a @ ''-service'') @ CHR ''-'' # s"
  by simp_all

lemma initializer_pod_fill [simp]: "initializer_pod (fill_initializer k6) = initializer_pod k6"
  by (auto simp: initializer_pod_def fill_initializer_def split: option.splits)

lemma fill_initializer_simps [simp]:
  "tr_name (fill_initializer k6) = tr_name k6" "tr_namespace (fill_initializer k6) = tr_namespace k6"
  "ParseScript (tr_spec (fill_initializer k6)) = ParseScript (tr_spec k6)"
  "spec_scuttle (tr_spec (fill_initializer k6)) = spec_scuttle (tr_spec k6)"
  "NeedsShellCmd (tr_spec (fill_initializer k6)) = NeedsShellCmd (tr_spec k6)"
  "spec_ports (tr_spec (fill_initializer k6)) = spec_ports (tr_spec k6)"
  "fill_initializer (fill_initializer k6) = fill_initializer k6"
  "tr_status (fill_initializer k6) = tr_status k6"
  by (auto simp: fill_initializer_def ParseScript_def Let_def NeedsShellCmd_def usesArgs_def
      split: option.splits)

lemma NewInitializerJob_fill:
  "ParseScript (tr_spec k6) = Inr s \<Longrightarrow>
   NewInitializerJob (fill_initializer k6) args = NewInitializerJob k6 args"
  by (simp add: NewInitializerJob_def)

lemma NewInitializerJob_InrE:
  assumes "NewInitializerJob k6 args = (k6', Inr j)"
  shows "k6' = fill_initializer k6 \<and> (\<exists>s. ParseScript (tr_spec k6) = Inr s)"
  using assms by (auto simp: NewInitializerJob_def Let_def split: sum.splits prod.splits)

lemma NewStarterJob_container:
  "newIstioCommand (sc_enabled (spec_scuttle (tr_spec k6))) [''sh'', ''-c''] = (command, e) \<Longrightarrow>
   \<exists>res. ps_containers (job_podSpec (NewStarterJob k6 hs)) = [NewStartContainer hs
     (or_default (pod_image (spec_starter (tr_spec k6))) ''ghcr.io/grafana/k6-operator:latest-starter'')
     (pod_imagePullPolicy (spec_starter (tr_spec k6))) command
     (newIstioEnvVar (spec_scuttle (tr_spec k6)) e)
     (pod_containerSecurityContext (spec_starter (tr_spec k6))) res]"
  by (auto simp: NewStarterJob_def Let_def)

text \<open>A test run with a script in a config map and three runners, for the witnesses.\<close>

definition example_run :: "string \<Rightarrow> TestRun" where
  "example_run name =
     \<lparr>tr_name = name, tr_namespace = ''default'',
      tr_spec = zero_spec\<lparr>
        spec_script := zero_script\<lparr>ks_configMap := \<lparr>cm_name = ''scripts'', cm_file = ''load.js''\<rparr>\<rparr>,
        spec_args := [''--vus'', ''10''], spec_parallelism := 3\<rparr>,
      tr_status = zero_status\<rparr>"

lemma example_run_job:
  assumes "i \<le> 3"
  shows "\<exists>j. NewRunnerJob documented_meta (example_run n) i ti = Inr j"
  using assms
  by (auto simp: NewRunnerJob_def NewCommandFragments_def Let_def example_run_def ParseScript_def
      zero_spec_def zero_script_def runner_cloud_env_def TestRunID_def zero_status_def split: prod.splits)

lemma NewInitializerJob_ok:
  "ParseScript (tr_spec k6) = Inr s \<Longrightarrow> \<exists>j. NewInitializerJob k6 args = (fill_initializer k6, Inr j)"
  by (simp add: NewInitializerJob_def Let_def split: prod.splits)

lemma example_run_initializer: "\<exists>k j. NewInitializerJob (example_run n) args = (k, Inr j)"
proof -
  have "\<exists>s. ParseScript (tr_spec (example_run n)) = Inr s"
    by (simp add: example_run_def ParseScript_def zero_spec_def zero_script_def Let_def)
  then show ?thesis using NewInitializerJob_ok by blast
qed

section \<open>Properties\<close>

text \<open>
  C23. The labels tie objects to their test run. The selector of a test run picks the job, the
  service and the pods of a runner exactly if they belong to this test run (same name and
  namespace), whatever labels the user adds; the jobs of the initializer, the starter and the
  stopper are never taken for runners unless the user labels them \<open>runner=true\<close>.
\<close>

theorem ListOptions_selects_runners:
  assumes "NewRunnerJob M k6 i ti = Inr j" and "NewInitializerJob k6 args = (k6a, Inr ij)"
  defines "same \<equiv> \<lambda>k6'. tr_namespace k6 = tr_namespace k6' \<and> tr_name k6 = tr_name k6'"
  shows "(selects (ListOptions k6') (job_meta j) \<longleftrightarrow> same k6')
    \<and> (selects (ListOptions k6') ((job_meta j)\<lparr>om_labels := job_podLabels j\<rparr>) \<longleftrightarrow> same k6')
    \<and> (selects (ListOptions k6') (svc_meta (NewRunnerService k6 i)) \<longleftrightarrow> same k6')
    \<and> (selects (ListOptions k6') (job_meta ij) \<longleftrightarrow> same k6'
         \<and> gomap_get (pm_labels (pod_metadata (initializer_pod k6))) ''runner'' = Some ''true'')
    \<and> (selects (ListOptions k6') (job_meta (NewStarterJob k6 hs)) \<longleftrightarrow> same k6'
         \<and> gomap_get (pm_labels (pod_metadata (spec_starter (tr_spec k6)))) ''runner'' = Some ''true'')
    \<and> (selects (ListOptions k6') (job_meta (NewStopJob k6 hs)) \<longleftrightarrow> same k6'
         \<and> gomap_get (pm_labels (pod_metadata (spec_starter (tr_spec k6)))) ''runner'' = Some ''true'')"
proof -
  have pods: "(runner_meta i k6)\<lparr>om_labels := runner_labels k6\<rparr> = runner_meta i k6"
    by (simp add: runner_meta_def)
  show ?thesis
    using NewRunnerJob_meta [OF assms(1)] NewInitializerJob_meta [OF assms(2)]
    by (simp add: pods same_def runner_object.selected_iff service_object.selected_iff
        initializer_object.selected_iff starter_object.selected_iff stopper_object.selected_iff)
qed

theorem ListOptions_selects_runners_witness:
  "\<exists>j. NewRunnerJob documented_meta (example_run ''a'') 1 (NewTokenInfo '''' '''') = Inr j
     \<and> selects (ListOptions (example_run ''a'')) (job_meta j)
     \<and> \<not> selects (ListOptions (example_run ''b'')) (job_meta j)"
proof -
  obtain j where j: "NewRunnerJob documented_meta (example_run ''a'') 1 (NewTokenInfo '''' '''') = Inr j"
    using example_run_job [of 1] by auto
  obtain k6a ij where ij: "NewInitializerJob (example_run ''a'') [] = (k6a, Inr ij)"
    using example_run_initializer by metis
  show ?thesis
    using j ListOptions_selects_runners [OF j ij, of "example_run ''a''"]
      ListOptions_selects_runners [OF j ij, of "example_run ''b''"]
    by (simp add: example_run_def)
qed

text \<open>
  C24. Names do not clash: the job of a runner tells the test run and the index, over all test runs,
  and is never the job of a starter, a stopper or an initializer; the same holds of the services.
  A service selects the pods of its own runner only.
\<close>

theorem runner_names_unique:
  assumes "NewRunnerJob M k6 i ti = Inr j" and "NewRunnerJob M' k6' i' ti' = Inr j'"
    and "0 \<le> i" and "0 \<le> i'" and "NewInitializerJob k6' args = (k6a, Inr ij)"
  shows "(om_name (job_meta j) = om_name (job_meta j') \<longleftrightarrow> tr_name k6 = tr_name k6' \<and> i = i')
    \<and> om_name (job_meta j) \<noteq> om_name (job_meta (NewStarterJob k6' hs))
    \<and> om_name (job_meta j) \<noteq> om_name (job_meta (NewStopJob k6' hs))
    \<and> om_name (job_meta j) \<noteq> om_name (job_meta ij)
    \<and> (om_name (svc_meta (NewRunnerService k6 i)) = om_name (svc_meta (NewRunnerService k6' i'))
         \<longleftrightarrow> tr_name k6 = tr_name k6' \<and> i = i')
    \<and> (svc_selector (NewRunnerService k6' i') = [(''job-name'', om_name (job_meta j))]
         \<longleftrightarrow> tr_name k6 = tr_name k6' \<and> i = i')"
proof -
  have names: "om_name (job_meta j) = tr_name k6 @ CHR ''-'' # dec_nat (nat i)"
    "om_name (job_meta j') = tr_name k6' @ CHR ''-'' # dec_nat (nat i')"
    "om_name (job_meta ij) = tr_name k6' @ ''-initializer''"
    using NewRunnerJob_meta [OF assms(1)] NewRunnerJob_meta [OF assms(2)]
      NewInitializerJob_meta [OF assms(5)] assms(3,4)
    by (simp_all add: runner_meta_def runner_name_def initializer_meta_def)
  have services: "om_name (svc_meta (NewRunnerService k6 i)) = (tr_name k6 @ ''-service'') @ CHR ''-'' # dec_nat (nat i)"
    "om_name (svc_meta (NewRunnerService k6' i')) = (tr_name k6' @ ''-service'') @ CHR ''-'' # dec_nat (nat i')"
    "svc_selector (NewRunnerService k6' i') = [(''job-name'', tr_name k6' @ CHR ''-'' # dec_nat (nat i'))]"
    using assms(3,4) by (simp_all add: NewRunnerService_def runner_name_def)
  have roles: "om_name (job_meta j) \<noteq> b @ CHR ''-'' # r"
    if "r \<in> {''starter'', ''stopper'', ''initializer''}" for b r
    using that role_not_number by (auto simp: names last_dash_unique)
  have same: "(tr_name k6 @ CHR ''-'' # dec_nat (nat i) = tr_name k6' @ CHR ''-'' # dec_nat (nat i'))
      \<longleftrightarrow> tr_name k6 = tr_name k6' \<and> i = i'"
    "((tr_name k6 @ ''-service'') @ CHR ''-'' # dec_nat (nat i) =
      (tr_name k6' @ ''-service'') @ CHR ''-'' # dec_nat (nat i')) \<longleftrightarrow> tr_name k6 = tr_name k6' \<and> i = i'"
    unfolding last_dash_unique [OF minus_notin_dec_nat minus_notin_dec_nat] using assms(3,4) by auto
  show ?thesis
    unfolding services names(1,2) same list.inject prod.inject
    using roles [of "''starter''" "tr_name k6'"] roles [of "''stopper''" "tr_name k6'"]
      roles [of "''initializer''" "tr_name k6'"] same(1)
    by (auto simp: names NewStarterJob_meta NewStopJob_meta)
qed

theorem runner_names_unique_witness:
  "\<exists>j j'. NewRunnerJob documented_meta (example_run ''a'') 1 (NewTokenInfo '''' '''') = Inr j
     \<and> NewRunnerJob documented_meta (example_run ''a-1'') 2 (NewTokenInfo '''' '''') = Inr j'
     \<and> om_name (job_meta j) \<noteq> om_name (job_meta j')"
proof -
  obtain j where j: "NewRunnerJob documented_meta (example_run ''a'') 1 (NewTokenInfo '''' '''') = Inr j"
    using example_run_job [of 1] by auto
  obtain j' where j': "NewRunnerJob documented_meta (example_run ''a-1'') 2 (NewTokenInfo '''' '''') = Inr j'"
    using example_run_job [of 2] by auto
  obtain k6a ij where ij: "NewInitializerJob (example_run ''a-1'') [] = (k6a, Inr ij)"
    using example_run_initializer by metis
  show ?thesis
    using j j' runner_names_unique [OF j j' _ _ ij] by simp
qed

text \<open>
  The stop job is the start job under another name, with one container that sends the request to
  stop instead of the one to unpause to the same addresses and takes the resources of the starter as
  the user gave them.
\<close>

lemma NewStopJob_follows_starter:
  "\<exists>c. ps_containers (job_podSpec (NewStarterJob k6 hs)) = [c]
     \<and> c_command c = fst (newIstioCommand (sc_enabled (spec_scuttle (tr_spec k6))) [''sh'', ''-c''])
         @ [Join (map (curl_line start_request) hs) '';'']
     \<and> NewStopJob k6 hs = (NewStarterJob k6 hs)
         \<lparr>job_meta := (job_meta (NewStarterJob k6 hs))\<lparr>om_name := tr_name k6 @ ''-stopper''\<rparr>,
          job_podSpec := (job_podSpec (NewStarterJob k6 hs))\<lparr>ps_containers :=
            [c\<lparr>c_command := butlast (c_command c) @ [Join (map (curl_line stop_request) hs) '';''],
               c_resources := pod_resources (spec_starter (tr_spec k6))\<rparr>]\<rparr>\<rparr>"
proof -
  obtain command e where ni: "newIstioCommand (sc_enabled (spec_scuttle (tr_spec k6))) [''sh'', ''-c''] = (command, e)"
    by fastforce
  obtain res where "ps_containers (job_podSpec (NewStarterJob k6 hs)) = [NewStartContainer hs
     (or_default (pod_image (spec_starter (tr_spec k6))) ''ghcr.io/grafana/k6-operator:latest-starter'')
     (pod_imagePullPolicy (spec_starter (tr_spec k6))) command
     (newIstioEnvVar (spec_scuttle (tr_spec k6)) e)
     (pod_containerSecurityContext (spec_starter (tr_spec k6))) res]"
    using NewStarterJob_container [OF ni] by blast
  then show ?thesis
    unfolding NewStopJob_def ni Let_def prod.case
    by (simp add: NewStartContainer_def NewStopContainer_def)
qed

text \<open>
  Without resources of the user the starter falls back on default requests and limits; the
  stopper, built from the starter, ends up with none.
\<close>

lemma stopper_without_default_resources:
  assumes "rr_requests (pod_resources (spec_starter (tr_spec k6))) = []"
    and "rr_limits (pod_resources (spec_starter (tr_spec k6))) = []"
  shows "map c_resources (ps_containers (job_podSpec (NewStarterJob k6 hs))) = [default_starter_resources]
    \<and> map c_resources (ps_containers (job_podSpec (NewStopJob k6 hs))) = [zero_resources]"
proof -
  have "pod_resources (spec_starter (tr_spec k6)) = zero_resources"
    using assms by (simp add: zero_resources_def)
  then show ?thesis
    using assms by (simp add: NewStopJob_def NewStarterJob_def NewStartContainer_def NewStopContainer_def
      Let_def split: prod.splits)
qed

text \<open>
  C31. The initializer job is built exactly if the script parses. It leaves the name, the namespace
  and the status of the test run alone and fills in the initializer section from the runner when the
  user gave none; building it again from the result gives the same job. With \<open>.spec.args\<close> the
  arguments for \<open>k6 archive\<close> end the command one by one, with no shell in between.
\<close>

theorem NewInitializerJob_spec:
  "case NewInitializerJob k6 args of
     (k6', Inl e) \<Rightarrow> k6' = k6 \<and> ParseScript (tr_spec k6) = Inl e
   | (k6', Inr j) \<Rightarrow>
       (\<exists>s. ParseScript (tr_spec k6) = Inr s)
       \<and> tr_name k6' = tr_name k6 \<and> tr_namespace k6' = tr_namespace k6 \<and> tr_status k6' = tr_status k6
       \<and> spec_initializer (tr_spec k6') = Some (initializer_pod k6)
       \<and> NewInitializerJob k6' args = (k6', Inr j)
       \<and> (usesArgs (tr_spec k6) \<longrightarrow>
            (\<exists>c pre. ps_containers (job_podSpec j) = [c] \<and> c_command c = pre @ args))"
proof (cases "ParseScript (tr_spec k6)")
  case (Inl e)
  then show ?thesis by (simp add: NewInitializerJob_def)
next
  case (Inr s)
  then obtain j where j: "NewInitializerJob k6 args = (fill_initializer k6, Inr j)"
    using NewInitializerJob_ok by blast
  have "\<exists>c pre. ps_containers (job_podSpec j) = [c] \<and> c_command c = pre @ args"
    if "usesArgs (tr_spec k6)"
    using j Inr that
    by (auto simp: NewInitializerJob_def newInitializerCommand_def NeedsShellCmd_def Let_def
        split: prod.splits)
  moreover have "spec_initializer (tr_spec (fill_initializer k6)) = Some (initializer_pod k6)"
    by (simp add: fill_initializer_def initializer_pod_def split: option.splits)
  ultimately show ?thesis
    using j Inr NewInitializerJob_fill [OF Inr, of args] by simp
qed

theorem NewInitializerJob_spec_witness:
  "\<exists>k6' j c pre. NewInitializerJob (example_run ''a'') [''--tag'', ''x=$y''] = (k6', Inr j)
     \<and> ps_containers (job_podSpec j) = [c] \<and> c_command c = pre @ [''--tag'', ''x=$y'']"
proof -
  obtain k6' j where j: "NewInitializerJob (example_run ''a'') [''--tag'', ''x=$y''] = (k6', Inr j)"
    using example_run_initializer by metis
  have "usesArgs (tr_spec (example_run ''a''))"
    by (simp add: usesArgs_def example_run_def)
  with j show ?thesis
    using NewInitializerJob_spec [of "example_run ''a''" "[''--tag'', ''x=$y'']"] by auto
qed

text \<open>
  C27. The token of Grafana Cloud k6 is not written into the objects of a private load zone: there,
  and for a test run without an id, the job of a runner does not depend on the value of the token.
\<close>

theorem NewRunnerJob_hides_token:
  assumes "IsTrue M k6 ''CloudPLZTestRun'' \<or> TestRunID k6 = ''''"
  shows "NewRunnerJob M k6 i (ti\<lparr>ti_value := v\<rparr>) = NewRunnerJob M k6 i ti"
proof -
  have env: "runner_cloud_env M k6 (ti\<lparr>ti_value := v\<rparr>) = runner_cloud_env M k6 ti"
    using assms by (auto simp: runner_cloud_env_def)
  show ?thesis unfolding NewRunnerJob_def env by (rule refl)
qed

theorem NewRunnerJob_hides_token_witness:
  "NewRunnerJob documented_meta (example_run ''a'') 1 ((NewTokenInfo '''' '''')\<lparr>ti_value := ''secret''\<rparr>)
     = NewRunnerJob documented_meta (example_run ''a'') 1 (NewTokenInfo '''' '''')"
  by (rule NewRunnerJob_hides_token)
    (simp add: TestRunID_def example_run_def zero_spec_def zero_status_def Let_def)

text \<open>
  C29. The runners share the test. With more than one runner and a script that is not a local file,
  the command of runner \<open>i\<close> of \<open>n\<close> asks for the segment from \<open>(i-1)/n\<close> to \<open>i/n\<close>, before the
  arguments of the user; runners whose index is too high get no job.
\<close>

theorem NewRunnerJob_segment:
  assumes "sint (spec_parallelism (tr_spec k6)) = n" and "1 < n"
    and "ParseScript (tr_spec k6) = Inr script" and "s_Type script \<noteq> ''LocalFile''"
    and "runner_cloud_env M k6 ti = Inr env" and "1 \<le> i"
  shows "if i \<le> n then
      (\<exists>j c pre rest. NewRunnerJob M k6 i ti = Inr j \<and> ps_containers (job_podSpec j) = [c]
         \<and> c_command c = pre @ [''--execution-segment='' @ segment_of i n] @ rest
         \<and> (\<exists>mid post. rest = mid # Argv (tr_spec k6) @ FullName script # post)
         \<and> segment_bounds i n = (of_int (i - 1) / of_int n, of_int i / of_int n))
    else (\<exists>e. NewRunnerJob M k6 i ti = Inl e)"
proof (cases "i \<le> n")
  case True
  define seg where "seg = ''--execution-segment='' @ segment_of i n"
  obtain sequence where frag: "NewCommandFragments i n = Inr [seg, sequence]"
    using True by (simp add: NewCommandFragments_def seg_def)
  define pre where "pre = fst (newIstioCommand (sc_enabled (spec_scuttle (tr_spec k6))) [''k6'', ''run''])
     @ (if default_or_parsed (spec_quiet (tr_spec k6)) True then [''--quiet''] else [])"
  obtain post where post: "runner_command M k6 i [seg, sequence] script =
      pre @ [seg] @ sequence # Argv (tr_spec k6) @ FullName script # post"
    by (simp add: runner_command_def pre_def)
  have "(if n > 1 then NewCommandFragments i n else Inr []) = Inr [seg, sequence]"
    using assms(2) frag by simp
  from NewRunnerJob_Inr [OF this [folded assms(1)] assms(3,5)] assms(4)
  obtain j c where j: "NewRunnerJob M k6 i ti = Inr j" "ps_containers (job_podSpec j) = [c]"
    "c_command c = runner_command M k6 i [seg, sequence] script"
    by (auto simp: UpdateCommand_def)
  have "segment_bounds i n = (of_int (i - 1) / of_int n, of_int i / of_int n)"
    using segment_bounds_eq [of i n] True assms(6) by simp
  moreover have "c_command c = pre @ [seg] @ (sequence # Argv (tr_spec k6) @ FullName script # post)"
    using j(3) post by simp
  ultimately show ?thesis
    using True j(1,2) unfolding seg_def by auto
next
  case False
  then show ?thesis using assms(1,2) by (simp add: NewRunnerJob_def NewCommandFragments_def Let_def)
qed

theorem NewRunnerJob_segment_witness:
  "\<exists>j c pre rest. NewRunnerJob documented_meta (example_run ''a'') 2 (NewTokenInfo '''' '''') = Inr j
     \<and> ps_containers (job_podSpec j) = [c]
     \<and> c_command c = pre @ [''--execution-segment='' @ segment_of 2 3] @ rest"
proof -
  let ?k = "example_run ''a''"
  obtain script where "ParseScript (tr_spec ?k) = Inr script" "s_Type script \<noteq> ''LocalFile''"
    by (simp add: example_run_def ParseScript_def zero_spec_def zero_script_def Let_def)
  moreover have "sint (spec_parallelism (tr_spec ?k)) = 3"
    by (simp add: example_run_def zero_spec_def)
  moreover have "runner_cloud_env documented_meta ?k (NewTokenInfo '''' '''') = Inr []"
    by (simp add: runner_cloud_env_def TestRunID_def example_run_def zero_spec_def zero_status_def Let_def)
  ultimately show ?thesis
    using NewRunnerJob_segment [of ?k 3 script documented_meta "NewTokenInfo '''' ''''" "[]" 2] by auto
qed

end
