(* ===== verification/K6_Env.thy ===== *)
theory K6_Env
  imports K6_Jobs
begin

text \<open>
  The outside of the operator: the Kubernetes API server, the runners' REST API, Grafana Cloud k6
  and the clock. Every call an operation makes is a value of type \<open>call\<close>; what the call returns is
  given by the record \<open>env\<close>, a function of all calls made before. Nothing is assumed of the answers
  in a definition; a property that needs a well-behaved cluster states it as a hypothesis.

  Two conventions stand for the client library. A \<open>Get\<close> that fails leaves the object it was given
  as it was. A successful \<open>Patch\<close>, \<open>Update\<close> or \<open>Create\<close> replaces the object by what the server
  stored. Calling a method of a nil \<open>cloudapi.Client\<close> panics. Logging is left out.

  The first part of the theory holds the PrivateLoadZone resource
  (\<open>api/v1alpha1/privateloadzone_types.go\<close> and \<open>plzconditions.go\<close>), which calls mention.
\<close>

section \<open>The PrivateLoadZone resource\<close>

record PLZSecretsConfig =
  psc_configMapRef :: "opaque option"
  psc_secretRef :: "opaque option"

text \<open>The part of the pod template that is read.\<close>

record PodTemplate =
  pt_annotations :: "string gomap"
  pt_labels :: "string gomap"
  pt_tolerations :: "opaque list"
  pt_containerSecurityContexts :: "opaque option list"
  pt_securityContext :: "opaque option"

record PrivateLoadZoneSpec =
  plzs_token :: string
  plzs_resources :: resource_requirements
  plzs_serviceAccountName :: string
  plzs_nodeSelector :: "string gomap"
  plzs_image :: string
  plzs_imagePullSecrets :: "string list"
  plzs_secrets :: "PLZSecretsConfig list"
  plzs_podTemplate :: PodTemplate

record PrivateLoadZone =
  plz_name :: string
  plz_namespace :: string
  plz_deleting :: bool
  plz_finalizers :: "string list"
  plz_annotations :: "string gomap"
  plz_spec :: PrivateLoadZoneSpec
  plz_conditions :: conditions

definition ToEnvFromSource :: "PLZSecretsConfig list \<Rightarrow> env_from_source list" where
  "ToEnvFromSource secrets =
     map (\<lambda>s. \<lparr>ef_configMapRef = psc_configMapRef s, ef_secretRef = psc_secretRef s\<rparr>) secrets"

definition PLZ_Initialize :: "int \<Rightarrow> PrivateLoadZone \<Rightarrow> PrivateLoadZone" where
  "PLZ_Initialize t plz = plz\<lparr>plz_conditions :=
     [\<lparr>ctype = ''PLZRegistered'', cstatus = ConditionUnknown, ctime = t,
       creason = ''PLZRegisteredUnknown'', cmessage = ''''\<rparr>]\<rparr>"

definition PLZ_IsTrue :: "meta_api \<Rightarrow> PrivateLoadZone \<Rightarrow> string \<Rightarrow> bool" where
  "PLZ_IsTrue M plz conditionType = IsStatusConditionTrue M (plz_conditions plz) conditionType"

definition PLZ_IsFalse :: "meta_api \<Rightarrow> PrivateLoadZone \<Rightarrow> string \<Rightarrow> bool" where
  "PLZ_IsFalse M plz conditionType = IsStatusConditionFalse M (plz_conditions plz) conditionType"

definition PLZ_IsUnknown :: "meta_api \<Rightarrow> PrivateLoadZone \<Rightarrow> string \<Rightarrow> bool" where
  "PLZ_IsUnknown M plz conditionType \<longleftrightarrow>
     \<not> PLZ_IsFalse M plz conditionType \<and> \<not> PLZ_IsTrue M plz conditionType"

text \<open>
  \<open>UpdateCondition\<close> has a value receiver: it works on a copy of the resource whose slice of
  conditions shares its elements with the original but not its length. The caller sees a change of
  an element that was there, and nothing of an element that was appended.
\<close>

definition PLZ_UpdateCondition ::
    "meta_api \<Rightarrow> int \<Rightarrow> PrivateLoadZone \<Rightarrow> string \<Rightarrow> ConditionStatus \<Rightarrow> string + PrivateLoadZone" where
  "PLZ_UpdateCondition M now plz conditionType conditionStatus =
     map_sum id (\<lambda>cs. plz\<lparr>plz_conditions := take (length (plz_conditions plz)) cs\<rparr>)
       (UpdateCondition M now (plz_conditions plz) conditionType conditionStatus)"

definition PLZ_SetIfNewer :: "meta_api \<Rightarrow> conditions \<Rightarrow> conditions \<Rightarrow> conditions \<times> bool" where
  "PLZ_SetIfNewer M plzStatus proposed =
     (case SetIfNewer M plzStatus proposed None () of (cs, _, isNewer) \<Rightarrow> (cs, isNewer))"

section \<open>Calls\<close>

text \<open>A client of Grafana Cloud k6: its token and the host it was made for.\<close>

record cloud_client =
  cl_token :: string
  cl_host :: string

datatype call =
    GetTestRun namespaced_name
  | PatchTestRunStatus TestRunStatus TestRun
  | CreateTestRunResource TestRun
  | DeleteTestRun namespaced_name
  | GetJob namespaced_name
  | CreateJob job
  | DeleteJob string
  | CreateService service
  | SetControllerReference string
  | ListPods list_options
  | ListServices list_options
  | ListJobs list_options
  | GetSecret namespaced_name
  | ListSecrets list_options
  | ReadPodLogs string string
  | RecordEvent string
  | HTTPGet string
  | CallAPI string string string "string option"
  | CloudGetTestRun cloud_client string
  | CloudCreateTestRun cloud_client string CloudTestRun
  | CloudTestFinished cloud_client string
  | CloudSendEvents cloud_client string Events
  | CloudRegisterPLZ cloud_client string PLZRegistrationData
  | CloudDeRegisterPLZ cloud_client string
  | CloudListTestRuns cloud_client string
  | GetPLZ namespaced_name
  | PatchPLZStatus conditions PrivateLoadZone
  | UpdatePLZ PrivateLoadZone
  | NewUUID
  | ReadClock

type_synonym trace = "call list"

datatype 'a fetched = Found 'a | NotFound | GetFailed string

datatype create_error = AlreadyExists string | CreateFailed string

fun create_error_text :: "create_error \<Rightarrow> string" where
  "create_error_text (AlreadyExists e) = e"
| "create_error_text (CreateFailed e) = e"

text \<open>A response of a runner: the code and the body, if it can be read.\<close>

type_synonym http_response = "int \<times> (string + string)"

record env =
  e_meta :: meta_api
  e_clock :: "trace \<Rightarrow> nat \<Rightarrow> int"
  e_getTestRun :: "trace \<Rightarrow> namespaced_name \<Rightarrow> TestRun fetched"
  e_patchTestRun :: "trace \<Rightarrow> TestRun \<Rightarrow> string + TestRun"
  e_createTestRunResource :: "trace \<Rightarrow> TestRun \<Rightarrow> string + TestRun"
  e_deleteTestRun :: "trace \<Rightarrow> namespaced_name \<Rightarrow> string option"
  e_getJob :: "trace \<Rightarrow> namespaced_name \<Rightarrow> unit fetched"
  e_createJob :: "trace \<Rightarrow> job \<Rightarrow> create_error option"
  e_deleteJob :: "trace \<Rightarrow> string \<Rightarrow> string option"
  e_createService :: "trace \<Rightarrow> service \<Rightarrow> string option"
  e_setControllerReference :: "trace \<Rightarrow> string \<Rightarrow> string option"
  e_listPods :: "trace \<Rightarrow> list_options \<Rightarrow> string + pod_item list"
  e_listServices :: "trace \<Rightarrow> list_options \<Rightarrow> string + service_item list"
  e_listJobs :: "trace \<Rightarrow> list_options \<Rightarrow> string + job_item list"
  e_getSecret :: "trace \<Rightarrow> namespaced_name \<Rightarrow> string + string gomap"
  e_listSecrets :: "trace \<Rightarrow> list_options \<Rightarrow> string + string gomap list"
  e_readPodLogs :: "trace \<Rightarrow> string \<Rightarrow> string + string"
  e_httpGet :: "trace \<Rightarrow> string \<Rightarrow> string + http_response"
  e_callAPI :: "trace \<Rightarrow> string \<Rightarrow> string \<Rightarrow> string + string option"
  e_cloudGetTestRun :: "trace \<Rightarrow> string \<Rightarrow> string + TestRunData"
  e_cloudCreateTestRun :: "trace \<Rightarrow> CloudTestRun \<Rightarrow> string + string \<times> runtime_config"
  e_cloudTestFinished :: "trace \<Rightarrow> string \<Rightarrow> string option"
  e_cloudRegisterPLZ :: "trace \<Rightarrow> PLZRegistrationData \<Rightarrow> (string \<times> string) option"
  e_cloudDeRegisterPLZ :: "trace \<Rightarrow> string \<Rightarrow> string option"
  e_cloudListTestRuns :: "trace \<Rightarrow> string \<Rightarrow> string + nat list"
  e_getPLZ :: "trace \<Rightarrow> namespaced_name \<Rightarrow> PrivateLoadZone fetched"
  e_patchPLZ :: "trace \<Rightarrow> PrivateLoadZone \<Rightarrow> string + PrivateLoadZone"
  e_updatePLZ :: "trace \<Rightarrow> PrivateLoadZone \<Rightarrow> string + PrivateLoadZone"
  e_uuid :: "trace \<Rightarrow> string"
  e_newRequest :: "cloud_client \<Rightarrow> string \<Rightarrow> string option"
  e_baseURL :: "cloud_client \<Rightarrow> string"
  e_defaultHost :: string
  e_defaultProject :: int
  e_runStatusTimedOut :: int
  e_cloudHostVar :: "string option"
  e_unmarshalInspect :: "string \<Rightarrow> string + InspectOutput"
  e_unmarshalStatus :: "string \<Rightarrow> string + bool"
  e_unmarshalJSON :: "string \<Rightarrow> string option"
  e_newK6Client :: "string \<Rightarrow> string option"
  e_limit :: "quantity gomap \<Rightarrow> string \<Rightarrow> string"

type_synonym 'a prog = "(call, 'a) io"

text \<open>A reading of the clock; an operation that reads it several times in a row takes them all.\<close>

definition read_clock :: "env \<Rightarrow> (nat \<Rightarrow> int) prog" where
  "read_clock E = perform (e_clock E) ReadClock"

abbreviation call_now :: "env \<Rightarrow> int prog" where
  "call_now E \<equiv> State_Monad.bind (read_clock E) (\<lambda>clk. State_Monad.return (clk 0))"

definition seconds :: "int \<Rightarrow> int" where
  "seconds n = n * 1000000000"

text \<open>
  The API server keeps the times of conditions (\<open>metav1.Time\<close>) in whole seconds: what it has stored,
  and what it returns of a patch, has its times cut down.
\<close>

definition stored_time :: "int \<Rightarrow> int" where
  "stored_time t = seconds (t div seconds 1)"

definition as_stored :: "conditions \<Rightarrow> conditions" where
  "as_stored cs = map (\<lambda>c. c\<lparr>ctime := stored_time (ctime c)\<rparr>) cs"

definition stored_run :: "TestRun \<Rightarrow> TestRun" where
  "stored_run k6 = set_conditions (as_stored (tr_conditions k6)) k6"

lemma stored_time_le: "stored_time t \<le> t"
  unfolding stored_time_def seconds_def by arith

lemma types_of_stored [simp]: "types_of (as_stored cs) = types_of cs"
  by (induction cs) (simp_all add: as_stored_def)

lemma as_stored_Nil [simp]: "as_stored cs = [] \<longleftrightarrow> cs = []"
  by (simp add: as_stored_def)

lemma as_stored_member: "c \<in> set (as_stored cs) \<Longrightarrow> \<exists>e \<in> set cs. c = e\<lparr>ctime := stored_time (ctime e)\<rparr>"
  by (auto simp: as_stored_def)

lemma stored_run_simps [simp]:
  "tr_conditions (stored_run k6) = as_stored (tr_conditions k6)" "tr_spec (stored_run k6) = tr_spec k6"
  "st_stage (tr_status (stored_run k6)) = st_stage (tr_status k6)"
  "st_testRunID (tr_status (stored_run k6)) = st_testRunID (tr_status k6)"
  "st_aggregationVars (tr_status (stored_run k6)) = st_aggregationVars (tr_status k6)"
  "NamespacedName (stored_run k6) = NamespacedName k6"
  by (simp_all add: stored_run_def set_conditions_def NamespacedName_def)

context status_conditions
begin

lemma lookup_stored:
  "lookup (as_stored cs) t = map_option (\<lambda>c. c\<lparr>ctime := stored_time (ctime c)\<rparr>) (lookup cs t)"
  by (induction cs) (simp_all add: as_stored_def)

lemma status_of_stored [simp]: "status_of M (as_stored cs) = status_of M cs"
  by (rule ext) (simp add: status_of_def lookup_stored option.map_comp o_def)

end

section \<open>Results of a reconciliation\<close>

record result =
  r_requeue :: bool
  r_after :: int

definition no_requeue :: result where
  "no_requeue = \<lparr>r_requeue = False, r_after = 0\<rparr>"

definition requeue :: result where
  "requeue = \<lparr>r_requeue = True, r_after = 0\<rparr>"

definition after_seconds :: "int \<Rightarrow> result" where
  "after_seconds n = \<lparr>r_requeue = False, r_after = seconds n\<rparr>"

text \<open>How a handler ends: with a result and perhaps an error, or in a panic.\<close>

datatype outcome = Returned result "string option" | Panicked string

definition nil_client :: string where
  "nil_client = ''invalid memory address or nil pointer dereference''"

definition index_out_of_range :: string where
  "index_out_of_range = ''index out of range [0] with length 0''"

lemma wpre_read_clock [wp]: "wpre (read_clock E) Q tr \<longleftrightarrow> Q (e_clock E tr) (tr @ [ReadClock])"
  by (simp add: read_clock_def wp)

lemma ensures_read_clock [only_rules]:
  "permits I P ReadClock \<Longrightarrow> (\<And>clk. ensures_in I P Q (f clk)) \<Longrightarrow> ensures_in I P Q (State_Monad.bind (read_clock E) f)"
  by (simp add: read_clock_def only_rules)

lemma ensures_case_fetched [only_rules]:
  "(\<And>a. x = Found a \<Longrightarrow> ensures_in I P Q (f a)) \<Longrightarrow> (x = NotFound \<Longrightarrow> ensures_in I P Q m) \<Longrightarrow>
   (\<And>e. x = GetFailed e \<Longrightarrow> ensures_in I P Q (g e)) \<Longrightarrow>
   ensures_in I P Q (case x of Found a \<Rightarrow> f a | NotFound \<Rightarrow> m | GetFailed e \<Rightarrow> g e)"
  by (cases x) auto

section \<open>An idle environment\<close>

text \<open>
  An environment for witnesses in which nothing exists and nothing fails; a witness changes the
  answers it needs.
\<close>

definition idle_env :: env where
  "idle_env =
     \<lparr>e_meta = documented_meta, e_clock = (\<lambda>tr _. seconds (int (length tr))),
      e_getTestRun = (\<lambda>_ _. NotFound), e_patchTestRun = (\<lambda>_ k. Inr k),
      e_createTestRunResource = (\<lambda>_ k. Inr k), e_deleteTestRun = (\<lambda>_ _. None),
      e_getJob = (\<lambda>_ _. NotFound), e_createJob = (\<lambda>_ _. None), e_deleteJob = (\<lambda>_ _. None),
      e_createService = (\<lambda>_ _. None), e_setControllerReference = (\<lambda>_ _. None),
      e_listPods = (\<lambda>_ _. Inr []), e_listServices = (\<lambda>_ _. Inr []), e_listJobs = (\<lambda>_ _. Inr []),
      e_getSecret = (\<lambda>_ _. Inr [(''token'', ''t'')]), e_listSecrets = (\<lambda>_ _. Inr []),
      e_readPodLogs = (\<lambda>_ _. Inr ''''), e_httpGet = (\<lambda>_ _. Inr (200, Inr '''')),
      e_callAPI = (\<lambda>_ _ _. Inr None), e_cloudGetTestRun = (\<lambda>_ _. Inl ''no such test run''),
      e_cloudCreateTestRun = (\<lambda>_ _. Inl ''refused''), e_cloudTestFinished = (\<lambda>_ _. None),
      e_cloudRegisterPLZ = (\<lambda>_ _. None), e_cloudDeRegisterPLZ = (\<lambda>_ _. None),
      e_cloudListTestRuns = (\<lambda>_ _. Inr []),
      e_getPLZ = (\<lambda>_ _. NotFound), e_patchPLZ = (\<lambda>_ p. Inr p), e_updatePLZ = (\<lambda>_ p. Inr p),
      e_uuid = (\<lambda>_. ''uid''), e_newRequest = (\<lambda>_ _. None), e_baseURL = cl_host,
      e_defaultHost = ''https://ingest.k6.io'', e_defaultProject = 0, e_runStatusTimedOut = 4,
      e_cloudHostVar = None, e_unmarshalInspect = (\<lambda>_. Inl ''unexpected end of JSON input''),
      e_unmarshalStatus = (\<lambda>_. Inr False), e_unmarshalJSON = (\<lambda>_. None),
      e_newK6Client = (\<lambda>_. None), e_limit = (\<lambda>_ _. ''0'')\<rparr>"

lemma idle_env_simps [simp]:
  "e_meta idle_env = documented_meta" "e_getTestRun idle_env tr nn = NotFound"
  "e_getJob idle_env tr nn = NotFound" "e_createJob idle_env tr j = None"
  "e_createService idle_env tr s = None" "e_setControllerReference idle_env tr nm = None"
  by (simp_all add: idle_env_def)

end
