(* ===== verification/K6_Client.thy ===== *)
theory K6_Client
  imports K6_Env
begin

text \<open>
  The operations that talk to Grafana Cloud k6 and to the runners: loading the token
  (\<open>pkg/cloud/token.go\<close>), the calls of \<open>test_runs.go\<close>, \<open>cloud_output.go\<close> and \<open>plz.go\<close>, and the
  client of the runners' REST API (\<open>pkg/testrun/k6client.go\<close>). Where a nil client makes Go panic the
  result has an outer sum, \<open>Inl\<close> being the panic.
\<close>

section \<open>The token\<close>

definition no_secret_error :: string where
  "no_secret_error = ''no secret with k6 Cloud token found''"

definition no_token_field_error :: string where
  "no_token_field_error = ''the secret doesn't have a field `token` for k6 Cloud token''"

text \<open>The secret, or the error \<open>Load\<close> returns at once (\<open>None\<close> asks the caller to try again).\<close>

definition find_secret :: "env \<Rightarrow> TokenInfo \<Rightarrow> (string option + string gomap) prog" where
  "find_secret E ti =
     (if length (ti_secretName ti) > 0 then
        (let nn = \<lparr>nn_namespace = ti_secretNamespace ti, nn_name = ti_secretName ti\<rparr> in do {
          r \<leftarrow> perform (\<lambda>tr. e_getSecret E tr nn) (GetSecret nn);
          State_Monad.return (case r of Inl _ \<Rightarrow> Inl None | Inr secret \<Rightarrow> Inr secret)
        })
      else
        (let opts = \<lparr>lo_namespace = ti_secretNamespace ti, lo_selector = [(''k6cloud'', ''token'')]\<rparr> in do {
          r \<leftarrow> perform (\<lambda>tr. e_listSecrets E tr opts) (ListSecrets opts);
          State_Monad.return (case r of
              Inl _ \<Rightarrow> Inl None
            | Inr [] \<Rightarrow> Inl (Some no_secret_error)
            | Inr (secret # _) \<Rightarrow> Inr secret)
        }))"

definition Load :: "env \<Rightarrow> TokenInfo \<Rightarrow> (TokenInfo \<times> string option) prog" where
  "Load E ti0 =
     (let ti = (if length (ti_secretName ti0) = 0
                then ti0\<lparr>ti_secretNamespace := ''k6-operator-system''\<rparr> else ti0) in do {
       found \<leftarrow> find_secret E ti;
       State_Monad.return (case found of
           Inl err \<Rightarrow> (ti, err)
         | Inr secret \<Rightarrow>
             (case gomap_get secret ''token'' of
                None \<Rightarrow> (ti, Some no_token_field_error)
              | Some t \<Rightarrow> (ti\<lparr>ti_value := t, ti_ready := True\<rparr>, None)))
     })"

section \<open>Grafana Cloud k6\<close>

definition NewClient :: "env \<Rightarrow> string \<Rightarrow> string \<Rightarrow> cloud_client" where
  "NewClient E token host =
     \<lparr>cl_token = token, cl_host = (if length host = 0 then e_defaultHost E else host)\<rparr>"

definition getTestRun :: "env \<Rightarrow> cloud_client \<Rightarrow> string \<Rightarrow> (string + TestRunData) prog" where
  "getTestRun E client url =
     (case e_newRequest E client url of
        Some err \<Rightarrow> State_Monad.return (Inl err)
      | None \<Rightarrow> perform (\<lambda>tr. e_cloudGetTestRun E tr url) (CloudGetTestRun client url))"

definition test_run_url :: "string \<Rightarrow> string \<Rightarrow> string \<Rightarrow> string" where
  "test_run_url host refID sel = host @ ''/loadtests/v4/test_runs('' @ refID @ '')?$select='' @ sel"

definition GetTestRunData :: "env \<Rightarrow> cloud_client \<Rightarrow> string \<Rightarrow> (string + TestRunData) prog" where
  "GetTestRunData E client refID =
     getTestRun E client (test_run_url (TrimSuffix (e_baseURL E client) ''/v1'') refID
       ''id,run_status,k8s_load_zones_config,k6_runtime_config,test_run_token,secrets_config,load_zone_distribution'')"

definition GetTestRunState :: "env \<Rightarrow> cloud_client option \<Rightarrow> string \<Rightarrow> (string + string + int) prog" where
  "GetTestRunState E cloudClient refID =
     (case cloudClient of
        None \<Rightarrow> State_Monad.return (Inl nil_client)
      | Some client \<Rightarrow> do {
          r \<leftarrow> getTestRun E client (test_run_url (ApiURL (e_baseURL E client)) refID ''id,run_status'');
          State_Monad.return (Inr (map_sum id trd_runStatus r))
        })"

text \<open>\<open>Some\<close> is a panic; errors are only logged.\<close>

definition SendTestRunEvents ::
    "env \<Rightarrow> cloud_client option \<Rightarrow> string \<Rightarrow> Events \<Rightarrow> (string option) prog" where
  "SendTestRunEvents E cloudClient refID events =
     (if length events = 0 then State_Monad.return None
      else
        (case cloudClient of
           None \<Rightarrow> State_Monad.return (Some nil_client)
         | Some client \<Rightarrow>
             (let url = TrimSuffix (e_baseURL E client) ''/v1'' @ ''/orchestrator/v1/testruns/'' @ refID @ ''/events'' in
              case e_newRequest E client url of
                Some _ \<Rightarrow> State_Monad.return None
              | None \<Rightarrow> perform (\<lambda>_. None) (CloudSendEvents client url events))))"

definition createTestRun ::
    "env \<Rightarrow> cloud_client option \<Rightarrow> CloudTestRun \<Rightarrow> (string + string + string \<times> runtime_config) prog" where
  "createTestRun E cloudClient testRun =
     (case cloudClient of
        None \<Rightarrow> State_Monad.return (Inl nil_client)
      | Some client \<Rightarrow>
          (let url = e_baseURL E client @ ''/tests'' in
           case e_newRequest E client url of
             Some err \<Rightarrow> State_Monad.return (Inr (Inl err))
           | None \<Rightarrow> do {
               r \<leftarrow> perform (\<lambda>tr. e_cloudCreateTestRun E tr testRun) (CloudCreateTestRun client url testRun);
               State_Monad.return (Inr (case r of
                   Inl err \<Rightarrow> Inl err
                 | Inr (referenceID, config) \<Rightarrow>
                     if referenceID = '''' then Inl ''failed to get a reference ID''
                     else Inr (referenceID, config)))
             }))"

definition CreateTestRun ::
    "env \<Rightarrow> InspectOutput \<Rightarrow> 32 word \<Rightarrow> cloud_client option
     \<Rightarrow> (string + string + string \<times> runtime_config) prog" where
  "CreateTestRun E opts instances cloudClient =
     createTestRun E cloudClient (CreateTestRun_body (e_defaultProject E) opts instances)"

definition FinishTestRun :: "env \<Rightarrow> cloud_client option \<Rightarrow> string \<Rightarrow> (string + string option) prog" where
  "FinishTestRun E cloudClient refID =
     (case cloudClient of
        None \<Rightarrow> State_Monad.return (Inl nil_client)
      | Some client \<Rightarrow> do {
          err \<leftarrow> perform (\<lambda>tr. e_cloudTestFinished E tr refID) (CloudTestFinished client refID);
          State_Monad.return (Inr err)
        })"

definition RegisterPLZ :: "env \<Rightarrow> cloud_client \<Rightarrow> PLZRegistrationData \<Rightarrow> (string option) prog" where
  "RegisterPLZ E client data =
     (let url = load_zones_url (e_baseURL E client) in
      case e_newRequest E client url of
        Some err \<Rightarrow> State_Monad.return (Some err)
      | None \<Rightarrow> do {
          r \<leftarrow> perform (\<lambda>tr. e_cloudRegisterPLZ E tr data) (CloudRegisterPLZ client url data);
          State_Monad.return (map_option (\<lambda>(err, msg).
            ''received error `'' @ err @ ''`. Message from server `'' @ msg @ ''`'') r)
        })"

definition DeRegisterPLZ :: "env \<Rightarrow> cloud_client \<Rightarrow> string \<Rightarrow> (string option) prog" where
  "DeRegisterPLZ E client name =
     (let url = load_zone_url (e_baseURL E client) name in
      case e_newRequest E client url of
        Some err \<Rightarrow> State_Monad.return (Some err)
      | None \<Rightarrow> perform (\<lambda>tr. e_cloudDeRegisterPLZ E tr url) (CloudDeRegisterPLZ client url))"

text \<open>\<open>getTestRuns\<close> of the poller: the ids of the test runs that wait for a load zone.\<close>

definition test_runs_url :: "string \<Rightarrow> string \<Rightarrow> string" where
  "test_runs_url host plzName = host @ ''/v4/plz-test-runs?plz_name='' @ plzName"

definition getTestRuns :: "env \<Rightarrow> cloud_client \<Rightarrow> string \<Rightarrow> (string + string list) prog" where
  "getTestRuns E client plzName =
     (let url = test_runs_url (cl_host client) plzName in
      case e_newRequest E client url of
        Some err \<Rightarrow> State_Monad.return (Inl err)
      | None \<Rightarrow> do {
          r \<leftarrow> perform (\<lambda>tr. e_cloudListTestRuns E tr url) (CloudListTestRuns client url);
          State_Monad.return (map_sum id (map dec_nat) r)
        })"

section \<open>The runners' REST API\<close>

definition runner_address :: "string \<Rightarrow> string" where
  "runner_address hostname = hostname @ '':6565''"

definition call_runner ::
    "env \<Rightarrow> string \<Rightarrow> string \<Rightarrow> string \<Rightarrow> string option \<Rightarrow> (string + string option) prog" where
  "call_runner E hostname method path body =
     (case e_newK6Client E (runner_address hostname) of
        Some err \<Rightarrow> State_Monad.return (Inl err)
      | None \<Rightarrow> perform (\<lambda>tr. e_callAPI E tr (runner_address hostname) path)
                  (CallAPI method (runner_address hostname) path body))"

definition RunSetup :: "env \<Rightarrow> string \<Rightarrow> (string + string option) prog" where
  "RunSetup E hostname = do {
     r \<leftarrow> call_runner E hostname ''POST'' ''/v1/setup'' None;
     State_Monad.return (case r of
         Inl err \<Rightarrow> Inl err
       | Inr None \<Rightarrow> Inr None
       | Inr (Some data) \<Rightarrow>
           (case e_unmarshalJSON E data of Some err \<Rightarrow> Inl err | None \<Rightarrow> Inr (Some data)))
   }"

fun SetSetupData :: "env \<Rightarrow> string list \<Rightarrow> string option \<Rightarrow> (string option) prog" where
  "SetSetupData E [] data = State_Monad.return None"
| "SetSetupData E (hostname # hostnames) data = do {
     r \<leftarrow> call_runner E hostname ''PUT'' ''/v1/setup'' data;
     (case r of
        Inl err \<Rightarrow> State_Monad.return (Some err)
      | Inr _ \<Rightarrow> SetSetupData E hostnames data)
   }"

definition RunTeardown :: "env \<Rightarrow> string list \<Rightarrow> (string option) prog" where
  "RunTeardown E hostnames =
     (case hostnames of
        [] \<Rightarrow> State_Monad.return (Some ''no k6 Service is available to run teardown'')
      | hostname # _ \<Rightarrow> do {
          r \<leftarrow> call_runner E hostname ''POST'' ''/v1/teardown'' None;
          State_Monad.return (case r of Inl err \<Rightarrow> Some err | Inr _ \<Rightarrow> None)
        })"

end
