(* ===== verification/K6_Controller.thy ===== *)
theory K6_Controller
  imports K6_Client
begin

text \<open>
  \<open>internal/controller\<close>, the controller of test runs. The operations follow the files: shared helpers
  (\<open>common.go\<close>, \<open>job_helper.go\<close>), the status (\<open>UpdateStatus\<close> of \<open>testrun_controller.go\<close>), the
  handlers of the stages (\<open>k6_initialize.go\<close>, \<open>k6_create.go\<close>, \<open>k6_start.go\<close>, \<open>k6_stop.go\<close>,
  \<open>k6_stopped_jobs.go\<close>, \<open>k6_finish.go\<close>), and \<open>Reconcile\<close> itself. An operation that changes the test
  run it was handed returns the changed one.
\<close>

section \<open>Panics\<close>

definition unless_panic :: "(string + 'a) prog \<Rightarrow> ('a \<Rightarrow> outcome prog) \<Rightarrow> outcome prog" where
  "unless_panic m f =
     State_Monad.bind m (\<lambda>r. case r of Inl p \<Rightarrow> State_Monad.return (Panicked p) | Inr a \<Rightarrow> f a)"

definition finish :: "result \<Rightarrow> string option \<Rightarrow> outcome prog" where
  "finish res err = State_Monad.return (Returned res err)"

definition update_condition :: "env \<Rightarrow> TestRun \<Rightarrow> string \<Rightarrow> ConditionStatus \<Rightarrow> (string + TestRun) prog" where
  "update_condition E k6 conditionType conditionStatus = do {
     clk \<leftarrow> read_clock E;
     State_Monad.return (TestRun_UpdateCondition (e_meta E) (clk 0) k6 conditionType conditionStatus)
   }"

definition send_events :: "env \<Rightarrow> cloud_client option \<Rightarrow> string \<Rightarrow> Events \<Rightarrow> (string + unit) prog" where
  "send_events E cloudClient refID events = do {
     p \<leftarrow> SendTestRunEvents E cloudClient refID events;
     State_Monad.return (case p of Some msg \<Rightarrow> Inl msg | None \<Rightarrow> Inr ())
   }"

section \<open>Helpers\<close>

definition errMessageTooLong :: "string \<Rightarrow> string \<Rightarrow> string" where
  "errMessageTooLong what which =
     ''Creation of '' @ what @ '' takes too long: your configuration might be off. Check if ''
     @ which @ '' were created successfully.''"

datatype inspected = InspectFailed string | InspectNotReady | InspectReady InspectOutput

definition initializer_pods :: "TestRun \<Rightarrow> list_options" where
  "initializer_pods k6 =
     \<lparr>lo_namespace = tr_namespace k6,
      lo_selector = [(''app'', ''k6''), (''k6_cr'', tr_name k6), (''job-name'', tr_name k6 @ ''-initializer'')]\<rparr>"

definition inspectTestRun :: "env \<Rightarrow> TestRun \<Rightarrow> inspected prog" where
  "inspectTestRun E k6 = do {
     podList \<leftarrow> perform (\<lambda>tr. e_listPods E tr (initializer_pods k6)) (ListPods (initializer_pods k6));
     (case podList of
        Inl err \<Rightarrow> State_Monad.return (InspectFailed err)
      | Inr [] \<Rightarrow> State_Monad.return InspectNotReady
      | Inr (pod # _) \<Rightarrow>
          if pi_phase pod = ''Failed'' then State_Monad.return (InspectFailed ''initalizer job has failed'')
          else if pi_phase pod \<noteq> ''Succeeded'' then State_Monad.return InspectNotReady
          else do {
            logs \<leftarrow> perform (\<lambda>tr. e_readPodLogs E tr (pi_name pod)) (ReadPodLogs (tr_namespace k6) (pi_name pod));
            State_Monad.return (case logs of
                Inl err \<Rightarrow> InspectFailed err
              | Inr buf \<Rightarrow>
                  (case e_unmarshalInspect E buf of
                     Inl err \<Rightarrow> InspectFailed err
                   | Inr inspectOutput \<Rightarrow> InspectReady inspectOutput))
          })
   }"

fun getEnvVar :: "env_var list \<Rightarrow> string \<Rightarrow> string" where
  "getEnvVar [] name = ''''"
| "getEnvVar (v # vars) name = (if ev_name v = name then ev_value v else getEnvVar vars name)"

definition status_url :: "string \<Rightarrow> string" where
  "status_url clusterIP = ''http://'' @ clusterIP @ '':6565/v1/status''"

definition isServiceReady :: "env \<Rightarrow> service_item \<Rightarrow> bool prog" where
  "isServiceReady E service = do {
     resp \<leftarrow> perform (\<lambda>tr. e_httpGet E tr (status_url (si_clusterIP service)))
               (HTTPGet (status_url (si_clusterIP service)));
     State_Monad.return (case resp of Inl _ \<Rightarrow> False | Inr (code, _) \<Rightarrow> code < 400)
   }"

fun hostnames_loop :: "env \<Rightarrow> bool \<Rightarrow> service_item list \<Rightarrow> string list \<Rightarrow> (string + string list) prog" where
  "hostnames_loop E abortOnUnready [] acc = State_Monad.return (Inr acc)"
| "hostnames_loop E abortOnUnready (service # services) acc = do {
     ready \<leftarrow> isServiceReady E service;
     (if ready then hostnames_loop E abortOnUnready services (acc @ [si_clusterIP service])
      else if abortOnUnready then State_Monad.return (Inl (si_name service @ '' service is not ready''))
      else hostnames_loop E abortOnUnready services acc)
   }"

definition hostnames :: "env \<Rightarrow> bool \<Rightarrow> list_options \<Rightarrow> (string + string list) prog" where
  "hostnames E abortOnUnready opts = do {
     sl \<leftarrow> perform (\<lambda>tr. e_listServices E tr opts) (ListServices opts);
     (case sl of
        Inl err \<Rightarrow> State_Monad.return (Inl err)
      | Inr services \<Rightarrow> hostnames_loop E abortOnUnready services [])
   }"

text \<open>The outer sum is a panic; then the error, if any, and whether to try again.\<close>

definition runSetup :: "env \<Rightarrow> string list \<Rightarrow> (string + string option \<times> bool) prog" where
  "runSetup E hosts =
     (case hosts of
        [] \<Rightarrow> State_Monad.return (Inl index_out_of_range)
      | hostname # _ \<Rightarrow> do {
          setupData \<leftarrow> RunSetup E hostname;
          (case setupData of
             Inl err \<Rightarrow> State_Monad.return (Inr (Some err, \<not> Contains err ''Error executing''))
           | Inr data \<Rightarrow> do {
               err \<leftarrow> SetSetupData E hosts data;
               State_Monad.return (Inr (err, False))
             })
        })"

definition runTeardown :: "env \<Rightarrow> string list \<Rightarrow> unit prog" where
  "runTeardown E hosts = do {
     err \<leftarrow> RunTeardown E hosts;
     State_Monad.return ()
   }"

definition job_key :: "job \<Rightarrow> namespaced_name" where
  "job_key j = \<lparr>nn_namespace = om_namespace (job_meta j), nn_name = om_name (job_meta j)\<rparr>"

definition createJobIfNotExists :: "env \<Rightarrow> job \<Rightarrow> (bool \<times> string option) prog" where
  "createJobIfNotExists E j = do {
     found \<leftarrow> perform (\<lambda>tr. e_getJob E tr (job_key j)) (GetJob (job_key j));
     (case found of
        Found _ \<Rightarrow> State_Monad.return (False, None)
      | GetFailed err \<Rightarrow> State_Monad.return (False, Some err)
      | NotFound \<Rightarrow> do {
          r \<leftarrow> perform (\<lambda>tr. e_createJob E tr j) (CreateJob j);
          State_Monad.return (case r of
              None \<Rightarrow> (True, None)
            | Some (AlreadyExists _) \<Rightarrow> (False, None)
            | Some (CreateFailed err) \<Rightarrow> (False, Some err))
        })
   }"

definition set_controller_reference :: "env \<Rightarrow> string \<Rightarrow> (string option) prog" where
  "set_controller_reference E name =
     perform (\<lambda>tr. e_setControllerReference E tr name) (SetControllerReference name)"

section \<open>The status\<close>

definition UpdateStatus :: "env \<Rightarrow> TestRun \<Rightarrow> (TestRun \<times> bool \<times> string option) prog" where
  "UpdateStatus E k6 = do {
     got \<leftarrow> perform (\<lambda>tr. e_getTestRun E tr (NamespacedName k6)) (GetTestRun (NamespacedName k6));
     (case got of
        NotFound \<Rightarrow> State_Monad.return (k6, False, None)
      | GetFailed err \<Rightarrow> State_Monad.return (k6, False, Some err)
      | Found cur \<Rightarrow>
          (let (status, isNewer) = TestRunStatus_SetIfNewer (e_meta E) (tr_status cur) (tr_status k6);
               k6' = cur\<lparr>tr_status := status\<rparr> in
           if \<not> isNewer then State_Monad.return (k6', False, None)
           else do {
             patched \<leftarrow> perform (\<lambda>tr. e_patchTestRun E tr k6') (PatchTestRunStatus (tr_status cur) k6');
             State_Monad.return (case patched of
                 Inl err \<Rightarrow> (k6', False, Some err)
               | Inr stored \<Rightarrow> (stored, True, None))
           }))
   }"

definition isCloudTestRun :: "meta_api \<Rightarrow> TestRun \<Rightarrow> bool" where
  "isCloudTestRun M k6 \<longleftrightarrow> IsTrue M k6 ''CloudTestRun'' \<or> IsTrue M k6 ''CloudPLZTestRun''"

definition ShouldAbort :: "env \<Rightarrow> TestRun \<Rightarrow> cloud_client option \<Rightarrow> (string + bool) prog" where
  "ShouldAbort E k6 cloudClient =
     (if length (TestRunID k6) = 0 then State_Monad.return (Inr False)
      else do {
        r \<leftarrow> GetTestRunState E cloudClient (TestRunID k6);
        State_Monad.return (case r of
            Inl p \<Rightarrow> Inl p
          | Inr (Inl _) \<Rightarrow> Inr False
          | Inr (Inr status) \<Rightarrow> Inr (Aborted (e_runStatusTimedOut E) status))
      })"

text \<open>\<open>Inr None\<close>: the token is not there yet.\<close>

definition createClient :: "env \<Rightarrow> TestRun \<Rightarrow> (string + cloud_client option) prog" where
  "createClient E k6 = do {
     (ti, err) \<leftarrow> Load E (NewTokenInfo (spec_token (tr_spec k6)) (tr_namespace k6));
     State_Monad.return (case err of
         Some e \<Rightarrow> Inl e
       | None \<Rightarrow>
           if \<not> ti_ready ti then Inr None
           else Inr (Some (NewClient E (ti_value ti)
             (getEnvVar (pod_env (spec_runner (tr_spec k6))) ''K6_CLOUD_HOST''))))
   }"

section \<open>Initialization\<close>

definition InitializeJobs :: "env \<Rightarrow> TestRun \<Rightarrow> outcome prog" where
  "InitializeJobs E k6 =
     (let res = after_seconds 5;
          cli = fst (ParseCLI (Argv (tr_spec k6))) in
      case NewInitializerJob k6 (ArchiveArgs cli) of
        (_, Inl err) \<Rightarrow> finish res (Some err)
      | (k6', Inr initializer) \<Rightarrow> do {
          err \<leftarrow> set_controller_reference E (om_name (job_meta initializer));
          (case err of
             Some e \<Rightarrow> finish res (Some e)
           | None \<Rightarrow> do {
               failed \<leftarrow> perform (\<lambda>tr. e_createJob E tr initializer) (CreateJob initializer);
               finish res (map_option create_error_text failed)
             })
        })"

text \<open>What \<open>RunValidations\<close> returns besides the test run: result, readiness and error.\<close>

record validation =
  v_result :: result
  v_ready :: bool
  v_error :: "string option"

definition stop_with_error :: "env \<Rightarrow> TestRun \<Rightarrow> (string + TestRun \<times> validation) prog" where
  "stop_with_error E k6 = do {
     (k6', _, err) \<leftarrow> UpdateStatus E (set_stage ''error'' k6);
     State_Monad.return (Inr (k6', \<lparr>v_result = no_requeue, v_ready = False, v_error = err\<rparr>))
   }"

definition inspect_error_events :: "string \<Rightarrow> Events" where
  "inspect_error_events err =
     WithAbort (WithDetail (ErrorEvent K6OperatorStartError) (''Failed to inspect the test script: '' @ err))"

text \<open>The conditions set once the script has been inspected.\<close>

definition cloud_output_conditions :: "env \<Rightarrow> bool \<Rightarrow> TestRun \<Rightarrow> (string + TestRun) prog" where
  "cloud_output_conditions E hasCloudOut k6 = do {
     clk \<leftarrow> read_clock E;
     State_Monad.return
       (if hasCloudOut then
          (case TestRun_UpdateCondition (e_meta E) (clk 0) k6 ''CloudTestRun'' ConditionTrue of
             Inl p \<Rightarrow> Inl p
           | Inr k6a \<Rightarrow>
               update_conditions (e_meta E) clk 1
                 ((if IsUnknown (e_meta E) k6a ''CloudTestRunCreated''
                   then [(''CloudTestRunCreated'', ConditionFalse)] else [])
                  @ [(''CloudTestRunFinalized'', ConditionFalse)]) k6a)
        else TestRun_UpdateCondition (e_meta E) (clk 0) k6 ''CloudTestRun'' ConditionFalse)
   }"

text \<open>The comparison of the VUs, cut to 32 bits and read as signed, with the parallelism.\<close>

definition too_few_vus :: "64 word \<Rightarrow> 32 word \<Rightarrow> bool" where
  "too_few_vus maxVUs parallelism \<longleftrightarrow> sint (ucast maxVUs :: 32 word) < sint parallelism"

definition RunValidations ::
    "env \<Rightarrow> TestRun \<Rightarrow> cloud_client option \<Rightarrow> (string + TestRun \<times> validation) prog" where
  "RunValidations E k6 cloudClient = do {
     inspection \<leftarrow> inspectTestRun E k6;
     (case inspection of
        InspectFailed err \<Rightarrow>
          if IsTrue (e_meta E) k6 ''CloudPLZTestRun'' then do {
            sent \<leftarrow> send_events E cloudClient (TestRunID k6) (inspect_error_events err);
            State_Monad.return (map_sum id
              (\<lambda>_. (k6, \<lparr>v_result = no_requeue, v_ready = False, v_error = Some err\<rparr>)) sent)
          }
          else stop_with_error E k6
      | InspectNotReady \<Rightarrow>
          State_Monad.return (Inr (k6, \<lparr>v_result = after_seconds 5, v_ready = False, v_error = None\<rparr>))
      | InspectReady inspectOutput \<Rightarrow>
          if too_few_vus (io_maxVUs inspectOutput) (spec_parallelism (tr_spec k6)) then stop_with_error E k6
          else do {
            updated \<leftarrow> cloud_output_conditions E (HasCloudOut (fst (ParseCLI (Argv (tr_spec k6))))) k6;
            (case updated of
               Inl p \<Rightarrow> State_Monad.return (Inl p)
             | Inr k6a \<Rightarrow> do {
                 (k6b, _, err) \<leftarrow> UpdateStatus E k6a;
                 State_Monad.return (Inr (k6b,
                   case err of
                     Some e \<Rightarrow> \<lparr>v_result = no_requeue, v_ready = False, v_error = Some e\<rparr>
                   | None \<Rightarrow> \<lparr>v_result = after_seconds 5, v_ready = True, v_error = None\<rparr>))
               })
          })
   }"

text \<open>After the request: the answer of the cloud goes into the status.\<close>

definition record_cloud_test_run :: "env \<Rightarrow> TestRun \<Rightarrow> string \<Rightarrow> runtime_config \<Rightarrow> outcome prog" where
  "record_cloud_test_run E k6 referenceID config =
     (let k6a = k6\<lparr>tr_status := (tr_status k6)\<lparr>st_testRunID := referenceID\<rparr>\<rparr> in
      unless_panic (update_condition E k6a ''CloudTestRunCreated'' ConditionTrue) (\<lambda>k6b. do {
        (_, _, err) \<leftarrow> UpdateStatus E
          (k6b\<lparr>tr_status := (tr_status k6b)\<lparr>st_aggregationVars := EncodeAggregationConfig config\<rparr>\<rparr>);
        finish no_requeue err
      }))"

definition SetupCloudTest :: "env \<Rightarrow> TestRun \<Rightarrow> cloud_client option \<Rightarrow> outcome prog" where
  "SetupCloudTest E k6 cloudClient = do {
     inspection \<leftarrow> inspectTestRun E k6;
     (case inspection of
        InspectFailed _ \<Rightarrow> finish no_requeue None
      | InspectNotReady \<Rightarrow> finish (after_seconds 5) None
      | InspectReady inspectOutput \<Rightarrow>
          if IsFalse (e_meta E) k6 ''CloudTestRunCreated'' then do {
            clk \<leftarrow> read_clock E;
            let t = fst (LastUpdate (e_meta E) (clk 0) k6 ''CloudTestRunCreated'');
            (if clk 1 - t < seconds 5 then finish (after_seconds 2) None
             else
               (case (if length (TestName inspectOutput) < 1
                      then map_sum (\<lambda>_. nil_client) (\<lambda>script. SetTestName (s_Filename script) inspectOutput)
                             (ParseScript (tr_spec k6))
                      else Inr inspectOutput) of
                  Inl p \<Rightarrow> State_Monad.return (Panicked p)
                | Inr opts \<Rightarrow>
                    unless_panic (CreateTestRun E opts (spec_parallelism (tr_spec k6)) cloudClient) (\<lambda>r.
                      case r of
                        Inl _ \<Rightarrow> finish (after_seconds 5) None
                      | Inr (referenceID, config) \<Rightarrow> record_cloud_test_run E k6 referenceID config)))
          }
          else finish no_requeue None)
   }"

section \<open>Creation of the runners\<close>

definition launchTest :: "env \<Rightarrow> TestRun \<Rightarrow> TokenInfo \<Rightarrow> int \<Rightarrow> (string option) prog" where
  "launchTest E k6 tokenInfo index =
     (case NewRunnerJob (e_meta E) k6 index tokenInfo of
        Inl err \<Rightarrow> State_Monad.return (Some err)
      | Inr j \<Rightarrow> do {
          err \<leftarrow> set_controller_reference E (om_name (job_meta j));
          (case err of
             Some e \<Rightarrow> State_Monad.return (Some e)
           | None \<Rightarrow> do {
               failed \<leftarrow> perform (\<lambda>tr. e_createJob E tr j) (CreateJob j);
               (case failed of
                  Some e \<Rightarrow> State_Monad.return (Some (create_error_text e))
                | None \<Rightarrow>
                    (let service = NewRunnerService k6 index in do {
                      err2 \<leftarrow> set_controller_reference E (om_name (svc_meta service));
                      (case err2 of
                         Some e \<Rightarrow> State_Monad.return (Some e)
                       | None \<Rightarrow> perform (\<lambda>tr. e_createService E tr service) (CreateService service))
                    }))
             })
        })"

fun launch_tests :: "env \<Rightarrow> TestRun \<Rightarrow> TokenInfo \<Rightarrow> int list \<Rightarrow> (string option) prog" where
  "launch_tests E k6 tokenInfo [] = State_Monad.return None"
| "launch_tests E k6 tokenInfo (i # is) = do {
     err \<leftarrow> launchTest E k6 tokenInfo i;
     (case err of
        Some e \<Rightarrow> State_Monad.return (Some e)
      | None \<Rightarrow> launch_tests E k6 tokenInfo is)
   }"

text \<open>Result, whether to check again, and the error.\<close>

definition createJobSpecs :: "env \<Rightarrow> TestRun \<Rightarrow> TokenInfo \<Rightarrow> (result \<times> bool \<times> string option) prog" where
  "createJobSpecs E k6 tokenInfo =
     (let nn = \<lparr>nn_namespace = tr_namespace k6, nn_name = tr_name k6 @ ''-1''\<rparr> in do {
       found \<leftarrow> perform (\<lambda>tr. e_getJob E tr nn) (GetJob nn);
       (case found of
          NotFound \<Rightarrow> do {
            err \<leftarrow> launch_tests E k6 tokenInfo [1 .. sint (spec_parallelism (tr_spec k6))];
            State_Monad.return (no_requeue, False, err)
          }
        | _ \<Rightarrow>
            (let err = (case found of
                   GetFailed e \<Rightarrow> e
                 | _ \<Rightarrow> ''job with the name '' @ nn_name nn
                        @ '' exists; make sure you've deleted your previous run'') in do {
              clk \<leftarrow> read_clock E;
              let (t, condUpdated) = LastUpdate (e_meta E) (clk 0) k6 ''CloudTestRun'';
              State_Monad.return
                (if IsUnknown (e_meta E) k6 ''CloudTestRun'' \<or> \<not> condUpdated \<or> clk 1 - t \<le> seconds 30
                 then (after_seconds 10, True, None)
                 else (no_requeue, False, Some err))
            }))
     })"

definition runner_failure_events :: "string \<Rightarrow> Events" where
  "runner_failure_events err =
     WithAbort (WithDetail (ErrorEvent K6OperatorStartError) (''Failed to create runner jobs: '' @ err))"

text \<open>\<open>CreateJobs\<close> once the token is there.\<close>

definition create_jobs_with :: "env \<Rightarrow> TestRun \<Rightarrow> cloud_client option \<Rightarrow> TokenInfo \<Rightarrow> outcome prog" where
  "create_jobs_with E k6 cloudClient tokenInfo = do {
     (res, recheck, err) \<leftarrow> createJobSpecs E k6 tokenInfo;
     (case err of
        Some e \<Rightarrow>
          if IsTrue (e_meta E) k6 ''CloudTestRun'' then
            unless_panic (send_events E cloudClient (TestRunID k6) (runner_failure_events e))
              (\<lambda>_. finish res (Some e))
          else finish res (Some e)
      | None \<Rightarrow>
          if recheck then finish res None
          else do {
            (_, updateHappened, err2) \<leftarrow> UpdateStatus E (set_stage ''created'' k6);
            (case err2 of
               Some e \<Rightarrow> finish no_requeue (Some e)
             | None \<Rightarrow> finish (if updateHappened then requeue else no_requeue) None)
          })
   }"

definition CreateJobs :: "env \<Rightarrow> TestRun \<Rightarrow> cloud_client option \<Rightarrow> outcome prog" where
  "CreateJobs E k6 cloudClient =
     (let tokenInfo = NewTokenInfo (spec_token (tr_spec k6)) (tr_namespace k6) in
      if IsTrue (e_meta E) k6 ''CloudTestRun'' \<and> IsTrue (e_meta E) k6 ''CloudTestRunCreated'' then do {
        (loaded, err) \<leftarrow> Load E tokenInfo;
        (case err of
           Some _ \<Rightarrow> finish no_requeue None
         | None \<Rightarrow>
             if \<not> ti_ready loaded then finish (after_seconds 5) None
             else create_jobs_with E k6 cloudClient loaded)
      }
      else create_jobs_with E k6 cloudClient tokenInfo)"

section \<open>Start\<close>

definition too_long_events :: "string \<Rightarrow> Events" where
  "too_long_events msg = WithAbort (WithDetail (ErrorEvent K6OperatorStartError) msg)"

definition running_pods :: "pod_item list \<Rightarrow> int" where
  "running_pods pods = int (length (filter (\<lambda>pod. pi_phase pod = ''Running'') pods))"

text \<open>Pods are missing: complain if that has lasted for five minutes, and look again.\<close>

definition wait_for_pods :: "env \<Rightarrow> TestRun \<Rightarrow> cloud_client option \<Rightarrow> outcome prog" where
  "wait_for_pods E k6 cloudClient = do {
     clk \<leftarrow> read_clock E;
     let (t, ok) = LastUpdate (e_meta E) (clk 0) k6 ''TestRunRunning'';
     (if \<not> ok then finish (after_seconds 1) (Some ''cannot find condition TestRunRunning'')
      else if clk 1 - t > seconds 300 \<and> IsTrue (e_meta E) k6 ''CloudTestRun'' then
        unless_panic (send_events E cloudClient (TestRunID k6)
            (too_long_events (errMessageTooLong ''runner pods'' ''runner jobs and pods'')))
          (\<lambda>_. finish (after_seconds 1) None)
      else finish (after_seconds 1) None)
   }"

definition setup_failure_events :: "string \<Rightarrow> Events" where
  "setup_failure_events err =
     WithAbort (WithDetail (ErrorEvent SetupError) (''setup function failed: '' @ err))"

text \<open>The last part of \<open>StartJobs\<close>: the starter, then the status.\<close>

definition launch_starter :: "env \<Rightarrow> TestRun \<Rightarrow> string list \<Rightarrow> outcome prog" where
  "launch_starter E k6 hosts =
     (let starter = NewStarterJob k6 hosts in do {
       _ \<leftarrow> set_controller_reference E (om_name (job_meta starter));
       (_, err) \<leftarrow> createJobIfNotExists E starter;
       (case err of
          Some _ \<Rightarrow> finish (after_seconds 1) None
        | None \<Rightarrow>
            unless_panic (update_condition E (set_stage ''started'' k6) ''TestRunRunning'' ConditionTrue)
              (\<lambda>k6a. do {
                (_, updateHappened, err2) \<leftarrow> UpdateStatus E k6a;
                (case err2 of
                   Some e \<Rightarrow> finish no_requeue (Some e)
                 | None \<Rightarrow> finish (if updateHappened then requeue else no_requeue) None)
              }))
     })"

definition setup_and_start :: "env \<Rightarrow> TestRun \<Rightarrow> cloud_client option \<Rightarrow> string list \<Rightarrow> outcome prog" where
  "setup_and_start E k6 cloudClient hosts =
     (if IsTrue (e_meta E) k6 ''CloudPLZTestRun'' then
        unless_panic (runSetup E hosts) (\<lambda>(err, retry).
          case err of
            None \<Rightarrow> launch_starter E k6 hosts
          | Some e \<Rightarrow>
              if retry then finish no_requeue (Some e)
              else unless_panic (send_events E cloudClient (TestRunID k6) (setup_failure_events e))
                     (\<lambda>_. finish no_requeue None))
      else launch_starter E k6 hosts)"

definition StartJobs :: "env \<Rightarrow> TestRun \<Rightarrow> cloud_client option \<Rightarrow> outcome prog" where
  "StartJobs E k6 cloudClient = do {
     pl \<leftarrow> perform (\<lambda>tr. e_listPods E tr (ListOptions k6)) (ListPods (ListOptions k6));
     (case pl of
        Inl _ \<Rightarrow> finish (after_seconds 1) None
      | Inr pods \<Rightarrow>
          if running_pods pods \<noteq> sint (spec_parallelism (tr_spec k6)) then wait_for_pods E k6 cloudClient
          else do {
            hosts \<leftarrow> hostnames E True (ListOptions k6);
            (case hosts of
               Inl err \<Rightarrow> finish no_requeue (Some err)
             | Inr hs \<Rightarrow> setup_and_start E k6 cloudClient hs)
          })
   }"

section \<open>Stop\<close>

definition StopJobs :: "env \<Rightarrow> TestRun \<Rightarrow> outcome prog" where
  "StopJobs E k6 = do {
     sl \<leftarrow> perform (\<lambda>tr. e_listServices E tr (ListOptions k6)) (ListServices (ListOptions k6));
     (case sl of
        Inl _ \<Rightarrow> finish no_requeue None
      | Inr services \<Rightarrow>
          (let stopJob = NewStopJob k6 (map si_clusterIP services) in do {
            _ \<leftarrow> set_controller_reference E (om_name (job_meta stopJob));
            (_, err) \<leftarrow> createJobIfNotExists E stopJob;
            (case err of
               Some _ \<Rightarrow> finish no_requeue None
             | None \<Rightarrow>
                 unless_panic (update_condition E (set_stage ''stopped'' k6) ''TestRunRunning'' ConditionFalse)
                   (\<lambda>k6a. unless_panic (update_condition E k6a ''CloudTestRunAborted'' ConditionTrue)
                   (\<lambda>k6b. do {
                     (_, updateHappened, err2) \<leftarrow> UpdateStatus E k6b;
                     (case err2 of
                        Some e \<Rightarrow> finish no_requeue (Some e)
                      | None \<Rightarrow> finish (if updateHappened then after_seconds 1 else no_requeue) None)
                   })))
          }))
   }"

text \<open>A runner that answers counts as running unless the answer says it is not.\<close>

definition isJobRunning :: "env \<Rightarrow> service_item \<Rightarrow> bool prog" where
  "isJobRunning E service = do {
     resp \<leftarrow> perform (\<lambda>tr. e_httpGet E tr (status_url (si_clusterIP service)))
               (HTTPGet (status_url (si_clusterIP service)));
     State_Monad.return (case resp of
         Inl _ \<Rightarrow> False
       | Inr (code, body) \<Rightarrow>
           if code \<ge> 400 then True
           else (case body of
                   Inl _ \<Rightarrow> True
                 | Inr data \<Rightarrow> (case e_unmarshalStatus E data of Inl _ \<Rightarrow> True | Inr running \<Rightarrow> running)))
   }"

fun count_running :: "env \<Rightarrow> service_item list \<Rightarrow> 32 word \<Rightarrow> 32 word prog" where
  "count_running E [] runningJobs = State_Monad.return runningJobs"
| "count_running E (service # services) runningJobs = do {
     running \<leftarrow> isJobRunning E service;
     count_running E services (if running then runningJobs + 1 else runningJobs)
   }"

definition StoppedJobs :: "env \<Rightarrow> TestRun \<Rightarrow> bool prog" where
  "StoppedJobs E k6 = do {
     sl \<leftarrow> perform (\<lambda>tr. e_listServices E tr (ListOptions k6)) (ListServices (ListOptions k6));
     (case sl of
        Inl _ \<Rightarrow> State_Monad.return False
      | Inr services \<Rightarrow> do {
          runningJobs \<leftarrow> count_running E services 0;
          State_Monad.return (\<not> sint runningJobs > 0)
        })
   }"

text \<open>The loop of \<open>KillJobs\<close>; an error of one deletion is only logged.\<close>

fun delete_jobs :: "env \<Rightarrow> job_item list \<Rightarrow> nat \<Rightarrow> nat prog" where
  "delete_jobs E [] deleteCount = State_Monad.return deleteCount"
| "delete_jobs E (j # js) deleteCount = do {
     _ \<leftarrow> perform (\<lambda>tr. e_deleteJob E tr (ji_name j)) (DeleteJob (ji_name j));
     delete_jobs E js (deleteCount + 1)
   }"

definition KillJobs :: "env \<Rightarrow> TestRun \<Rightarrow> (string + bool) prog" where
  "KillJobs E k6 = do {
     jl \<leftarrow> perform (\<lambda>tr. e_listJobs E tr (ListOptions k6)) (ListJobs (ListOptions k6));
     (case jl of
        Inl err \<Rightarrow> State_Monad.return (Inl err)
      | Inr items \<Rightarrow> do {
          deleteCount \<leftarrow> delete_jobs E items 0;
          State_Monad.return (Inr (deleteCount = length items))
        })
   }"

section \<open>Finish\<close>

fun count_finished :: "job_item list \<Rightarrow> 32 word \<times> 32 word \<Rightarrow> 32 word \<times> 32 word" where
  "count_finished [] counts = counts"
| "count_finished (j # js) (finished, failed) =
     (if ji_active j \<noteq> 0 then count_finished js (finished, failed)
      else count_finished js (finished + 1, if sint (ji_failed j) > 0 then failed + 1 else failed))"

definition finish_message :: "32 word \<Rightarrow> 32 word \<Rightarrow> 32 word \<Rightarrow> string" where
  "finish_message finished parallelism failed =
     itoa (sint finished) @ ''/'' @ itoa (sint parallelism) @ '' jobs complete, ''
     @ itoa (sint failed) @ '' failed''"

definition runner_error_events :: "string \<Rightarrow> Events" where
  "runner_error_events msg = WithAbort (WithDetail (ErrorEvent K6OperatorRunnerError) msg)"

definition FinishJobs :: "env \<Rightarrow> TestRun \<Rightarrow> cloud_client option \<Rightarrow> (string + bool) prog" where
  "FinishJobs E k6 cloudClient = do {
     jl \<leftarrow> perform (\<lambda>tr. e_listJobs E tr (ListOptions k6)) (ListJobs (ListOptions k6));
     (case jl of
        Inl _ \<Rightarrow> State_Monad.return (Inr False)
      | Inr items \<Rightarrow>
          (let (finished, failed) = count_finished items (0, 0);
               parallelism = spec_parallelism (tr_spec k6);
               allFinished = (\<not> sint finished < sint parallelism) in
           if IsTrue (e_meta E) k6 ''CloudTestRun'' \<and> sint failed > 0 then do {
             sent \<leftarrow> send_events E cloudClient (TestRunID k6)
               (runner_error_events (finish_message finished parallelism failed));
             State_Monad.return (map_sum id (\<lambda>_. allFinished) sent)
           }
           else State_Monad.return (Inr allFinished)))
   }"

end
