(* ===== verification/K6_Reconcile.thy ===== *)
theory K6_Reconcile
  imports K6_Controller
begin

text \<open>
  \<open>Reconcile\<close> and \<open>reconcile\<close> of \<open>internal/controller/testrun_controller.go\<close>: one definition for each
  case of the switch on the stage, then the parts before the switch. The properties of the
  controller are in \<open>K6_Control_Props\<close>.
\<close>

section \<open>Stage: none\<close>

fun record_warnings :: "string list \<Rightarrow> unit prog" where
  "record_warnings [] = State_Monad.return ()"
| "record_warnings (w # ws) = do {
     _ \<leftarrow> perform (\<lambda>_. ()) (RecordEvent w);
     record_warnings ws
   }"

text \<open>After the conditions have been set: the initializer is skipped or launched.\<close>

definition begin_initialization :: "env \<Rightarrow> TestRun \<Rightarrow> outcome prog" where
  "begin_initialization E k6 =
     (if \<not> HasCloudOut (fst (ParseCLI (Argv (tr_spec k6)))) \<and> IsInitializerDisabled k6 then do {
        (_, _, err) \<leftarrow> UpdateStatus E (set_stage ''initialized'' k6);
        finish no_requeue err
      }
      else do {
        (k6', updateHappened, err) \<leftarrow> UpdateStatus E (set_stage ''initialization'' k6);
        (case err of
           Some e \<Rightarrow> finish no_requeue (Some e)
         | None \<Rightarrow> if updateHappened then InitializeJobs E k6' else finish no_requeue None)
      })"

definition initialize_conditions :: "env \<Rightarrow> TestRun \<Rightarrow> (string + TestRun) prog" where
  "initialize_conditions E k6 = do {
     clk \<leftarrow> read_clock E;
     State_Monad.return (Initialize (e_meta E) clk k6)
   }"

definition reconcile_new :: "env \<Rightarrow> TestRun \<Rightarrow> outcome prog" where
  "reconcile_new E k6 =
     (let (warnings, invalid) = Validate (tr_spec k6) in do {
       _ \<leftarrow> record_warnings warnings;
       (case invalid of
          Some _ \<Rightarrow> do {
            (_, _, err) \<leftarrow> UpdateStatus E (set_stage ''error'' k6);
            finish no_requeue err
          }
        | None \<Rightarrow>
            unless_panic (initialize_conditions E k6) (\<lambda>k6a. do {
              (k6b, _, err) \<leftarrow> UpdateStatus E k6a;
              (case err of
                 Some e \<Rightarrow> finish no_requeue (Some e)
               | None \<Rightarrow> begin_initialization E k6b)
            }))
     })"

section \<open>Stage: initialization\<close>

definition initializer_late_events :: Events where
  "initializer_late_events = too_long_events (errMessageTooLong ''initializer pod'' ''initializer job and pod'')"

definition wait_for_initializer ::
    "env \<Rightarrow> TestRun \<Rightarrow> cloud_client option \<Rightarrow> validation \<Rightarrow> outcome prog" where
  "wait_for_initializer E k6 cloudClient v = do {
     clk \<leftarrow> read_clock E;
     let (t, ok) = LastUpdate (e_meta E) (clk 0) k6 ''TestRunRunning'';
     (if \<not> ok then finish (v_result v) (Some ''cannot find condition TestRunRunning'')
      else if clk 1 - t > seconds 300 \<and> isCloudTestRun (e_meta E) k6 then
        unless_panic (send_events E cloudClient (TestRunID k6) initializer_late_events)
          (\<lambda>_. finish (v_result v) (v_error v))
      else finish (v_result v) (v_error v))
   }"

definition cloud_initialization :: "env \<Rightarrow> TestRun \<Rightarrow> cloud_client option \<Rightarrow> outcome prog" where
  "cloud_initialization E k6 cloudClient =
     (if IsTrue (e_meta E) k6 ''CloudTestRun'' then
        (if IsFalse (e_meta E) k6 ''CloudTestRunCreated'' then SetupCloudTest E k6 cloudClient
         else do {
           (_, _, err) \<leftarrow> UpdateStatus E (set_stage ''initialized'' k6);
           finish no_requeue err
         })
      else finish no_requeue None)"

definition reconcile_initialization :: "env \<Rightarrow> TestRun \<Rightarrow> cloud_client option \<Rightarrow> outcome prog" where
  "reconcile_initialization E k6 cloudClient =
     unless_panic (RunValidations E k6 cloudClient) (\<lambda>(k6a, v).
       if v_error v \<noteq> None \<or> \<not> v_ready v then wait_for_initializer E k6a cloudClient v
       else if IsFalse (e_meta E) k6a ''CloudTestRun'' then do {
         (k6b, updateHappened, err) \<leftarrow> UpdateStatus E (set_stage ''initialized'' k6a);
         (case err of
            Some e \<Rightarrow> finish no_requeue (Some e)
          | None \<Rightarrow>
              if updateHappened then finish no_requeue None
              else cloud_initialization E k6b cloudClient)
       }
       else cloud_initialization E k6a cloudClient)"

section \<open>Stage: started\<close>

definition mark_stopped :: "env \<Rightarrow> TestRun \<Rightarrow> outcome prog" where
  "mark_stopped E k6 =
     (if IsTrue (e_meta E) k6 ''TestRunRunning'' then
        unless_panic (update_condition E k6 ''TestRunRunning'' ConditionFalse) (\<lambda>k6a. do {
          (_, _, err) \<leftarrow> UpdateStatus E (set_stage ''stopped'' k6a);
          finish no_requeue err
        })
      else finish no_requeue None)"

definition teardown :: "env \<Rightarrow> TestRun \<Rightarrow> outcome prog" where
  "teardown E k6 = do {
     hosts \<leftarrow> hostnames E False (ListOptions k6);
     (case hosts of
        Inl _ \<Rightarrow> finish no_requeue None
      | Inr hs \<Rightarrow> do {
          _ \<leftarrow> runTeardown E hs;
          unless_panic (update_condition E k6 ''TeardownExecuted'' ConditionTrue) (\<lambda>k6a. do {
            (_, _, err) \<leftarrow> UpdateStatus E k6a;
            finish no_requeue err
          })
        })
   }"

definition watch_plz_run :: "env \<Rightarrow> TestRun \<Rightarrow> outcome prog" where
  "watch_plz_run E k6 = do {
     clk \<leftarrow> read_clock E;
     let runningTime = fst (LastUpdate (e_meta E) (clk 0) k6 ''TestRunRunning'');
     (if IsFalse (e_meta E) k6 ''TeardownExecuted'' then do {
        allJobsStopped \<leftarrow> (if clk 1 - runningTime > seconds 30 then StoppedJobs E k6
                           else State_Monad.return False);
        (if IsFalse (e_meta E) k6 ''CloudTestRunAborted'' \<and> allJobsStopped then teardown E k6
         else finish (after_seconds 15) None)
      }
      else mark_stopped E k6)
   }"

definition watch_run :: "env \<Rightarrow> TestRun \<Rightarrow> cloud_client option \<Rightarrow> outcome prog" where
  "watch_run E k6 cloudClient =
     unless_panic (FinishJobs E k6 cloudClient) (\<lambda>allFinished.
       if allFinished then mark_stopped E k6
       else if IsTrue (e_meta E) k6 ''CloudTestRun'' \<and> IsFalse (e_meta E) k6 ''CloudTestRunAborted'' then
         unless_panic (ShouldAbort E k6 cloudClient) (\<lambda>abort.
           if abort then StopJobs E k6 else finish (after_seconds 15) None)
       else finish (after_seconds 15) None)"

definition reconcile_started :: "env \<Rightarrow> TestRun \<Rightarrow> cloud_client option \<Rightarrow> outcome prog" where
  "reconcile_started E k6 cloudClient =
     (if IsTrue (e_meta E) k6 ''CloudTestRun'' \<and> IsTrue (e_meta E) k6 ''CloudTestRunFinalized''
      then finish no_requeue None
      else if IsTrue (e_meta E) k6 ''CloudTestRunAborted'' then finish no_requeue None
      else if IsTrue (e_meta E) k6 ''CloudPLZTestRun'' then watch_plz_run E k6
      else watch_run E k6 cloudClient)"

section \<open>Stage: stopped\<close>

definition mark_finished :: "env \<Rightarrow> TestRun \<Rightarrow> outcome prog" where
  "mark_finished E k6 = do {
     (_, _, err) \<leftarrow> UpdateStatus E (set_stage ''finished'' k6);
     (case err of
        Some e \<Rightarrow> finish no_requeue (Some e)
      | None \<Rightarrow> finish (after_seconds 1) None)
   }"

definition finalize_and_finish :: "env \<Rightarrow> TestRun \<Rightarrow> cloud_client option \<Rightarrow> outcome prog" where
  "finalize_and_finish E k6 cloudClient =
     (if IsTrue (e_meta E) k6 ''CloudTestRun'' \<and> IsFalse (e_meta E) k6 ''CloudTestRunFinalized'' then do {
        clk \<leftarrow> read_clock E;
        let t = fst (LastUpdate (e_meta E) (clk 0) k6 ''TestRunRunning'');
        (if clk 1 - t < seconds 5 then finish (after_seconds 2) None
         else
           unless_panic (FinishTestRun E cloudClient (st_testRunID (tr_status k6))) (\<lambda>err.
             case err of
               Some _ \<Rightarrow> finish no_requeue None
             | None \<Rightarrow>
                 unless_panic (update_condition E k6 ''CloudTestRunFinalized'' ConditionTrue)
                   (mark_finished E)))
      }
      else mark_finished E k6)"

definition reconcile_stopped :: "env \<Rightarrow> TestRun \<Rightarrow> cloud_client option \<Rightarrow> outcome prog" where
  "reconcile_stopped E k6 cloudClient =
     (if IsTrue (e_meta E) k6 ''CloudPLZTestRun'' \<and> IsTrue (e_meta E) k6 ''CloudTestRunAborted'' then do {
        stopped \<leftarrow> StoppedJobs E k6;
        (if stopped then do {
           killed \<leftarrow> KillJobs E k6;
           (case killed of
              Inl err \<Rightarrow> finish (after_seconds 1) (Some err)
            | Inr allDeleted \<Rightarrow>
                if allDeleted then
                  unless_panic (update_condition E k6 ''CloudTestRunAborted'' ConditionTrue) (\<lambda>k6a. do {
                    (k6b, _, err) \<leftarrow> UpdateStatus E k6a;
                    (case err of
                       Some e \<Rightarrow> finish no_requeue (Some e)
                     | None \<Rightarrow> finalize_and_finish E k6b cloudClient)
                  })
                else finalize_and_finish E k6 cloudClient)
         }
         else finalize_and_finish E k6 cloudClient)
      }
      else finalize_and_finish E k6 cloudClient)"

section \<open>Final stages and the whole\<close>

definition reconcile_final :: "env \<Rightarrow> TestRun \<Rightarrow> outcome prog" where
  "reconcile_final E k6 =
     (if spec_cleanup (tr_spec k6) = ''post'' then do {
        _ \<leftarrow> perform (\<lambda>tr. e_deleteTestRun E tr (NamespacedName k6)) (DeleteTestRun (NamespacedName k6));
        finish no_requeue None
      }
      else finish no_requeue None)"

definition reconcile_stage :: "env \<Rightarrow> TestRun \<Rightarrow> cloud_client option \<Rightarrow> outcome prog" where
  "reconcile_stage E k6 cloudClient =
     (let stage = st_stage (tr_status k6) in
      if stage = '''' then reconcile_new E k6
      else if stage = ''initialization'' then reconcile_initialization E k6 cloudClient
      else if stage = ''initialized'' then CreateJobs E k6 cloudClient
      else if stage = ''created'' then StartJobs E k6 cloudClient
      else if stage = ''started'' then reconcile_started E k6 cloudClient
      else if stage = ''stopped'' then reconcile_stopped E k6 cloudClient
      else if stage = ''error'' \<or> stage = ''finished'' then reconcile_final E k6
      else finish no_requeue (Some ''invalid status''))"

definition reconcile_with :: "env \<Rightarrow> TestRun \<Rightarrow> cloud_client option \<Rightarrow> outcome prog" where
  "reconcile_with E k6 cloudClient =
     (if isCloudTestRun (e_meta E) k6 \<and> IsFalse (e_meta E) k6 ''CloudTestRunAborted'' then
        unless_panic (ShouldAbort E k6 cloudClient) (\<lambda>abort.
          if abort then StopJobs E k6 else reconcile_stage E k6 cloudClient)
      else reconcile_stage E k6 cloudClient)"

definition reconcile :: "env \<Rightarrow> TestRun \<Rightarrow> outcome prog" where
  "reconcile E k6 =
     (if isCloudTestRun (e_meta E) k6 then do {
        created \<leftarrow> createClient E k6;
        (case created of
           Inl err \<Rightarrow> finish no_requeue (Some err)
         | Inr None \<Rightarrow> finish (after_seconds 1) None
         | Inr (Some client) \<Rightarrow> reconcile_with E k6 (Some client))
      }
      else reconcile_with E k6 None)"

definition parallelism_error :: "32 word \<Rightarrow> string" where
  "parallelism_error p =
     ''parallelism of TestRun cannot be less than 1; provided value is '' @ itoa (sint p)"

definition Reconcile :: "env \<Rightarrow> namespaced_name \<Rightarrow> outcome prog" where
  "Reconcile E req = do {
     got \<leftarrow> perform (\<lambda>tr. e_getTestRun E tr req) (GetTestRun req);
     (case got of
        NotFound \<Rightarrow> finish no_requeue None
      | GetFailed err \<Rightarrow> finish requeue (Some err)
      | Found k6 \<Rightarrow>
          if sint (spec_parallelism (tr_spec k6)) < 1
          then finish no_requeue (Some (parallelism_error (spec_parallelism (tr_spec k6))))
          else reconcile E k6)
   }"

end
