(* ===== verification/K6_Policy.thy ===== *)
theory K6_Policy
  imports K6_Reconcile
begin

text \<open>
  What a reconciliation may do to the outside, for every environment. The locale
  \<open>quiet_policy\<close> covers the helpers, its extension \<open>reconciler_policy\<close> gathers the calls the controller
  makes: a policy \<open>P\<close> that allows each of them holds of all calls of \<open>Reconcile\<close>, and an invariant
  \<open>I\<close> of histories that each of them keeps is kept by \<open>Reconcile\<close>. The rules follow the code bottom
  up; \<open>K6_Control_Props\<close> uses the locale with one policy on the status and one on ownership,
  \<open>K6_History\<close> with an invariant.
\<close>

text \<open>Calls that name no Kubernetes object.\<close>

fun quiet :: "call \<Rightarrow> bool" where
  "quiet (RecordEvent _) = True"
| "quiet (HTTPGet _) = True"
| "quiet (CallAPI _ _ _ _) = True"
| "quiet (CloudGetTestRun _ _) = True"
| "quiet (CloudCreateTestRun _ _ _) = True"
| "quiet (CloudTestFinished _ _) = True"
| "quiet (CloudSendEvents _ _ _) = True"
| "quiet ReadClock = True"
| "quiet _ = False"

text \<open>The names the jobs and services of a test run have, and where its token is looked for.\<close>

definition job_name_of :: "string \<Rightarrow> string \<Rightarrow> bool" where
  "job_name_of run n \<longleftrightarrow> n \<in> {run @ ''-initializer'', run @ ''-starter'', run @ ''-stopper''}
     \<or> (\<exists>i. n = run @ ''-'' @ itoa i)"

definition service_name_of :: "string \<Rightarrow> string \<Rightarrow> bool" where
  "service_name_of run n \<longleftrightarrow> (\<exists>i. n = run @ ''-service-'' @ itoa i)"

definition run_secret :: "TestRun \<Rightarrow> namespaced_name" where
  "run_secret k6 = \<lparr>nn_namespace = tr_namespace k6, nn_name = spec_token (tr_spec k6)\<rparr>"

definition operator_secrets :: list_options where
  "operator_secrets = \<lparr>lo_namespace = ''k6-operator-system'', lo_selector = [(''k6cloud'', ''token'')]\<rparr>"

lemma job_names:
  "NewInitializerJob k6 args = (k6', Inr j) \<Longrightarrow> job_name_of (tr_name k6) (om_name (job_meta j))"
  "NewRunnerJob M k6 i ti = Inr j' \<Longrightarrow> job_name_of (tr_name k6) (om_name (job_meta j'))"
  "job_name_of (tr_name k6) (om_name (job_meta (NewStarterJob k6 hs)))"
  "job_name_of (tr_name k6) (om_name (job_meta (NewStopJob k6 hs)))"
  "job_name_of (tr_name k6) (tr_name k6 @ ''-1'')"
  "service_name_of (tr_name k6) (om_name (svc_meta (NewRunnerService k6 i)))"
proof -
  show "job_name_of (tr_name k6) (tr_name k6 @ ''-1'')"
    unfolding job_name_of_def by (intro disjI2 exI [of _ 1]) code_simp
qed (auto simp: job_name_of_def service_name_of_def initializer_meta_def runner_meta_def runner_name_def
    NewStarterJob_meta NewStopJob_meta NewRunnerService_def dest: NewInitializerJob_meta NewRunnerJob_meta)

lemma NamespacedName_set_stage [simp]: "NamespacedName (set_stage s k6) = NamespacedName k6"
  by (simp add: NamespacedName_def set_stage_def)

lemma NamespacedName_status [simp]: "NamespacedName (k6\<lparr>tr_status := st\<rparr>) = NamespacedName k6"
  by (simp add: NamespacedName_def)

lemma NamespacedName_set_conditions [simp]: "NamespacedName (set_conditions cs k6) = NamespacedName k6"
  by (simp add: NamespacedName_def set_conditions_def)

lemma NamespacedName_UpdateCondition:
  "TestRun_UpdateCondition M now k6 t st = Inr k6' \<Longrightarrow> NamespacedName k6' = NamespacedName k6"
  by (auto dest: TestRun_UpdateCondition_frame)

lemma NamespacedName_update_conditions:
  "update_conditions M clk i us k6 = Inr k6' \<Longrightarrow> NamespacedName k6' = NamespacedName k6"
  by (induction us arbitrary: i k6) (auto split: sum.splits dest: NamespacedName_UpdateCondition)

lemma NamespacedName_Initialize:
  "Initialize M clk k6 = Inr k6' \<Longrightarrow> NamespacedName k6' = NamespacedName k6"
  unfolding Initialize_def Let_def
  by (auto split: sum.splits if_splits simp: map_sum_def
      dest!: NamespacedName_UpdateCondition NamespacedName_update_conditions)

lemma update_conditions_spec: "update_conditions M clk i us k6 = Inr k6' \<Longrightarrow> tr_spec k6' = tr_spec k6"
  by (induction us arbitrary: i k6) (auto split: sum.splits dest: TestRun_UpdateCondition_spec)

lemma Initialize_spec: "Initialize M clk k6 = Inr k6' \<Longrightarrow> tr_spec k6' = tr_spec k6"
  unfolding Initialize_def Let_def
  by (auto split: sum.splits if_splits simp: map_sum_def set_conditions_def
      dest!: TestRun_UpdateCondition_spec update_conditions_spec)

lemma ensures_case_inspected [only_rules]:
  "(\<And>e. x = InspectFailed e \<Longrightarrow> ensures_in I P Q (f e)) \<Longrightarrow> (x = InspectNotReady \<Longrightarrow> ensures_in I P Q m) \<Longrightarrow>
   (\<And>i. x = InspectReady i \<Longrightarrow> ensures_in I P Q (g i)) \<Longrightarrow>
   ensures_in I P Q (case x of InspectFailed e \<Rightarrow> f e | InspectNotReady \<Rightarrow> m | InspectReady i \<Rightarrow> g i)"
  by (cases x) auto

text \<open>A policy that allows the quiet calls allows what the helpers do.\<close>

locale quiet_policy =
  fixes E :: env and I :: "trace \<Rightarrow> bool" and P :: "call \<Rightarrow> bool"
  assumes quiet: "quiet c \<Longrightarrow> permits I P c"
begin

lemmas quiet_calls [only_rules] = quiet [of "RecordEvent _", simplified]
  quiet [of "HTTPGet _", simplified] quiet [of "CallAPI _ _ _ _", simplified]
  quiet [of "CloudGetTestRun _ _", simplified] quiet [of "CloudCreateTestRun _ _ _", simplified] quiet [of "CloudTestFinished _ _", simplified]
  quiet [of "CloudSendEvents _ _ _", simplified] quiet [of ReadClock, simplified]

lemma only_unless_panic:
  assumes "ensures_in I P (\<lambda>r. \<forall>a. r = Inr a \<longrightarrow> R a) m" and "\<And>a. R a \<Longrightarrow> only_in I P (f a)"
  shows "only_in I P (unless_panic m f)"
  unfolding unless_panic_def
  by (rule ensures_bind [OF assms(1)]) (intro only_rules; use assms(2) in simp)

lemma only_finish [only_rules]: "only_in I P (finish res err)"
  by (simp add: finish_def only_rules)

lemma send_events_only: "only_in I P (send_events E c r es)"
  unfolding send_events_def SendTestRunEvents_def Let_def
  by (rule ensures_bind [where R = "\<lambda>_. True"]; intro only_rules; simp)

lemma unless_send_events [only_rules]:
  "(\<And>u. only_in I P (f u)) \<Longrightarrow> only_in I P (unless_panic (send_events E c r es) f)"
  by (rule only_unless_panic [where R = "\<lambda>_. True"]) (simp_all add: send_events_only)

lemma bind_send_events [only_rules]:
  "(\<And>u. ensures_in I P Q (f u)) \<Longrightarrow> ensures_in I P Q (State_Monad.bind (send_events E c r es) f)"
  by (rule ensures_bind [OF send_events_only])

lemma hostnames_loop_only: "only_in I P (hostnames_loop E b ss acc)"
proof (induction ss arbitrary: acc)
  case (Cons s ss)
  then show ?case
    unfolding hostnames_loop.simps isServiceReady_def
    by (intro ensures_bind [where R = "\<lambda>_. True"] only_rules) simp_all
qed (simp add: only_rules)

lemma call_runner_only: "only_in I P (call_runner E h m p b)"
  unfolding call_runner_def by (intro only_rules) simp_all

lemma SetSetupData_only: "only_in I P (SetSetupData E hs d)"
proof (induction hs)
  case (Cons h hs)
  then show ?case
    unfolding SetSetupData.simps
    by (intro ensures_bind [OF call_runner_only] only_rules) simp_all
qed (simp add: only_rules)

lemma runSetup_only: "only_in I P (runSetup E hs)"
  unfolding runSetup_def RunSetup_def
  by (intro only_rules ensures_bind [where R = "\<lambda>_. True"] call_runner_only SetSetupData_only) simp_all

lemma unless_runSetup [only_rules]:
  "(\<And>r. only_in I P (f r)) \<Longrightarrow> only_in I P (unless_panic (runSetup E hs) f)"
  by (rule only_unless_panic [where R = "\<lambda>_. True"]) (simp_all add: runSetup_only)

lemma bind_runTeardown [only_rules]:
  "(\<And>r. ensures_in I P Q (f r)) \<Longrightarrow> ensures_in I P Q (State_Monad.bind (runTeardown E hs) f)"
  unfolding runTeardown_def RunTeardown_def
  by (intro ensures_bind [where R = "\<lambda>_. True"] only_rules call_runner_only) simp_all

lemma getTestRun_only: "only_in I P (getTestRun E c url)"
  unfolding getTestRun_def by (intro only_rules) simp_all

lemma ShouldAbort_only: "only_in I P (ShouldAbort E k6 c)"
  unfolding ShouldAbort_def GetTestRunState_def
  by (intro ensures_bind [where R = "\<lambda>_. True"] only_rules getTestRun_only) simp_all

lemma unless_ShouldAbort [only_rules]:
  "(\<And>r. only_in I P (f r)) \<Longrightarrow> only_in I P (unless_panic (ShouldAbort E k6 c) f)"
  by (rule only_unless_panic [where R = "\<lambda>_. True"]) (simp_all add: ShouldAbort_only)

lemma unless_CreateTestRun [only_rules]:
  "(\<And>r. only_in I P (f r)) \<Longrightarrow> only_in I P (unless_panic (CreateTestRun E opts n c) f)"
  by (rule only_unless_panic [where R = "\<lambda>_. True"])
    (auto simp: CreateTestRun_def createTestRun_def Let_def intro!: only_rules)

lemma count_running_only: "only_in I P (count_running E ss n)"
proof (induction ss arbitrary: n)
  case (Cons s ss)
  then show ?case
    unfolding count_running.simps isJobRunning_def
    by (intro ensures_bind [where R = "\<lambda>_. True"] only_rules) simp_all
qed (simp add: only_rules)

lemma record_warnings_only: "only_in I P (record_warnings ws)"
  by (induction ws) (auto intro!: only_rules)

lemma FinishTestRun_only: "only_in I P (FinishTestRun E c r)"
  unfolding FinishTestRun_def by (intro only_rules) simp_all

end

text \<open>
  The calls of the controller on test runs of its own: those that \<open>own\<close> describes, a class that
  the changes the controller makes to a status do not leave. A test run whose reconciliation begins
  is \<open>unstarted\<close>: it becomes one of its own when its conditions are initialized, and before that it
  may only be \<open>proposed\<close> to be stopped with an error. What is patched is the merge of a proposed
  status into the one that has just been read.
\<close>

locale reconciler_policy =
  quiet_policy E I P for E :: env and I :: "trace \<Rightarrow> bool" and P :: "call \<Rightarrow> bool" +
  fixes own proposed unstarted :: "TestRun \<Rightarrow> bool"
  assumes own_proposed: "own k6 \<Longrightarrow> proposed k6"
    and own_stage: "own k6 \<Longrightarrow> s \<in> set stages \<Longrightarrow> own (set_stage s k6)"
    and own_update: "own k6 \<Longrightarrow> TestRun_UpdateCondition (e_meta E) now k6 t c = Inr k6' \<Longrightarrow> own k6'"
    and own_cloud_data: "own k6 \<Longrightarrow> own (k6\<lparr>tr_status := (tr_status k6)\<lparr>st_testRunID := refID\<rparr>\<rparr>)"
      "own k6 \<Longrightarrow> own (k6\<lparr>tr_status := (tr_status k6)\<lparr>st_aggregationVars := v\<rparr>\<rparr>)"
    and own_Initialize: "unstarted k6 \<Longrightarrow> Initialize (e_meta E) clk k6 = Inr k6' \<Longrightarrow> own k6'"
    and unstarted_error: "unstarted k6 \<Longrightarrow> proposed (set_stage ''error'' k6)"
    and own_merged: "I tr \<Longrightarrow> own k6 \<Longrightarrow> e_getTestRun E tr (NamespacedName k6) = Found cur \<Longrightarrow>
      own (cur\<lparr>tr_status := fst (TestRunStatus_SetIfNewer (e_meta E) (tr_status cur) (tr_status k6))\<rparr>)"
    and own_patch: "own k6 \<Longrightarrow> e_patchTestRun E tr k6 = Inr k6' \<Longrightarrow> own k6'"
    and get: "proposed k6 \<Longrightarrow> permits I P (GetTestRun (NamespacedName k6))"
    and patch: "I tr \<Longrightarrow> proposed k6 \<Longrightarrow> e_getTestRun E tr (NamespacedName k6) = Found cur \<Longrightarrow>
      TestRunStatus_SetIfNewer (e_meta E) (tr_status cur) (tr_status k6) = (st, True) \<Longrightarrow>
      P (PatchTestRunStatus (tr_status cur) (cur\<lparr>tr_status := st\<rparr>))
        \<and> I (tr @ [GetTestRun (NamespacedName k6), PatchTestRunStatus (tr_status cur) (cur\<lparr>tr_status := st\<rparr>)])"
    and delete: "proposed k6 \<Longrightarrow> permits I P (DeleteTestRun (NamespacedName k6))"
    and get_job: "own k6 \<Longrightarrow> nn_namespace nn = tr_namespace k6 \<Longrightarrow> job_name_of (tr_name k6) (nn_name nn) \<Longrightarrow>
      permits I P (GetJob nn)"
    and refer: "own k6 \<Longrightarrow> job_name_of (tr_name k6) n \<or> service_name_of (tr_name k6) n \<Longrightarrow>
      permits I P (SetControllerReference n)"
    and get_secret: "proposed k6 \<Longrightarrow> permits I P (GetSecret (run_secret k6))"
    and list_secrets: "permits I P (ListSecrets operator_secrets)"
    and read_logs: "own k6 \<Longrightarrow> e_listPods E tr (initializer_pods k6) = Inr pods \<Longrightarrow> pod \<in> set pods \<Longrightarrow>
      permits I P (ReadPodLogs (tr_namespace k6) (pi_name pod))"
    and list_pods: "own k6 \<Longrightarrow> permits I P (ListPods (ListOptions k6))"
      "own k6 \<Longrightarrow> permits I P (ListPods (initializer_pods k6))"
    and list_jobs: "own k6 \<Longrightarrow> permits I P (ListJobs (ListOptions k6))"
    and list_services: "own k6 \<Longrightarrow> permits I P (ListServices (ListOptions k6))"
    and delete_job: "own k6 \<Longrightarrow> e_listJobs E tr (ListOptions k6) = Inr items \<Longrightarrow> item \<in> set items \<Longrightarrow>
      permits I P (DeleteJob (ji_name item))"
    and create_initializer: "own k6 \<Longrightarrow> NewInitializerJob k6 args = (k6', Inr j) \<Longrightarrow> permits I P (CreateJob j)"
    and create_runner: "own k6 \<Longrightarrow> NewRunnerJob (e_meta E) k6 i ti = Inr j \<Longrightarrow> permits I P (CreateJob j)"
    and create_service: "own k6 \<Longrightarrow> permits I P (CreateService (NewRunnerService k6 i))"
    and create_starter: "own k6 \<Longrightarrow> permits I P (CreateJob (NewStarterJob k6 hs))"
    and create_stopper: "own k6 \<Longrightarrow> permits I P (CreateJob (NewStopJob k6 hs))"
begin

subsection \<open>Test runs stay what they are\<close>

lemma own_stages [simp]:
  assumes "own k6"
  shows "own (set_stage ''error'' k6)" "own (set_stage ''initialization'' k6)" "own (set_stage ''initialized'' k6)"
    "own (set_stage ''created'' k6)" "own (set_stage ''started'' k6)" "own (set_stage ''stopped'' k6)"
    "own (set_stage ''finished'' k6)"
  by (rule own_stage [OF assms]; simp add: stages_def)+

lemmas own_simps [simp] = own_proposed own_cloud_data

lemma own_updates: "own k6 \<Longrightarrow> update_conditions (e_meta E) clk i us k6 = Inr k6' \<Longrightarrow> own k6'"
proof (induction us arbitrary: i k6)
  case (Cons u us)
  obtain t c where u: "u = (t, c)" by fastforce
  obtain k6a where "TestRun_UpdateCondition (e_meta E) (clk i) k6 t c = Inr k6a"
    "update_conditions (e_meta E) clk (Suc i) us k6a = Inr k6'"
    using Cons.prems(2) u by (auto split: sum.splits)
  then show ?case using own_update [OF Cons.prems(1)] Cons.IH by blast
qed simp

lemmas calls [only_rules] = get delete list_pods list_jobs list_services

subsection \<open>Helpers\<close>

lemma UpdateStatus_ensures:
  assumes "proposed k6"
  shows "ensures_in I P (\<lambda>(k6', _, _). own k6 \<longrightarrow> own k6') (UpdateStatus E k6)"
  unfolding ensures_in_def
proof (intro allI impI)
  fix tr assume I: "I tr"
  let ?get = "GetTestRun (NamespacedName k6)"
  have get': "P ?get" "I (tr @ [?get])" using get [OF assms] I by (auto simp: permits_def)
  show "\<exists>cs. snd (run_state (UpdateStatus E k6) tr) = tr @ cs \<and> list_all P cs
      \<and> I (snd (run_state (UpdateStatus E k6) tr))
      \<and> (case fst (run_state (UpdateStatus E k6) tr) of (k6', _, _) \<Rightarrow> own k6 \<longrightarrow> own k6')"
  proof (cases "e_getTestRun E tr (NamespacedName k6)")
    case (Found cur)
    obtain st isNewer where merge: "TestRunStatus_SetIfNewer (e_meta E) (tr_status cur) (tr_status k6) = (st, isNewer)"
      by fastforce
    show ?thesis
      using get' patch [OF I assms Found] own_merged [OF I _ Found] merge own_patch Found
      by (cases isNewer) (auto simp: UpdateStatus_def Let_def split: sum.splits)
  qed (use get' in \<open>auto simp: UpdateStatus_def\<close>)
qed

lemma bind_UpdateStatus [only_rules]:
  "own k6 \<Longrightarrow> (\<And>k6' u e. own k6' \<Longrightarrow> ensures_in I P Q (f (k6', u, e))) \<Longrightarrow>
   ensures_in I P Q (State_Monad.bind (UpdateStatus E k6) f)"
  by (rule ensures_bind [OF UpdateStatus_ensures]) auto

lemma bind_UpdateStatus_proposed:
  "proposed k6 \<Longrightarrow> (\<And>r. ensures_in I P Q (f r)) \<Longrightarrow> ensures_in I P Q (State_Monad.bind (UpdateStatus E k6) f)"
  by (rule ensures_bind [OF UpdateStatus_ensures]) auto

lemma unless_update [only_rules]:
  "own k6 \<Longrightarrow> (\<And>k6'. own k6' \<Longrightarrow> only_in I P (f k6')) \<Longrightarrow>
   only_in I P (unless_panic (update_condition E k6 t st) f)"
  by (rule only_unless_panic [where R = own])
    (auto simp: update_condition_def intro!: only_rules dest: own_update)

lemma bind_set_controller_reference [only_rules]:
  "own k6 \<Longrightarrow> job_name_of (tr_name k6) n \<or> service_name_of (tr_name k6) n \<Longrightarrow>
   (\<And>r. ensures_in I P Q (f r)) \<Longrightarrow> ensures_in I P Q (State_Monad.bind (set_controller_reference E n) f)"
  unfolding set_controller_reference_def by (intro ensures_bind_perform refer)

lemma Load_only:
  assumes "proposed k6"
  shows "only_in I P (Load E (NewTokenInfo (spec_token (tr_spec k6)) (tr_namespace k6)))"
  unfolding Load_def find_secret_def Let_def NewTokenInfo_def
  using get_secret [OF assms, unfolded run_secret_def] list_secrets [unfolded operator_secrets_def]
  by (cases "spec_token (tr_spec k6) = []"; simp; intro ensures_bind [where R = "\<lambda>_. True"] only_rules; simp)

lemma bind_Load [only_rules]:
  "proposed k6 \<Longrightarrow> (\<And>r. ensures_in I P Q (f r)) \<Longrightarrow>
   ensures_in I P Q (State_Monad.bind (Load E (NewTokenInfo (spec_token (tr_spec k6)) (tr_namespace k6))) f)"
  by (rule ensures_bind [OF Load_only])

lemma createClient_only: "proposed k6 \<Longrightarrow> only_in I P (createClient E k6)"
  unfolding createClient_def by (intro only_rules) simp_all

lemma inspectTestRun_only: "own k6 \<Longrightarrow> only_in I P (inspectTestRun E k6)"
  unfolding inspectTestRun_def
  by (intro only_rules) (assumption | simp | rule read_logs)+

lemma bind_inspectTestRun [only_rules]:
  "own k6 \<Longrightarrow> (\<And>i. ensures_in I P Q (f i)) \<Longrightarrow> ensures_in I P Q (State_Monad.bind (inspectTestRun E k6) f)"
  by (rule ensures_bind [OF inspectTestRun_only])

lemma hostnames_only: "own k6 \<Longrightarrow> only_in I P (hostnames E b (ListOptions k6))"
  unfolding hostnames_def by (intro only_rules hostnames_loop_only) (assumption | simp)+

lemma bind_hostnames [only_rules]:
  "own k6 \<Longrightarrow> (\<And>h. ensures_in I P Q (f h)) \<Longrightarrow>
   ensures_in I P Q (State_Monad.bind (hostnames E b (ListOptions k6)) f)"
  by (rule ensures_bind [OF hostnames_only])

lemma createJobIfNotExists_only:
  "own k6 \<Longrightarrow> om_namespace (job_meta j) = tr_namespace k6 \<Longrightarrow> job_name_of (tr_name k6) (om_name (job_meta j)) \<Longrightarrow>
   permits I P (CreateJob j) \<Longrightarrow> only_in I P (createJobIfNotExists E j)"
  unfolding createJobIfNotExists_def by (intro only_rules get_job) (assumption | simp add: job_key_def)+

lemma bind_create_starter [only_rules]:
  "own k6 \<Longrightarrow> (\<And>r. ensures_in I P Q (f r)) \<Longrightarrow>
   ensures_in I P Q (State_Monad.bind (createJobIfNotExists E (NewStarterJob k6 hs)) f)"
  by (rule ensures_bind [OF createJobIfNotExists_only [of k6]])
    (simp_all only: job_names create_starter starter_object.meta_namespace)

lemma bind_create_stopper [only_rules]:
  "own k6 \<Longrightarrow> (\<And>r. ensures_in I P Q (f r)) \<Longrightarrow>
   ensures_in I P Q (State_Monad.bind (createJobIfNotExists E (NewStopJob k6 hs)) f)"
  by (rule ensures_bind [OF createJobIfNotExists_only [of k6]])
    (simp_all only: job_names create_stopper stopper_object.meta_namespace)

subsection \<open>Handlers\<close>

lemma InitializeJobs_only [only_rules]: "own k6 \<Longrightarrow> only_in I P (InitializeJobs E k6)"
  unfolding InitializeJobs_def
  by (intro only_rules) (auto intro: create_initializer job_names)

lemma stop_with_error_ensures:
  "own k6 \<Longrightarrow> ensures_in I P (\<lambda>r. \<forall>a. r = Inr a \<longrightarrow> own (fst a)) (stop_with_error E k6)"
  unfolding stop_with_error_def by (intro only_rules) auto

lemma cloud_output_conditions_ensures:
  "own k6 \<Longrightarrow> ensures_in I P (\<lambda>r. \<forall>a. r = Inr a \<longrightarrow> own a) (cloud_output_conditions E b k6)"
  unfolding cloud_output_conditions_def
  by (intro only_rules) (auto simp del: update_conditions.simps dest: own_update own_updates split: if_splits sum.splits)

lemma RunValidations_ensures:
  "own k6 \<Longrightarrow> ensures_in I P (\<lambda>r. \<forall>a. r = Inr a \<longrightarrow> own (fst a)) (RunValidations E k6 c)"
  unfolding RunValidations_def
  by (intro only_rules stop_with_error_ensures ensures_bind [OF cloud_output_conditions_ensures])
    (auto simp: map_sum_def split: sum.splits)

lemma unless_RunValidations [only_rules]:
  "own k6 \<Longrightarrow> (\<And>k6' v. own k6' \<Longrightarrow> only_in I P (f (k6', v))) \<Longrightarrow>
   only_in I P (unless_panic (RunValidations E k6 c) f)"
  by (rule only_unless_panic [OF RunValidations_ensures]) auto

lemma record_cloud_test_run_only: "own k6 \<Longrightarrow> only_in I P (record_cloud_test_run E k6 r c)"
  unfolding record_cloud_test_run_def by (intro only_rules) simp_all

lemma SetupCloudTest_only: "own k6 \<Longrightarrow> only_in I P (SetupCloudTest E k6 c)"
  unfolding SetupCloudTest_def
  by (intro only_rules record_cloud_test_run_only) (auto simp: only_rules)

lemma launchTest_only: "own k6 \<Longrightarrow> only_in I P (launchTest E k6 ti i)"
  unfolding launchTest_def
  by (intro only_rules) (auto intro: create_runner create_service job_names)

lemma launch_tests_only: "own k6 \<Longrightarrow> only_in I P (launch_tests E k6 ti is)"
proof (induction "is")
  case (Cons i "is")
  then show ?case
    unfolding launch_tests.simps
    by (intro ensures_bind [OF launchTest_only] only_rules) simp_all
qed (simp add: only_rules)

lemma createJobSpecs_only: "own k6 \<Longrightarrow> only_in I P (createJobSpecs E k6 ti)"
  unfolding createJobSpecs_def
  by (intro only_rules get_job ensures_bind [OF launch_tests_only]) (assumption | simp add: job_names)+

lemma CreateJobs_only [only_rules]: "own k6 \<Longrightarrow> only_in I P (CreateJobs E k6 c)"
  unfolding CreateJobs_def create_jobs_with_def
  by (intro only_rules ensures_bind [OF createJobSpecs_only]) simp_all

lemma StopJobs_only [only_rules]: "own k6 \<Longrightarrow> only_in I P (StopJobs E k6)"
  unfolding StopJobs_def by (intro only_rules) (assumption | simp add: job_names)+

lemma launch_starter_only: "own k6 \<Longrightarrow> only_in I P (launch_starter E k6 hs)"
  unfolding launch_starter_def by (intro only_rules) (assumption | simp add: job_names)+

lemma StartJobs_only [only_rules]: "own k6 \<Longrightarrow> only_in I P (StartJobs E k6 c)"
  unfolding StartJobs_def wait_for_pods_def setup_and_start_def
  by (intro only_rules launch_starter_only) (assumption | simp)+

lemma StoppedJobs_only: "own k6 \<Longrightarrow> only_in I P (StoppedJobs E k6)"
  unfolding StoppedJobs_def
  by (intro only_rules ensures_bind [OF count_running_only]) (assumption | simp)+

lemma delete_jobs_only:
  "(\<And>j. j \<in> set js \<Longrightarrow> permits I P (DeleteJob (ji_name j))) \<Longrightarrow> only_in I P (delete_jobs E js n)"
  by (induction js arbitrary: n) (auto intro!: only_rules)

lemma KillJobs_only: "own k6 \<Longrightarrow> only_in I P (KillJobs E k6)"
  unfolding KillJobs_def
  by (intro only_rules ensures_bind [OF delete_jobs_only]) (assumption | simp | rule delete_job)+

lemma FinishJobs_only: "own k6 \<Longrightarrow> only_in I P (FinishJobs E k6 c)"
  unfolding FinishJobs_def by (intro only_rules) (assumption | simp)+

subsection \<open>The reconciliation\<close>

lemma initialize_conditions_ensures:
  "unstarted k6 \<Longrightarrow> ensures_in I P (\<lambda>r. \<forall>a. r = Inr a \<longrightarrow> own a) (initialize_conditions E k6)"
  unfolding initialize_conditions_def by (intro only_rules) (auto dest: own_Initialize)

lemma begin_initialization_only: "own k6 \<Longrightarrow> only_in I P (begin_initialization E k6)"
  unfolding begin_initialization_def by (intro only_rules) (assumption | simp)+

lemma reconcile_new_only: "unstarted k6 \<Longrightarrow> only_in I P (reconcile_new E k6)"
  unfolding reconcile_new_def
  by (intro ensures_Let ensures_case_prod ensures_case_option ensures_bind [OF record_warnings_only]
      bind_UpdateStatus_proposed [OF unstarted_error] only_unless_panic [OF initialize_conditions_ensures]
      only_rules begin_initialization_only)
    (assumption | simp)+

lemma cloud_initialization_only: "own k6 \<Longrightarrow> only_in I P (cloud_initialization E k6 c)"
  unfolding cloud_initialization_def
  by (intro only_rules SetupCloudTest_only) (assumption | simp)+

lemma reconcile_initialization_only: "own k6 \<Longrightarrow> only_in I P (reconcile_initialization E k6 c)"
  unfolding reconcile_initialization_def wait_for_initializer_def
  by (intro only_rules cloud_initialization_only) (assumption | simp)+

lemma mark_stopped_only: "own k6 \<Longrightarrow> only_in I P (mark_stopped E k6)"
  unfolding mark_stopped_def by (intro only_rules) (assumption | simp)+

lemma teardown_only: "own k6 \<Longrightarrow> only_in I P (teardown E k6)"
  unfolding teardown_def by (intro only_rules) (assumption | simp)+

lemma watch_plz_run_only: "own k6 \<Longrightarrow> only_in I P (watch_plz_run E k6)"
  unfolding watch_plz_run_def
  by (intro only_rules ensures_bind [where R = "\<lambda>_. True"] StoppedJobs_only teardown_only mark_stopped_only)
    (assumption | simp)+

lemma watch_run_only: "own k6 \<Longrightarrow> only_in I P (watch_run E k6 c)"
  unfolding watch_run_def
  by (rule only_unless_panic [where R = "\<lambda>_. True"])
    (auto intro!: only_rules mark_stopped_only intro: ensures_weaken [OF FinishJobs_only])

lemma reconcile_started_only: "own k6 \<Longrightarrow> only_in I P (reconcile_started E k6 c)"
  unfolding reconcile_started_def by (intro only_rules watch_plz_run_only watch_run_only)

lemma mark_finished_only: "own k6 \<Longrightarrow> only_in I P (mark_finished E k6)"
  unfolding mark_finished_def by (intro only_rules) (assumption | simp)+

lemma finalize_and_finish_only: "own k6 \<Longrightarrow> only_in I P (finalize_and_finish E k6 c)"
  unfolding finalize_and_finish_def
  by (intro only_rules mark_finished_only only_unless_panic [where R = "\<lambda>_. True"]
      ensures_weaken [OF FinishTestRun_only]) (assumption | simp)+

lemma reconcile_stopped_only: "own k6 \<Longrightarrow> only_in I P (reconcile_stopped E k6 c)"
  unfolding reconcile_stopped_def
  by (intro only_rules ensures_bind [OF StoppedJobs_only] ensures_bind [OF KillJobs_only]
      finalize_and_finish_only) (assumption | simp)+

lemma reconcile_final_only: "proposed k6 \<Longrightarrow> only_in I P (reconcile_final E k6)"
  unfolding reconcile_final_def by (intro only_rules) (assumption | simp)+

text \<open>
  The test run a reconciliation has read: unstarted, ended or one of its own, as its stage says, and
  one of its own if it has the condition that lets it be stopped.
\<close>

definition readable :: "TestRun \<Rightarrow> bool" where
  "readable k6 \<longleftrightarrow> proposed k6 \<and> (IsFalse (e_meta E) k6 ''CloudTestRunAborted'' \<longrightarrow> own k6)
     \<and> (if st_stage (tr_status k6) = '''' then unstarted k6 else final_stage (st_stage (tr_status k6)) \<or> own k6)"

lemma reconcile_stage_only: "readable k6 \<Longrightarrow> only_in I P (reconcile_stage E k6 c)"
  unfolding reconcile_stage_def readable_def
  by (intro only_rules reconcile_new_only reconcile_initialization_only reconcile_started_only
      reconcile_stopped_only reconcile_final_only; simp add: final_stage_def)

lemma reconcile_only: "readable k6 \<Longrightarrow> only_in I P (reconcile E k6)"
  unfolding reconcile_def reconcile_with_def
  by (intro only_rules ensures_bind [OF createClient_only [of k6]] reconcile_stage_only) (auto simp: readable_def)

theorem Reconcile_only:
  assumes "permits I P (GetTestRun req)" and "\<And>tr k6. I tr \<Longrightarrow> e_getTestRun E tr req = Found k6 \<Longrightarrow> readable k6"
  shows "only_in I P (Reconcile E req)"
  unfolding Reconcile_def using assms by (intro only_rules reconcile_only) auto

end

end
