(* ===== verification/K6_Control_Props.thy ===== *)
theory K6_Control_Props
  imports K6_Policy
begin

text \<open>
  Properties of the controller of test runs. The first two hold of every reconciliation in every
  environment and come from interpretations of \<open>reconciler_policy\<close>; the others describe one
  operation each.
\<close>

section \<open>What a status patch may do\<close>

text \<open>
  The status moves on: a final stage stays, a stage of the list goes up, what is recorded of the cloud
  test run is not overwritten.
\<close>

definition moves_on :: "TestRunStatus \<Rightarrow> TestRunStatus \<Rightarrow> bool" where
  "moves_on old new \<longleftrightarrow>
     (final_stage (st_stage old) \<longrightarrow> st_stage new = st_stage old)
     \<and> (st_stage old \<in> set stages \<longrightarrow> st_stage new \<in> set stages \<longrightarrow>
          stage_rank (st_stage old) \<le> stage_rank (st_stage new))
     \<and> (st_testRunID old \<noteq> '''' \<longrightarrow> st_testRunID new = st_testRunID old)
     \<and> (st_aggregationVars old \<noteq> '''' \<longrightarrow> st_aggregationVars new = st_aggregationVars old)"

lemma SetIfNewer_moves_on:
  assumes "TestRunStatus_SetIfNewer M old prop = (new, b)"
  shows "moves_on old new"
proof -
  define move where "move \<longleftrightarrow> st_stage old \<noteq> st_stage prop \<and> st_stage prop \<noteq> []
    \<and> stage_step (st_stage old) (st_stage prop)"
  have new: "st_stage new = (if move then st_stage prop else st_stage old)"
    "st_testRunID old \<noteq> [] \<Longrightarrow> st_testRunID new = st_testRunID old"
    "st_aggregationVars old \<noteq> [] \<Longrightarrow> st_aggregationVars new = st_aggregationVars old"
    using assms by (auto simp: TestRunStatus_SetIfNewer_eq Let_def move_def)
  have "move \<Longrightarrow> \<not> final_stage (st_stage old)"
    using stage_step_final by (auto simp: move_def)
  moreover have "move \<Longrightarrow> st_stage old \<in> set stages \<Longrightarrow> st_stage prop \<in> set stages \<Longrightarrow>
      stage_rank (st_stage old) < stage_rank (st_stage prop)"
    by (rule stage_step_rank) (auto simp: move_def)
  ultimately show ?thesis
    unfolding moves_on_def new(1) using new(2,3) by (simp add: less_imp_le)
qed

primrec patches_move_on :: "call \<Rightarrow> bool" where
  "patches_move_on (GetTestRun nn) \<longleftrightarrow> True"
| "patches_move_on (PatchTestRunStatus old k6) \<longleftrightarrow> moves_on old (tr_status k6)"
| "patches_move_on (CreateTestRunResource k6) \<longleftrightarrow> True"
| "patches_move_on (DeleteTestRun nn) \<longleftrightarrow> True"
| "patches_move_on (GetJob nn) \<longleftrightarrow> True"
| "patches_move_on (CreateJob j) \<longleftrightarrow> True"
| "patches_move_on (DeleteJob n) \<longleftrightarrow> True"
| "patches_move_on (CreateService s) \<longleftrightarrow> True"
| "patches_move_on (SetControllerReference n) \<longleftrightarrow> True"
| "patches_move_on (ListPods opts) \<longleftrightarrow> True"
| "patches_move_on (ListServices opts) \<longleftrightarrow> True"
| "patches_move_on (ListJobs opts) \<longleftrightarrow> True"
| "patches_move_on (GetSecret nn) \<longleftrightarrow> True"
| "patches_move_on (ListSecrets opts) \<longleftrightarrow> True"
| "patches_move_on (ReadPodLogs ns n) \<longleftrightarrow> True"
| "patches_move_on (RecordEvent w) \<longleftrightarrow> True"
| "patches_move_on (HTTPGet url) \<longleftrightarrow> True"
| "patches_move_on (CallAPI m h p b) \<longleftrightarrow> True"
| "patches_move_on (CloudGetTestRun cl url) \<longleftrightarrow> True"
| "patches_move_on (CloudCreateTestRun cl url t) \<longleftrightarrow> True"
| "patches_move_on (CloudTestFinished cl r) \<longleftrightarrow> True"
| "patches_move_on (CloudSendEvents cl url es) \<longleftrightarrow> True"
| "patches_move_on (CloudRegisterPLZ cl url d) \<longleftrightarrow> True"
| "patches_move_on (CloudDeRegisterPLZ cl url) \<longleftrightarrow> True"
| "patches_move_on (GetPLZ nn) \<longleftrightarrow> True"
| "patches_move_on (PatchPLZStatus cs plz) \<longleftrightarrow> True"
| "patches_move_on (UpdatePLZ plz) \<longleftrightarrow> True"
| "patches_move_on (CloudListTestRuns _ _) \<longleftrightarrow> True"
| "patches_move_on (NewUUID) \<longleftrightarrow> True"
| "patches_move_on (ReadClock) \<longleftrightarrow> True"

lemma patches_move_on_quiet: "quiet c \<Longrightarrow> patches_move_on c"
  by (cases c) simp_all

text \<open>The class of all test runs.\<close>

definition any_run :: "TestRun \<Rightarrow> bool" where
  "any_run k6 = True"

interpretation progress: reconciler_policy E any_history patches_move_on any_run any_run any_run for E
proof unfold_locales
  show "quiet c \<Longrightarrow> permits any_history patches_move_on c" for c by (simp add: patches_move_on_quiet)
  show "TestRunStatus_SetIfNewer (e_meta E) (tr_status cur) (tr_status k6) = (st, True) \<Longrightarrow>
      patches_move_on (PatchTestRunStatus (tr_status cur) (cur\<lparr>tr_status := st\<rparr>)) \<and> True" for cur k6 st
    by (simp add: SetIfNewer_moves_on)
qed (simp_all add: any_run_def)

lemma any_run_readable [simp]: "progress.readable E k6"
  by (simp add: progress.readable_def any_run_def)

text \<open>
  C1. Whatever the API server, the cloud and the runners answer, and whoever else changes the
  resource: every status that a reconciliation writes moves on from the status it has just read.
  A test run that is finished or failed is never revived, stages do not go back, and the id of
  the cloud test run and its aggregation settings are written once.
\<close>

theorem Reconcile_patches_move_on:
  "only patches_move_on (Reconcile E req)"
  by (rule progress.Reconcile_only) simp_all

section \<open>Ownership\<close>

text \<open>
  The API server returns the object it is asked for.
\<close>

definition names_kept :: "env \<Rightarrow> bool" where
  "names_kept E \<longleftrightarrow>
     (\<forall>tr nn k6. e_getTestRun E tr nn = Found k6 \<longrightarrow> NamespacedName k6 = nn)
     \<and> (\<forall>tr k6 k6'. e_patchTestRun E tr k6 = Inr k6' \<longrightarrow> NamespacedName k6' = NamespacedName k6)"

definition belongs_to :: "namespaced_name \<Rightarrow> object_meta \<Rightarrow> bool" where
  "belongs_to req m \<longleftrightarrow> om_namespace m = nn_namespace req
     \<and> gomap_get (om_labels m) ''k6_cr'' = Some (nn_name req)"

text \<open>
  The list options for the runners and for the initializer of a test run, and the versions of the test
  run that the API server hands out.
\<close>

definition runners_of :: "namespaced_name \<Rightarrow> list_options" where
  "runners_of req = \<lparr>lo_namespace = nn_namespace req,
     lo_selector = [(''app'', ''k6''), (''k6_cr'', nn_name req), (''runner'', ''true'')]\<rparr>"

definition initializer_of :: "namespaced_name \<Rightarrow> list_options" where
  "initializer_of req = \<lparr>lo_namespace = nn_namespace req,
     lo_selector = [(''app'', ''k6''), (''k6_cr'', nn_name req), (''job-name'', nn_name req @ ''-initializer'')]\<rparr>"

definition handed_out :: "env \<Rightarrow> namespaced_name \<Rightarrow> TestRunSpec \<Rightarrow> bool" where
  "handed_out E req spec \<longleftrightarrow>
     (\<exists>tr k6. e_getTestRun E tr req = Found k6 \<and> tr_spec k6 = spec)
     \<or> (\<exists>tr k6 k6'. NamespacedName k6 = req \<and> e_patchTestRun E tr k6 = Inr k6' \<and> tr_spec k6' = spec)"

text \<open>
  The calls that stay with one test run. Names of jobs and services are derived from its name; a job
  that is deleted is one that the server names when it is asked for the runners of the test run, and
  logs are read of pods it names when asked for the initializer; secrets are the token that the test
  run names, in its own namespace, and the operator's own. Requests to the runners and to the cloud
  name no object of the cluster.
\<close>

primrec stays_with :: "env \<Rightarrow> namespaced_name \<Rightarrow> call \<Rightarrow> bool" where
  "stays_with E req (GetTestRun nn) \<longleftrightarrow> nn = req"
| "stays_with E req (PatchTestRunStatus old k6) \<longleftrightarrow> NamespacedName k6 = req"
| "stays_with E req (CreateTestRunResource k6) \<longleftrightarrow> False"
| "stays_with E req (DeleteTestRun nn) \<longleftrightarrow> nn = req"
| "stays_with E req (GetJob nn) \<longleftrightarrow> nn_namespace nn = nn_namespace req \<and> job_name_of (nn_name req) (nn_name nn)"
| "stays_with E req (CreateJob j) \<longleftrightarrow> belongs_to req (job_meta j) \<and> job_name_of (nn_name req) (om_name (job_meta j))"
| "stays_with E req (DeleteJob n) \<longleftrightarrow>
     (\<exists>tr items item. e_listJobs E tr (runners_of req) = Inr items \<and> item \<in> set items \<and> n = ji_name item)"
| "stays_with E req (CreateService s) \<longleftrightarrow>
     belongs_to req (svc_meta s) \<and> service_name_of (nn_name req) (om_name (svc_meta s))"
| "stays_with E req (SetControllerReference n) \<longleftrightarrow> job_name_of (nn_name req) n \<or> service_name_of (nn_name req) n"
| "stays_with E req (ListPods opts) \<longleftrightarrow> opts = runners_of req \<or> opts = initializer_of req"
| "stays_with E req (ListServices opts) \<longleftrightarrow> opts = runners_of req"
| "stays_with E req (ListJobs opts) \<longleftrightarrow> opts = runners_of req"
| "stays_with E req (GetSecret nn) \<longleftrightarrow> nn_namespace nn = nn_namespace req
     \<and> (\<exists>spec. handed_out E req spec \<and> nn_name nn = spec_token spec)"
| "stays_with E req (ListSecrets opts) \<longleftrightarrow> opts = operator_secrets"
| "stays_with E req (ReadPodLogs ns n) \<longleftrightarrow> ns = nn_namespace req
     \<and> (\<exists>tr pods pod. e_listPods E tr (initializer_of req) = Inr pods \<and> pod \<in> set pods \<and> n = pi_name pod)"
| "stays_with E req (RecordEvent w) \<longleftrightarrow> True"
| "stays_with E req (HTTPGet url) \<longleftrightarrow> True"
| "stays_with E req (CallAPI m h p b) \<longleftrightarrow> True"
| "stays_with E req (CloudGetTestRun cl url) \<longleftrightarrow> True"
| "stays_with E req (CloudCreateTestRun cl url t) \<longleftrightarrow> True"
| "stays_with E req (CloudTestFinished cl r) \<longleftrightarrow> True"
| "stays_with E req (CloudSendEvents cl url es) \<longleftrightarrow> True"
| "stays_with E req (CloudRegisterPLZ cl url d) \<longleftrightarrow> False"
| "stays_with E req (CloudDeRegisterPLZ cl url) \<longleftrightarrow> False"
| "stays_with E req (GetPLZ nn) \<longleftrightarrow> False"
| "stays_with E req (PatchPLZStatus cs plz) \<longleftrightarrow> False"
| "stays_with E req (UpdatePLZ plz) \<longleftrightarrow> False"
| "stays_with E req (CloudListTestRuns _ _) \<longleftrightarrow> False"
| "stays_with E req (NewUUID) \<longleftrightarrow> False"
| "stays_with E req (ReadClock) \<longleftrightarrow> True"

lemma stays_with_quiet: "quiet c \<Longrightarrow> stays_with E req c"
  by (cases c) simp_all

lemma NamespacedName_simps [simp]:
  "nn_namespace (NamespacedName k6) = tr_namespace k6" "nn_name (NamespacedName k6) = tr_name k6"
  by (simp_all add: NamespacedName_def)

lemma req_of: "NamespacedName k6 = req \<Longrightarrow> nn_namespace req = tr_namespace k6 \<and> nn_name req = tr_name k6"
  by auto

text \<open>The test runs of a request: its name, and a specification the server has handed out.\<close>

definition run_of :: "env \<Rightarrow> namespaced_name \<Rightarrow> TestRun \<Rightarrow> bool" where
  "run_of E req k6 \<longleftrightarrow> NamespacedName k6 = req \<and> handed_out E req (tr_spec k6)"

lemma run_ofD:
  assumes "run_of E req k6"
  shows "nn_namespace req = tr_namespace k6" "nn_name req = tr_name k6" "NamespacedName k6 = req"
    "handed_out E req (tr_spec k6)"
    "runners_of req = ListOptions k6" "initializer_of req = initializer_pods k6"
  using assms by (auto simp: run_of_def runners_of_def initializer_of_def ListOptions_def initializer_pods_def)

lemma run_of_same: "run_of E req k6 \<Longrightarrow> NamespacedName k6' = NamespacedName k6 \<Longrightarrow> tr_spec k6' = tr_spec k6 \<Longrightarrow>
  run_of E req k6'"
  by (simp add: run_of_def)

lemma stays_with_policy:
  assumes "names_kept E"
  shows "reconciler_policy E any_history (stays_with E req) (run_of E req) (run_of E req) (run_of E req)"
proof
  show "quiet c \<Longrightarrow> permits any_history (stays_with E req) c" for c by (simp add: stays_with_quiet)
  show "run_of E req (set_stage s k6)" if "run_of E req k6" for s k6
    using that by (simp add: run_of_def NamespacedName_def set_stage_def)
  then show "run_of E req (set_stage ''error'' k6)" if "run_of E req k6" for k6 using that .
  show "run_of E req (k6\<lparr>tr_status := (tr_status k6)\<lparr>st_testRunID := refID\<rparr>\<rparr>)"
    "run_of E req (k6\<lparr>tr_status := (tr_status k6)\<lparr>st_aggregationVars := refID\<rparr>\<rparr>)" if "run_of E req k6" for refID k6
    using that by (simp_all add: run_of_def NamespacedName_def)
  show "run_of E req k6'" if "run_of E req k6" "TestRun_UpdateCondition (e_meta E) now k6 t c = Inr k6'"
    for k6 now t c k6'
    using run_of_same [OF that(1)] NamespacedName_UpdateCondition [OF that(2)] TestRun_UpdateCondition_spec [OF that(2)]
    by blast
  show "run_of E req k6'" if "run_of E req k6" "Initialize (e_meta E) clk k6 = Inr k6'" for k6 clk k6'
    using run_of_same [OF that(1)] NamespacedName_Initialize [OF that(2)] Initialize_spec [OF that(2)] by blast
  show "run_of E req (cur\<lparr>tr_status := fst (TestRunStatus_SetIfNewer (e_meta E) (tr_status cur) (tr_status k6))\<rparr>)"
    if "run_of E req k6" "e_getTestRun E tr (NamespacedName k6) = Found cur" for k6 tr cur
    using that assms by (auto simp: run_of_def names_kept_def handed_out_def)
  show "run_of E req k6'" if "run_of E req k6" "e_patchTestRun E tr k6 = Inr k6'" for k6 tr k6'
    using that assms unfolding run_of_def names_kept_def handed_out_def by metis
  show "stays_with E req (PatchTestRunStatus (tr_status cur) (cur\<lparr>tr_status := st\<rparr>)) \<and> True"
    if "run_of E req k6" "e_getTestRun E tr (NamespacedName k6) = Found cur" for k6 tr cur st
    using that assms by (auto simp: run_of_def names_kept_def)
  show "permits any_history (stays_with E req) (CreateJob j)"
    if "run_of E req k6" "NewInitializerJob k6 args = (k6', Inr j)" for k6 args k6' j
    using NewInitializerJob_meta [OF that(2)] initializer_object.own_labels
      initializer_object.meta_namespace run_ofD [OF that(1)] job_names(1) [OF that(2)]
    by (simp add: belongs_to_def)
  show "permits any_history (stays_with E req) (CreateJob j)"
    if "run_of E req k6" "NewRunnerJob (e_meta E) k6 i ti = Inr j" for k6 i ti j
    using NewRunnerJob_meta [OF that(2)] runner_object.own_labels
      runner_object.meta_namespace run_ofD [OF that(1)] job_names(2) [OF that(2)]
    by (simp add: belongs_to_def)
  show "permits any_history (stays_with E req) (CreateService (NewRunnerService k6 i))" if "run_of E req k6" for k6 i
    using service_object.own_labels service_object.meta_namespace run_ofD [OF that] job_names(6)
    by (simp add: belongs_to_def)
  show "permits any_history (stays_with E req) (CreateJob (NewStarterJob k6 hs))" if "run_of E req k6" for k6 hs
    using starter_object.own_labels starter_object.meta_namespace run_ofD [OF that] job_names(3)
    by (simp add: belongs_to_def)
  show "permits any_history (stays_with E req) (CreateJob (NewStopJob k6 hs))" if "run_of E req k6" for k6 hs
    using stopper_object.own_labels stopper_object.meta_namespace run_ofD [OF that] job_names(4)
    by (simp add: belongs_to_def)
qed (auto simp: run_ofD run_secret_def dest: run_ofD)

text \<open>
  C18. A reconciliation stays with its own test run, on an API server that returns the objects it is
  asked for. It reads, patches and deletes no other test run. The jobs and services it looks up,
  refers to or creates have the names of the initializer, the starter, the stopper or a runner of
  this test run, and are created in its namespace with its label. It lists pods, jobs and services only
  by the label of the test run in its namespace, deletes only jobs that the server names in such a
  list of its runners, and reads logs only of pods it names in the list of its initializer. The
  secrets it reads are the one the test run names for its token, in its namespace, and if it names
  none the ones labelled as a token in the operator's own namespace. No zone is touched.
\<close>

theorem Reconcile_stays_with_request:
  assumes "names_kept E"
  shows "only (stays_with E req) (Reconcile E req)"
  using assms
  by (intro reconciler_policy.Reconcile_only [OF stays_with_policy [OF assms], of req])
    (auto simp: names_kept_def handed_out_def run_of_def reconciler_policy.readable_def [OF stays_with_policy [OF assms]])

theorem Reconcile_stays_with_request_witness:
  "only (stays_with (idle_env\<lparr>e_getTestRun := \<lambda>_ nn.
        if nn = NamespacedName (example_run ''a'') then Found (example_run ''a'') else NotFound\<rparr>)
      \<lparr>nn_namespace = ''default'', nn_name = ''a''\<rparr>)
     (Reconcile (idle_env\<lparr>e_getTestRun := \<lambda>_ nn.
        if nn = NamespacedName (example_run ''a'') then Found (example_run ''a'') else NotFound\<rparr>)
      \<lparr>nn_namespace = ''default'', nn_name = ''a''\<rparr>)"
  by (rule Reconcile_stays_with_request) (auto simp: names_kept_def idle_env_def split: if_splits)

section \<open>The start of the runners\<close>

text \<open>All services answered, one request after the other.\<close>

fun all_answer :: "env \<Rightarrow> trace \<Rightarrow> service_item list \<Rightarrow> bool" where
  "all_answer E tr [] \<longleftrightarrow> True"
| "all_answer E tr (s # ss) \<longleftrightarrow>
     (case e_httpGet E tr (status_url (si_clusterIP s)) of Inl _ \<Rightarrow> False | Inr (code, _) \<Rightarrow> code < 400)
     \<and> all_answer E (tr @ [HTTPGet (status_url (si_clusterIP s))]) ss"

definition status_requests :: "service_item list \<Rightarrow> trace" where
  "status_requests ss = map (\<lambda>s. HTTPGet (status_url (si_clusterIP s))) ss"

lemma run_isServiceReady [simp]:
  "run_state (isServiceReady E s) tr =
     ((case e_httpGet E tr (status_url (si_clusterIP s)) of Inl _ \<Rightarrow> False | Inr (code, _) \<Rightarrow> code < 400),
      tr @ [HTTPGet (status_url (si_clusterIP s))])"
  by (simp add: isServiceReady_def)

lemma hostnames_loop_run:
  "run_state (hostnames_loop E True ss acc) tr = (r, tr') \<Longrightarrow>
   (case r of
      Inr hs \<Rightarrow> hs = acc @ map si_clusterIP ss \<and> all_answer E tr ss \<and> tr' = tr @ status_requests ss
    | Inl _ \<Rightarrow> \<not> all_answer E tr ss \<and> (\<exists>n. tr' = tr @ status_requests (take n ss)))"
proof (induction ss arbitrary: acc tr)
  case Nil
  then show ?case by (auto simp: status_requests_def)
next
  case (Cons s ss)
  let ?tr = "tr @ [HTTPGet (status_url (si_clusterIP s))]"
  show ?case
  proof (cases "case e_httpGet E tr (status_url (si_clusterIP s)) of Inl _ \<Rightarrow> False | Inr (code, _) \<Rightarrow> code < 400")
    case True
    then have "run_state (hostnames_loop E True ss (acc @ [si_clusterIP s])) ?tr = (r, tr')"
      using Cons.prems by simp
    from Cons.IH [OF this] show ?thesis
    proof (cases r)
      case (Inl e)
      with Cons.IH [OF \<open>run_state (hostnames_loop E True ss _) ?tr = _\<close>] obtain n where
        "\<not> all_answer E ?tr ss" "tr' = ?tr @ status_requests (take n ss)" by auto
      then show ?thesis using Inl True by (auto intro!: exI [of _ "Suc n"] simp: status_requests_def)
    qed (use True in \<open>simp add: status_requests_def\<close>)
  next
    case False
    then show ?thesis
      using Cons.prems by (auto intro!: exI [of _ 1] simp: status_requests_def)
  qed
qed

text \<open>Calls that create no job but a given one, if one is given.\<close>

definition creates_only :: "job option \<Rightarrow> call \<Rightarrow> bool" where
  "creates_only jo c \<longleftrightarrow> (\<forall>j. c = CreateJob j \<longrightarrow> jo = Some j)"

lemma creates_only_simps [simp]:
  "creates_only jo (CreateJob j) \<longleftrightarrow> jo = Some j"
  "(\<And>j. c \<noteq> CreateJob j) \<Longrightarrow> creates_only jo c"
  by (auto simp: creates_only_def)

interpretation creates: quiet_policy E any_history "creates_only jo" for E jo
proof
  show "quiet c \<Longrightarrow> permits any_history (creates_only jo) c" for c by (cases c) simp_all
qed

lemma UpdateStatus_creates_only: "only (creates_only jo) (UpdateStatus E k6)"
  unfolding UpdateStatus_def by (intro only_rules) simp_all

lemma launch_starter_creates_only: "only (creates_only (Some (NewStarterJob k6 hs))) (launch_starter E k6 hs)"
  unfolding launch_starter_def createJobIfNotExists_def unless_panic_def update_condition_def
    set_controller_reference_def
  by (intro ensures_bind [where R = "\<lambda>_. True"] UpdateStatus_creates_only only_rules
      creates.only_finish) simp_all

lemma setup_and_start_creates_only:
  "only (creates_only (Some (NewStarterJob k6 hs))) (setup_and_start E k6 c hs)"
  unfolding setup_and_start_def
  by (intro only_rules creates.unless_runSetup creates.unless_send_events
      launch_starter_creates_only creates.only_finish)

lemma wait_for_pods_creates_only: "only (creates_only None) (wait_for_pods E k6 c)"
  unfolding wait_for_pods_def
  by (intro only_rules creates.unless_send_events creates.only_finish)

lemma only_creates_run:
  assumes "only (creates_only jo) m" and "run_state m tr = (out, tr @ cs)" and "CreateJob j \<in> set cs"
  shows "jo = Some j"
proof -
  obtain ds where "tr @ cs = tr @ ds" "list_all (creates_only jo) ds"
    using ensures_run [OF assms(1,2)] by metis
  then show ?thesis using assms(3) by (auto simp: list_all_iff creates_only_def)
qed

lemma run_suffix:
  assumes "only P m" and "run_state m tr = (a, tr')"
  shows "\<exists>cs. tr' = tr @ cs"
  using ensures_run [OF assms] by metis

text \<open>
  C6. The starter waits for all runners. If a run of \<open>StartJobs\<close> creates a job at all, then the API
  server had listed exactly as many running runner pods as the parallelism of the test run asks for,
  and had listed the services, every one of which answered its status request; the job is the
  starter for the addresses of all these services.
\<close>

theorem StartJobs_waits_for_runners:
  assumes "run_state (StartJobs E k6 c) tr = (out, tr @ cs)" and "CreateJob j \<in> set cs"
  shows "\<exists>pods services.
     e_listPods E tr (ListOptions k6) = Inr pods
     \<and> running_pods pods = sint (spec_parallelism (tr_spec k6))
     \<and> e_listServices E (tr @ [ListPods (ListOptions k6)]) (ListOptions k6) = Inr services
     \<and> all_answer E (tr @ [ListPods (ListOptions k6), ListServices (ListOptions k6)]) services
     \<and> j = NewStarterJob k6 (map si_clusterIP services)"
proof -
  let ?opts = "ListOptions k6"
  let ?tr1 = "tr @ [ListPods ?opts]" and ?tr2 = "tr @ [ListPods ?opts, ListServices ?opts]"
  have run: "run_state (case e_listPods E tr ?opts of
        Inl _ \<Rightarrow> finish (after_seconds 1) None
      | Inr pods \<Rightarrow>
          if running_pods pods \<noteq> sint (spec_parallelism (tr_spec k6)) then wait_for_pods E k6 c
          else State_Monad.bind (hostnames E True ?opts) (\<lambda>hosts. case hosts of
              Inl err \<Rightarrow> finish no_requeue (Some err)
            | Inr hs \<Rightarrow> setup_and_start E k6 c hs)) ?tr1 = (out, tr @ cs)"
    using assms(1) by (simp add: StartJobs_def)
  obtain pods where pods: "e_listPods E tr ?opts = Inr pods"
    using run assms(2) by (cases "e_listPods E tr ?opts") (auto simp: finish_def)
  have count: "running_pods pods = sint (spec_parallelism (tr_spec k6))"
  proof (rule ccontr)
    assume "\<not> ?thesis"
    then have wait: "run_state (wait_for_pods E k6 c) ?tr1 = (out, tr @ cs)"
      using run pods by simp
    then obtain ds where "cs = ListPods ?opts # ds"
      using run_suffix [OF wait_for_pods_creates_only wait] by auto
    then show False
      using only_creates_run [OF wait_for_pods_creates_only, of E k6 c ?tr1 out ds j] wait assms(2) by simp
  qed
  obtain services where services: "e_listServices E ?tr1 ?opts = Inr services"
    using run pods count assms(2)
    by (cases "e_listServices E ?tr1 ?opts") (auto simp: hostnames_def finish_def)
  obtain r tr3 where loop: "run_state (hostnames_loop E True services []) ?tr2 = (r, tr3)"
    by fastforce
  have rest: "run_state (case r of Inl err \<Rightarrow> finish no_requeue (Some err)
      | Inr hs \<Rightarrow> setup_and_start E k6 c hs) tr3 = (out, tr @ cs)"
    using run pods count services loop by (simp add: hostnames_def)
  note loop_spec = hostnames_loop_run [OF loop]
  show ?thesis
  proof (cases r)
    case (Inl e)
    with loop_spec rest obtain n where
      "tr @ cs = ?tr2 @ status_requests (take n services)" by (auto simp: finish_def)
    then have "cs = [ListPods ?opts, ListServices ?opts] @ status_requests (take n services)" by simp
    with assms(2) show ?thesis by (auto simp: status_requests_def)
  next
    case (Inr hs)
    then have hs: "hs = map si_clusterIP services" "all_answer E ?tr2 services"
      "tr3 = ?tr2 @ status_requests services" using loop_spec by auto
    have start: "run_state (setup_and_start E k6 c hs) tr3 = (out, tr @ cs)" using rest Inr by simp
    from run_suffix [OF setup_and_start_creates_only start] obtain ds where
      ds: "tr @ cs = tr3 @ ds" by blast
    then have "cs = [ListPods ?opts, ListServices ?opts] @ status_requests services @ ds"
      using hs by simp
    then have "CreateJob j \<in> set ds" using assms(2) by (auto simp: status_requests_def)
    then have "j = NewStarterJob k6 hs"
      using only_creates_run [OF setup_and_start_creates_only start [unfolded ds]] by simp
    then show ?thesis using pods count services hs by blast
  qed
qed

definition ready_env :: env where
  "ready_env = idle_env\<lparr>
     e_listPods := \<lambda>_ _. Inr (replicate 3 \<lparr>pi_name = ''a'', pi_phase = ''Running''\<rparr>),
     e_listServices := \<lambda>_ _. Inr [\<lparr>si_name = ''a-service-1'', si_clusterIP = ''10.0.0.1''\<rparr>]\<rparr>"

lemma ready_env_simps [simp]:
  "e_meta ready_env = documented_meta" "e_clock ready_env tr n = seconds (int (length tr))"
  "e_getTestRun ready_env tr nn = NotFound" "e_getJob ready_env tr nn = NotFound"
  "e_createJob ready_env tr j = None" "e_setControllerReference ready_env tr nm = None"
  "e_listPods ready_env tr opts = Inr (replicate 3 \<lparr>pi_name = ''a'', pi_phase = ''Running''\<rparr>)"
  "e_listServices ready_env tr opts = Inr [\<lparr>si_name = ''a-service-1'', si_clusterIP = ''10.0.0.1''\<rparr>]"
  "e_httpGet ready_env tr url = Inr (200, Inr '''')"
  by (simp_all add: ready_env_def idle_env_def)

lemma running_pods_replicate: "running_pods (replicate n \<lparr>pi_name = m, pi_phase = ''Running''\<rparr>) = int n"
  by (simp add: running_pods_def)

lemma example_run_simps [simp]:
  "spec_parallelism (tr_spec (example_run n)) = 3" "tr_name (example_run n) = n"
  "tr_namespace (example_run n) = ''default''" "tr_status (example_run n) = zero_status"
  by (simp_all add: example_run_def)

theorem StartJobs_waits_for_runners_witness:
  "\<exists>out cs. run_state (StartJobs ready_env (example_run ''a'') None) [] = (out, [] @ cs)
     \<and> CreateJob (NewStarterJob (example_run ''a'') [''10.0.0.1'']) \<in> set cs
     \<and> all_answer ready_env [ListPods (ListOptions (example_run ''a'')), ListServices (ListOptions (example_run ''a''))]
         [\<lparr>si_name = ''a-service-1'', si_clusterIP = ''10.0.0.1''\<rparr>]"
proof -
  let ?k = "example_run ''a''" and ?j = "NewStarterJob (example_run ''a'') [''10.0.0.1'']"
  have plz: "\<not> IsTrue documented_meta ?k ''CloudPLZTestRun''"
    by (simp add: IsTrue_def documented_meta_def has_status_def zero_status_def)
  have job: "CreateJob ?j \<in> set (snd (run_state (StartJobs ready_env ?k None) []))"
    using plz
    by (simp add: StartJobs_def hostnames_def setup_and_start_def launch_starter_def Let_def
        createJobIfNotExists_def set_controller_reference_def running_pods_replicate
        unless_panic_def update_condition_def UpdateStatus_def finish_def read_clock_def split: sum.splits)
  obtain out cs where run: "run_state (StartJobs ready_env ?k None) [] = (out, [] @ cs)"
    by fastforce
  with job have "CreateJob ?j \<in> set cs" by simp
  with StartJobs_waits_for_runners [OF run this] run show ?thesis by auto
qed

end
