(* ===== verification/K6_Stage_Props.thy ===== *)
theory K6_Stage_Props
  imports K6_Control_Props "HOL-Library.Sublist"
begin

text \<open>
  Properties of the handlers of the stages: in which order the runners are created, what counts as
  finished or stopped, how \<open>KillJobs\<close> reports, and three places where a handler does not do what
  its comments say.
\<close>

section \<open>Creation of the runners\<close>

text \<open>The calls that launch one runner when nothing fails.\<close>

definition launch_calls :: "meta_api \<Rightarrow> TestRun \<Rightarrow> TokenInfo \<Rightarrow> int \<Rightarrow> trace" where
  "launch_calls M k6 ti i =
     (case NewRunnerJob M k6 i ti of
        Inl _ \<Rightarrow> []
      | Inr j \<Rightarrow> [SetControllerReference (om_name (job_meta j)), CreateJob j,
                  SetControllerReference (om_name (svc_meta (NewRunnerService k6 i))),
                  CreateService (NewRunnerService k6 i)])"

lemma run_set_controller_reference [simp]:
  "run_state (set_controller_reference E n) tr = (e_setControllerReference E tr n, tr @ [SetControllerReference n])"
  by (simp add: set_controller_reference_def)

lemma launchTest_run:
  "run_state (launchTest E k6 ti i) tr = (err, tr') \<Longrightarrow>
   \<exists>cs. tr' = tr @ cs \<and> prefix cs (launch_calls (e_meta E) k6 ti i)
     \<and> (err = None \<longrightarrow> cs = launch_calls (e_meta E) k6 ti i \<and> (\<exists>j. NewRunnerJob (e_meta E) k6 i ti = Inr j))"
  unfolding launchTest_def launch_calls_def Let_def
  by (auto split: sum.splits option.splits)

lemma launch_tests_run:
  "run_state (launch_tests E k6 ti is) tr = (err, tr') \<Longrightarrow>
   \<exists>cs. tr' = tr @ cs \<and> prefix cs (concat (map (launch_calls (e_meta E) k6 ti) is))
     \<and> (err = None \<longrightarrow> cs = concat (map (launch_calls (e_meta E) k6 ti) is)
          \<and> (\<forall>i \<in> set is. \<exists>j. NewRunnerJob (e_meta E) k6 i ti = Inr j))"
proof (induction "is" arbitrary: tr)
  case Nil
  then show ?case by auto
next
  case (Cons i "is")
  obtain err1 tr1 where one: "run_state (launchTest E k6 ti i) tr = (err1, tr1)" by fastforce
  from launchTest_run [OF one] obtain cs1 where cs1: "tr1 = tr @ cs1"
    "prefix cs1 (launch_calls (e_meta E) k6 ti i)"
    "err1 = None \<longrightarrow> cs1 = launch_calls (e_meta E) k6 ti i \<and> (\<exists>j. NewRunnerJob (e_meta E) k6 i ti = Inr j)"
    by blast
  show ?case
  proof (cases err1)
    case None
    with Cons.prems one have "run_state (launch_tests E k6 ti is) tr1 = (err, tr')" by simp
    from Cons.IH [OF this] obtain cs2 where cs2: "tr' = tr1 @ cs2"
      "prefix cs2 (concat (map (launch_calls (e_meta E) k6 ti) is))"
      "err = None \<longrightarrow> cs2 = concat (map (launch_calls (e_meta E) k6 ti) is)
        \<and> (\<forall>i \<in> set is. \<exists>j. NewRunnerJob (e_meta E) k6 i ti = Inr j)" by blast
    with cs1 None show ?thesis by (intro exI [of _ "cs1 @ cs2"]) auto
  next
    case (Some e)
    with Cons.prems one have "err = Some e" "tr' = tr1" by auto
    with cs1 show ?thesis by (intro exI [of _ cs1]) (auto intro: prefix_prefix)
  qed
qed

text \<open>
  C13. The runners are created in order. If the first runner's job is already there, nothing is
  created. Otherwise the calls are, from the first on, those that create job and service of the
  runners 1 to \<open>n\<close> one after the other: all of them if no error is returned, and the calls up to the
  failing one else.
\<close>

theorem createJobSpecs_order:
  assumes "run_state (createJobSpecs E k6 ti) tr = ((res, recheck, err), tr @ cs)"
  defines "nn \<equiv> \<lparr>nn_namespace = tr_namespace k6, nn_name = tr_name k6 @ ''-1''\<rparr>"
  defines "all \<equiv> GetJob nn # concat (map (launch_calls (e_meta E) k6 ti) [1 .. sint (spec_parallelism (tr_spec k6))])"
  shows "if e_getJob E tr nn = NotFound
    then \<not> recheck \<and> prefix cs all
      \<and> (err = None \<longrightarrow> cs = all
          \<and> (\<forall>i. 1 \<le> i \<and> i \<le> sint (spec_parallelism (tr_spec k6)) \<longrightarrow>
               (\<exists>j. NewRunnerJob (e_meta E) k6 i ti = Inr j)))
    else cs = [GetJob nn, ReadClock] \<and> recheck = (err = None)"
proof (cases "e_getJob E tr nn")
  case NotFound
  obtain err1 tr1 where run: "run_state (launch_tests E k6 ti [1 .. sint (spec_parallelism (tr_spec k6))])
      (tr @ [GetJob nn]) = (err1, tr1)" by fastforce
  with assms(1) NotFound have "err = err1" "\<not> recheck" "tr1 = tr @ cs"
    unfolding createJobSpecs_def nn_def by (auto simp: Let_def)
  moreover from launch_tests_run [OF run] obtain ds where "tr1 = (tr @ [GetJob nn]) @ ds"
    "prefix ds (concat (map (launch_calls (e_meta E) k6 ti) [1 .. sint (spec_parallelism (tr_spec k6))]))"
    "err1 = None \<longrightarrow> ds = concat (map (launch_calls (e_meta E) k6 ti) [1 .. sint (spec_parallelism (tr_spec k6))])
      \<and> (\<forall>i \<in> set [1 .. sint (spec_parallelism (tr_spec k6))]. \<exists>j. NewRunnerJob (e_meta E) k6 i ti = Inr j)"
    by blast
  ultimately show ?thesis using NotFound unfolding all_def by auto
qed (use assms in \<open>auto simp: createJobSpecs_def Let_def read_clock_def split: prod.splits if_splits\<close>)

theorem createJobSpecs_order_witness:
  "\<exists>res recheck cs j. run_state (createJobSpecs idle_env (example_run ''a'') (NewTokenInfo '''' '''')) [] =
       ((res, recheck, None), [] @ cs)
     \<and> NewRunnerJob documented_meta (example_run ''a'') 2 (NewTokenInfo '''' '''') = Inr j
     \<and> CreateJob j \<in> set cs"
proof -
  let ?k = "example_run ''a''" and ?ti = "NewTokenInfo '''' ''''"
  obtain j1 j2 j3 where jobs: "NewRunnerJob documented_meta ?k 1 ?ti = Inr j1"
    "NewRunnerJob documented_meta ?k 2 ?ti = Inr j2" "NewRunnerJob documented_meta ?k 3 ?ti = Inr j3"
    using example_run_job [of 1] example_run_job [of 2] example_run_job [of 3] by fastforce
  have upto: "[1 .. 3 :: int] = [1, 2, 3]" by code_simp
  define err where "err = snd (snd (fst (run_state (createJobSpecs idle_env ?k ?ti) [])))"
  have err: "err = None"
    by (simp add: err_def createJobSpecs_def Let_def upto launchTest_def jobs)
  obtain res recheck cs where run: "run_state (createJobSpecs idle_env ?k ?ti) [] = ((res, recheck, err), [] @ cs)"
    unfolding err_def by (metis append_Nil prod.collapse)
  have "CreateJob j2 \<in> set cs"
    using createJobSpecs_order [OF run] err by (simp add: upto launch_calls_def jobs)
  then show ?thesis using run err jobs by blast
qed

section \<open>Counting\<close>

lemma count_finished_fst:
  "fst (count_finished js (a, b)) = a + of_nat (length (filter (\<lambda>j. ji_active j = 0) js))"
  by (induction js arbitrary: a b) auto

lemma sint_of_nat_small: "n < 2147483648 \<Longrightarrow> sint (of_nat n :: 32 word) = int n"
  by (simp add: signed_of_nat signed_take_bit_int_eq_self)

text \<open>The services do not report a running test, asked one after the other.\<close>

definition reports_running :: "env \<Rightarrow> string + http_response \<Rightarrow> bool" where
  "reports_running E resp =
     (case resp of
        Inl _ \<Rightarrow> False
      | Inr (code, body) \<Rightarrow> code \<ge> 400 \<or>
          (case body of Inl _ \<Rightarrow> True
           | Inr data \<Rightarrow> (case e_unmarshalStatus E data of Inl _ \<Rightarrow> True | Inr running \<Rightarrow> running)))"

fun number_running :: "env \<Rightarrow> trace \<Rightarrow> service_item list \<Rightarrow> nat" where
  "number_running E tr [] = 0"
| "number_running E tr (s # ss) =
     of_bool (reports_running E (e_httpGet E tr (status_url (si_clusterIP s))))
     + number_running E (tr @ [HTTPGet (status_url (si_clusterIP s))]) ss"

lemma number_running_le: "number_running E tr ss \<le> length ss"
proof (induction ss arbitrary: tr)
  case (Cons s ss)
  show ?case using Cons.IH [of "tr @ [HTTPGet (status_url (si_clusterIP s))]"] by simp
qed simp

lemma run_isJobRunning [simp]:
  "run_state (isJobRunning E s) tr =
     (reports_running E (e_httpGet E tr (status_url (si_clusterIP s))),
      tr @ [HTTPGet (status_url (si_clusterIP s))])"
  by (auto simp: isJobRunning_def reports_running_def split: sum.splits)

lemma count_running_run:
  "run_state (count_running E ss n) tr = (n + of_nat (number_running E tr ss), tr @ status_requests ss)"
  by (induction ss arbitrary: n tr) (simp_all add: status_requests_def)

text \<open>
  C21. A test run without cloud output counts as finished exactly if as many of its runner jobs as its
  parallelism have no active pod; the 32-bit counter is exact as long as the list is shorter than
  \<open>2^31\<close>. A list call that fails means not finished.
\<close>

theorem FinishJobs_counts:
  assumes "\<not> IsTrue (e_meta E) k6 ''CloudTestRun''"
    and "\<forall>items. e_listJobs E tr (ListOptions k6) = Inr items \<longrightarrow> length items < 2147483648"
  shows "run_state (FinishJobs E k6 c) tr =
     (Inr (case e_listJobs E tr (ListOptions k6) of
         Inl _ \<Rightarrow> False
       | Inr items \<Rightarrow> sint (spec_parallelism (tr_spec k6))
           \<le> int (length (filter (\<lambda>j. ji_active j = 0) items))),
      tr @ [ListJobs (ListOptions k6)])"
proof (cases "e_listJobs E tr (ListOptions k6)")
  case (Inr items)
  have "length (filter (\<lambda>j. ji_active j = 0) items) < 2147483648"
    by (rule le_less_trans [OF length_filter_le]) (rule assms(2) [rule_format, OF Inr])
  then have "sint (fst (count_finished items (0, 0))) = int (length (filter (\<lambda>j. ji_active j = 0) items))"
    by (simp add: count_finished_fst sint_of_nat_small)
  then show ?thesis
    using assms(1) Inr by (auto simp: FinishJobs_def Let_def split: prod.splits)
qed (simp add: FinishJobs_def)

theorem FinishJobs_counts_witness:
  "run_state (FinishJobs (idle_env\<lparr>e_listJobs := \<lambda>_ _. Inr (replicate 3 \<lparr>ji_name = ''a'', ji_active = 0, ji_failed = 0\<rparr>)\<rparr>)
      (example_run ''a'') None) [] = (Inr True, [ListJobs (ListOptions (example_run ''a''))])"
proof -
  have "\<not> IsTrue documented_meta (example_run ''a'') ''CloudTestRun''"
    by (simp add: IsTrue_def documented_meta_def has_status_def zero_status_def)
  then show ?thesis
    using FinishJobs_counts [of "idle_env\<lparr>e_listJobs := \<lambda>_ _. Inr (replicate 3
        \<lparr>ji_name = ''a'', ji_active = 0, ji_failed = 0\<rparr>)\<rparr>" "example_run ''a''" "[]" None]
    by simp
qed

text \<open>
  C22. The runners count as stopped exactly if the services could be listed and none of them reports a
  running test; a runner that does not answer has stopped, one that answers with an error or with
  something unreadable is running. Every listed service is asked.
\<close>

theorem StoppedJobs_counts:
  assumes "\<forall>services. e_listServices E tr (ListOptions k6) = Inr services \<longrightarrow> length services < 2147483648"
  shows "run_state (StoppedJobs E k6) tr =
     (case e_listServices E tr (ListOptions k6) of
        Inl _ \<Rightarrow> (False, tr @ [ListServices (ListOptions k6)])
      | Inr services \<Rightarrow>
          (number_running E (tr @ [ListServices (ListOptions k6)]) services = 0,
           tr @ [ListServices (ListOptions k6)] @ status_requests services))"
proof (cases "e_listServices E tr (ListOptions k6)")
  case (Inr services)
  have "number_running E (tr @ [ListServices (ListOptions k6)]) services < 2147483648"
    by (rule le_less_trans [OF number_running_le]) (rule assms [rule_format, OF Inr])
  then show ?thesis
    using Inr by (simp add: StoppedJobs_def count_running_run sint_of_nat_small)
qed (simp add: StoppedJobs_def)

theorem StoppedJobs_counts_witness:
  "run_state (StoppedJobs ready_env (example_run ''a'')) [] =
     (True, [ListServices (ListOptions (example_run ''a'')), HTTPGet ''http://10.0.0.1:6565/v1/status''])"
  using StoppedJobs_counts [of ready_env "[]" "example_run ''a''"]
  by (simp add: reports_running_def status_requests_def status_url_def ready_env_def idle_env_def)

section \<open>Where handlers differ from their comments\<close>

text \<open>
  C32. The VUs of the script are compared as 32-bit numbers. Below \<open>2^31\<close> the check is the intended
  one; from \<open>2^31\<close> to \<open>2^32\<close> a script with that many VUs is refused for any positive parallelism.
\<close>

theorem too_few_vus_bounds:
  assumes "1 \<le> sint parallelism"
  shows "(unat maxVUs < 2 ^ 31 \<longrightarrow> too_few_vus maxVUs parallelism \<longleftrightarrow> int (unat maxVUs) < sint parallelism)
    \<and> (2 ^ 31 \<le> unat maxVUs \<and> unat maxVUs < 2 ^ 32 \<longrightarrow> too_few_vus maxVUs parallelism)"
proof -
  define n where "n = int (unat maxVUs)"
  have few: "too_few_vus maxVUs parallelism \<longleftrightarrow> signed_take_bit 31 n < sint parallelism"
    by (simp only: n_def too_few_vus_def sint_uint [of "ucast maxVUs :: 32 word"] unsigned_ucast_eq
        uint_nat [of maxVUs] signed_take_bit_take_bit) simp
  have "0 \<le> n" by (simp add: n_def)
  then have small: "signed_take_bit 31 n = n" if "n < 2 ^ 31"
    using that by (simp add: signed_take_bit_int_eq_self)
  have large: "signed_take_bit 31 n < 0" if "2 ^ 31 \<le> n" "n < 2 ^ 32"
  proof -
    have "n div 2 ^ 31 = 1" using that by simp
    then have "bit n 31" by (simp only: bit_iff_odd) simp
    then show ?thesis by (simp add: signed_take_bit_negative_iff)
  qed
  show ?thesis
  proof (intro conjI impI)
    assume "unat maxVUs < 2 ^ 31"
    then have "n < 2 ^ 31" by (simp only: n_def nat_int_comparison) simp
    then show "too_few_vus maxVUs parallelism \<longleftrightarrow> int (unat maxVUs) < sint parallelism"
      by (simp only: few small n_def [symmetric])
  next
    assume "2 ^ 31 \<le> unat maxVUs \<and> unat maxVUs < 2 ^ 32"
    then have "2 ^ 31 \<le> n" "n < 2 ^ 32" by (simp_all only: n_def nat_int_comparison) simp_all
    then have "signed_take_bit 31 n < 0" by (rule large)
    then show "too_few_vus maxVUs parallelism" using assms by (simp only: few)
  qed
qed

theorem too_few_vus_bounds_witness:
  "too_few_vus 2147483648 1 \<and> \<not> too_few_vus 10 3"
  using too_few_vus_bounds [of 1 2147483648] too_few_vus_bounds [of 3 10] by simp

lemma delete_jobs_run:
  "run_state (delete_jobs E js n) tr = (n + length js, tr @ map (\<lambda>j. DeleteJob (ji_name j)) js)"
  by (induction js arbitrary: n tr) simp_all

text \<open>
  \<open>KillJobs\<close> reports that all jobs were deleted whenever it could list them, whatever the
  deletions themselves returned; it does try each listed job once, in order.
\<close>

lemma KillJobs_reports_success:
  assumes "e_listJobs E tr (ListOptions k6) = Inr items"
  shows "run_state (KillJobs E k6) tr =
     (Inr True, tr @ [ListJobs (ListOptions k6)] @ map (\<lambda>j. DeleteJob (ji_name j)) items)"
  using assms by (simp add: KillJobs_def delete_jobs_run)

text \<open>
  C37. \<open>StartJobs\<close> panics for a test run of a private load zone if all its pods run but no service is
  listed: the first host name is taken without looking whether there is one.
\<close>

theorem StartJobs_panics_without_services:
  assumes "IsTrue (e_meta E) k6 ''CloudPLZTestRun''"
    and "e_listPods E tr (ListOptions k6) = Inr pods"
    and "running_pods pods = sint (spec_parallelism (tr_spec k6))"
    and "e_listServices E (tr @ [ListPods (ListOptions k6)]) (ListOptions k6) = Inr []"
  shows "fst (run_state (StartJobs E k6 c) tr) = Panicked index_out_of_range"
  using assms
  by (simp add: StartJobs_def hostnames_def setup_and_start_def unless_panic_def runSetup_def)

definition plz_run :: TestRun where
  "plz_run = (example_run ''plz-test-7'')\<lparr>tr_status := zero_status\<lparr>st_stage := ''stopped'',
     st_conditions := [example_condition ''CloudPLZTestRun'' ConditionTrue 0,
       example_condition ''CloudTestRunAborted'' ConditionTrue 0]\<rparr>\<rparr>"

lemma plz_run_simps [simp]:
  "IsTrue documented_meta plz_run ''CloudPLZTestRun''" "IsTrue documented_meta plz_run ''CloudTestRunAborted''"
  "st_stage (tr_status plz_run) = ''stopped''"
  "spec_parallelism (tr_spec plz_run) = 3"
  by (simp_all add: plz_run_def IsTrue_def documented_meta_def has_status_def example_condition_def)

theorem StartJobs_panics_without_services_witness:
  "fst (run_state (StartJobs (idle_env\<lparr>e_listPods := \<lambda>_ _. Inr (replicate 3 \<lparr>pi_name = ''a'', pi_phase = ''Running''\<rparr>),
       e_listServices := \<lambda>_ _. Inr []\<rparr>) plz_run None) []) = Panicked index_out_of_range"
  by (rule StartJobs_panics_without_services [where pods = "replicate 3 \<lparr>pi_name = ''a'', pi_phase = ''Running''\<rparr>"])
    (simp_all add: running_pods_def numeral_3_eq_3)

lemma finalized_updates:
  "\<exists>cs. TestRun_UpdateCondition M now k6 ''CloudTestRunFinalized'' ConditionTrue = Inr (set_conditions cs k6)"
  by (auto simp: TestRun_UpdateCondition_def UpdateCondition_def reasons_def gomap_get_simps)

text \<open>
  C38. The stage \<open>stopped\<close> does not wait for an aborted test run of a private load zone to stop. Take
  such a run as the operator keeps it, with cloud output and not yet finalized: when runners still
  report a running test, or the services could not be listed, and five seconds have passed since the
  run was marked as not running, the same reconciliation tells the cloud that the test run has ended
  and moves the stage on to \<open>finished\<close>, provided the cloud accepts that and the server has the run
  unchanged. No job is deleted: these are all its calls after the question whether the runners have
  stopped.
\<close>

theorem reconcile_stopped_does_not_wait:
  assumes "IsTrue (e_meta E) k6 ''CloudPLZTestRun''" and "IsTrue (e_meta E) k6 ''CloudTestRunAborted''"
    and "IsTrue (e_meta E) k6 ''CloudTestRun''" and "IsFalse (e_meta E) k6 ''CloudTestRunFinalized''"
    and "st_stage (tr_status k6) = ''stopped''"
    and "\<forall>tr'. e_getTestRun E tr' (NamespacedName k6) = Found k6"
    and "run_state (StoppedJobs E k6) tr = (False, tr1)"
    and "seconds 5 \<le> e_clock E tr1 1 - fst (LastUpdate (e_meta E) (e_clock E tr1 0) k6 ''TestRunRunning'')"
    and "e_cloudTestFinished E (tr1 @ [ReadClock]) (st_testRunID (tr_status k6)) = None"
  shows "\<exists>k6' out. st_stage (tr_status k6') = ''finished''
    \<and> run_state (reconcile_stopped E k6 (Some client)) tr =
        (out, tr1 @ [ReadClock, CloudTestFinished client (st_testRunID (tr_status k6)), ReadClock,
           GetTestRun (NamespacedName k6), PatchTestRunStatus (tr_status k6) k6'])"
proof -
  let ?fin = "CloudTestFinished client (st_testRunID (tr_status k6))"
  let ?tr2 = "tr1 @ [ReadClock, ?fin, ReadClock]"
  obtain cs where final: "TestRun_UpdateCondition (e_meta E) (e_clock E (tr1 @ [ReadClock, ?fin]) 0) k6
      ''CloudTestRunFinalized'' ConditionTrue = Inr (set_conditions cs k6)"
    using finalized_updates by metis
  define k6a where "k6a = set_conditions cs k6"
  let ?new = "TestRunStatus_SetIfNewer (e_meta E) (tr_status k6) (tr_status (set_stage ''finished'' k6a))"
  obtain st b where new: "?new = (st, b)" by fastforce
  have stage: "st_stage st = ''finished''" "b"
    using new assms(5) by (auto simp: TestRunStatus_SetIfNewer_eq Let_def set_stage_def stage_step_def)
  have "run_state (reconcile_stopped E k6 (Some client)) tr = run_state (finalize_and_finish E k6 (Some client)) tr1"
    using assms(1,2,7) by (simp add: reconcile_stopped_def)
  also have "\<dots> = run_state (mark_finished E k6a) ?tr2"
    using assms(3,4,8,9) final
    by (simp add: finalize_and_finish_def read_clock_def unless_panic_def FinishTestRun_def update_condition_def
        k6a_def Let_def)
  also have "snd \<dots> = ?tr2 @ [GetTestRun (NamespacedName k6), PatchTestRunStatus (tr_status k6) (k6\<lparr>tr_status := st\<rparr>)]"
    using assms(6) new stage
    by (simp add: k6a_def mark_finished_def UpdateStatus_def finish_def Let_def split: sum.splits)
  finally show ?thesis
    using stage by (intro exI [of _ "k6\<lparr>tr_status := st\<rparr>"]
        exI [of _ "fst (run_state (reconcile_stopped E k6 (Some client)) tr)"]) (simp add: prod_eq_iff)
qed

definition aborted_run :: TestRun where
  "aborted_run = (example_run ''plz-test-7'')\<lparr>tr_status := zero_status\<lparr>st_stage := ''stopped'', st_testRunID := ''7'',
     st_conditions := [example_condition ''CloudPLZTestRun'' ConditionTrue 0,
       example_condition ''CloudTestRun'' ConditionTrue 0, example_condition ''CloudTestRunFinalized'' ConditionFalse 0,
       example_condition ''CloudTestRunAborted'' ConditionTrue 0, example_condition ''TestRunRunning'' ConditionFalse 0]\<rparr>\<rparr>"

theorem reconcile_stopped_does_not_wait_witness:
  "\<exists>k6' out cs. st_stage (tr_status k6') = ''finished''
    \<and> run_state (reconcile_stopped (idle_env\<lparr>e_getTestRun := \<lambda>_ _. Found aborted_run, e_clock := \<lambda>_ _. seconds 60,
          e_listServices := \<lambda>_ _. Inr [\<lparr>si_name = ''s'', si_clusterIP = ''10.0.0.1''\<rparr>],
          e_unmarshalStatus := \<lambda>_. Inr True\<rparr>) aborted_run (Some \<lparr>cl_token = ''t'', cl_host = ''h''\<rparr>)) [] =
        (out, cs @ [PatchTestRunStatus (tr_status aborted_run) k6'])"
proof -
  let ?E = "idle_env\<lparr>e_getTestRun := \<lambda>_ _. Found aborted_run, e_clock := \<lambda>_ _. seconds 60,
          e_listServices := \<lambda>_ _. Inr [\<lparr>si_name = ''s'', si_clusterIP = ''10.0.0.1''\<rparr>],
          e_unmarshalStatus := \<lambda>_. Inr True\<rparr>"
  have "e_httpGet ?E tr url = Inr (200, Inr '''')" for tr url by (simp add: idle_env_def)
  then obtain tr1 where "run_state (StoppedJobs ?E aborted_run) [] = (False, tr1)"
    by (simp add: StoppedJobs_def count_running_run reports_running_def)
  moreover have "e_cloudTestFinished ?E tr i = None" for tr i by (simp add: idle_env_def)
  moreover have "e_meta ?E = documented_meta" by simp
  moreover have "IsTrue documented_meta aborted_run ''CloudPLZTestRun''" "IsTrue documented_meta aborted_run ''CloudTestRunAborted''"
    "IsTrue documented_meta aborted_run ''CloudTestRun''" "IsFalse documented_meta aborted_run ''CloudTestRunFinalized''"
    "st_stage (tr_status aborted_run) = ''stopped''"
    "fst (LastUpdate documented_meta t aborted_run ''TestRunRunning'') = 0" for t
    by (simp_all add: aborted_run_def IsTrue_def IsFalse_def documented_meta_def has_status_def example_condition_def LastUpdate_def)
  ultimately show ?thesis
    using reconcile_stopped_does_not_wait [of ?E aborted_run "[]" tr1 "\<lparr>cl_token = ''t'', cl_host = ''h''\<rparr>"]
    by (fastforce simp: seconds_def)
qed

end
