(* ===== verification/K6_Poller.thy ===== *)
theory K6_Poller
  imports K6_Prelude
begin

text \<open>
  The poller of \<open>pkg/cloud/conn/poller.go\<close> and the use \<open>pkg/cloud/test_runs.go\<close> makes of it. The
  methods of \<open>Poller\<close> hold its mutex, so each is one step; the goroutine that \<open>Start\<close> launches is a
  small state machine, and a run interleaves the steps of all goroutines with calls of \<open>Start\<close> and
  \<open>Stop\<close>. The channel of a \<open>TestRunPoller\<close> is not part of the state: a run has a trace of events,
  and \<open>channel_panics\<close> says whether Go would panic on it (a send to a closed channel, a second
  close).
\<close>

section \<open>The state and the methods\<close>

text \<open>
  A goroutine is about to evaluate its \<open>select\<close>, waits in it for a context or the ticker, is in
  \<open>OnInterval\<close> (waiting for the list of test runs, then sending them), or has returned. Contexts are
  numbered in the order of their creation.
\<close>

datatype goroutine =
    Looping
  | Waiting nat
  | Listing
  | Sending nat "string list"
  | Ended

record poller =
  po_interval :: int
  po_running :: bool
  po_cancelled :: "bool list"
  po_goroutines :: "goroutine list"

definition NewPoller :: "int \<Rightarrow> poller" where
  "NewPoller interval =
     \<lparr>po_interval = interval, po_running = False, po_cancelled = [], po_goroutines = []\<rparr>"

definition IsPolling :: "poller \<Rightarrow> bool" where
  "IsPolling p = po_running p"

text \<open>\<open>None\<close> is the background context, which is never cancelled.\<close>

definition Context :: "poller \<Rightarrow> nat option" where
  "Context p = (if po_cancelled p = [] then None else Some (length (po_cancelled p) - 1))"

definition Start :: "poller \<Rightarrow> poller" where
  "Start p =
     (if po_running p then p
      else p\<lparr>po_running := True, po_cancelled := po_cancelled p @ [False],
             po_goroutines := po_goroutines p @ [Looping]\<rparr>)"

definition Stop :: "poller \<Rightarrow> poller" where
  "Stop p =
     (if \<not> po_running p then p
      else p\<lparr>po_running := False,
             po_cancelled := (po_cancelled p)[length (po_cancelled p) - 1 := True]\<rparr>)"

section \<open>Runs\<close>

text \<open>What the outside can see: calls of the methods, a value sent, the channel closed by \<open>OnDone\<close>.\<close>

datatype event = Started | Stopped | Silent | Sent string | Closed

text \<open>
  The steps of one goroutine. It reads \<open>poller.ctx\<close> whenever it evaluates the \<open>select\<close> and when
  \<open>OnInterval\<close> asks for the context; when the ticker and the context are both ready, Go may choose
  either. A close of the closed channel, or a send to it, panics and takes the operator down; the
  steps go on after it, so that a run is what happens up to its first panic, if it has one
  (\<open>channel_panics\<close> below), and the rest is without meaning.
\<close>

inductive goroutine_step :: "poller \<Rightarrow> goroutine \<Rightarrow> event \<Rightarrow> goroutine \<Rightarrow> bool" for p where
  enter: "Context p = Some c \<Longrightarrow> goroutine_step p Looping Silent (Waiting c)"
| tick: "goroutine_step p (Waiting c) Silent Listing"
| finish: "po_cancelled p ! c \<Longrightarrow> goroutine_step p (Waiting c) Closed Ended"
| failed: "goroutine_step p Listing Silent Looping"
| listed: "Context p = Some c \<Longrightarrow> goroutine_step p Listing Silent (Sending c ids)"
| send: "goroutine_step p (Sending c (i # ids)) (Sent i) (Sending c ids)"
| abandon: "po_cancelled p ! c \<Longrightarrow> goroutine_step p (Sending c (i # ids)) Silent Looping"
| sent: "goroutine_step p (Sending c []) Silent Looping"

inductive poller_step :: "poller \<Rightarrow> event \<Rightarrow> poller \<Rightarrow> bool" where
  start: "poller_step p Started (Start p)"
| stop: "poller_step p Stopped (Stop p)"
| run: "i < length (po_goroutines p) \<Longrightarrow> goroutine_step p (po_goroutines p ! i) e g \<Longrightarrow>
    poller_step p e (p\<lparr>po_goroutines := (po_goroutines p)[i := g]\<rparr>)"

inductive poller_runs :: "poller \<Rightarrow> event list \<Rightarrow> poller \<Rightarrow> bool" for p where
  refl: "poller_runs p [] p"
| step: "poller_runs p es q \<Longrightarrow> poller_step q e r \<Longrightarrow> poller_runs p (es @ [e]) r"

inductive_simps goroutine_step_simps:
  "goroutine_step p Looping e g" "goroutine_step p (Waiting c) e g" "goroutine_step p Listing e g"
  "goroutine_step p (Sending c ids) e g" "goroutine_step p Ended e g"

text \<open>The channel of a \<open>TestRunPoller\<close>: closed or not before the events of the list.\<close>

fun channel_panics :: "bool \<Rightarrow> event list \<Rightarrow> bool" where
  "channel_panics closed [] = False"
| "channel_panics closed (Sent i # es) = (closed \<or> channel_panics closed es)"
| "channel_panics closed (Closed # es) = (closed \<or> channel_panics True es)"
| "channel_panics closed (_ # es) = channel_panics closed es"

definition NewTestRunPoller :: poller where
  "NewTestRunPoller = NewPoller 10000000000"

section \<open>Invariant\<close>

text \<open>
  Every context but the last is cancelled, the last one exactly if the poller does not run; there is a
  goroutine for each context, which only knows contexts that were made; the trace has as many closings
  as goroutines have ended.
\<close>

fun knows :: "nat \<Rightarrow> goroutine \<Rightarrow> bool" where
  "knows n (Waiting c) = (c < n)"
| "knows n (Sending c ids) = (c < n)"
| "knows n _ = True"

definition contexts_ok :: "poller \<Rightarrow> bool" where
  "contexts_ok p \<longleftrightarrow>
     (\<forall>c < length (po_cancelled p). po_cancelled p ! c \<longleftrightarrow> \<not> (po_running p \<and> Suc c = length (po_cancelled p)))
     \<and> (po_running p \<longrightarrow> po_cancelled p \<noteq> [])
     \<and> length (po_goroutines p) = length (po_cancelled p)
     \<and> (\<forall>g \<in> set (po_goroutines p). knows (length (po_cancelled p)) g)"

abbreviation closings :: "event list \<Rightarrow> nat" where
  "closings es \<equiv> count_list es Closed"

abbreviation ended :: "poller \<Rightarrow> nat" where
  "ended p \<equiv> count_list (po_goroutines p) Ended"

lemma knows_mono: "knows n g \<Longrightarrow> n \<le> m \<Longrightarrow> knows m g"
  by (cases g) auto

lemma Context_bound: "Context p = Some c \<Longrightarrow> c < length (po_cancelled p)"
  by (auto simp: Context_def split: if_splits)

lemma goroutine_step_knows:
  "goroutine_step p g e g' \<Longrightarrow> knows (length (po_cancelled p)) g \<Longrightarrow> knows (length (po_cancelled p)) g'"
  by (induction rule: goroutine_step.induct) (auto dest: Context_bound)

lemma goroutine_step_ended:
  "goroutine_step p g e g' \<Longrightarrow> g \<noteq> Ended \<and> (g' = Ended \<longleftrightarrow> e = Closed)"
  by (induction rule: goroutine_step.induct) auto

lemma goroutine_step_event: "goroutine_step p g e g' \<Longrightarrow> e \<noteq> Started \<and> e \<noteq> Stopped"
  by (induction rule: goroutine_step.induct) auto

lemma contexts_ok_NewPoller [simp]: "contexts_ok (NewPoller t)"
  by (simp add: contexts_ok_def NewPoller_def)

lemma contexts_ok_Start: "contexts_ok p \<Longrightarrow> contexts_ok (Start p)"
  by (auto simp: contexts_ok_def Start_def nth_append less_Suc_eq intro: knows_mono)

lemma contexts_ok_Stop: "contexts_ok p \<Longrightarrow> contexts_ok (Stop p)"
  by (auto simp: contexts_ok_def Stop_def nth_list_update)

lemma contexts_ok_step: "poller_step p e q \<Longrightarrow> contexts_ok p \<Longrightarrow> contexts_ok q"
proof (induction rule: poller_step.induct)
  case (run i p e g)
  have "knows (length (po_cancelled p)) g"
    using run goroutine_step_knows by (auto simp: contexts_ok_def)
  then have "\<forall>g' \<in> set ((po_goroutines p)[i := g]). knows (length (po_cancelled p)) g'"
    using run(3) set_update_subset_insert by (fastforce simp: contexts_ok_def)
  then show ?case using run by (simp add: contexts_ok_def)
qed (simp_all add: contexts_ok_Start contexts_ok_Stop)

lemma count_list_update:
  "i < length xs \<Longrightarrow> xs ! i \<noteq> y \<Longrightarrow> count_list (xs[i := x]) y = count_list xs y + (if x = y then 1 else 0)"
  by (induction xs arbitrary: i) (auto split: nat.splits)

lemma closings_step:
  assumes "poller_step p e q"
  shows "ended q = ended p + closings [e]"
  using assms
proof cases
  case (run i g)
  then show ?thesis using goroutine_step_ended [OF run(3)] by (simp add: count_list_update)
qed (simp_all add: Start_def Stop_def)

lemma poller_runs_ok:
  "poller_runs p es q \<Longrightarrow> contexts_ok p \<Longrightarrow> contexts_ok q \<and> ended q = ended p + closings es"
proof (induction rule: poller_runs.induct)
  case (step es q e r)
  then show ?case using contexts_ok_step closings_step by fastforce
qed simp

lemma ended_NewPoller [simp]: "ended (NewPoller t) = 0"
  by (simp add: NewPoller_def)

lemma poller_runs_new:
  "poller_runs (NewPoller t) es p \<Longrightarrow> contexts_ok p \<and> ended p = closings es"
  using poller_runs_ok by fastforce

lemma contexts_grow: "poller_step p e q \<Longrightarrow> length (po_cancelled p) \<le> length (po_cancelled q)"
  by (induction rule: poller_step.induct) (simp_all add: Start_def Stop_def)

section \<open>The channel\<close>

lemma channel_panics_append:
  "channel_panics b (es @ fs) \<longleftrightarrow> channel_panics b es \<or> channel_panics (b \<or> Closed \<in> set es) fs"
  by (induction b es rule: channel_panics.induct) auto

lemma channel_panics_closings: "closings es + (if b then 1 else 0) > 1 \<Longrightarrow> channel_panics b es"
  by (induction b es rule: channel_panics.induct) (auto split: if_splits)

lemma one_session_no_panic:
  assumes "poller_runs (NewPoller t) es p" and "length (po_cancelled p) \<le> 1"
  shows "\<not> channel_panics False es"
  using assms
proof (induction rule: poller_runs.induct)
  case (step es q e r)
  have one: "length (po_cancelled q) \<le> 1" using contexts_grow [OF step(2)] step(4) by simp
  then have old: "\<not> channel_panics False es" by (rule step(3))
  have q: "contexts_ok q" "ended q = closings es"
    using poller_runs_new [OF step(1)] by simp_all
  have "\<not> channel_panics (Closed \<in> set es) [e]"
  proof (cases "Closed \<in> set es")
    case True
    then have "ended q \<noteq> 0" by (simp add: q count_list_0_iff)
    moreover have "length (po_goroutines q) \<le> 1" using one q(1) by (simp add: contexts_ok_def)
    ultimately have "po_goroutines q = [Ended]"
      by (cases "po_goroutines q") (auto split: if_splits)
    from step(2) show ?thesis
    proof cases
      case (run i g)
      then show ?thesis using \<open>po_goroutines q = [Ended]\<close> by (simp add: goroutine_step_simps)
    qed simp_all
  next
    case False
    then show ?thesis by (cases e) simp_all
  qed
  with old show ?case by (simp add: channel_panics_append)
qed simp

text \<open>
  C7. Whatever the interleaving: the poller is polling exactly if its current context is not
  cancelled, and no other context is live; each session has its own goroutine. As long as the poller
  was started once, its channel is closed at most once and nothing is sent after that. But a poller
  that was started again panics at the latest when its goroutines have ended: \<open>OnDone\<close> closes the one
  channel once for each session.
\<close>

theorem poller_sessions:
  assumes "poller_runs (NewPoller t) es p"
  shows "(IsPolling p \<longleftrightarrow> (\<exists>c. Context p = Some c \<and> \<not> po_cancelled p ! c))
    \<and> (\<forall>c < length (po_cancelled p). Context p \<noteq> Some c \<longrightarrow> po_cancelled p ! c)
    \<and> length (po_goroutines p) = length (po_cancelled p)
    \<and> (length (po_cancelled p) \<le> 1 \<longrightarrow> \<not> channel_panics False es)
    \<and> (1 < length (po_cancelled p) \<longrightarrow> (\<forall>g \<in> set (po_goroutines p). g = Ended) \<longrightarrow> channel_panics False es)"
proof -
  have ok: "contexts_ok p" and ended: "ended p = closings es"
    using poller_runs_new [OF assms] by simp_all
  have "IsPolling p \<longleftrightarrow> (\<exists>c. Context p = Some c \<and> \<not> po_cancelled p ! c)"
    using ok by (auto simp: contexts_ok_def IsPolling_def Context_def)
  moreover have "\<forall>c < length (po_cancelled p). Context p \<noteq> Some c \<longrightarrow> po_cancelled p ! c"
    using ok by (auto simp: contexts_ok_def Context_def)
  moreover have "channel_panics False es"
    if "1 < length (po_cancelled p)" "\<forall>g \<in> set (po_goroutines p). g = Ended"
  proof -
    have "po_goroutines p = replicate (length (po_goroutines p)) Ended"
      using that(2) by (intro replicate_eqI) auto
    moreover have "count_list (replicate n Ended) Ended = n" for n by (induction n) simp_all
    ultimately have "ended p = length (po_goroutines p)" by metis
    then show ?thesis using that(1) ok ended by (intro channel_panics_closings) (simp add: contexts_ok_def)
  qed
  ultimately show ?thesis
    using ok one_session_no_panic [OF assms] by (simp add: contexts_ok_def)
qed

text \<open>Rules to build a run step by step.\<close>

lemma poller_runs_start: "poller_runs p es q \<Longrightarrow> poller_runs p (es @ [Started]) (Start q)"
  by (blast intro: poller_runs.step poller_step.start)

lemma poller_runs_stop: "poller_runs p es q \<Longrightarrow> poller_runs p (es @ [Stopped]) (Stop q)"
  by (blast intro: poller_runs.step poller_step.stop)

lemma poller_runs_go:
  "poller_runs p es q \<Longrightarrow> i < length (po_goroutines q) \<Longrightarrow> goroutine_step q (po_goroutines q ! i) e g \<Longrightarrow>
   poller_runs p (es @ [e]) (q\<lparr>po_goroutines := (po_goroutines q)[i := g]\<rparr>)"
  by (blast intro: poller_runs.step poller_step.run)

lemma poller_runs_trans: "poller_runs q fs r \<Longrightarrow> poller_runs p es q \<Longrightarrow> poller_runs p (es @ fs) r"
proof (induction rule: poller_runs.induct)
  case (step fs q' e r)
  then show ?case using poller_runs.step [of p "es @ fs"] by simp
qed simp

text \<open>One session from the start to the end of its goroutine, as the \<open>n\<close>-th of a poller.\<close>

lemma poller_runs_session:
  assumes "poller_runs p es q" and "\<not> po_running q" "length (po_goroutines q) = length (po_cancelled q)"
  shows "poller_runs p (es @ [Started, Silent, Stopped, Closed])
    (q\<lparr>po_running := False, po_cancelled := po_cancelled q @ [True],
       po_goroutines := po_goroutines q @ [Ended]\<rparr>)"
proof -
  let ?n = "length (po_cancelled q)"
  let ?q1 = "Start q"
  have "poller_runs p ((es @ [Started]) @ [Silent]) (?q1\<lparr>po_goroutines := (po_goroutines ?q1)[?n := Waiting ?n]\<rparr>)"
    by (rule poller_runs_go [OF poller_runs_start [OF assms(1)]])
      (use assms(2,3) in \<open>simp_all add: Start_def nth_append Context_def enter\<close>)
  from poller_runs_stop [OF this]
  have "poller_runs p (es @ [Started, Silent, Stopped])
      (q\<lparr>po_running := False, po_cancelled := po_cancelled q @ [True],
         po_goroutines := po_goroutines q @ [Waiting ?n]\<rparr>)" (is "poller_runs p _ ?q3")
    using assms(2,3) by (cases q) (simp add: Start_def Stop_def list_update_append)
  then have "poller_runs p ((es @ [Started, Silent, Stopped]) @ [Closed]) (?q3\<lparr>po_goroutines := (po_goroutines ?q3)[?n := Ended]\<rparr>)"
    by (rule poller_runs_go) (use assms(3) in \<open>simp_all add: nth_append goroutine_step_simps\<close>)
  then show ?thesis using assms(3) by (simp add: list_update_append)
qed

theorem poller_sessions_witness:
  "channel_panics False ([Started, Silent, Stopped, Closed] @ [Started, Silent, Stopped, Closed])"
proof -
  have "poller_runs (NewPoller 1) ([Started, Silent, Stopped, Closed] @ [Started, Silent, Stopped, Closed])
      (NewPoller 1\<lparr>po_cancelled := [True, True], po_goroutines := [Ended, Ended]\<rparr>)"
    using poller_runs_session [OF poller_runs_session [OF poller_runs.refl [of "NewPoller 1"]]]
    by (simp add: NewPoller_def)
  from poller_sessions [OF this] show ?thesis by simp
qed

section \<open>Stopping\<close>

text \<open>
  A goroutine that is not about to be cancelled may go on for ever; one whose poller has stopped can
  always come to its end by itself, even in the middle of sending.
\<close>

lemma goroutine_can_end:
  assumes "contexts_ok p" "\<not> po_running p" "i < length (po_goroutines p)"
  shows "\<exists>es. poller_runs p es (p\<lparr>po_goroutines := (po_goroutines p)[i := Ended]\<rparr>) \<and> (\<forall>v. Sent v \<notin> set es)"
    (is "\<exists>es. poller_runs p es (?at Ended) \<and> _")
proof -
  have all: "po_cancelled p ! c" if "c < length (po_cancelled p)" for c
    using assms(1,2) that by (simp add: contexts_ok_def)
  have "po_cancelled p \<noteq> []" using assms(1,3) by (auto simp: contexts_ok_def)
  then obtain c where c: "Context p = Some c" by (simp add: Context_def)
  have go: "poller_runs p (es @ [e]) (?at g')"
    if "poller_runs p es (?at g)" "goroutine_step (?at g) g e g'" for es e g g'
    using poller_runs_go [OF that(1), of i] that(2) assms(3) by simp
  have here: "poller_runs p [] (?at (po_goroutines p ! i))" by (simp add: poller_runs.refl)
  have wait: "\<exists>es. poller_runs p es (?at (Waiting d)) \<and> (\<forall>v. Sent v \<notin> set es) \<Longrightarrow> d < length (po_cancelled p) \<Longrightarrow> ?thesis" for d
    using go [where g = "Waiting d", OF _ goroutine_step.finish] all by fastforce
  have loop: ?thesis if looping: "\<exists>es. poller_runs p es (?at Looping) \<and> (\<forall>v. Sent v \<notin> set es)"
  proof -
    obtain es where es: "poller_runs p es (?at Looping)" "\<forall>v. Sent v \<notin> set es" using looping by blast
    have "Context (?at Looping) = Some c" using c by (simp add: Context_def split: if_splits)
    from go [OF es(1) goroutine_step.enter [OF this]] es(2) Context_bound [OF c] show ?thesis
      by (intro wait [of c]) auto
  qed
  show ?thesis
  proof (cases "po_goroutines p ! i")
    case Looping
    then show ?thesis using here by (intro loop exI [of _ "[]"]) simp
  next
    case (Waiting d)
    then have "knows (length (po_cancelled p)) (Waiting d)"
      using assms(1,3) by (metis contexts_ok_def nth_mem)
    then show ?thesis using here Waiting by (intro wait exI [of _ "[]"]) simp_all
  next
    case Listing
    then show ?thesis
      using go [OF here, of Silent Looping] by (intro loop exI [of _ "[Silent]"]) (simp add: goroutine_step_simps)
  next
    case (Sending d ids)
    then have "knows (length (po_cancelled p)) (Sending d ids)"
      using assms(1,3) by (metis contexts_ok_def nth_mem)
    then have "goroutine_step (?at (po_goroutines p ! i)) (po_goroutines p ! i) Silent Looping"
      using all Sending by (cases ids) (auto intro: goroutine_step.intros)
    then show ?thesis using go [OF here] by (intro loop) fastforce
  next
    case Ended
    then show ?thesis using here by (intro exI [of _ "[]"]) simp
  qed
qed

text \<open>
  C28. Once the poller has stopped, its goroutines can all come to their end without a further value
  being sent or received, whatever they were doing when \<open>Stop\<close> was called.
\<close>

theorem stopped_poller_can_end:
  assumes "poller_runs (NewPoller t) es p" and "\<not> IsPolling p"
  shows "\<exists>fs q. poller_runs p fs q \<and> (\<forall>v. Sent v \<notin> set fs) \<and> (\<forall>g \<in> set (po_goroutines q). g = Ended)"
proof -
  have "\<exists>fs q. poller_runs p fs q \<and> (\<forall>v. Sent v \<notin> set fs) \<and> contexts_ok q \<and> \<not> po_running q
      \<and> length (po_goroutines q) = length (po_goroutines p) \<and> (\<forall>i < n. po_goroutines q ! i = Ended)"
    if "n \<le> length (po_goroutines p)" for n
    using that
  proof (induction n)
    case 0
    then show ?case
      using poller_runs.refl poller_runs_new [OF assms(1)] assms(2) by (fastforce simp: IsPolling_def)
  next
    case (Suc n)
    then obtain fs q where q: "poller_runs p fs q" "\<forall>v. Sent v \<notin> set fs" "contexts_ok q" "\<not> po_running q"
      "length (po_goroutines q) = length (po_goroutines p)" "\<forall>i < n. po_goroutines q ! i = Ended" by auto
    then obtain hs where hs: "poller_runs q hs (q\<lparr>po_goroutines := (po_goroutines q)[n := Ended]\<rparr>)"
      "\<forall>v. Sent v \<notin> set hs" using goroutine_can_end [of q n] Suc by auto
    then have "contexts_ok (q\<lparr>po_goroutines := (po_goroutines q)[n := Ended]\<rparr>)"
      using poller_runs_ok q(3) by blast
    then show ?case
      using poller_runs_trans [OF hs(1) q(1)] hs(2) q Suc
      by (intro exI [of _ "fs @ hs"] exI [of _ "q\<lparr>po_goroutines := (po_goroutines q)[n := Ended]\<rparr>"])
        (auto simp: less_Suc_eq nth_list_update)
  qed
  from this [of "length (po_goroutines p)"] show ?thesis by (force simp: in_set_conv_nth)
qed

theorem stopped_poller_can_end_witness:
  "\<exists>fs q. poller_runs (Stop (Start (NewPoller 1))) fs q \<and> (\<forall>v. Sent v \<notin> set fs) \<and> (\<forall>g \<in> set (po_goroutines q). g = Ended)"
proof -
  have "poller_runs (NewPoller 1) (([] @ [Started]) @ [Stopped]) (Stop (Start (NewPoller 1)))"
    by (intro poller_runs_start poller_runs_stop poller_runs.refl)
  then show ?thesis by (rule stopped_poller_can_end) (simp add: IsPolling_def Start_def Stop_def NewPoller_def)
qed

end
