(* ===== verification/K6_PLZ.thy ===== *)
theory K6_PLZ
  imports K6_Client K6_Poller
begin

text \<open>
  Private load zones: the worker of a zone (\<open>pkg/plz/worker.go\<close>), the registry of workers
  (\<open>workers.go\<close>), the template of its test runs (\<open>pkg/testrun/template.go\<close>) and the controller
  (\<open>internal/controller/plz_controller.go\<close>). The registry holds pointers: a worker that is changed
  after it was looked up is written back under its name.
\<close>

section \<open>Finalizers\<close>

text \<open>
  The functions of \<open>controllerutil\<close> on the finalizers of an object are parameters; the locale states
  what their documentation says.
\<close>

record finalizer_api =
  fz_contains :: "string list \<Rightarrow> string \<Rightarrow> bool"
  fz_add :: "string list \<Rightarrow> string \<Rightarrow> string list"
  fz_remove :: "string list \<Rightarrow> string \<Rightarrow> string list"

locale finalizers =
  fixes F :: finalizer_api
  assumes contains: "fz_contains F fs f \<longleftrightarrow> f \<in> set fs"
    and add: "set (fz_add F fs f) = insert f (set fs)"
    and remove: "set (fz_remove F fs f) = set fs - {f}"
begin

lemma contains_add [simp]: "fz_contains F (fz_add F fs f) f"
  by (simp add: contains add)

lemma contains_remove [simp]: "\<not> fz_contains F (fz_remove F fs f) f"
  by (simp add: contains remove)

end

definition documented_finalizers :: finalizer_api where
  "documented_finalizers =
     \<lparr>fz_contains = (\<lambda>fs f. f \<in> set fs), fz_add = (\<lambda>fs f. if f \<in> set fs then fs else fs @ [f]),
      fz_remove = (\<lambda>fs f. filter (\<lambda>g. g \<noteq> f) fs)\<rparr>"

interpretation documented_fz: finalizers documented_finalizers
  by unfold_locales (auto simp: documented_finalizers_def)

definition plzFinalizer :: string where
  "plzFinalizer = ''privateloadzones.k6.io/finalizer''"

definition plzUIDAnnotation :: string where
  "plzUIDAnnotation = ''privateloadzones.k6.io/plz-uid''"

section \<open>The template of the test runs\<close>

text \<open>A template is a test run; \<open>Create\<close> copies it.\<close>

definition Template_Create :: "TestRun \<Rightarrow> TestRun" where
  "Template_Create t = t"

definition PLZTestName :: "string \<Rightarrow> string" where
  "PLZTestName testRunId = ''plz-test-'' @ testRunId"

definition plz_starter :: "PrivateLoadZone \<Rightarrow> Pod" where
  "plz_starter plz =
     zero_pod
       \<lparr>pod_serviceAccountName := plzs_serviceAccountName (plz_spec plz),
        pod_nodeSelector := plzs_nodeSelector (plz_spec plz),
        pod_imagePullSecrets := plzs_imagePullSecrets (plz_spec plz),
        pod_tolerations := pt_tolerations (plzs_podTemplate (plz_spec plz)),
        pod_metadata := \<lparr>pm_annotations = pt_annotations (plzs_podTemplate (plz_spec plz)),
                        pm_labels = pt_labels (plzs_podTemplate (plz_spec plz))\<rparr>\<rparr>"

definition plz_runner :: "PrivateLoadZone \<Rightarrow> Pod" where
  "plz_runner plz =
     (plz_starter plz)
       \<lparr>pod_resources := plzs_resources (plz_spec plz),
        pod_volumes := [\<lparr>vol_name = ''archive-volume'', vol_source = EmptyDirSource\<rparr>],
        pod_volumeMounts := [\<lparr>vm_name = ''archive-volume'', vm_mountPath = ''/test'', vm_readOnly = False\<rparr>],
        pod_envFrom := ToEnvFromSource (plzs_secrets (plz_spec plz))\<rparr>"

text \<open>The security contexts of the pod template, where it has them.\<close>

definition plz_security :: "PodTemplate \<Rightarrow> Pod \<Rightarrow> Pod" where
  "plz_security pt pod =
     (let pod1 = (case pt_containerSecurityContexts pt of
                    Some sc # _ \<Rightarrow> pod\<lparr>pod_containerSecurityContext := sc\<rparr>
                  | _ \<Rightarrow> pod)
      in case pt_securityContext pt of
           Some sc \<Rightarrow> pod1\<lparr>pod_securityContext := sc\<rparr>
         | None \<Rightarrow> pod1)"

definition createTemplate :: "PrivateLoadZone \<Rightarrow> TestRun" where
  "createTemplate plz =
     \<lparr>tr_name = '''', tr_namespace = plz_namespace plz,
      tr_spec = zero_spec
        \<lparr>spec_runner := plz_security (plzs_podTemplate (plz_spec plz)) (plz_runner plz),
         spec_starter := plz_security (plzs_podTemplate (plz_spec plz)) (plz_starter plz),
         spec_script := zero_script\<lparr>ks_localFile := ''/test/archive.tar''\<rparr>,
         spec_separate := False,
         spec_cleanup := ''post'',
         spec_token := plzs_token (plz_spec plz)\<rparr>,
      tr_status = zero_status\<rparr>"

definition plzLogOutputFormat :: "string \<Rightarrow> string \<Rightarrow> string" where
  "plzLogOutputFormat plzName testRunID =
     ''--log-output=loki=https://cloudlogs.k6.io/api/v1/push,label.lz='' @ plzName
     @ '',label.test_run_id='' @ testRunID @ '',header.Authorization=Token $(K6_CLOUD_TOKEN)''"

definition plzk6Args :: "string \<Rightarrow> string \<Rightarrow> TestRunData \<Rightarrow> string list" where
  "plzk6Args plzName testRunID trData =
     [''--out'', ''cloud''] @ trd_tagArgs trData @ [''--no-thresholds'', plzLogOutputFormat plzName testRunID]
     @ trd_envArgs trData
     @ [''--include-system-env-vars='' @ FormatBool (trd_includeSystemEnvVars trData)]
     @ (if \<not> trd_includeSystemEnvVars trData then [''--verbose'', ''--summary-mode=disabled''] else [])"

text \<open>\<open>complete\<close>; \<open>Inl\<close> is the panic of a template without a mount.\<close>

definition complete_tr :: "string \<Rightarrow> TestRun \<Rightarrow> TestRunData \<Rightarrow> string + TestRun" where
  "complete_tr plzName tr trData =
     (case pod_volumeMounts (spec_runner (tr_spec tr)) of
        [] \<Rightarrow> Inl index_out_of_range
      | mount # _ \<Rightarrow>
          (let initContainer = NewS3InitContainer (trd_archiveURL trData)
                 ''ghcr.io/grafana/k6-operator:latest-starter'' mount;
               runner = (spec_runner (tr_spec tr))
                 \<lparr>pod_image := trd_runnerImage trData, pod_initContainers := [initContainer],
                  pod_env := trd_runnerEnvVars trData\<rparr>
           in Inr (tr\<lparr>tr_name := PLZTestName (trd_TestRunID trData),
                tr_spec := (tr_spec tr)
                  \<lparr>spec_runner := runner,
                   spec_parallelism := word_of_int (trd_instanceCount trData),
                   spec_testRunID := trd_TestRunID trData,
                   spec_args := plzk6Args plzName (trd_TestRunID trData) trData\<rparr>\<rparr>)))"

section \<open>The worker\<close>

record PLZWorker =
  w_plz :: PrivateLoadZone
  w_token :: string
  w_poller :: poller
  w_client :: cloud_client
  w_template :: TestRun

definition NewPLZWorker :: "env \<Rightarrow> PrivateLoadZone \<Rightarrow> string \<Rightarrow> PLZWorker" where
  "NewPLZWorker E plz token =
     \<lparr>w_plz = plz, w_token = token, w_poller = NewTestRunPoller,
      w_client = \<lparr>cl_token = token, cl_host = ApiURL (K6CloudHost (e_cloudHostVar E))\<rparr>,
      w_template = createTemplate plz\<rparr>"

definition registration_data :: "env \<Rightarrow> PrivateLoadZone \<Rightarrow> string \<Rightarrow> PLZRegistrationData" where
  "registration_data E plz uid =
     \<lparr>reg_loadZoneID = plz_name plz,
      reg_cpu = e_limit E (rr_limits (plzs_resources (plz_spec plz))) ''cpu'',
      reg_memory = e_limit E (rr_limits (plzs_resources (plz_spec plz))) ''memory'',
      reg_runnerImage = plzs_image (plz_spec plz),
      reg_uid = uid\<rparr>"

text \<open>\<open>Register\<close> of the resource: a panic, or the resource with the error or the uid.\<close>

definition PLZ_Register ::
    "env \<Rightarrow> cloud_client \<Rightarrow> PrivateLoadZone \<Rightarrow> (string + PrivateLoadZone \<times> (string + string)) prog" where
  "PLZ_Register E client plz = do {
     clk \<leftarrow> read_clock E;
     (case PLZ_UpdateCondition (e_meta E) (clk 0) plz ''PLZRegistered'' ConditionFalse of
        Inl p \<Rightarrow> State_Monad.return (Inl p)
      | Inr plz1 \<Rightarrow> do {
          uid \<leftarrow> perform (e_uuid E) NewUUID;
          err \<leftarrow> RegisterPLZ E client (registration_data E plz1 uid);
          State_Monad.return (Inr (plz1, case err of Some e \<Rightarrow> Inl e | None \<Rightarrow> Inr uid))
        })
   }"

definition StartFactory :: "PLZWorker \<Rightarrow> PLZWorker" where
  "StartFactory w = (if \<not> IsPolling (w_poller w) then w\<lparr>w_poller := Start (w_poller w)\<rparr> else w)"

definition StopFactory :: "PLZWorker \<Rightarrow> PLZWorker" where
  "StopFactory w = w\<lparr>w_poller := Stop (w_poller w)\<rparr>"

definition outdated_crd_events :: Events where
  "outdated_crd_events = WithAbort (WithDetail (ErrorEvent K6OperatorStartError)
     ''k6-operator: PLZ is misconfigured (outdated TestRun CRD); upgrade the k6-operator CRDs'')"

text \<open>\<open>handle\<close> once the test run has been prepared.\<close>

definition create_test_run :: "env \<Rightarrow> PLZWorker \<Rightarrow> string \<Rightarrow> TestRun \<Rightarrow> (string option) prog" where
  "create_test_run E w testRunId tr = do {
     _ \<leftarrow> perform (\<lambda>t. e_setControllerReference E t (tr_name tr)) (SetControllerReference (tr_name tr));
     created \<leftarrow> perform (\<lambda>t. e_createTestRunResource E t tr) (CreateTestRunResource tr);
     (case created of
        Inl _ \<Rightarrow> State_Monad.return None
      | Inr stored \<Rightarrow>
          if length (spec_args (tr_spec stored)) = 0 then do {
            p \<leftarrow> SendTestRunEvents E (Some (w_client w)) testRunId outdated_crd_events;
            _ \<leftarrow> perform (\<lambda>t. e_deleteTestRun E t (NamespacedName stored)) (DeleteTestRun (NamespacedName stored));
            State_Monad.return p
          }
          else State_Monad.return None)
   }"

text \<open>\<open>Some\<close> is a panic.\<close>

definition handle :: "env \<Rightarrow> PLZWorker \<Rightarrow> string \<Rightarrow> (string option) prog" where
  "handle E w testRunId =
     (let tr = Template_Create (w_template w);
          nn = \<lparr>nn_namespace = tr_namespace tr, nn_name = PLZTestName testRunId\<rparr> in do {
       found \<leftarrow> perform (\<lambda>t. e_getTestRun E t nn) (GetTestRun nn);
       (case found of
          NotFound \<Rightarrow> do {
            got \<leftarrow> GetTestRunData E (w_client w) testRunId;
            (case got of
               Inl _ \<Rightarrow> State_Monad.return None
             | Inr data \<Rightarrow>
                 (case Preprocess (e_cloudHostVar E) data of
                    Inl _ \<Rightarrow> State_Monad.return None
                  | Inr trData \<Rightarrow>
                      (case complete_tr (plz_name (w_plz w)) tr trData of
                         Inl p \<Rightarrow> State_Monad.return (Some p)
                       | Inr tr' \<Rightarrow> create_test_run E w testRunId tr')))
          }
        | _ \<Rightarrow> State_Monad.return None)
     })"

section \<open>The registry of workers\<close>

type_synonym workers = "PLZWorker gomap"

definition AddWorker :: "workers \<Rightarrow> string \<Rightarrow> PLZWorker \<Rightarrow> workers \<times> string option" where
  "AddWorker ws name w =
     (case gomap_get ws name of
        Some _ \<Rightarrow> (ws, Some ''PLZ worker has already been added'')
      | None \<Rightarrow> (gomap_set ws name w, None))"

definition GetWorker :: "workers \<Rightarrow> string \<Rightarrow> string + PLZWorker" where
  "GetWorker ws name =
     (case gomap_get ws name of
        None \<Rightarrow> Inl ''PLZ worker doesn't exist anymore''
      | Some w \<Rightarrow> Inr w)"

definition DeleteWorker :: "workers \<Rightarrow> string \<Rightarrow> workers" where
  "DeleteWorker ws name = gomap_delete ws name"

text \<open>A change of the worker behind the pointer that is stored under the name.\<close>

definition store_worker :: "workers \<Rightarrow> string \<Rightarrow> PLZWorker \<Rightarrow> workers" where
  "store_worker ws name w = gomap_set ws name w"

datatype 'w registry_op = Add string 'w | Delete string

text \<open>What the users of the registry rely on, whatever the order in which its operations are called.\<close>

locale registry =
  fixes add :: "'m \<Rightarrow> string \<Rightarrow> 'w \<Rightarrow> 'm \<times> string option"
    and get :: "'m \<Rightarrow> string \<Rightarrow> string + 'w"
    and del :: "'m \<Rightarrow> string \<Rightarrow> 'm"
  assumes add_free: "isl (get m n) \<Longrightarrow> snd (add m n w) = None"
    and add_taken: "\<not> isl (get m n) \<Longrightarrow> snd (add m n w) \<noteq> None \<and> fst (add m n w) = m"
    and get_add: "isl (get m n) \<Longrightarrow> get (fst (add m n w)) n' = (if n' = n then Inr w else get m n')"
    and get_del: "n' \<noteq> n \<Longrightarrow> get (del m n) n' = get m n'"
    and get_del_same: "isl (get (del m n) n)"
begin

primrec apply_op :: "'m \<Rightarrow> 'w registry_op \<Rightarrow> 'm" where
  "apply_op m (Add n w) = fst (add m n w)"
| "apply_op m (Delete n) = del m n"

text \<open>The calls of \<open>add\<close> for a name that succeed.\<close>

fun successes :: "string \<Rightarrow> 'm \<Rightarrow> 'w registry_op list \<Rightarrow> nat" where
  "successes n m [] = 0"
| "successes n m (Add n' w # ops) =
     (if n' = n \<and> snd (add m n' w) = None then 1 else 0) + successes n (apply_op m (Add n' w)) ops"
| "successes n m (Delete n' # ops) = successes n (apply_op m (Delete n')) ops"

fun deletions :: "string \<Rightarrow> 'w registry_op list \<Rightarrow> nat" where
  "deletions n [] = 0"
| "deletions n (Delete n' # ops) = (if n' = n then 1 else 0) + deletions n ops"
| "deletions n (_ # ops) = deletions n ops"

lemma isl_get_add: "isl (get (fst (add m n w)) n') \<longleftrightarrow> isl (get m n') \<and> n' \<noteq> n"
  using add_taken get_add by (cases "isl (get m n)") auto

lemma one_worker_at_a_time:
  "successes n m ops \<le> deletions n ops + (if isl (get m n) then 1 else 0)"
proof (induction n m ops rule: successes.induct)
  case (2 n m n' w ops)
  then show ?case using add_taken [of m n w] add_free [of m n w] by (auto simp: isl_get_add)
next
  case (3 n m n' ops)
  then show ?case using get_del_same [of m n] get_del [of n n' m] by (auto split: if_splits)
qed simp

end

interpretation plz_workers: registry AddWorker GetWorker DeleteWorker
  by unfold_locales (auto simp: AddWorker_def GetWorker_def DeleteWorker_def split: option.splits if_splits)

section \<open>The controller\<close>

text \<open>\<open>loadToken\<close>: the result to return at once, or the token.\<close>

definition loadToken :: "env \<Rightarrow> string \<Rightarrow> string \<Rightarrow> (result + string) prog" where
  "loadToken E tokenName ns = do {
     (ti, err) \<leftarrow> Load E (NewTokenInfo tokenName ns);
     State_Monad.return (case err of
         Some _ \<Rightarrow> Inl no_requeue
       | None \<Rightarrow> if \<not> ti_ready ti then Inl (after_seconds 5) else Inr (ti_value ti))
   }"

definition PLZ_key :: "PrivateLoadZone \<Rightarrow> namespaced_name" where
  "PLZ_key plz = \<lparr>nn_namespace = plz_namespace plz, nn_name = plz_name plz\<rparr>"

definition PLZ_UpdateStatus :: "env \<Rightarrow> PrivateLoadZone \<Rightarrow> (PrivateLoadZone \<times> bool \<times> string option) prog" where
  "PLZ_UpdateStatus E plz = do {
     got \<leftarrow> perform (\<lambda>t. e_getPLZ E t (PLZ_key plz)) (GetPLZ (PLZ_key plz));
     (case got of
        NotFound \<Rightarrow> State_Monad.return (plz, False, None)
      | GetFailed err \<Rightarrow> State_Monad.return (plz, False, Some err)
      | Found cur \<Rightarrow>
          (let (cs, isNewer) = PLZ_SetIfNewer (e_meta E) (plz_conditions cur) (plz_conditions plz);
               plz' = cur\<lparr>plz_conditions := cs\<rparr> in
           if \<not> isNewer then State_Monad.return (plz', False, None)
           else do {
             patched \<leftarrow> perform (\<lambda>t. e_patchPLZ E t plz') (PatchPLZStatus (plz_conditions cur) plz');
             State_Monad.return (case patched of
                 Inl err \<Rightarrow> (plz', False, Some err)
               | Inr stored \<Rightarrow> (stored, True, None))
           }))
   }"

abbreviation ends :: "workers \<Rightarrow> result \<Rightarrow> string option \<Rightarrow> (workers \<times> outcome) prog" where
  "ends ws res err \<equiv> State_Monad.return (ws, Returned res err)"

text \<open>The zone has been registered in the cloud: keep its worker, protect it by the finalizer.\<close>

definition protect_plz ::
    "env \<Rightarrow> finalizer_api \<Rightarrow> workers \<Rightarrow> PLZWorker \<Rightarrow> PrivateLoadZone \<Rightarrow> string \<Rightarrow> (workers \<times> outcome) prog" where
  "protect_plz E F ws w plz uid =
     (case AddWorker ws (plz_name plz) w of
        (_, Some _) \<Rightarrow> ends ws no_requeue None
      | (ws', None) \<Rightarrow>
          (let plz' = plz\<lparr>plz_finalizers := fz_add F (plz_finalizers plz) plzFinalizer,
                 plz_annotations := [(plzUIDAnnotation, uid)]\<rparr> in do {
            updated \<leftarrow> perform (\<lambda>t. e_updatePLZ E t plz') (UpdatePLZ plz');
            (case updated of
               Inl err \<Rightarrow> ends ws' no_requeue (Some err)
             | Inr _ \<Rightarrow> ends ws' requeue None)
          }))"

text \<open>The first reconciliation. The conditions of the zone and of its worker share one array.\<close>

definition register_plz :: "env \<Rightarrow> finalizer_api \<Rightarrow> workers \<Rightarrow> PrivateLoadZone \<Rightarrow> (workers \<times> outcome) prog" where
  "register_plz E F ws plz = do {
     t \<leftarrow> loadToken E (plzs_token (plz_spec plz)) (plz_namespace plz);
     (case t of
        Inl res \<Rightarrow> ends ws res None
      | Inr token \<Rightarrow>
          (let w = NewPLZWorker E plz token in do {
            r \<leftarrow> PLZ_Register E (w_client w) (w_plz w);
            (case r of
               Inl p \<Rightarrow> State_Monad.return (ws, Panicked p)
             | Inr (plz1, Inl err) \<Rightarrow> ends ws no_requeue (Some err)
             | Inr (plz1, Inr uid) \<Rightarrow> protect_plz E F ws (w\<lparr>w_plz := plz1\<rparr>) plz1 uid)
          }))
   }"

text \<open>The last part: a registered zone gets a worker, and the worker polls.\<close>

definition watch_plz ::
    "env \<Rightarrow> workers \<Rightarrow> PLZWorker option \<Rightarrow> PrivateLoadZone \<Rightarrow> (workers \<times> outcome) prog" where
  "watch_plz E ws worker plz =
     (if PLZ_IsTrue (e_meta E) plz ''PLZRegistered'' then
        (case worker of
           None \<Rightarrow> do {
             t \<leftarrow> loadToken E (plzs_token (plz_spec plz)) (plz_namespace plz);
             (case t of
                Inl res \<Rightarrow> ends ws res None
              | Inr token \<Rightarrow>
                  (case AddWorker ws (plz_name plz) (NewPLZWorker E plz token) of
                     (_, Some _) \<Rightarrow> ends ws no_requeue None
                   | (ws', None) \<Rightarrow> ends ws' requeue None))
           }
         | Some w \<Rightarrow> ends (store_worker ws (plz_name plz) (StartFactory w)) no_requeue None)
      else ends ws no_requeue None)"

text \<open>The zone carries the finalizer but is not marked as registered.\<close>

definition confirm_plz ::
    "env \<Rightarrow> workers \<Rightarrow> PLZWorker option \<Rightarrow> PrivateLoadZone \<Rightarrow> (workers \<times> outcome) prog" where
  "confirm_plz E ws worker plz = do {
     clk \<leftarrow> read_clock E;
     (case PLZ_UpdateCondition (e_meta E) (clk 1) (PLZ_Initialize (clk 0) plz) ''PLZRegistered'' ConditionTrue of
        Inl p \<Rightarrow> State_Monad.return (ws, Panicked p)
      | Inr plz1 \<Rightarrow> do {
          (plz2, _, err) \<leftarrow> PLZ_UpdateStatus E plz1;
          (case err of
             Some e \<Rightarrow> ends ws no_requeue (Some e)
           | None \<Rightarrow> watch_plz E ws worker plz2)
        })
   }"

text \<open>
  Deregistering a zone in the cloud: the method of the zone, without its logging, and the one of the
  worker, which drops the error.
\<close>

definition PLZ_Deregister :: "env \<Rightarrow> cloud_client \<Rightarrow> PrivateLoadZone \<Rightarrow> (string option) prog" where
  "PLZ_Deregister E client plz = DeRegisterPLZ E client (plz_name plz)"

definition Deregister :: "env \<Rightarrow> PLZWorker \<Rightarrow> unit prog" where
  "Deregister E w = do {
     _ \<leftarrow> PLZ_Deregister E (w_client w) (w_plz w);
     State_Monad.return ()
   }"

text \<open>A zone that is being deleted while its worker is there.\<close>

definition delete_plz ::
    "env \<Rightarrow> finalizer_api \<Rightarrow> workers \<Rightarrow> PLZWorker \<Rightarrow> PrivateLoadZone \<Rightarrow> (workers \<times> outcome) prog" where
  "delete_plz E F ws w plz =
     (let ws1 = store_worker ws (plz_name plz) (StopFactory w);
          plz1 = plz\<lparr>plz_finalizers := fz_remove F (plz_finalizers plz) plzFinalizer\<rparr> in do {
       _ \<leftarrow> Deregister E w;
       updated \<leftarrow> perform (\<lambda>t. e_updatePLZ E t plz1) (UpdatePLZ plz1);
       (case updated of
          Inl err \<Rightarrow> ends ws1 no_requeue (Some err)
        | Inr stored \<Rightarrow> ends (DeleteWorker ws1 (plz_name stored)) no_requeue None)
     })"

definition reconcile_plz ::
    "env \<Rightarrow> finalizer_api \<Rightarrow> workers \<Rightarrow> PrivateLoadZone \<Rightarrow> (workers \<times> outcome) prog" where
  "reconcile_plz E F ws plz =
     (let worker = (case GetWorker ws (plz_name plz) of Inl _ \<Rightarrow> None | Inr w \<Rightarrow> Some w);
          M = e_meta E;
          protected = fz_contains F (plz_finalizers plz) plzFinalizer in
      if \<not> plz_deleting plz \<and> (PLZ_IsUnknown M plz ''PLZRegistered'' \<or> PLZ_IsFalse M plz ''PLZRegistered'') then
        (if protected then confirm_plz E ws worker plz else register_plz E F ws plz)
      else if plz_deleting plz \<and> protected then
        (case worker of
           Some w \<Rightarrow> delete_plz E F ws w plz
         | None \<Rightarrow> watch_plz E ws worker plz)
      else watch_plz E ws worker plz)"

definition PLZ_Reconcile ::
    "env \<Rightarrow> finalizer_api \<Rightarrow> workers \<Rightarrow> namespaced_name \<Rightarrow> (workers \<times> outcome) prog" where
  "PLZ_Reconcile E F ws req = do {
     got \<leftarrow> perform (\<lambda>t. e_getPLZ E t req) (GetPLZ req);
     (case got of
        NotFound \<Rightarrow> ends ws no_requeue None
      | GetFailed err \<Rightarrow> ends ws requeue (Some err)
      | Found plz \<Rightarrow> reconcile_plz E F ws plz)
   }"

end
