(* ===== verification/K6_Main.thy ===== *)
theory K6_Main
  imports K6_PLZ K6_Reconcile
begin

text \<open>
  \<open>cmd/main.go\<close> and the registration of the controller: which namespaces the cache of the manager
  covers, which test run the event of a pod concerns, and the start of the operator. What the flag
  package has parsed, and whether a step of the start fails, are parameters.
\<close>

text \<open>The two environment variables; \<open>None\<close> is a variable that is not set.\<close>

definition getWatchNamespace :: "string option \<Rightarrow> string \<times> bool" where
  "getWatchNamespace WATCH_NAMESPACE =
     (case WATCH_NAMESPACE of None \<Rightarrow> ('''', False) | Some ns \<Rightarrow> (ns, True))"

definition getWatchNamespaces :: "string option \<Rightarrow> string list \<times> bool" where
  "getWatchNamespaces WATCH_NAMESPACES =
     (case WATCH_NAMESPACES of None \<Rightarrow> ([], False) | Some nsList \<Rightarrow> (Split nsList (CHR '',''), True))"

text \<open>The default namespaces of the cache, as a map to empty settings; \<open>None\<close> leaves them unset (all).\<close>

definition cache_namespaces :: "string option \<Rightarrow> string option \<Rightarrow> unit gomap option" where
  "cache_namespaces WATCH_NAMESPACES WATCH_NAMESPACE =
     (let (watchNamespaces, multiNamespaced) = getWatchNamespaces WATCH_NAMESPACES in
      if multiNamespaced then Some (fold (\<lambda>ns m. gomap_set m ns ()) watchNamespaces [])
      else
        (let (watchNamespace, namespaced) = getWatchNamespace WATCH_NAMESPACE in
         if namespaced then Some [(watchNamespace, ())] else None))"

text \<open>The map of the watch on pods, behind its predicate.\<close>

definition pod_watched :: "object_meta \<Rightarrow> bool" where
  "pod_watched pod \<longleftrightarrow> gomap_get (om_labels pod) ''k6_cr'' \<noteq> None"

definition pod_requests :: "object_meta \<Rightarrow> namespaced_name list" where
  "pod_requests pod =
     (case gomap_get (om_labels pod) ''k6_cr'' of
        None \<Rightarrow> []
      | Some name \<Rightarrow> [\<lparr>nn_namespace = om_namespace pod, nn_name = name\<rparr>])"

section \<open>The start of the operator\<close>

record flags =
  fl_metricsAddr :: string
  fl_healthAddr :: string
  fl_enableLeaderElection :: bool

text \<open>The values of flags that are not given.\<close>

definition default_flags :: flags where
  "default_flags = \<lparr>fl_metricsAddr = '':8080'', fl_healthAddr = '':8081'', fl_enableLeaderElection = False\<rparr>"

text \<open>The options of the manager that are set; its scheme is that of \<open>init\<close>.\<close>

record manager_options =
  mo_metricsBindAddress :: string
  mo_webhookPort :: int
  mo_leaderElection :: bool
  mo_leaderElectionID :: string
  mo_leaderElectionResourceLock :: string
  mo_healthProbeBindAddress :: string
  mo_defaultNamespaces :: "unit gomap option"

definition manager_options_of :: "flags \<Rightarrow> string option \<Rightarrow> string option \<Rightarrow> manager_options" where
  "manager_options_of fl WATCH_NAMESPACES WATCH_NAMESPACE =
     \<lparr>mo_metricsBindAddress = fl_metricsAddr fl, mo_webhookPort = 9443,
      mo_leaderElection = fl_enableLeaderElection fl, mo_leaderElectionID = ''fcdfce80.io'',
      mo_leaderElectionResourceLock = ''leases'', mo_healthProbeBindAddress = fl_healthAddr fl,
      mo_defaultNamespaces = cache_namespaces WATCH_NAMESPACES WATCH_NAMESPACE\<rparr>"

datatype startup_call =
    NewManager manager_options
  | AddHealthzCheck string
  | AddReadyzCheck string
  | SetupTestRuns
  | SetupZones
  | SetScheme
  | StartManager

text \<open>Whether a step fails; the error is only logged.\<close>

type_synonym startup = "startup_call list \<Rightarrow> startup_call \<Rightarrow> string option"

definition startup_step :: "startup \<Rightarrow> startup_call \<Rightarrow> (startup_call, string option) io" where
  "startup_step S c = perform (\<lambda>tr. S tr c) c"

text \<open>The exit code of \<open>main\<close>.\<close>

definition main_run :: "startup \<Rightarrow> flags \<Rightarrow> string option \<Rightarrow> string option \<Rightarrow> (startup_call, int) io" where
  "main_run S fl WATCH_NAMESPACES WATCH_NAMESPACE = do {
     err \<leftarrow> startup_step S (NewManager (manager_options_of fl WATCH_NAMESPACES WATCH_NAMESPACE));
     (if err \<noteq> None then State_Monad.return 1
      else do {
        _ \<leftarrow> startup_step S (AddHealthzCheck ''health'');
        _ \<leftarrow> startup_step S (AddReadyzCheck ''ready'');
        err1 \<leftarrow> startup_step S SetupTestRuns;
        (if err1 \<noteq> None then State_Monad.return 1
         else do {
           err2 \<leftarrow> startup_step S SetupZones;
           (if err2 \<noteq> None then State_Monad.return 1
            else do {
              _ \<leftarrow> startup_step S SetScheme;
              err3 \<leftarrow> startup_step S StartManager;
              State_Monad.return (if err3 \<noteq> None then 1 else 0)
            })
         })
      })
   }"

section \<open>Lemmas\<close>

text \<open>
  The manager starts, and with it every reconciliation, only after both controllers have been set up
  and the factories of the zones know the scheme.
\<close>

lemma main_run_order:
  assumes "run_state (main_run S fl nss ns) [] = (code, tr)" and "StartManager \<in> set tr"
  shows "tr = [NewManager (manager_options_of fl nss ns), AddHealthzCheck ''health'', AddReadyzCheck ''ready'',
      SetupTestRuns, SetupZones, SetScheme, StartManager]
    \<and> S (take 3 tr) SetupTestRuns = None \<and> S (take 4 tr) SetupZones = None \<and> code \<in> {0, 1}"
  using assms by (auto simp: main_run_def startup_step_def split: if_splits)

lemma main_run_fails: "run_state (main_run S fl nss ns) [] = (code, tr) \<Longrightarrow> StartManager \<notin> set tr \<Longrightarrow> code = 1"
  by (auto simp: main_run_def startup_step_def split: if_splits)

lemma pod_requests_watched: "pod_watched pod \<longleftrightarrow> pod_requests pod \<noteq> []"
  by (simp add: pod_watched_def pod_requests_def split: option.splits)

lemma gomap_get_fold_set:
  "gomap_get (fold (\<lambda>ns m. gomap_set m ns ()) nss m) n = (if n \<in> set nss then Some () else gomap_get m n)"
  by (induction nss arbitrary: m) auto

text \<open>The pods of a job carry the label of its test run, so their events lead back to it.\<close>

lemma runner_pods_lead_back:
  assumes "NewRunnerJob M k6 i ti = Inr j"
  shows "pod_requests ((job_meta j)\<lparr>om_labels := job_podLabels j\<rparr>) = [NamespacedName k6]"
  using NewRunnerJob_meta [OF assms] runner_object.own_labels runner_object.meta_namespace
  by (simp add: pod_requests_def NamespacedName_def runner_meta_def)

lemma initializer_pods_lead_back:
  assumes "NewInitializerJob k6 args = (k6', Inr j)"
  shows "pod_requests ((job_meta j)\<lparr>om_labels := job_podLabels j\<rparr>) = [NamespacedName k6]"
  using NewInitializerJob_meta [OF assms] initializer_object.own_labels initializer_object.meta_namespace
  by (simp add: pod_requests_def NamespacedName_def)

lemma starter_pods_lead_back:
  "pod_requests ((job_meta (NewStarterJob k6 hs))\<lparr>om_labels := job_podLabels (NewStarterJob k6 hs)\<rparr>) = [NamespacedName k6]"
  using starter_object.own_labels starter_object.meta_namespace NewStarterJob_meta
  by (simp add: pod_requests_def NamespacedName_def)

end
