(* ===== verification/K6_History.thy ===== *)
theory K6_History
  imports K6_Control_Props
begin

text \<open>
  The status of a test run over its whole life. The API server serves the status that the last
  successful patch wrote, reads and patches may fail at any time, and every other answer (of the
  cluster, the cloud, the runners and the clock) is arbitrary. The invariant \<open>wf_status\<close> of the
  status, and its progress, then hold after any number of reconciliations.
\<close>

section \<open>The served status\<close>

fun patch_of :: "call \<Rightarrow> TestRun option" where
  "patch_of (PatchTestRunStatus old k6) = Some k6"
| "patch_of _ = None"

text \<open>The status after the calls of a list, the first of which is made at the given history.\<close>

fun served_from :: "(trace \<Rightarrow> TestRun \<Rightarrow> string + TestRun) \<Rightarrow> trace \<Rightarrow> trace \<Rightarrow> TestRunStatus \<Rightarrow> TestRunStatus" where
  "served_from patch tr [] st = st"
| "served_from patch tr (c # cs) st = served_from patch (tr @ [c]) cs
     (case patch_of c of
        None \<Rightarrow> st
      | Some k6 \<Rightarrow> (case patch tr k6 of Inl _ \<Rightarrow> st | Inr k6' \<Rightarrow> tr_status k6'))"

definition served :: "(trace \<Rightarrow> TestRun \<Rightarrow> string + TestRun) \<Rightarrow> TestRun \<Rightarrow> trace \<Rightarrow> TestRunStatus" where
  "served patch k0 tr = served_from patch [] tr (tr_status k0)"

lemma served_from_append:
  "served_from patch tr (cs @ ds) st = served_from patch (tr @ cs) ds (served_from patch tr cs st)"
  by (induction cs arbitrary: tr st) simp_all

lemma served_Nil [simp]: "served patch k0 [] = tr_status k0"
  by (simp add: served_def)

lemma served_snoc:
  "served patch k0 (tr @ [c]) =
     (case patch_of c of
        None \<Rightarrow> served patch k0 tr
      | Some k6 \<Rightarrow> (case patch tr k6 of Inl _ \<Rightarrow> served patch k0 tr | Inr k6' \<Rightarrow> tr_status k6'))"
  unfolding served_def by (simp add: served_from_append)

text \<open>
  An API server of which the operator is the only writer of the status: a read that succeeds returns
  the served status, a patch that succeeds stores what it was given, its times in whole seconds.
\<close>

definition serves :: "env \<Rightarrow> TestRun \<Rightarrow> bool" where
  "serves E k0 \<longleftrightarrow>
     (\<forall>tr k6. e_getTestRun E tr (NamespacedName k0) = Found k6 \<longrightarrow>
        k6 = k0\<lparr>tr_status := served (e_patchTestRun E) k0 tr\<rparr>)
     \<and> (\<forall>tr k6 k6'. e_patchTestRun E tr k6 = Inr k6' \<longrightarrow> k6' = stored_run k6)"

text \<open>The calls made by a number of reconciliations, one after the other.\<close>

definition reconciled :: "env \<Rightarrow> namespaced_name \<Rightarrow> nat \<Rightarrow> trace" where
  "reconciled E req n = ((\<lambda>tr. snd (run_state (Reconcile E req) tr)) ^^ n) []"

lemma reconciled_simps [simp]:
  "reconciled E req 0 = []"
  "reconciled E req (Suc n) = snd (run_state (Reconcile E req) (reconciled E req n))"
  by (simp_all add: reconciled_def)

section \<open>Well-formed statuses\<close>

definition initial_types :: "string list" where
  "initial_types = [''CloudTestRun'', ''TestRunRunning'', ''TeardownExecuted'', ''CloudTestRunAborted'',
     ''CloudPLZTestRun'']"

definition wf_conditions :: "conditions \<Rightarrow> bool" where
  "wf_conditions cs \<longleftrightarrow> distinct (types_of cs) \<and> set (types_of cs) \<subseteq> set operator_condition_types
     \<and> (cs = [] \<or> set initial_types \<subseteq> set (types_of cs))"

text \<open>
  The conditions are of known types and no type twice, and they are there together; only a test run
  that has not begun or has failed has none. The id of a cloud test run comes with its condition.
\<close>

definition wf_status :: "TestRunStatus \<Rightarrow> bool" where
  "wf_status st \<longleftrightarrow> wf_conditions (st_conditions st) \<and> st_stage st \<in> set stages
     \<and> (st_conditions st = [] \<longrightarrow> st_stage st = '''' \<or> st_stage st = ''error'')
     \<and> (st_testRunID st \<noteq> '''' \<longrightarrow> ''CloudTestRunCreated'' \<in> set (types_of (st_conditions st)))"

text \<open>The times of the conditions do not matter.\<close>

lemma wf_stored [simp]:
  "wf_conditions (as_stored cs) = wf_conditions cs" "wf_status (tr_status (stored_run k6)) = wf_status (tr_status k6)"
  unfolding wf_conditions_def wf_status_def stored_run_simps types_of_stored as_stored_Nil by (rule HOL.refl)+

text \<open>A status that may be proposed: as a stored one, whatever it says of the cloud test run.\<close>

definition wf_proposal :: "TestRunStatus \<Rightarrow> bool" where
  "wf_proposal st \<longleftrightarrow> wf_conditions (st_conditions st) \<and> st_stage st \<in> set stages
     \<and> (st_conditions st = [] \<longrightarrow> st_stage st = '''' \<or> st_stage st = ''error'')"

lemma stages_cases: "s \<in> set stages \<longleftrightarrow> s = '''' \<or> s = ''initialization'' \<or> s = ''initialized'' \<or> s = ''created''
    \<or> s = ''started'' \<or> s = ''stopped'' \<or> s = ''finished'' \<or> s = ''error''"
  by (simp add: stages_def)

text \<open>A reason is known for the types of conditions of the operator only.\<close>

lemma reasons_known:
  "list_all (\<lambda>(k, _). list_all (\<lambda>s. HasSuffix k s \<longrightarrow> take (length k - length s) k \<in> set operator_condition_types)
     (map status_string [ConditionTrue, ConditionFalse, ConditionUnknown])) reasons"
  by code_simp

lemma reason_type:
  assumes "gomap_get reasons (t @ status_string s) = Some r"
  shows "t \<in> set operator_condition_types"
proof -
  have "(t @ status_string s, r) \<in> set reasons" using assms by (simp add: gomap_get_def map_of_SomeD)
  then have "HasSuffix (t @ status_string s) (status_string s) \<longrightarrow> t \<in> set operator_condition_types"
    using reasons_known by (cases s) (fastforce simp: list_all_iff)+
  then show ?thesis by (simp add: HasSuffix_def)
qed

lemma status_conditions_eq:
  "st_conditions (fst (TestRunStatus_SetIfNewer M st prop)) =
     fst (SetIfNewer M (st_conditions st) (st_conditions prop) (Some (status_callback prop))
       (st_testRunID st, st_aggregationVars st))"
  by (auto simp: TestRunStatus_SetIfNewer_def Let_def split: prod.splits)

context status_conditions
begin

lemma wf_update:
  assumes "UpdateCondition M now cs t s = Inr cs'" and "wf_conditions cs" and "cs \<noteq> []"
  shows "wf_conditions cs' \<and> cs' \<noteq> []"
proof -
  have t: "t \<in> set operator_condition_types"
    using assms(1) reason_type [of t s] by (auto simp: UpdateCondition_def split: option.splits)
  obtain cs'' where cs'': "UpdateCondition M now cs t s = Inr cs''"
    "types_of cs'' = (if t \<in> set (types_of cs) then types_of cs else types_of cs @ [t])"
    by (rule UpdateCondition_effect [OF t])
  with assms(1) have types: "types_of cs' = (if t \<in> set (types_of cs) then types_of cs else types_of cs @ [t])"
    by simp
  moreover have "cs' \<noteq> []" using types assms(3) by (cases cs'; cases cs) (auto split: if_splits)
  ultimately show ?thesis using assms(2,3) t by (auto simp: wf_conditions_def)
qed

lemma wf_update_run:
  assumes "TestRun_UpdateCondition M now k6 t s = Inr k6'" and "wf_conditions (tr_conditions k6)"
    and "tr_conditions k6 \<noteq> []"
  shows "wf_conditions (tr_conditions k6') \<and> tr_conditions k6' \<noteq> []"
  using assms wf_update [of now "tr_conditions k6" t s]
  by (auto simp: TestRun_UpdateCondition_def map_sum_def split: sum.splits)

lemma wf_merge:
  assumes "wf_conditions (st_conditions st)" and "wf_conditions (st_conditions prop)"
  defines "new \<equiv> fst (TestRunStatus_SetIfNewer M st prop)"
  shows "wf_conditions (st_conditions new)"
    and "set (types_of (st_conditions new)) = set (types_of (st_conditions st)) \<union> set (types_of (st_conditions prop))"
    and "st_conditions new = [] \<longleftrightarrow> st_conditions st = [] \<and> st_conditions prop = []"
proof -
  have d: "distinct (types_of (st_conditions st))" "distinct (types_of (st_conditions prop))"
    using assms(1,2) by (simp_all add: wf_conditions_def)
  note conds = SetIfNewer_conds [OF d, of "Some (status_callback prop)" "(st_testRunID st, st_aggregationVars st)"]
  show types: "set (types_of (st_conditions new)) = set (types_of (st_conditions st)) \<union> set (types_of (st_conditions prop))"
    and d': "wf_conditions (st_conditions new)"
    using conds(2,3) assms(1,2) unfolding new_def status_conditions_eq wf_conditions_def by auto
  show "st_conditions new = [] \<longleftrightarrow> st_conditions st = [] \<and> st_conditions prop = []"
    using types by auto
qed

lemma wf_status_merge:
  assumes "wf_status st" and "wf_proposal prop"
  shows "wf_status (fst (TestRunStatus_SetIfNewer M st prop))"
proof -
  let ?new = "fst (TestRunStatus_SetIfNewer M st prop)"
  have wf: "wf_conditions (st_conditions st)" "wf_conditions (st_conditions prop)"
    using assms by (simp_all add: wf_status_def wf_proposal_def)
  note merged = wf_merge [OF this]
  have stage: "st_stage ?new = st_stage st \<or> st_stage ?new = st_stage prop"
    and id: "st_testRunID ?new \<noteq> '''' \<longrightarrow>
      st_testRunID st \<noteq> '''' \<or> ''CloudTestRunCreated'' \<in> set (types_of (st_conditions prop))"
    by (auto simp: TestRunStatus_SetIfNewer_eq Let_def)
  show ?thesis
    unfolding wf_status_def
  proof (intro conjI impI)
    show "wf_conditions (st_conditions ?new)" by (rule merged(1))
    show "st_stage ?new \<in> set stages"
      using stage assms unfolding wf_status_def wf_proposal_def by metis
    show "st_stage ?new = '''' \<or> st_stage ?new = ''error''" if "st_conditions ?new = []"
      using stage assms that merged(3) unfolding wf_status_def wf_proposal_def by metis
    show "''CloudTestRunCreated'' \<in> set (types_of (st_conditions ?new))" if "st_testRunID ?new \<noteq> ''''"
      using id assms(1) that merged(2) unfolding wf_status_def by blast
  qed
qed

end

section \<open>The invariant of a life\<close>

lemma moves_on_refl [simp]: "moves_on st st"
  by (simp add: moves_on_def)

lemma moves_on_stored [simp]: "moves_on st (tr_status (stored_run k6)) = moves_on st (tr_status k6)"
  by (simp add: moves_on_def)

lemma moves_on_trans:
  "moves_on a b \<Longrightarrow> moves_on b c \<Longrightarrow> st_stage b \<in> set stages \<Longrightarrow> moves_on a c"
  unfolding moves_on_def by (intro conjI impI) (auto intro: order_trans)

definition life_ok :: "env \<Rightarrow> TestRun \<Rightarrow> TestRunStatus \<Rightarrow> trace \<Rightarrow> bool" where
  "life_ok E k0 base tr \<longleftrightarrow>
     wf_status (served (e_patchTestRun E) k0 tr) \<and> moves_on base (served (e_patchTestRun E) k0 tr)"

lemma permits_life_ok:
  "patch_of c = None \<Longrightarrow> permits (life_ok E k0 base) patches_move_on c \<longleftrightarrow> patches_move_on c"
  by (simp add: permits_def life_ok_def served_snoc)

lemma patch_of_simps [simp]:
  "quiet c \<Longrightarrow> patch_of c = None"
  by (cases c) simp_all

context status_conditions
begin

lemma wf_Initialize:
  assumes "Initialize M clk k6 = Inr k6'"
  shows "wf_conditions (tr_conditions k6') \<and> tr_conditions k6' \<noteq> [] \<and> st_stage (tr_status k6') = st_stage (tr_status k6)"
proof -
  obtain cs where cs: "Initialize M clk k6 = Inr (k6\<lparr>tr_status :=
      (tr_status k6)\<lparr>st_conditions := cs, st_testRunID := initial_testRunID k6\<rparr>\<rparr>)"
    "distinct (types_of cs)"
    "status_of M cs = [''CloudTestRun'' \<mapsto> ConditionUnknown, ''TestRunRunning'' \<mapsto> ConditionUnknown,
      ''TeardownExecuted'' \<mapsto> ConditionFalse] ++ map_of (rev (initial_updates k6))"
    by (rule Initialize_effect [OF status_conditions_axioms])
  have "t \<in> set (types_of cs) \<longleftrightarrow> status_of M cs t \<noteq> None" for t
    using lookup_None_iff [of cs t] by (simp add: status_of_def)
  then have "set (types_of cs) = dom (status_of M cs)" by (simp only: dom_def) blast
  then have types: "set (types_of cs) =
    {''TeardownExecuted'', ''TestRunRunning'', ''CloudTestRun''} \<union> fst ` set (initial_updates k6)"
    unfolding cs(3) by (simp only: dom_map_add dom_fun_upd dom_empty dom_map_of_conv_image_fst set_rev
        option.distinct if_False) blast
  have "wf_conditions cs"
    unfolding wf_conditions_def types
    by (cases "spec_testRunID (tr_spec k6) = ''''")
      (simp_all add: cs(2) initial_updates_def initial_types_def operator_condition_types_def)
  moreover have "''TestRunRunning'' \<in> set (types_of cs)" unfolding types by simp
  ultimately show ?thesis using assms cs(1) by auto
qed

end

text \<open>The test runs a reconciliation works on, all with the name of the one of its request.\<close>

definition may_propose :: "TestRun \<Rightarrow> TestRun \<Rightarrow> bool" where
  "may_propose k0 k6 \<longleftrightarrow> NamespacedName k6 = NamespacedName k0 \<and> wf_proposal (tr_status k6)"

definition begun :: "TestRun \<Rightarrow> TestRun \<Rightarrow> bool" where
  "begun k0 k6 \<longleftrightarrow> may_propose k0 k6 \<and> tr_conditions k6 \<noteq> []"

definition not_begun :: "TestRun \<Rightarrow> TestRun \<Rightarrow> bool" where
  "not_begun k0 k6 \<longleftrightarrow> may_propose k0 k6 \<and> st_stage (tr_status k6) = ''''"

lemma begun_may_propose: "begun k0 k6 \<Longrightarrow> may_propose k0 k6"
  by (simp add: begun_def)

lemma begun_stage: "begun k0 k6 \<Longrightarrow> s \<in> set stages \<Longrightarrow> begun k0 (set_stage s k6)"
  by (simp add: begun_def may_propose_def wf_proposal_def set_stage_def NamespacedName_def)

lemma begun_cloud_data:
  "begun k0 k6 \<Longrightarrow> begun k0 (k6\<lparr>tr_status := (tr_status k6)\<lparr>st_testRunID := i\<rparr>\<rparr>)"
  "begun k0 k6 \<Longrightarrow> begun k0 (k6\<lparr>tr_status := (tr_status k6)\<lparr>st_aggregationVars := v\<rparr>\<rparr>)"
  by (simp_all add: begun_def may_propose_def wf_proposal_def NamespacedName_def)

lemma begun_stored: "begun k0 k6 \<Longrightarrow> begun k0 (stored_run k6)"
  by (simp add: begun_def may_propose_def wf_proposal_def)

lemma not_begun_error: "not_begun k0 k6 \<Longrightarrow> may_propose k0 (set_stage ''error'' k6)"
  by (simp add: not_begun_def may_propose_def wf_proposal_def set_stage_def NamespacedName_def stages_def)

context status_conditions
begin

lemma begun_update:
  assumes "begun k0 k6" and "TestRun_UpdateCondition M now k6 t c = Inr k6'"
  shows "begun k0 k6'"
  using assms wf_update_run [OF assms(2)] NamespacedName_UpdateCondition [OF assms(2)]
    TestRun_UpdateCondition_frame [OF assms(2)]
  by (auto simp: begun_def may_propose_def wf_proposal_def)

lemma begun_Initialize:
  assumes "not_begun k0 k6" and "Initialize M clk k6 = Inr k6'"
  shows "begun k0 k6'"
  using assms wf_Initialize [OF assms(2)] NamespacedName_Initialize [OF assms(2)]
  by (auto simp: not_begun_def begun_def may_propose_def wf_proposal_def)

lemma begun_aborted:
  assumes "may_propose k0 k6" and "IsFalse M k6 t"
  shows "begun k0 k6"
  using assms by (auto simp: begun_def tr_status_simps status_of_def)

end

lemma wf_status_proposal: "wf_status st \<Longrightarrow> wf_proposal st"
  by (simp add: wf_status_def wf_proposal_def)

text \<open>The invariant is one that the calls of a reconciliation keep.\<close>

lemma merge_served:
  assumes meta: "status_conditions (e_meta E)" and serves: "serves E k0"
    and "life_ok E k0 base tr" and "may_propose k0 k6"
    and "e_getTestRun E tr (NamespacedName k6) = Found cur"
    and "TestRunStatus_SetIfNewer (e_meta E) (tr_status cur) (tr_status k6) = (st, b)"
  shows "cur = k0\<lparr>tr_status := served (e_patchTestRun E) k0 tr\<rparr>"
    and "wf_status st" and "moves_on base st" and "begun k0 k6 \<Longrightarrow> st_conditions st \<noteq> []"
    and "moves_on (tr_status cur) st"
proof -
  let ?old = "served (e_patchTestRun E) k0 tr"
  show cur: "cur = k0\<lparr>tr_status := ?old\<rparr>"
    using serves assms(4,5) by (simp add: serves_def may_propose_def)
  have st: "st = fst (TestRunStatus_SetIfNewer (e_meta E) ?old (tr_status k6))"
    using assms(6) cur by simp
  have wf: "wf_status ?old" "wf_proposal (tr_status k6)"
    using assms(3,4) by (simp_all add: life_ok_def may_propose_def)
  show "wf_status st" unfolding st by (rule status_conditions.wf_status_merge [OF meta wf])
  show progress: "moves_on (tr_status cur) st" by (rule SetIfNewer_moves_on [OF assms(6)])
  show "moves_on base st"
    by (rule moves_on_trans [of base ?old])
      (use assms(3) progress wf(1) in \<open>simp_all add: life_ok_def cur wf_status_def\<close>)
  show "st_conditions st \<noteq> []" if "begun k0 k6"
    using that wf status_conditions.wf_merge(3) [OF meta, of ?old "tr_status k6"]
    by (simp add: st wf_status_def wf_proposal_def begun_def)
qed

lemma life_policy:
  assumes meta: "status_conditions (e_meta E)" and serves: "serves E k0"
  shows "reconciler_policy E (life_ok E k0 base) patches_move_on (begun k0) (may_propose k0) (not_begun k0)"
proof
  note merged = merge_served [OF assms]
  have patch_ok: "e_patchTestRun E tr k6 = Inr k6' \<Longrightarrow> k6' = stored_run k6" for tr k6 k6'
    using serves by (simp add: serves_def)
  show "begun k0 k6 \<Longrightarrow> e_patchTestRun E tr k6 = Inr k6' \<Longrightarrow> begun k0 k6'" for k6 tr k6'
    using patch_ok begun_stored by blast
  show "begun k0 k6 \<Longrightarrow> TestRun_UpdateCondition (e_meta E) now k6 t c = Inr k6' \<Longrightarrow> begun k0 k6'" for k6 now t c k6'
    by (rule status_conditions.begun_update [OF meta])
  show "not_begun k0 k6 \<Longrightarrow> Initialize (e_meta E) clk k6 = Inr k6' \<Longrightarrow> begun k0 k6'" for k6 clk k6'
    by (rule status_conditions.begun_Initialize [OF meta])
  show "begun k0 (cur\<lparr>tr_status := fst (TestRunStatus_SetIfNewer (e_meta E) (tr_status cur) (tr_status k6))\<rparr>)"
    if "life_ok E k0 base tr" "begun k0 k6" "e_getTestRun E tr (NamespacedName k6) = Found cur" for tr k6 cur
  proof -
    obtain st b where st: "TestRunStatus_SetIfNewer (e_meta E) (tr_status cur) (tr_status k6) = (st, b)" by fastforce
    have "may_propose k0 k6" using that(2) by (simp add: begun_def)
    from merged [OF that(1) this that(3) st] that(2) st show ?thesis
      by (simp add: begun_def may_propose_def wf_status_proposal NamespacedName_def)
  qed
  show "patches_move_on (PatchTestRunStatus (tr_status cur) (cur\<lparr>tr_status := st\<rparr>))
      \<and> life_ok E k0 base (tr @ [GetTestRun (NamespacedName k6), PatchTestRunStatus (tr_status cur) (cur\<lparr>tr_status := st\<rparr>)])"
    if "life_ok E k0 base tr" "may_propose k0 k6" "e_getTestRun E tr (NamespacedName k6) = Found cur"
      "TestRunStatus_SetIfNewer (e_meta E) (tr_status cur) (tr_status k6) = (st, True)" for tr k6 cur st
  proof -
    let ?get = "GetTestRun (NamespacedName k6)"
    have "served (e_patchTestRun E) k0 ((tr @ [?get]) @ [PatchTestRunStatus (tr_status cur) (cur\<lparr>tr_status := st\<rparr>)])
        \<in> {served (e_patchTestRun E) k0 tr, tr_status (stored_run (cur\<lparr>tr_status := st\<rparr>))}"
      unfolding served_snoc by (auto split: sum.splits dest!: patch_ok)
    then show ?thesis
      using merged [OF that] that(1) by (auto simp: life_ok_def)
  qed
qed (auto simp: begun_stage begun_cloud_data not_begun_error permits_life_ok patches_move_on_quiet begun_may_propose)

lemma Reconcile_life:
  assumes "status_conditions (e_meta E)" and "serves E k0" and "wf_status (served (e_patchTestRun E) k0 tr)"
  defines "tr' \<equiv> snd (run_state (Reconcile E (NamespacedName k0)) tr)"
  shows "wf_status (served (e_patchTestRun E) k0 tr')
    \<and> moves_on (served (e_patchTestRun E) k0 tr) (served (e_patchTestRun E) k0 tr')"
proof -
  let ?base = "served (e_patchTestRun E) k0 tr"
  note policy = life_policy [OF assms(1,2), of ?base]
  have readable: "reconciler_policy.readable E (begun k0) (may_propose k0) (not_begun k0) k6"
    if "life_ok E k0 ?base tr1" "e_getTestRun E tr1 (NamespacedName k0) = Found k6" for tr1 k6
  proof -
    have k6: "k6 = k0\<lparr>tr_status := served (e_patchTestRun E) k0 tr1\<rparr>"
      using assms(2) that(2) by (simp add: serves_def)
    then show ?thesis
      using that(1) status_conditions.begun_aborted [OF assms(1), of k0 k6 "''CloudTestRunAborted''"]
      unfolding reconciler_policy.readable_def [OF policy]
      by (auto simp: life_ok_def wf_status_def begun_def may_propose_def wf_proposal_def NamespacedName_def
          not_begun_def final_stage_def)
  qed
  have "only_in (life_ok E k0 ?base) patches_move_on (Reconcile E (NamespacedName k0))"
    by (rule reconciler_policy.Reconcile_only [OF policy _ readable]) (simp_all add: permits_life_ok)
  moreover have "life_ok E k0 ?base tr" using assms(3) by (simp add: life_ok_def)
  ultimately have "life_ok E k0 ?base tr'"
    unfolding tr'_def by (metis ensures_in_run prod.collapse)
  then show ?thesis by (simp add: life_ok_def)
qed

lemma life_of_status:
  assumes "status_conditions (e_meta E)" and "serves E k0" and "tr_status k0 = zero_status"
  defines "status_after \<equiv> \<lambda>n. served (e_patchTestRun E) k0 (reconciled E (NamespacedName k0) n)"
  shows "wf_status (status_after m)" and "n \<le> m \<Longrightarrow> moves_on (status_after n) (status_after m)"
proof -
  have "wf_status (status_after m) \<and> (n \<le> m \<longrightarrow> moves_on (status_after n) (status_after m))" for m
  proof (induction m)
    case 0
    have "wf_status zero_status"
      by (simp add: wf_status_def wf_conditions_def zero_status_def stages_def)
    then show ?case using assms(3) by (simp add: status_after_def)
  next
    case (Suc m)
    then have "wf_status (status_after (Suc m)) \<and> moves_on (status_after m) (status_after (Suc m))"
      using Reconcile_life [OF assms(1,2), of "reconciled E (NamespacedName k0) m"] by (simp add: status_after_def)
    then show ?case
      using Suc moves_on_trans [of "status_after n" "status_after m" "status_after (Suc m)"]
      by (auto simp: le_Suc_eq wf_status_def)
  qed
  then show "wf_status (status_after m)" and "n \<le> m \<Longrightarrow> moves_on (status_after n) (status_after m)" by blast+
qed

text \<open>
  C4. The whole life of a test run. Let the API server serve the status it stored last, and let
  reads and patches fail at any time; the answers of the cluster, the cloud, the runners and the clock
  are arbitrary. Then after any number of reconciliations the stored status is well-formed: no
  condition type occurs twice or is unknown, the conditions a test run begins with are all there once
  it has left its first stage without an error, the stage is one of the eight, and an id of a cloud
  test run comes with its condition. And it only moves on: between any two points of the life
  the stage does not go back, a final stage stays, and the data of the cloud test run do not change.
\<close>

theorem stored_status_invariant:
  assumes "status_conditions (e_meta E)" and "serves E k0" and "tr_status k0 = zero_status"
  defines "status_after \<equiv> \<lambda>n. served (e_patchTestRun E) k0 (reconciled E (NamespacedName k0) n)"
  shows "wf_status (status_after m) \<and> (n \<le> m \<longrightarrow> moves_on (status_after n) (status_after m))"
  unfolding status_after_def using life_of_status [OF assms(1-3)] by blast

text \<open>An API server that refuses every patch made after an odd number of calls.\<close>

definition flaky_env :: "TestRun \<Rightarrow> env" where
  "flaky_env k = (let patch = (\<lambda>tr k6. if even (length tr) then Inr (stored_run k6) else Inl ''conflict'') in
     idle_env\<lparr>e_patchTestRun := patch,
       e_getTestRun := \<lambda>tr _. Found (k\<lparr>tr_status := served patch k tr\<rparr>)\<rparr>)"

lemma flaky_env_serves:
  "status_conditions (e_meta (flaky_env k))" "serves (flaky_env k) k"
  by (simp add: flaky_env_def Let_def documented.status_conditions_axioms)
    (auto simp: serves_def flaky_env_def Let_def split: if_splits)

theorem stored_status_invariant_witness:
  "wf_status (served (e_patchTestRun (flaky_env (example_run ''a''))) (example_run ''a'')
     (reconciled (flaky_env (example_run ''a'')) (NamespacedName (example_run ''a'')) 7))"
  using stored_status_invariant [OF flaky_env_serves, of "example_run ''a''" 7 7] by simp

text \<open>A stage that changes gets a higher rank.\<close>

lemma stage_change_rank:
  assumes "moves_on a b" and "st_stage a \<in> set stages" and "st_stage b \<in> set stages" and "st_stage b \<noteq> st_stage a"
  shows "stage_rank (st_stage a) < stage_rank (st_stage b)"
proof -
  have "stage_rank (st_stage a) \<le> stage_rank (st_stage b)" "\<not> final_stage (st_stage a)"
    using assms by (simp_all add: moves_on_def)
  moreover have "\<forall>s \<in> set stages. \<forall>t \<in> set stages. stage_rank s = stage_rank t \<longrightarrow> s = t \<or> final_stage s"
    unfolding list_all_iff [symmetric] by code_simp
  ultimately have "stage_rank (st_stage a) \<noteq> stage_rank (st_stage b)" using assms(2-4) by metis
  with \<open>stage_rank (st_stage a) \<le> stage_rank (st_stage b)\<close> show ?thesis by simp
qed

lemma changes_bounded:
  fixes s :: "nat \<Rightarrow> 'a" and rank :: "'a \<Rightarrow> nat"
  assumes "\<And>m. s (Suc m) = s m \<or> rank (s m) < rank (s (Suc m))"
  shows "card {m. m < n \<and> s (Suc m) \<noteq> s m} \<le> rank (s n)"
proof (induction n)
  case (Suc n)
  let ?C = "\<lambda>n. {m. m < n \<and> s (Suc m) \<noteq> s m}"
  show ?case
  proof (cases "s (Suc n) = s n")
    case True
    then have "?C (Suc n) = ?C n" using less_Suc_eq by blast
    then show ?thesis using Suc True by simp
  next
    case False
    then have "?C (Suc n) = insert n (?C n)" using less_Suc_eq by blast
    moreover have "rank (s n) < rank (s (Suc n))" using assms [of n] False by blast
    ultimately show ?thesis using Suc card_insert_le_m1 [of "rank (s (Suc n))" "?C n" n] by simp
  qed
qed simp

text \<open>
  C15. The life of a test run makes progress only finitely often: on such a server, however often
  the test run is reconciled and whatever else happens, at most six reconciliations end with another
  stage than they began with. So a test run cannot circle through its stages.
\<close>

theorem stage_changes_terminate:
  assumes "status_conditions (e_meta E)" and "serves E k0" and "tr_status k0 = zero_status"
  defines "stage_after \<equiv> \<lambda>n. st_stage (served (e_patchTestRun E) k0 (reconciled E (NamespacedName k0) n))"
  shows "card {m. m < n \<and> stage_after (Suc m) \<noteq> stage_after m} \<le> 6"
proof -
  note life = life_of_status [OF assms(1-3)]
  have "stage_after (Suc m) = stage_after m \<or> stage_rank (stage_after m) < stage_rank (stage_after (Suc m))" for m
    using stage_change_rank [OF life(2) [of m "Suc m"]] life(1) [of m] life(1) [of "Suc m"]
    unfolding stage_after_def by (auto simp: wf_status_def simp del: reconciled_simps)
  then have "card {m. m < n \<and> stage_after (Suc m) \<noteq> stage_after m} \<le> stage_rank (stage_after n)"
    by (rule changes_bounded)
  then show ?thesis by (rule order_trans) (simp add: stage_rank_def)
qed

theorem stage_changes_terminate_witness:
  "card {m. m < 100
     \<and> st_stage (served (e_patchTestRun (flaky_env (example_run ''a''))) (example_run ''a'')
          (reconciled (flaky_env (example_run ''a'')) (NamespacedName (example_run ''a'')) (Suc m)))
       \<noteq> st_stage (served (e_patchTestRun (flaky_env (example_run ''a''))) (example_run ''a'')
          (reconciled (flaky_env (example_run ''a'')) (NamespacedName (example_run ''a'')) m))} \<le> 6"
proof (rule stage_changes_terminate)
  show "status_conditions (e_meta (flaky_env (example_run ''a'')))" "serves (flaky_env (example_run ''a'')) (example_run ''a'')"
    by (rule flaky_env_serves)+
qed simp

end
