(* ===== verification/K6_Progress.thy ===== *)
theory K6_Progress
  imports K6_Prelude
begin

text \<open>
  Progress of an iteration. A step makes at least one call; from the \<open>N\<close>-th call on the outside is
  ready. A step that is made before may wait, that is, leave things as they are, and since it has
  made a call there are at most \<open>N\<close> of these. The locale is used for the reconciliations of a test
  run and of a private load zone.
\<close>

locale progressing =
  fixes step :: "'s \<Rightarrow> 's" and calls :: "'s \<Rightarrow> nat" and N :: nat
  assumes makes_calls: "calls s < calls (step s)"
begin

text \<open>
  \<open>leads k s Q\<close>: steps take the state to one with \<open>Q\<close>, and all but \<open>k\<close> of them are paid for by calls
  made while the outside need not be ready.
\<close>

definition leads :: "nat \<Rightarrow> 's \<Rightarrow> ('s \<Rightarrow> bool) \<Rightarrow> bool" where
  "leads k s Q \<longleftrightarrow> (\<exists>n. Q ((step ^^ n) s) \<and> n + (N - calls ((step ^^ n) s)) \<le> k + (N - calls s))"

lemma leads_now: "Q s \<Longrightarrow> leads 0 s Q"
  unfolding leads_def by (intro exI [of _ 0]) simp

lemma leads_mono: "leads k s P \<Longrightarrow> (\<And>s'. P s' \<Longrightarrow> Q s') \<Longrightarrow> leads k s Q"
  unfolding leads_def by blast

lemma leads_invariant:
  assumes "leads k s Q" and "\<And>s. R s \<Longrightarrow> R (step s)" and "R s"
  shows "leads k s (\<lambda>s. Q s \<and> R s)"
proof -
  have "R ((step ^^ n) s)" for n by (induction n) (use assms(2,3) in auto)
  then show ?thesis using assms(1) unfolding leads_def by blast
qed

lemma leads_weaken: "leads k s Q \<Longrightarrow> k \<le> l \<Longrightarrow> leads l s Q"
  unfolding leads_def by (meson add_le_mono1 order_trans)

lemma leads_trans:
  assumes "leads k s P" and "\<And>s'. P s' \<Longrightarrow> leads l s' Q"
  shows "leads (k + l) s Q"
proof -
  obtain n where n: "P ((step ^^ n) s)" "n + (N - calls ((step ^^ n) s)) \<le> k + (N - calls s)"
    using assms(1) by (auto simp: leads_def)
  obtain m where "Q ((step ^^ m) ((step ^^ n) s))"
    "m + (N - calls ((step ^^ m) ((step ^^ n) s))) \<le> l + (N - calls ((step ^^ n) s))"
    using assms(2) [OF n(1)] by (auto simp: leads_def)
  then show ?thesis
    using n(2) unfolding leads_def by (intro exI [of _ "m + n"]) (simp add: funpow_add)
qed

text \<open>
  One step, after waits that keep \<open>P\<close>. Waits may also happen up to the \<open>B\<close>-th call, for what the step
  itself waits for, such as the passing of time.
\<close>

lemma leads_step_until:
  assumes "\<And>s. P s \<Longrightarrow> Q (step s) \<or> P (step s) \<and> (calls s < N \<or> calls s < B)" and "P s"
  shows "leads (1 + (B - calls s)) s Q"
  using assms(2)
proof (induction "max N B - calls s" arbitrary: s rule: less_induct)
  case less
  have once: "(step ^^ 1) s = step s" by simp
  note more = makes_calls [of s]
  show ?case
  proof (cases "Q (step s)")
    case True
    then show ?thesis
      using more unfolding leads_def by (intro exI [of _ 1]) (simp only: once, simp)
  next
    case False
    then have wait: "P (step s)" "calls s < N \<or> calls s < B" using assms(1) less.prems by blast+
    have "max N B - calls (step s) < max N B - calls s" using more wait(2) by arith
    from less.hyps [OF this wait(1)] obtain n where n: "Q ((step ^^ n) (step s))"
      "n + (N - calls ((step ^^ n) (step s))) \<le> 1 + (B - calls (step s)) + (N - calls (step s))"
      by (auto simp: leads_def)
    moreover have "Suc ((B - calls (step s)) + (N - calls (step s))) \<le> (B - calls s) + (N - calls s)"
      using more wait(2) by arith
    moreover have "(step ^^ n) (step s) = (step ^^ Suc n) s" by (simp only: funpow_Suc_right o_apply)
    ultimately show ?thesis
      unfolding leads_def by (intro exI [of _ "Suc n"]) simp
  qed
qed

lemma leads_step:
  assumes "\<And>s. P s \<Longrightarrow> Q (step s) \<or> P (step s) \<and> calls s < N" and "P s"
  shows "leads 1 s Q"
  using leads_step_until [of P Q 0 s] assms by simp

text \<open>Without a condition on the number of calls.\<close>

lemma leads_bound: "leads k s Q \<Longrightarrow> \<exists>n \<le> k + N. Q ((step ^^ n) s)"
  unfolding leads_def by (meson add_le_mono diff_le_self le_add1 le_trans order_refl)

end

end
