(* ===== verification/K6_Stored.thy ===== *)
theory K6_Stored
  imports K6_Stage_Props K6_History K6_Progress
begin

text \<open>
  The status of a test run on the API server, for the two theories on liveness: what a \<open>Get\<close> returns
  is what the last status patch of the history wrote. A proposed status \<open>revises\<close> the stored one if
  it was made from it by updates of conditions; the locale \<open>status_server\<close> shows that \<open>UpdateStatus\<close>
  then stores the statuses of the proposal.
\<close>

section \<open>The status on the server\<close>

fun patched :: "call \<Rightarrow> TestRunStatus \<Rightarrow> TestRunStatus" where
  "patched (PatchTestRunStatus old k6) st = tr_status (stored_run k6)"
| "patched _ st = st"

definition stored :: "TestRun \<Rightarrow> trace \<Rightarrow> TestRun" where
  "stored k0 tr = k0\<lparr>tr_status := fold patched tr (tr_status k0)\<rparr>"

lemma stored_Nil [simp]: "stored k0 [] = k0"
  by (simp add: stored_def)

definition stage_at :: "TestRun \<Rightarrow> trace \<Rightarrow> Stage" where
  "stage_at k0 tr = st_stage (tr_status (stored k0 tr))"

definition no_patch :: "call \<Rightarrow> bool" where
  "no_patch c \<longleftrightarrow> (\<forall>old k. c \<noteq> PatchTestRunStatus old k)"

lemma patched_no_patch: "no_patch c \<Longrightarrow> patched c st = st"
  by (cases c) (simp_all add: no_patch_def)

lemma fold_no_patch: "list_all no_patch cs \<Longrightarrow> fold patched cs st = st"
  by (induction cs) (simp_all add: patched_no_patch)

lemma no_patch_simps [simp]:
  "no_patch (ListJobs opts)" "no_patch (ListPods opts)" "no_patch (ListServices opts)" "no_patch (HTTPGet url)"
  "no_patch (GetJob nn)" "no_patch (CreateJob j)" "no_patch (CreateService s)" "no_patch (SetControllerReference n)"
  "no_patch (GetTestRun nn)" "no_patch ReadClock" "no_patch (RecordEvent w)" "no_patch (ReadPodLogs ns n)"
  "no_patch (GetSecret nn)" "no_patch (ListSecrets opts)" "no_patch (CloudGetTestRun cl url)"
  "no_patch (CloudCreateTestRun cl url b)" "no_patch (CloudTestFinished cl i)" "no_patch (CloudSendEvents cl url ev)"
  by (simp_all add: no_patch_def)

interpretation no_patches: quiet_policy E any_history no_patch for E
proof
  show "quiet c \<Longrightarrow> permits any_history no_patch c" for c by (cases c) (simp_all add: no_patch_def)
qed

lemma no_patch_run:
  assumes "only no_patch m"
  obtains a cs where "run_state m tr = (a, tr @ cs)" "list_all no_patch cs"
  using ensures_run [OF assms] by (metis prod.collapse)

section \<open>What was created\<close>

definition first_runner :: "TestRun \<Rightarrow> namespaced_name" where
  "first_runner k = \<lparr>nn_namespace = tr_namespace k, nn_name = tr_name k @ ''-1''\<rparr>"

text \<open>
  The job of every runner was created with the id of the cloud test run, if there is one, and so was
  the starter.
\<close>

definition runners_created :: "env \<Rightarrow> TestRun \<Rightarrow> string \<Rightarrow> trace \<Rightarrow> bool" where
  "runners_created E k0 trid tr \<longleftrightarrow> (\<forall>i. 1 \<le> i \<and> i \<le> sint (spec_parallelism (tr_spec k0)) \<longrightarrow>
     (\<exists>st ti j. st_testRunID st = trid \<and> NewRunnerJob (e_meta E) (k0\<lparr>tr_status := st\<rparr>) i ti = Inr j
        \<and> CreateJob j \<in> set tr))"

definition starter_created :: "TestRun \<Rightarrow> trace \<Rightarrow> bool" where
  "starter_created k0 tr \<longleftrightarrow> (\<exists>st hs. CreateJob (NewStarterJob (k0\<lparr>tr_status := st\<rparr>) hs) \<in> set tr)"

text \<open>Calls once made stay made.\<close>

definition extends :: "trace \<Rightarrow> trace \<Rightarrow> bool" where
  "extends tr tr' \<longleftrightarrow> (\<exists>cs. tr' = tr @ cs)"

lemma extends_refl [simp]: "extends tr tr"
  by (simp add: extends_def)

lemma extends_append [simp]: "extends tr (tr @ cs)"
  by (simp add: extends_def)

lemma extends_trans: "extends tr1 tr2 \<Longrightarrow> extends tr2 tr3 \<Longrightarrow> extends tr1 tr3"
  unfolding extends_def by force

lemma extends_set: "extends tr tr' \<Longrightarrow> set tr \<subseteq> set tr'"
  by (auto simp: extends_def)

lemma created_mono:
  assumes "extends tr tr'"
  shows "runners_created E k0 trid tr \<Longrightarrow> runners_created E k0 trid tr'"
    and "starter_created k0 tr \<Longrightarrow> starter_created k0 tr'"
  using extends_set [OF assms] unfolding runners_created_def starter_created_def by blast+

section \<open>Reconciliations as steps\<close>

lemma Reconcile_extends: "extends tr (snd (run_state (Reconcile E req) tr))"
proof -
  have "only patches_move_on (Reconcile E req)" by (rule progress.Reconcile_only) simp_all
  from ensures_run [OF this] show ?thesis unfolding extends_def by (metis prod.collapse)
qed

interpretation reconciliations: progressing "\<lambda>tr. snd (run_state (Reconcile E req) tr)" length N for E req N
proof
  fix tr :: trace
  have "only patches_move_on (reconcile E k6)" for k6 by (rule progress.reconcile_only) simp
  then have "\<exists>cs. snd (run_state (reconcile E k6) tr') = tr' @ cs" for k6 tr'
    by (metis ensures_run prod.collapse)
  then have more: "length tr' \<le> length (snd (run_state (reconcile E k6) tr'))" for k6 tr'
    by (metis length_append le_add1)
  show "length tr < length (snd (run_state (Reconcile E req) tr))"
  proof (cases "e_getTestRun E tr req")
    case (Found k6)
    then show ?thesis using more [of "tr @ [GetTestRun req]" k6] by (auto simp: Reconcile_def finish_def)
  qed (simp_all add: Reconcile_def finish_def)
qed

section \<open>Proposals\<close>

text \<open>
  The conditions \<open>ps\<close> were made from \<open>cs\<close> by updates at times between \<open>lo\<close> and \<open>hi\<close>: a condition is
  as it was, or new, or updated to a known status.
\<close>

definition revises :: "meta_api \<Rightarrow> int \<Rightarrow> int \<Rightarrow> conditions \<Rightarrow> conditions \<Rightarrow> bool" where
  "revises M lo hi cs ps \<longleftrightarrow> distinct (types_of ps) \<and> set (types_of cs) \<subseteq> set (types_of ps)
     \<and> (\<forall>t c. FindStatusCondition M ps t = Some c \<longrightarrow> FindStatusCondition M cs t = Some c
          \<or> ctime c \<le> hi \<and> (\<forall>e. FindStatusCondition M cs t = Some e \<longrightarrow>
               cstatus c \<noteq> ConditionUnknown \<and> (lo \<le> ctime c \<or> cstatus c = cstatus e)))"

context status_conditions
begin

lemma revises_same: "distinct (types_of cs) \<Longrightarrow> revises M lo hi cs cs"
  by (simp add: revises_def)

lemma revises_Nil:
  assumes "distinct (types_of ps)" and "\<forall>c \<in> set ps. ctime c \<le> hi"
  shows "revises M lo hi [] ps"
  using assms lookup_Some_type by (fastforce simp: revises_def)

lemma lookup_member: "distinct (types_of cs) \<Longrightarrow> c \<in> set cs \<Longrightarrow> lookup cs (ctype c) = Some c"
  by (induction cs) auto

lemma revises_set:
  assumes "revises M lo hi cs ps" and "\<forall>c \<in> set cs. ctime c < lo" and "lo \<le> ctime p" and "ctime p \<le> hi"
    and known: "cstatus p \<noteq> ConditionUnknown \<or> lookup cs (ctype p) = None"
  shows "revises M lo hi cs (SetStatusCondition M ps p)"
  unfolding revises_def
proof (intro conjI allI impI)
  show "distinct (types_of (SetStatusCondition M ps p))" using assms(1) by (simp add: revises_def distinct_set)
  show "set (types_of cs) \<subseteq> set (types_of (SetStatusCondition M ps p))"
    using assms(1) by (auto simp: revises_def types_of_set)
  fix t c assume c: "lookup (SetStatusCondition M ps p) t = Some c"
  have older: "ctime e < lo" if "lookup cs u = Some e" for u e using that assms(2) lookup_Some_type by blast
  show "lookup cs t = Some c \<or> ctime c \<le> hi \<and> (\<forall>e. lookup cs t = Some e \<longrightarrow>
      cstatus c \<noteq> ConditionUnknown \<and> (lo \<le> ctime c \<or> cstatus c = cstatus e))"
  proof (cases "t = ctype p")
    case True
    have "ctime e \<le> hi" if "lookup ps t = Some e" for e
      using that older [of t e] assms(1,3,4) by (fastforce simp: revises_def)
    moreover have "\<forall>f. lookup cs t = Some f \<longrightarrow> lo \<le> ctime e \<or> cstatus e = cstatus f" if "lookup ps t = Some e" for e
      using that assms(1) by (fastforce simp: revises_def)
    ultimately show ?thesis
      using c lookup_set_same [of ps p] True assms(3,4) known by (auto split: option.splits if_splits)
  next
    case False
    then show ?thesis using c assms(1) set_other by (simp add: revises_def)
  qed
qed

lemma revises_update:
  assumes "revises M lo hi cs ps" and "\<forall>c \<in> set cs. ctime c < lo" and "lo \<le> now" and "now \<le> hi"
    and "t \<in> set operator_condition_types" and "s \<noteq> ConditionUnknown \<or> lookup cs t = None"
  obtains qs where "UpdateCondition M now ps t s = Inr qs" "revises M lo hi cs qs"
    "status_of M qs = (status_of M ps)(t \<mapsto> s)" "set (types_of qs) = insert t (set (types_of ps))"
proof -
  obtain r where r: "gomap_get reasons (t @ status_string s) = Some r" using operator_reasons [OF assms(5)] by blast
  define p where "p = \<lparr>ctype = t, cstatus = s, ctime = now, creason = r, cmessage = ''''\<rparr>"
  have "UpdateCondition M now ps t s = Inr (SetStatusCondition M ps p)" by (simp add: UpdateCondition_def r p_def)
  moreover have "revises M lo hi cs (SetStatusCondition M ps p)"
    by (rule revises_set) (use assms in \<open>simp_all add: p_def\<close>)
  moreover have "status_of M (SetStatusCondition M ps p) = (status_of M ps)(t \<mapsto> s)"
    by (simp add: status_of_set p_def)
  moreover have "set (types_of (SetStatusCondition M ps p)) = insert t (set (types_of ps))"
    unfolding types_of_set by (auto simp: p_def)
  ultimately show thesis by (rule that)
qed

text \<open>The conditions \<open>ps\<close> were made from \<open>cs\<close> by updates to the statuses they have.\<close>

definition restates :: "conditions \<Rightarrow> conditions \<Rightarrow> bool" where
  "restates cs ps \<longleftrightarrow> status_of M ps = status_of M cs \<and> distinct (types_of ps)
     \<and> (\<forall>u c. lookup ps u = Some c \<longrightarrow> (\<exists>e. lookup cs u = Some e \<and> ctime c = ctime e))"

lemma restates_same: "distinct (types_of cs) \<Longrightarrow> restates cs cs"
  by (simp add: restates_def)

lemma restates_update:
  assumes "restates cs ps" and "t \<in> set operator_condition_types" and "status_of M cs t = Some s"
  obtains qs where "UpdateCondition M now ps t s = Inr qs" "restates cs qs"
proof -
  obtain r where r: "gomap_get reasons (t @ status_string s) = Some r" using operator_reasons [OF assms(2)] by blast
  define p where "p = \<lparr>ctype = t, cstatus = s, ctime = now, creason = r, cmessage = ''''\<rparr>"
  have p: "ctype p = t" "cstatus p = s" by (simp_all add: p_def)
  have S: "status_of M ps t = Some s" using assms(1,3) by (simp add: restates_def)
  then obtain e where e: "lookup ps t = Some e" "cstatus e = s" by (auto simp: status_of_def)
  have "restates cs (SetStatusCondition M ps p)"
    unfolding restates_def
  proof (intro conjI allI impI)
    show "status_of M (SetStatusCondition M ps p) = status_of M cs"
      using assms(1,3) by (auto simp: status_of_set p restates_def fun_eq_iff)
    show "distinct (types_of (SetStatusCondition M ps p))" using assms(1) by (simp add: restates_def distinct_set)
    fix u c assume "lookup (SetStatusCondition M ps p) u = Some c"
    then show "\<exists>e. lookup cs u = Some e \<and> ctime c = ctime e"
      using assms(1) e lookup_set_same [of ps p] set_other [of u p ps] p
      by (cases "u = t") (auto simp: restates_def)
  qed
  moreover have "UpdateCondition M now ps t s = Inr (SetStatusCondition M ps p)"
    by (simp add: UpdateCondition_def r p_def)
  ultimately show thesis by (rule that [rotated])
qed

lemma restates_not_accepted:
  assumes "restates cs ps" and "distinct (types_of cs)" and "c \<in> set ps"
  shows "\<not> accepted (existing_conditions cs) c"
proof -
  have "lookup ps (ctype c) = Some c" using assms(1,3) lookup_member by (simp add: restates_def)
  then obtain e where "lookup cs (ctype c) = Some e" "ctime c = ctime e" using assms(1) by (auto simp: restates_def)
  then show ?thesis by (simp add: accepted_def existing_conditions_eq [OF assms(2)])
qed

text \<open>Merging a proposal that \<open>revises\<close> the conditions takes its statuses over.\<close>

lemma merge_revised:
  assumes d: "distinct (types_of cs)" and older: "\<forall>c \<in> set cs. ctime c < lo" and "lo \<le> hi"
    and ps: "revises M lo hi cs ps" and cs: "st_conditions st = cs" "st_conditions prop = ps"
    and new: "TestRunStatus_SetIfNewer M st prop = (st', b)"
  shows "distinct (types_of (st_conditions st'))" and "status_of M (st_conditions st') = status_of M ps"
    and "\<forall>c \<in> set (st_conditions st'). ctime c \<le> hi" and "status_of M ps \<noteq> status_of M cs \<Longrightarrow> b"
proof -
  have dp: "distinct (types_of ps)" using ps by (simp add: revises_def)
  have conds: "st_conditions st' = fst (SetIfNewer M cs ps (Some (status_callback prop)) (st_testRunID st, st_aggregationVars st))"
    using new cs status_conditions_eq [of M st "prop"] by simp
  have L: "lookup (st_conditions st') t = merge_condition (lookup cs t) (lookup ps t)" for t
    unfolding conds by (rule SetIfNewer_conds(1) [OF d dp])
  show d': "distinct (types_of (st_conditions st'))" unfolding conds by (rule SetIfNewer_conds(2) [OF d dp])
  have old: "ctime e < lo" if "lookup cs t = Some e" for t e using that older lookup_Some_type by blast
  have kept: "lookup cs t = None" if "lookup ps t = None" for t
    using that ps lookup_None_iff [of cs t] lookup_None_iff [of ps t] by (auto simp: revises_def)
  have revised: "lookup cs t = Some c \<or> ctime c \<le> hi \<and> (\<forall>e. lookup cs t = Some e \<longrightarrow>
      cstatus c \<noteq> ConditionUnknown \<and> (lo \<le> ctime c \<or> cstatus c = cstatus e))" if "lookup ps t = Some c" for t c
    using that ps by (simp add: revises_def)
  have S: "status_of M (st_conditions st') t = status_of M ps t" for t
    using L [of t] revised [of t] old [of t] kept [of t]
    by (auto simp: status_of_def merge_condition_def split: option.splits)
  then show "status_of M (st_conditions st') = status_of M ps" by blast
  show "\<forall>c \<in> set (st_conditions st'). ctime c \<le> hi"
  proof
    fix c assume "c \<in> set (st_conditions st')"
    then have "lookup (st_conditions st') (ctype c) = Some c" by (rule lookup_member [OF d'])
    then show "ctime c \<le> hi"
      using L [of "ctype c"] revised [of "ctype c"] old [of "ctype c"] \<open>lo \<le> hi\<close>
      by (auto simp: merge_condition_def split: option.splits if_splits)
  qed
  show b if "status_of M ps \<noteq> status_of M cs"
  proof -
    from that obtain t where t: "status_of M ps t \<noteq> status_of M cs t" by blast
    then obtain c where c: "lookup ps t = Some c" using kept [of t] by (cases "lookup ps t") (auto simp: status_of_def)
    have p: "c \<in> set ps" "ctype c = t" using lookup_Some_type [OF c] by simp_all
    have "accepted (existing_conditions cs) c"
      using t c revised [OF c] old [of t] existing_conditions_eq [OF d, of t] p(2)
      by (auto simp: accepted_def status_of_def split: option.splits)
    then show ?thesis using new p(1) cs by (auto simp: TestRunStatus_SetIfNewer_eq Let_def)
  qed
qed

end

section \<open>The server\<close>

text \<open>
  A server that stores what is patched, with its times in whole seconds, and of which the operator is
  the only writer of the status. The clock moves on between calls and between its readings.
\<close>

locale status_server = status_conditions "e_meta E" for E :: env +
  fixes k0 :: TestRun
  assumes get: "e_getTestRun E tr (NamespacedName k0) = Found (stored k0 tr)"
    and patch: "e_patchTestRun E tr k6 = Inr (stored_run k6)"
    and clock: "length tr < length tr' \<Longrightarrow> i < 5 \<Longrightarrow> e_clock E tr i < e_clock E tr' j"
    and clock_reads: "i < j \<Longrightarrow> j < 5 \<Longrightarrow> e_clock E tr i < e_clock E tr j"
begin

text \<open>The test run with another status; the stored one is always of this form.\<close>

abbreviation with_status :: "TestRunStatus \<Rightarrow> TestRun" where
  "with_status st \<equiv> k0\<lparr>tr_status := st\<rparr>"

abbreviation status_at :: "trace \<Rightarrow> TestRunStatus" where
  "status_at tr \<equiv> fold patched tr (tr_status k0)"

lemma stage_at_simp [simp]: "stage_at k0 tr = st_stage (status_at tr)"
  by (simp add: stage_at_def stored_def)

text \<open>All conditions were set before now.\<close>

definition past :: "trace \<Rightarrow> conditions \<Rightarrow> bool" where
  "past tr cs \<longleftrightarrow> (\<forall>c \<in> set cs. \<forall>tr' i. length tr \<le> length tr' \<longrightarrow> ctime c < e_clock E tr' i)"

lemma past_mono: "past tr cs \<Longrightarrow> length tr \<le> length tr' \<Longrightarrow> past tr' cs"
  by (force simp: past_def)

text \<open>
  What is known of the stored status: the stage, the statuses of the conditions, and the data of the
  cloud test run, which are its id and the encoded settings of the aggregation.
\<close>

definition phase :: "Stage \<Rightarrow> (string \<rightharpoonup> ConditionStatus) \<Rightarrow> string \<times> string \<Rightarrow> trace \<Rightarrow> bool" where
  "phase g S d tr \<longleftrightarrow>
     st_stage (status_at tr) = g \<and> status_of (e_meta E) (st_conditions (status_at tr)) = S
     \<and> (st_testRunID (status_at tr), st_aggregationVars (status_at tr)) = d
     \<and> distinct (types_of (st_conditions (status_at tr))) \<and> past tr (st_conditions (status_at tr))"

lemma phaseD:
  assumes "phase g S d tr"
  shows "st_stage (status_at tr) = g" "status_of (e_meta E) (st_conditions (status_at tr)) = S"
    "st_testRunID (status_at tr) = fst d" "st_aggregationVars (status_at tr) = snd d"
    "distinct (types_of (st_conditions (status_at tr)))" "past tr (st_conditions (status_at tr))"
  using assms by (auto simp: phase_def)

lemma status_at_no_patch: "list_all no_patch cs \<Longrightarrow> status_at (tr @ cs) = status_at tr"
  by (simp add: fold_no_patch)

lemma phase_no_patch: "phase g S d tr \<Longrightarrow> list_all no_patch cs \<Longrightarrow> phase g S d (tr @ cs)"
  unfolding phase_def using status_at_no_patch [of cs tr] past_mono [of tr _ "tr @ cs"] by simp

lemma status_known [simp]:
  "IsTrue (e_meta E) (with_status st) t \<longleftrightarrow> status_of (e_meta E) (st_conditions st) t = Some ConditionTrue"
  "IsFalse (e_meta E) (with_status st) t \<longleftrightarrow> status_of (e_meta E) (st_conditions st) t = Some ConditionFalse"
  "IsUnknown (e_meta E) (with_status st) t \<longleftrightarrow> status_of (e_meta E) (st_conditions st) t \<noteq> Some ConditionFalse
     \<and> status_of (e_meta E) (st_conditions st) t \<noteq> Some ConditionTrue"
  by (simp_all add: tr_status_simps)

lemma same_object [simp]:
  "ListOptions (with_status st) = ListOptions k0" "initializer_pods (with_status st) = initializer_pods k0"
  "NamespacedName (with_status st) = NamespacedName k0" "Argv (tr_spec (with_status st)) = Argv (tr_spec k0)"
  by (simp_all add: ListOptions_def initializer_pods_def NamespacedName_def)

text \<open>
  \<open>UpdateStatus\<close> with a proposal made at \<open>tr\<close>. It may be called later, if the status was not
  patched in between.
\<close>

lemma UpdateStatus_stores:
  assumes ph: "phase g S d tr" and cs: "list_all no_patch cs"
    and ps: "revises (e_meta E) (e_clock E tr 0) (e_clock E tr 4) (st_conditions (status_at tr)) (st_conditions p)"
    and stage: "st_stage p = g \<or> st_stage p \<noteq> '''' \<and> stage_step g (st_stage p)"
    and data: "(st_testRunID p, st_aggregationVars p) = d
      \<or> d = ('''', '''') \<and> st_testRunID p \<noteq> '''' \<and> ''CloudTestRunCreated'' \<in> set (types_of (st_conditions p))"
  obtains b calls where
    "run_state (UpdateStatus E (with_status p)) (tr @ cs) =
      ((with_status (status_at (tr @ cs @ calls)), b, None), tr @ cs @ calls)"
    "phase (st_stage p) (status_of (e_meta E) (st_conditions p)) (st_testRunID p, st_aggregationVars p) (tr @ cs @ calls)"
    "st_stage p \<noteq> g \<or> status_of (e_meta E) (st_conditions p) \<noteq> S \<Longrightarrow> b"
proof -
  let ?M = "e_meta E" and ?st = "status_at tr" and ?get = "GetTestRun (NamespacedName k0)"
  note known = phaseD [OF ph]
  have st: "status_at (tr @ cs) = ?st" by (rule status_at_no_patch [OF cs])
  obtain new b where new: "TestRunStatus_SetIfNewer ?M ?st p = (new, b)" by fastforce
  have older: "\<forall>c \<in> set (st_conditions ?st). ctime c < e_clock E tr 0" using known(6) by (simp add: past_def)
  have "e_clock E tr 0 \<le> e_clock E tr 4" using clock_reads [of 0 4 tr] by simp
  note merged = merge_revised [OF known(5) older this ps HOL.refl HOL.refl new]
  define taken where "taken \<longleftrightarrow> (\<exists>c \<in> set (st_conditions p). accepted (existing_conditions (st_conditions ?st)) c)"
  define created where "created \<longleftrightarrow> ''CloudTestRunCreated'' \<in> set (types_of (st_conditions p))"
  define move where "move \<longleftrightarrow> st_stage ?st \<noteq> st_stage p \<and> st_stage p \<noteq> [] \<and> stage_step (st_stage ?st) (st_stage p)"
  have eqs: "b \<longleftrightarrow> move \<or> taken \<or> fst d = [] \<and> st_testRunID p \<noteq> [] \<and> created"
    "st_stage new = (if move then st_stage p else g)"
    "st_testRunID new = (if fst d = [] \<and> created then st_testRunID p else fst d)"
    "st_aggregationVars new = (if snd d = [] \<and> st_conditions p \<noteq> [] then st_aggregationVars p else snd d)"
    using new unfolding TestRunStatus_SetIfNewer_eq Let_def taken_def created_def move_def known(1,3,4) by auto
  have move: "move \<longleftrightarrow> st_stage p \<noteq> g" using stage known(1) by (auto simp: move_def)
  have nonempty: "created \<Longrightarrow> st_conditions p \<noteq> []" by (auto simp: created_def)
  have fields: "st_stage new = st_stage p" "st_testRunID new = st_testRunID p" "st_aggregationVars new = st_aggregationVars p"
    and b_iff: "b \<longleftrightarrow> st_stage p \<noteq> g \<or> taken \<or> (st_testRunID p, st_aggregationVars p) \<noteq> d"
    using data eqs move nonempty unfolding created_def [symmetric] by (auto simp: prod_eq_iff)
  have changed: b if "st_stage p \<noteq> g \<or> status_of ?M (st_conditions p) \<noteq> S"
    using that b_iff merged(4) known(2) by auto
  show thesis
  proof (cases b)
    case True
    let ?calls = "[?get, PatchTestRunStatus ?st (with_status new)]"
    have at: "status_at (tr @ cs @ ?calls) = tr_status (stored_run (with_status new))" by simp
    have "past (tr @ cs @ ?calls) (as_stored (st_conditions new))"
      unfolding past_def
    proof (intro ballI allI impI)
      fix c :: condition and tr' :: trace and i
      assume c: "c \<in> set (as_stored (st_conditions new))" "length (tr @ cs @ ?calls) \<le> length tr'"
      obtain e where e: "e \<in> set (st_conditions new)" "c = e\<lparr>ctime := stored_time (ctime e)\<rparr>"
        using as_stored_member [OF c(1)] by blast
      have "ctime c \<le> ctime e" using e(2) stored_time_le by simp
      also have "\<dots> \<le> e_clock E tr 4" using merged(3) e(1) by blast
      also have "\<dots> < e_clock E tr' i" by (rule clock) (use c(2) in simp_all)
      finally show "ctime c < e_clock E tr' i" .
    qed
    then have "phase (st_stage p) (status_of ?M (st_conditions p)) (st_testRunID p, st_aggregationVars p) (tr @ cs @ ?calls)"
      unfolding phase_def at using merged(1,2) fields by simp
    moreover have "run_state (UpdateStatus E (with_status p)) (tr @ cs) =
        ((with_status (status_at (tr @ cs @ ?calls)), True, None), tr @ cs @ ?calls)"
      using new True get [of "tr @ cs"] st by (simp add: UpdateStatus_def patch stored_def Let_def stored_run_def set_conditions_def)
    ultimately show thesis using that by blast
  next
    case False
    have "new = ?st"
    proof (rule TestRunStatus.equality)
      have "\<not> accepted (existing_conditions (st_conditions ?st)) c" if "c \<in> set (st_conditions p)" for c
        using that False b_iff unfolding taken_def by blast
      then show "st_conditions new = st_conditions ?st"
        using new fold_accept_none by (auto simp: TestRunStatus_SetIfNewer_eq Let_def)
    qed (use fields False b_iff known in auto)
    moreover have "run_state (UpdateStatus E (with_status p)) (tr @ cs) =
        ((with_status new, False, None), tr @ cs @ [?get])"
      using new False get [of "tr @ cs"] st by (simp add: UpdateStatus_def stored_def Let_def)
    moreover have calls: "list_all no_patch (cs @ [?get])" using cs by simp
    moreover have "phase (st_stage p) (status_of ?M (st_conditions p)) (st_testRunID p, st_aggregationVars p) (tr @ cs @ [?get])"
    proof -
      have "st_stage p = g" "status_of ?M (st_conditions p) = S" "(st_testRunID p, st_aggregationVars p) = d"
        using changed False b_iff by blast+
      then show ?thesis using phase_no_patch [OF ph calls] by (simp only:)
    qed
    ultimately show thesis
      by (intro that [of "[?get]" False]) (simp_all only: append_assoc status_at_no_patch [OF calls], use changed False in blast)
  qed
qed

text \<open>A proposal that says nothing new is not written.\<close>

lemma UpdateStatus_keeps:
  assumes ph: "phase g S d tr" and cs: "list_all no_patch cs"
    and ps: "restates (st_conditions (status_at tr)) (st_conditions p)"
    and same: "st_stage p = g" "st_testRunID p = fst d" "st_aggregationVars p = snd d"
  shows "run_state (UpdateStatus E (with_status p)) (tr @ cs) =
    ((with_status (status_at tr), False, None), tr @ cs @ [GetTestRun (NamespacedName k0)])"
proof -
  note known = phaseD [OF ph]
  have st: "status_at (tr @ cs) = status_at tr" by (rule status_at_no_patch [OF cs])
  have none: "\<not> accepted (existing_conditions (st_conditions (status_at tr))) c" if "c \<in> set (st_conditions p)" for c
    by (rule restates_not_accepted [OF ps known(5) that])
  have "TestRunStatus_SetIfNewer (e_meta E) (status_at tr) p = (status_at tr, False)"
    using none fold_accept_none [OF none] same known(1,3,4) by (auto simp: TestRunStatus_SetIfNewer_eq Let_def)
  then show ?thesis
    using get [of "tr @ cs"] st by (simp add: UpdateStatus_def stored_def Let_def)
qed

text \<open>A step of the stage alone.\<close>

lemma move_and_patch:
  assumes ph: "phase g S d tr" and step: "g' \<noteq> g" "g' \<noteq> ''''" "stage_step g g'"
  obtains calls where
    "run_state (UpdateStatus E (set_stage g' (with_status (status_at tr)))) tr =
      ((with_status (status_at (tr @ calls)), True, None), tr @ calls)"
    "phase g' S d (tr @ calls)"
proof -
  note known = phaseD [OF ph]
  let ?p = "(status_at tr)\<lparr>st_stage := g'\<rparr>"
  obtain b calls where
    "run_state (UpdateStatus E (with_status ?p)) (tr @ []) =
      ((with_status (status_at (tr @ [] @ calls)), b, None), tr @ [] @ calls)"
    "phase (st_stage ?p) (status_of (e_meta E) (st_conditions ?p)) (st_testRunID ?p, st_aggregationVars ?p) (tr @ [] @ calls)"
    "st_stage ?p \<noteq> g \<or> status_of (e_meta E) (st_conditions ?p) \<noteq> S \<Longrightarrow> b"
    by (rule UpdateStatus_stores [OF ph, of "[]" ?p]) (use known step in \<open>simp_all add: revises_same\<close>)
  then show thesis using that [of calls] known step by (simp add: set_stage_def)
qed

text \<open>
  An update of one condition, perhaps with a step of the stage or, for \<open>CloudTestRunCreated\<close>, with
  the data of the cloud test run.
\<close>

lemma update_and_patch:
  assumes ph: "phase g S d tr" and t: "t \<in> set operator_condition_types" and s: "s \<noteq> ConditionUnknown"
    and stage: "g' = g \<or> g' \<noteq> '''' \<and> stage_step g g'" and changed: "g' \<noteq> g \<or> S t \<noteq> Some s"
    and data: "d' = d \<or> d = ('''', '''') \<and> fst d' \<noteq> '''' \<and> t = ''CloudTestRunCreated''"
  obtains ps calls where
    "\<And>st. st_conditions st = st_conditions (status_at tr) \<Longrightarrow>
      TestRun_UpdateCondition (e_meta E) (e_clock E tr 0) (with_status st) t s = Inr (with_status (st\<lparr>st_conditions := ps\<rparr>))"
    "\<And>p. st_conditions p = ps \<Longrightarrow> st_stage p = g' \<Longrightarrow> st_testRunID p = fst d' \<Longrightarrow> st_aggregationVars p = snd d' \<Longrightarrow>
      run_state (UpdateStatus E (with_status p)) (tr @ [ReadClock]) =
        ((with_status (status_at (tr @ ReadClock # calls)), True, None), tr @ ReadClock # calls)"
    "phase g' (S(t \<mapsto> s)) d' (tr @ ReadClock # calls)"
proof -
  let ?M = "e_meta E" and ?cs = "st_conditions (status_at tr)" and ?lo = "e_clock E tr 0" and ?hi = "e_clock E tr 4"
  note known = phaseD [OF ph]
  have "?lo \<le> ?hi" using clock_reads [of 0 4 tr] by simp
  moreover have older: "\<forall>c \<in> set ?cs. ctime c < ?lo" using known(6) by (simp add: past_def)
  ultimately obtain ps where ps: "UpdateCondition ?M ?lo ?cs t s = Inr ps" "revises ?M ?lo ?hi ?cs ps"
    "status_of ?M ps = (status_of ?M ?cs)(t \<mapsto> s)" "set (types_of ps) = insert t (set (types_of ?cs))"
    using revises_update [OF revises_same [OF known(5)], of ?lo ?lo ?hi t s] t s by auto
  define p where "p = (status_at tr)\<lparr>st_conditions := ps, st_stage := g', st_testRunID := fst d', st_aggregationVars := snd d'\<rparr>"
  have p: "st_conditions p = ps" "st_stage p = g'" "st_testRunID p = fst d'" "st_aggregationVars p = snd d'"
    by (simp_all add: p_def)
  have same: "q = p" if "st_conditions q = ps" "st_stage q = g'" "st_testRunID q = fst d'" "st_aggregationVars q = snd d'" for q
    using that p by (intro TestRunStatus.equality) simp_all
  have change: "status_of ?M ps \<noteq> S \<or> g' \<noteq> g" using changed known(2) ps(3) by (metis fun_upd_same)
  obtain b calls where upd:
    "run_state (UpdateStatus E (with_status p)) (tr @ [ReadClock]) =
      ((with_status (status_at (tr @ [ReadClock] @ calls)), b, None), tr @ [ReadClock] @ calls)"
    "phase (st_stage p) (status_of ?M (st_conditions p)) (st_testRunID p, st_aggregationVars p) (tr @ [ReadClock] @ calls)"
    "st_stage p \<noteq> g \<or> status_of ?M (st_conditions p) \<noteq> S \<Longrightarrow> b"
    by (rule UpdateStatus_stores [OF ph, of "[ReadClock]" p])
      (use ps stage data known(3,4) in \<open>auto simp: p prod_eq_iff simp del: prod.collapse\<close>)
  have b using change upd(3) p by metis
  then have run: "run_state (UpdateStatus E (with_status p)) (tr @ [ReadClock]) =
      ((with_status (status_at (tr @ ReadClock # calls)), True, None), tr @ ReadClock # calls)"
    using upd(1) by simp
  have after: "phase g' (S(t \<mapsto> s)) d' (tr @ ReadClock # calls)"
    using upd(2) ps(3) known(2) by (simp add: p)
  show thesis
  proof (rule that [of ps calls])
    show "TestRun_UpdateCondition ?M ?lo (with_status st) t s = Inr (with_status (st\<lparr>st_conditions := ps\<rparr>))"
      if "st_conditions st = ?cs" for st
      using that ps(1) by (simp add: TestRun_UpdateCondition_def set_conditions_def)
    show "run_state (UpdateStatus E (with_status q)) (tr @ [ReadClock]) =
        ((with_status (status_at (tr @ ReadClock # calls)), True, None), tr @ ReadClock # calls)"
      if "st_conditions q = ps" "st_stage q = g'" "st_testRunID q = fst d'" "st_aggregationVars q = snd d'" for q
      using run same [OF that] by simp
  qed (rule after)
qed

end

end
