(* ===== verification/K6_Stages.thy ===== *)
theory K6_Stages
  imports K6_Stored
begin

text \<open>
  The handlers of the stages on a cluster that accepts what it is asked for, and on which everything
  a test run waits for is there from some point of the history on; before that point pods may be
  missing, services unready and jobs active. A handler takes the stored test run to its next stage,
  or it waits. The lemmas hold with and without cloud output; \<open>K6_Lifecycle\<close> and \<open>K6_Cloud_Life\<close>
  extend the locale for the two kinds of test runs.
\<close>

section \<open>A cluster\<close>

definition start_statuses :: "string \<rightharpoonup> ConditionStatus" where
  "start_statuses = [''CloudTestRun'' \<mapsto> ConditionUnknown, ''TestRunRunning'' \<mapsto> ConditionUnknown,
     ''TeardownExecuted'' \<mapsto> ConditionFalse, ''CloudTestRunAborted'' \<mapsto> ConditionFalse,
     ''CloudPLZTestRun'' \<mapsto> ConditionFalse]"

text \<open>From the \<open>N\<close>-th call on the cluster is ready.\<close>

locale stage_cluster = status_server E k0 for E :: env and k0 :: TestRun +
  fixes N :: nat
  assumes fresh: "tr_status k0 = zero_status" "spec_testRunID (tr_spec k0) = ''''"
    and spec: "1 \<le> sint (spec_parallelism (tr_spec k0))" "snd (ParseCLI (Argv (tr_spec k0))) = None"
      "\<not> isl (ParseScript (tr_spec k0))"
    and initializer: "stage_at k0 tr = ''initialization'' \<Longrightarrow>
      \<exists>pods. e_listPods E tr (initializer_pods k0) = Inr pods
      \<and> (N \<le> length tr \<longrightarrow> (\<exists>pod rest. pods = pod # rest \<and> pi_phase pod = ''Succeeded''))
      \<and> (\<forall>pod \<in> set pods. pi_phase pod \<noteq> ''Failed'')
      \<and> (\<forall>pod \<in> set pods. \<forall>tr'. \<exists>buf out. e_readPodLogs E tr' (pi_name pod) = Inr buf
           \<and> e_unmarshalInspect E buf = Inr out \<and> \<not> too_few_vus (io_maxVUs out) (spec_parallelism (tr_spec k0)))"
    and accepts: "e_createJob E tr jb = None" "e_createService E tr svc = None"
      "e_setControllerReference E tr name = None"
    and jobs: "stage_at k0 tr = ''initialized'' \<Longrightarrow> e_getJob E tr (first_runner k0) = NotFound"
      "stage_at k0 tr = ''created'' \<Longrightarrow> e_getJob E tr (job_key (NewStarterJob k0 hs)) = NotFound"
    and pods: "N \<le> length tr \<Longrightarrow> stage_at k0 tr = ''created'' \<Longrightarrow> \<exists>ps. e_listPods E tr (ListOptions k0) = Inr ps
      \<and> running_pods ps = sint (spec_parallelism (tr_spec k0))"
    and services: "N \<le> length tr \<Longrightarrow> stage_at k0 tr = ''created'' \<Longrightarrow>
      \<exists>ss. e_listServices E tr (ListOptions k0) = Inr ss \<and> (\<forall>tr'. all_answer E tr' ss)"
    and finished: "N \<le> length tr \<Longrightarrow> stage_at k0 tr = ''started'' \<Longrightarrow>
      \<exists>js. e_listJobs E tr (ListOptions k0) = Inr js \<and> length js < 2147483648
      \<and> sint (spec_parallelism (tr_spec k0)) \<le> int (length (filter (\<lambda>j. ji_active j = 0) js))"
begin

text \<open>Calls that do not touch the status, made while the cluster need not be ready.\<close>

definition waits :: "trace \<Rightarrow> trace \<Rightarrow> bool" where
  "waits tr tr' \<longleftrightarrow> length tr < N \<and> (\<exists>cs. tr' = tr @ cs \<and> list_all no_patch cs)"

lemma waitsI:
  assumes "only no_patch m" and "length tr < N" and "list_all no_patch cs"
  shows "waits tr (snd (run_state m (tr @ cs)))"
proof -
  obtain a tr' where "run_state m (tr @ cs) = (a, tr')" by fastforce
  moreover from ensures_run [OF assms(1) this] obtain ds where "tr' = (tr @ cs) @ ds" "list_all no_patch ds" by blast
  ultimately show ?thesis using assms(2,3) by (auto simp: waits_def)
qed

lemma waits_prefix: "list_all no_patch cs \<Longrightarrow> waits (tr @ cs) tr' \<Longrightarrow> waits tr tr'"
  by (auto simp: waits_def)

lemma waits_phase: "waits tr tr' \<Longrightarrow> phase g S d tr \<Longrightarrow> phase g S d tr' \<and> length tr < N"
  unfolding waits_def using phase_no_patch by blast

text \<open>The trace after the handler of a stage has run on the stored test run.\<close>

abbreviation after_stage :: "cloud_client option \<Rightarrow> trace \<Rightarrow> trace" where
  "after_stage c tr \<equiv> snd (run_state (reconcile_stage E (with_status (status_at tr)) c) tr)"

text \<open>A run that is not one of a load zone, was not aborted and is not finalized.\<close>

definition ordinary :: "(string \<rightharpoonup> ConditionStatus) \<Rightarrow> bool" where
  "ordinary S \<longleftrightarrow> S ''CloudPLZTestRun'' = Some ConditionFalse \<and> S ''CloudTestRunAborted'' = Some ConditionFalse
     \<and> S ''CloudTestRunFinalized'' \<noteq> Some ConditionTrue"

text \<open>A client is there when it is needed, and the cloud does not ask for an abort.\<close>

definition client_ok :: "(string \<rightharpoonup> ConditionStatus) \<Rightarrow> cloud_client option \<Rightarrow> bool" where
  "client_ok S c \<longleftrightarrow> (S ''CloudTestRun'' = Some ConditionTrue \<longrightarrow> c \<noteq> None
     \<and> (\<forall>st tr. \<exists>cs. run_state (ShouldAbort E (with_status st) c) tr = (Inr False, tr @ cs) \<and> list_all no_patch cs))"

text \<open>The settings of the aggregation can be decoded if there is a cloud test run.\<close>

definition data_ok :: "string \<times> string \<Rightarrow> bool" where
  "data_ok d \<longleftrightarrow> (fst d \<noteq> '''' \<longrightarrow> \<not> isl (DecodeAggregationConfig (snd d)))"

lemma send_events_run:
  assumes "c \<noteq> None"
  shows "\<exists>cs. run_state (send_events E c i ev) tr = (Inr (), tr @ cs) \<and> list_all no_patch cs"
  using assms by (auto simp: send_events_def SendTestRunEvents_def Let_def split: option.splits)

lemma update_condition_run:
  "run_state (update_condition E k6 t s) tr = (TestRun_UpdateCondition (e_meta E) (e_clock E tr 0) k6 t s, tr @ [ReadClock])"
  by (simp add: update_condition_def read_clock_def)

section \<open>Stage: initialization\<close>

text \<open>The inspection is ready once the initializer has succeeded.\<close>

lemma inspection:
  assumes "phase ''initialization'' S d tr"
  obtains (Ready) calls out where
    "run_state (inspectTestRun E (with_status st)) tr = (InspectReady out, tr @ calls)" "list_all no_patch calls"
    "\<not> too_few_vus (io_maxVUs out) (spec_parallelism (tr_spec k0))"
  | (Not_ready) "length tr < N"
    "run_state (inspectTestRun E (with_status st)) tr = (InspectNotReady, tr @ [ListPods (initializer_pods k0)])"
proof -
  obtain pods where pods: "e_listPods E tr (initializer_pods k0) = Inr pods"
    "N \<le> length tr \<longrightarrow> (\<exists>pod rest. pods = pod # rest \<and> pi_phase pod = ''Succeeded'')"
    "\<And>pod. pod \<in> set pods \<Longrightarrow> pi_phase pod \<noteq> ''Failed''"
    "\<And>pod tr'. pod \<in> set pods \<Longrightarrow> \<exists>buf out. e_readPodLogs E tr' (pi_name pod) = Inr buf
       \<and> e_unmarshalInspect E buf = Inr out \<and> \<not> too_few_vus (io_maxVUs out) (spec_parallelism (tr_spec k0))"
    using initializer [of tr] phaseD(1) [OF assms] by auto
  show thesis
  proof (cases "\<exists>pod rest. pods = pod # rest \<and> pi_phase pod = ''Succeeded''")
    case True
    then obtain pod rest where pod: "pods = pod # rest" "pi_phase pod = ''Succeeded''" by blast
    let ?calls = "[ListPods (initializer_pods k0), ReadPodLogs (tr_namespace k0) (pi_name pod)]"
    obtain buf out where "e_readPodLogs E (tr @ [ListPods (initializer_pods k0)]) (pi_name pod) = Inr buf"
      "e_unmarshalInspect E buf = Inr out" "\<not> too_few_vus (io_maxVUs out) (spec_parallelism (tr_spec k0))"
      using pods(4) [of pod "tr @ [ListPods (initializer_pods k0)]"] pod(1) by auto
    then show thesis
      using pods(1) pod by (intro Ready [of out ?calls]) (simp_all add: inspectTestRun_def)
  next
    case False
    then have "run_state (inspectTestRun E (with_status st)) tr = (InspectNotReady, tr @ [ListPods (initializer_pods k0)])"
      using pods(1,3) by (cases pods) (auto simp: inspectTestRun_def)
    then show thesis using False pods(2) by (intro Not_ready) auto
  qed
qed

lemma wait_for_initializer_no_patch: "only no_patch (wait_for_initializer E k c v)"
  unfolding wait_for_initializer_def
  by (intro only_rules no_patches.unless_send_events no_patches.only_finish no_patch_simps)

lemma initialization_waits:
  assumes ph: "phase ''initialization'' S d tr" and "length tr < N"
    and "run_state (inspectTestRun E (with_status (status_at tr))) tr = (InspectNotReady, tr @ [ListPods (initializer_pods k0)])"
  shows "waits tr (after_stage c tr)"
proof -
  let ?v = "\<lparr>v_result = after_seconds 5, v_ready = False, v_error = None\<rparr>"
  let ?list = "[ListPods (initializer_pods k0)]"
  have "after_stage c tr = snd (run_state (wait_for_initializer E (with_status (status_at tr)) c ?v) (tr @ ?list))"
    using assms(3) phaseD(1) [OF ph]
    by (simp add: reconcile_stage_def reconcile_initialization_def RunValidations_def unless_panic_def)
  moreover have "list_all no_patch ?list" by simp
  ultimately show ?thesis using waitsI [OF wait_for_initializer_no_patch assms(2)] by metis
qed

section \<open>Stage: none\<close>

text \<open>The first reconciliation: the conditions, written to an empty status.\<close>

lemma UpdateCondition_absent:
  assumes "t \<in> set operator_condition_types" and "t \<notin> set (types_of cs)"
  shows "\<exists>r. UpdateCondition (e_meta E) now cs t s =
    Inr (cs @ [\<lparr>ctype = t, cstatus = s, ctime = now, creason = r, cmessage = ''''\<rparr>])"
proof -
  obtain r where "gomap_get reasons (t @ status_string s) = Some r" using operator_reasons [OF assms(1)] by blast
  then show ?thesis
    using set_absent [of cs "\<lparr>ctype = t, cstatus = s, ctime = now, creason = r, cmessage = ''''\<rparr>"] assms(2)
    by (simp add: UpdateCondition_def lookup_None_iff)
qed

lemma initialize_fresh:
  obtains ps where "Initialize (e_meta E) clk k0 = Inr (with_status ((tr_status k0)\<lparr>st_conditions := ps\<rparr>))"
    "distinct (types_of ps)" "\<forall>c \<in> set ps. ctime c \<in> {clk 0, clk 1, clk 2}"
    "status_of (e_meta E) ps = start_statuses"
proof -
  let ?ini = "initial_conditions (clk 0)"
  have "\<exists>r. UpdateCondition (e_meta E) (clk 1) ?ini ''CloudTestRunAborted'' ConditionFalse = Inr (?ini @
      [\<lparr>ctype = ''CloudTestRunAborted'', cstatus = ConditionFalse, ctime = clk 1, creason = r, cmessage = ''''\<rparr>])"
    by (rule UpdateCondition_absent) (auto simp: operator_condition_types_def initial_conditions_def)
  then obtain c1 r1 where 1: "UpdateCondition (e_meta E) (clk 1) ?ini ''CloudTestRunAborted'' ConditionFalse = Inr c1"
    "c1 = ?ini @ [\<lparr>ctype = ''CloudTestRunAborted'', cstatus = ConditionFalse, ctime = clk 1, creason = r1, cmessage = ''''\<rparr>]"
    by blast
  have "\<exists>r. UpdateCondition (e_meta E) (clk 2) c1 ''CloudPLZTestRun'' ConditionFalse = Inr (c1 @
      [\<lparr>ctype = ''CloudPLZTestRun'', cstatus = ConditionFalse, ctime = clk 2, creason = r, cmessage = ''''\<rparr>])"
    by (rule UpdateCondition_absent) (auto simp: operator_condition_types_def initial_conditions_def 1(2))
  then obtain c2 r2 where 2: "UpdateCondition (e_meta E) (clk 2) c1 ''CloudPLZTestRun'' ConditionFalse = Inr c2"
    "c2 = c1 @ [\<lparr>ctype = ''CloudPLZTestRun'', cstatus = ConditionFalse, ctime = clk 2, creason = r2, cmessage = ''''\<rparr>]"
    by blast
  show thesis
  proof (rule that [of c2])
    show "Initialize (e_meta E) clk k0 = Inr (with_status ((tr_status k0)\<lparr>st_conditions := c2\<rparr>))"
      using fresh(2) 1(1) 2(1) by (simp add: Initialize_def TestRun_UpdateCondition_def set_conditions_def Let_def)
    show "status_of (e_meta E) c2 = start_statuses"
      by (rule ext) (simp add: 1(2) 2(2) initial_conditions_def status_of_def start_statuses_def)
  qed (auto simp: 1(2) 2(2) initial_conditions_def)
qed

lemma conditions_written:
  assumes ph: "phase '''' Map.empty ('''', '''') tr" and start: "status_at tr = tr_status k0"
  obtains p b calls where "Initialize (e_meta E) (e_clock E tr) k0 = Inr (with_status p)"
    "run_state (UpdateStatus E (with_status p)) (tr @ [ReadClock]) =
      ((with_status (status_at (tr @ ReadClock # calls)), b, None), tr @ ReadClock # calls)"
    "phase '''' start_statuses ('''', '''') (tr @ ReadClock # calls)"
proof -
  let ?M = "e_meta E" and ?clk = "e_clock E tr"
  obtain ps where ps: "Initialize ?M ?clk k0 = Inr (with_status ((tr_status k0)\<lparr>st_conditions := ps\<rparr>))"
    "distinct (types_of ps)" "\<forall>c \<in> set ps. ctime c \<in> {?clk 0, ?clk 1, ?clk 2}"
    "status_of ?M ps = start_statuses" by (rule initialize_fresh)
  define p where "p = (tr_status k0)\<lparr>st_conditions := ps\<rparr>"
  have p: "st_conditions p = ps" "st_stage p = ''''" "st_testRunID p = ''''" "st_aggregationVars p = ''''"
    using fresh(1) by (simp_all add: p_def zero_status_def)
  have "?clk i \<le> ?clk 4" if "i < 4" for i using clock_reads [of i 4 tr] that by simp
  then have "\<forall>c \<in> set ps. ctime c \<le> ?clk 4" using ps(3) by fastforce
  then have proposal: "revises ?M (?clk 0) (?clk 4) (st_conditions (status_at tr)) (st_conditions p)"
    unfolding start using ps(2) fresh(1) by (simp add: p zero_status_def revises_Nil)
  obtain b calls where
    "run_state (UpdateStatus E (with_status p)) (tr @ [ReadClock]) =
      ((with_status (status_at (tr @ [ReadClock] @ calls)), b, None), tr @ [ReadClock] @ calls)"
    "phase (st_stage p) (status_of ?M (st_conditions p)) (st_testRunID p, st_aggregationVars p) (tr @ [ReadClock] @ calls)"
    "st_stage p \<noteq> '''' \<or> status_of ?M (st_conditions p) \<noteq> Map.empty \<Longrightarrow> b"
    by (rule UpdateStatus_stores [OF ph _ proposal, of "[ReadClock]"]) (simp_all add: p)
  then show thesis using that [of p] ps(1,4) by (simp add: p p_def [symmetric])
qed

lemma record_warnings_run: "run_state (record_warnings ws) tr = ((), tr @ map RecordEvent ws)"
  by (induction ws arbitrary: tr) simp_all

lemma InitializeJobs_no_patch:
  "\<exists>out cs. run_state (InitializeJobs E (with_status st)) tr = (out, tr @ cs) \<and> list_all no_patch cs"
  by (auto simp: InitializeJobs_def Let_def finish_def accepts split: sum.splits prod.splits)

text \<open>The initializer is skipped if the test run says so and has no cloud output.\<close>

lemma begin_initialization_moves:
  assumes ph: "phase '''' S d tr"
  defines "tr_end \<equiv> snd (run_state (begin_initialization E (with_status (status_at tr))) tr)"
  shows "\<not> HasCloudOut (fst (ParseCLI (Argv (tr_spec k0)))) \<and> phase ''initialized'' S d tr_end
    \<or> phase ''initialization'' S d tr_end"
proof (cases "\<not> HasCloudOut (fst (ParseCLI (Argv (tr_spec k0)))) \<and> IsInitializerDisabled k0")
  case True
  obtain calls where
    "run_state (UpdateStatus E (set_stage ''initialized'' (with_status (status_at tr)))) tr =
      ((with_status (status_at (tr @ calls)), True, None), tr @ calls)"
    "phase ''initialized'' S d (tr @ calls)"
    by (rule move_and_patch [OF ph, of "''initialized''"]) (auto simp: stage_step_def)
  then show ?thesis
    using True by (simp add: tr_end_def begin_initialization_def IsInitializerDisabled_def finish_def)
next
  case False
  obtain calls where upd:
    "run_state (UpdateStatus E (set_stage ''initialization'' (with_status (status_at tr)))) tr =
      ((with_status (status_at (tr @ calls)), True, None), tr @ calls)"
    "phase ''initialization'' S d (tr @ calls)"
    by (rule move_and_patch [OF ph, of "''initialization''"]) (auto simp: stage_step_def)
  obtain out cs where cs: "run_state (InitializeJobs E (with_status (status_at (tr @ calls)))) (tr @ calls) =
      (out, (tr @ calls) @ cs)" "list_all no_patch cs"
    using InitializeJobs_no_patch by metis
  have "tr_end = (tr @ calls) @ cs"
    using upd(1) False cs(1) unfolding tr_end_def begin_initialization_def
    by (simp add: IsInitializerDisabled_def) blast
  then show ?thesis using phase_no_patch [OF upd(2) cs(2)] by simp
qed

lemma fresh_to_initialization:
  assumes "status_at tr = tr_status k0"
  shows "\<not> HasCloudOut (fst (ParseCLI (Argv (tr_spec k0)))) \<and> phase ''initialized'' start_statuses ('''', '''') (after_stage c tr)
    \<or> phase ''initialization'' start_statuses ('''', '''') (after_stage c tr)"
proof -
  define ws where "ws = fst (Validate (tr_spec k0))"
  have valid: "Validate (tr_spec k0) = (ws, None)" using spec(2) by (simp add: ws_def Validate_def prod_eq_iff)
  define tr1 where "tr1 = tr @ map RecordEvent ws"
  have "list_all no_patch (map RecordEvent ws)" by (simp add: list_all_iff)
  then have st1: "status_at tr1 = tr_status k0" unfolding tr1_def using assms by (simp only: status_at_no_patch)
  then have "phase '''' Map.empty ('''', '''') tr1"
    using fresh(1) by (simp add: phase_def past_def zero_status_def status_of_def fun_eq_iff)
  then obtain p b calls where p: "Initialize (e_meta E) (e_clock E tr1) k0 = Inr (with_status p)"
    "run_state (UpdateStatus E (with_status p)) (tr1 @ [ReadClock]) =
      ((with_status (status_at (tr1 @ ReadClock # calls)), b, None), tr1 @ ReadClock # calls)"
    "phase '''' start_statuses ('''', '''') (tr1 @ ReadClock # calls)"
    by (rule conditions_written [OF _ st1])
  define tr2 where "tr2 = tr1 @ ReadClock # calls"
  have "snd (run_state (reconcile_new E k0) tr) = snd (run_state (begin_initialization E (with_status (status_at tr2))) tr2)"
    using p(1,2) valid
    by (simp add: reconcile_new_def record_warnings_run unless_panic_def initialize_conditions_def read_clock_def
        tr1_def [symmetric] tr2_def)
  moreover have "st_stage (status_at tr) = ''''" using assms fresh(1) by (simp add: zero_status_def)
  ultimately have "after_stage c tr = snd (run_state (begin_initialization E (with_status (status_at tr2))) tr2)"
    using assms by (simp add: reconcile_stage_def)
  then show ?thesis using begin_initialization_moves [OF p(3)] by (simp add: tr2_def)
qed

section \<open>Stage: initialized\<close>

lemma runner_job_built:
  assumes ph: "phase g S d tr" and "ordinary S" and "data_ok d" and "i \<le> sint (spec_parallelism (tr_spec k0))"
  obtains j where "NewRunnerJob (e_meta E) (with_status (status_at tr)) i ti = Inr j"
proof -
  let ?k = "with_status (status_at tr)" and ?n = "sint (spec_parallelism (tr_spec k0))"
  note known = phaseD [OF ph]
  have "\<exists>fragments. (if ?n > 1 then NewCommandFragments i ?n else Inr []) = Inr fragments"
    using assms(4) by (auto simp: NewCommandFragments_def)
  then obtain fragments where "(if ?n > 1 then NewCommandFragments i ?n else Inr []) = Inr fragments" ..
  moreover obtain script where "ParseScript (tr_spec k0) = Inr script"
    using spec(3) by (cases "ParseScript (tr_spec k0)") auto
  moreover have "TestRunID ?k = fst d" using known(3) fresh(2) by (simp add: TestRunID_def)
  then have "\<exists>env. runner_cloud_env (e_meta E) ?k ti = Inr env"
    using assms(2,3) known(2,4)
    by (cases "DecodeAggregationConfig (snd d)") (auto simp: runner_cloud_env_def data_ok_def ordinary_def)
  then obtain env where "runner_cloud_env (e_meta E) ?k ti = Inr env" ..
  ultimately show thesis
    using NewRunnerJob_Inr [of ?k i fragments script "e_meta E" ti env] that by (auto cong: if_cong)
qed

lemma launch_tests_succeed:
  assumes "phase g S d tr" and "ordinary S" and "data_ok d"
    and "\<forall>i \<in> set is. i \<le> sint (spec_parallelism (tr_spec k0))"
  shows "\<exists>cs. run_state (launch_tests E (with_status (status_at tr)) ti is) tr' = (None, tr' @ cs) \<and> list_all no_patch cs"
  using assms(4)
proof (induction "is" arbitrary: tr')
  case (Cons i "is")
  let ?k = "with_status (status_at tr)"
  obtain j where j: "NewRunnerJob (e_meta E) ?k i ti = Inr j"
    using runner_job_built [OF assms(1-3), of i] Cons.prems by auto
  let ?cs = "launch_calls (e_meta E) ?k ti i"
  obtain cs where "run_state (launch_tests E ?k ti is) (tr' @ ?cs) = (None, (tr' @ ?cs) @ cs)" "list_all no_patch cs"
    using Cons.IH [of "tr' @ ?cs"] Cons.prems by (simp only: list.set ball_simps) blast
  then show ?case
    by (intro exI [of _ "?cs @ cs"]) (simp add: launchTest_def launch_calls_def j accepts Let_def)
qed simp

lemma create_jobs_moves:
  fixes c :: "cloud_client option" and ti :: TokenInfo
  assumes ph: "phase ''initialized'' S d tr" and ok: "ordinary S" "data_ok d"
  defines "tr_end \<equiv> snd (run_state (create_jobs_with E (with_status (status_at tr)) c ti) tr)"
  shows "phase ''created'' S d tr_end \<and> runners_created E k0 (fst d) tr_end"
proof -
  let ?k = "with_status (status_at tr)" and ?n = "sint (spec_parallelism (tr_spec k0))"
  let ?nn = "\<lparr>nn_namespace = tr_namespace k0, nn_name = tr_name k0 @ ''-1''\<rparr>"
  obtain cs where cs: "run_state (launch_tests E ?k ti [1 .. ?n]) (tr @ [GetJob ?nn]) = (None, (tr @ [GetJob ?nn]) @ cs)"
    "list_all no_patch cs"
    using launch_tests_succeed [OF ph ok, of "[1 .. ?n]" ti "tr @ [GetJob ?nn]"] by auto
  define tr1 where "tr1 = tr @ GetJob ?nn # cs"
  have runners: "runners_created E k0 (fst d) tr1"
    unfolding runners_created_def
  proof (intro allI impI)
    fix i assume "1 \<le> i \<and> i \<le> ?n"
    then obtain j where j: "NewRunnerJob (e_meta E) ?k i ti = Inr j" "CreateJob j \<in> set (launch_calls (e_meta E) ?k ti i)"
      "i \<in> set [1 .. ?n]"
      using runner_job_built [OF ph ok, of i ti] by (auto simp: launch_calls_def)
    then have "CreateJob j \<in> set tr1"
      using launch_tests_run [OF cs(1)] by (auto simp: tr1_def)
    then show "\<exists>st ti j. st_testRunID st = fst d \<and> NewRunnerJob (e_meta E) (with_status st) i ti = Inr j \<and> CreateJob j \<in> set tr1"
      using j(1) phaseD(3) [OF ph] by blast
  qed
  have calls: "list_all no_patch (GetJob ?nn # cs)" using cs(2) by simp
  have ph1: "phase ''initialized'' S d tr1" unfolding tr1_def by (rule phase_no_patch [OF ph calls])
  have st1: "status_at tr1 = status_at tr" unfolding tr1_def by (rule status_at_no_patch [OF calls])
  have spec1: "run_state (createJobSpecs E ?k ti) tr = ((no_requeue, False, None), tr1)"
    using cs jobs(1) [of tr] phaseD(1) [OF ph] by (simp add: createJobSpecs_def Let_def first_runner_def tr1_def)
  obtain upd where
    "run_state (UpdateStatus E (set_stage ''created'' (with_status (status_at tr1)))) tr1 =
      ((with_status (status_at (tr1 @ upd)), True, None), tr1 @ upd)"
    "phase ''created'' S d (tr1 @ upd)"
    by (rule move_and_patch [OF ph1, of "''created''"]) (auto simp: stage_step_def HasPrefix_def)
  then show ?thesis
    using spec1 st1 created_mono(1) [OF _ runners, of "tr1 @ upd"]
    by (simp add: tr_end_def create_jobs_with_def finish_def)
qed

section \<open>Stage: created\<close>

lemma launch_starter_moves:
  fixes hs :: "string list"
  assumes ph: "phase ''created'' S d tr"
  defines "tr_end \<equiv> snd (run_state (launch_starter E (with_status (status_at tr)) hs) tr)"
  shows "phase ''started'' (S(''TestRunRunning'' \<mapsto> ConditionTrue)) d tr_end \<and> starter_created k0 tr_end"
proof -
  let ?j = "NewStarterJob (with_status (status_at tr)) hs"
  let ?cs = "[SetControllerReference (om_name (job_meta ?j)), GetJob (job_key ?j), CreateJob ?j]"
  define tr3 where "tr3 = tr @ ?cs"
  have key: "job_key ?j = job_key (NewStarterJob k0 hs)" by (simp add: job_key_def NewStarterJob_meta)
  have "run_state (createJobIfNotExists E ?j) (tr @ [SetControllerReference (om_name (job_meta ?j))]) = ((True, None), tr3)"
    using jobs(2) [of "tr @ [SetControllerReference (om_name (job_meta ?j))]" hs] phaseD(1) [OF ph]
    by (simp add: createJobIfNotExists_def accepts key tr3_def)
  note create = this [unfolded tr3_def]
  have ph3: "phase ''created'' S d tr3" unfolding tr3_def by (rule phase_no_patch [OF ph]) simp
  have st3: "status_at tr3 = status_at tr" unfolding tr3_def by (rule status_at_no_patch) simp
  note known = phaseD [OF ph3]
  obtain ps calls where upd:
    "\<And>st. st_conditions st = st_conditions (status_at tr3) \<Longrightarrow>
      TestRun_UpdateCondition (e_meta E) (e_clock E tr3 0) (with_status st) ''TestRunRunning'' ConditionTrue =
        Inr (with_status (st\<lparr>st_conditions := ps\<rparr>))"
    "\<And>p. st_conditions p = ps \<Longrightarrow> st_stage p = ''started'' \<Longrightarrow> st_testRunID p = fst d \<Longrightarrow> st_aggregationVars p = snd d \<Longrightarrow>
      run_state (UpdateStatus E (with_status p)) (tr3 @ [ReadClock]) =
        ((with_status (status_at (tr3 @ ReadClock # calls)), True, None), tr3 @ ReadClock # calls)"
    "phase ''started'' (S(''TestRunRunning'' \<mapsto> ConditionTrue)) d (tr3 @ ReadClock # calls)"
    by (rule update_and_patch [OF ph3, of "''TestRunRunning''" ConditionTrue "''started''" d])
      (auto simp: stage_step_def operator_condition_types_def)
  have "run_state (update_condition E (set_stage ''started'' (with_status (status_at tr))) ''TestRunRunning'' ConditionTrue) tr3 =
      (Inr (with_status ((status_at tr)\<lparr>st_stage := ''started'', st_conditions := ps\<rparr>)), tr3 @ [ReadClock])"
    using upd(1) [of "(status_at tr)\<lparr>st_stage := ''started''\<rparr>"] by (simp add: update_condition_run set_stage_def st3)
  then have "tr_end = tr3 @ ReadClock # calls"
    using upd(2) [of "(status_at tr)\<lparr>st_stage := ''started'', st_conditions := ps\<rparr>"] known(3,4) st3
    unfolding tr_end_def tr3_def
    by (simp add: launch_starter_def Let_def accepts create unless_panic_def finish_def)
  then show ?thesis using upd(3) by (auto simp: starter_created_def tr3_def)
qed

text \<open>Both lists of \<open>StartJobs\<close> are as they should be, or the cluster need not be ready.\<close>

lemma hostnames_no_patch: "only no_patch (hostnames E b opts)"
  unfolding hostnames_def by (intro only_rules no_patches.hostnames_loop_only) simp_all

lemma wait_for_pods_no_patch: "only no_patch (wait_for_pods E k c)"
  unfolding wait_for_pods_def by (intro only_rules no_patches.unless_send_events no_patches.only_finish no_patch_simps)

lemma runners_ready:
  assumes "phase ''created'' S d tr" and "N \<le> length tr"
  obtains ps hs calls where "e_listPods E tr (ListOptions k0) = Inr ps"
    "running_pods ps = sint (spec_parallelism (tr_spec k0))"
    "run_state (hostnames E True (ListOptions k0)) (tr @ [ListPods (ListOptions k0)]) =
      (Inr hs, (tr @ [ListPods (ListOptions k0)]) @ calls)"
proof -
  let ?tr1 = "tr @ [ListPods (ListOptions k0)]"
  obtain ss where ss: "e_listServices E ?tr1 (ListOptions k0) = Inr ss" "\<And>tr'. all_answer E tr' ss"
    using services [of ?tr1] phaseD(1) [OF assms(1)] assms(2) by auto
  obtain r tr' where loop: "run_state (hostnames_loop E True ss []) (?tr1 @ [ListServices (ListOptions k0)]) = (r, tr')"
    by fastforce
  have "run_state (hostnames E True (ListOptions k0)) ?tr1 =
      (Inr (map si_clusterIP ss), ?tr1 @ [ListServices (ListOptions k0)] @ status_requests ss)"
    using hostnames_loop_run [OF loop] ss loop by (cases r) (auto simp: hostnames_def)
  then show thesis
    using pods [of tr] phaseD(1) [OF assms(1)] assms(2) that by auto
qed

lemma created_to_started:
  assumes ph: "phase ''created'' S d tr" and "ordinary S"
  shows "phase ''started'' (S(''TestRunRunning'' \<mapsto> ConditionTrue)) d (after_stage c tr) \<and> starter_created k0 (after_stage c tr)
    \<or> waits tr (after_stage c tr)"
proof -
  let ?k = "with_status (status_at tr)" and ?list = "ListPods (ListOptions k0)"
  let ?tr1 = "tr @ [?list]"
  have plz: "\<not> IsTrue (e_meta E) ?k ''CloudPLZTestRun''"
    using assms(2) phaseD(2) [OF ph] by (simp add: ordinary_def)
  have start: "after_stage c tr = snd (run_state (StartJobs E ?k c) tr)"
    using phaseD(1) [OF ph] by (simp add: reconcile_stage_def)
  show ?thesis
  proof (cases "\<exists>ps hs calls. e_listPods E tr (ListOptions k0) = Inr ps
      \<and> running_pods ps = sint (spec_parallelism (tr_spec k0))
      \<and> run_state (hostnames E True (ListOptions k0)) ?tr1 = (Inr hs, ?tr1 @ calls)")
    case True
    then obtain ps hs calls where ready: "e_listPods E tr (ListOptions k0) = Inr ps"
      "running_pods ps = sint (spec_parallelism (tr_spec k0))"
      "run_state (hostnames E True (ListOptions k0)) ?tr1 = (Inr hs, ?tr1 @ calls)" by blast
    have calls: "list_all no_patch (?list # calls)"
      using ensures_run [OF hostnames_no_patch ready(3)] by auto
    have "after_stage c tr =
        snd (run_state (launch_starter E (with_status (status_at (tr @ ?list # calls))) hs) (tr @ ?list # calls))"
      unfolding status_at_no_patch [OF calls] start
      using plz ready by (simp add: StartJobs_def setup_and_start_def)
    then show ?thesis using launch_starter_moves [OF phase_no_patch [OF ph calls]] by simp
  next
    case False
    then have early: "length tr < N" using runners_ready [OF ph] by (metis not_le)
    obtain r tr' where hosts: "run_state (hostnames E True (ListOptions k0)) ?tr1 = (r, tr')" by fastforce
    obtain calls where calls: "tr' = ?tr1 @ calls" "list_all no_patch calls"
      using ensures_run [OF hostnames_no_patch hosts] by blast
    have "waits tr (after_stage c tr)"
    proof (cases "e_listPods E tr (ListOptions k0)")
      case (Inl e)
      then show ?thesis using early unfolding start by (simp add: StartJobs_def finish_def waits_def)
    next
      case (Inr ps)
      show ?thesis
      proof (cases "running_pods ps = sint (spec_parallelism (tr_spec k0))")
        case True
        with False Inr hosts calls(1) obtain e where "r = Inl e" by (cases r) auto
        then show ?thesis
          using True Inr hosts calls early unfolding start by (simp add: StartJobs_def finish_def waits_def)
      next
        case wrong: False
        have "after_stage c tr = snd (run_state (wait_for_pods E ?k c) ?tr1)"
          unfolding start using wrong Inr by (simp add: StartJobs_def)
        then show ?thesis using waitsI [OF wait_for_pods_no_patch early, of "[?list]"] by simp
      qed
    qed
    then show ?thesis ..
  qed
qed

section \<open>Stage: started\<close>

lemma FinishJobs_run:
  assumes "IsTrue (e_meta E) k ''CloudTestRun'' \<Longrightarrow> c \<noteq> None"
  obtains cs where "list_all no_patch cs" "run_state (FinishJobs E k c) tr =
    (Inr (case e_listJobs E tr (ListOptions k) of Inl _ \<Rightarrow> False
          | Inr js \<Rightarrow> \<not> sint (fst (count_finished js (0, 0))) < sint (spec_parallelism (tr_spec k))), tr @ cs)"
proof (cases "e_listJobs E tr (ListOptions k)")
  case (Inl e)
  then show thesis by (intro that [of "[ListJobs (ListOptions k)]"]) (simp_all add: FinishJobs_def)
next
  case (Inr js)
  obtain finished failed where counts: "count_finished js (0, 0) = (finished, failed)" by fastforce
  show thesis
  proof (cases "IsTrue (e_meta E) k ''CloudTestRun'' \<and> sint failed > 0")
    case True
    let ?ev = "runner_error_events (finish_message finished (spec_parallelism (tr_spec k)) failed)"
    obtain cs where "run_state (send_events E c (TestRunID k) ?ev) (tr @ [ListJobs (ListOptions k)]) =
        (Inr (), (tr @ [ListJobs (ListOptions k)]) @ cs)" "list_all no_patch cs"
      using send_events_run assms True by blast
    then show thesis
      using Inr counts True by (intro that [of "ListJobs (ListOptions k) # cs"]) (simp_all add: FinishJobs_def Let_def)
  next
    case False
    then show thesis
      using Inr counts by (intro that [of "[ListJobs (ListOptions k)]"]) (auto simp: FinishJobs_def Let_def)
  qed
qed

lemma FinishJobs_result:
  assumes ph: "phase ''started'' S d tr" and "client_ok S c"
  obtains b cs where "b \<or> length tr < N" "list_all no_patch cs"
    "run_state (FinishJobs E (with_status (status_at tr)) c) tr = (Inr b, tr @ cs)"
proof -
  let ?k = "with_status (status_at tr)"
  define b where "b \<longleftrightarrow> (case e_listJobs E tr (ListOptions ?k) of Inl _ \<Rightarrow> False
    | Inr js \<Rightarrow> \<not> sint (fst (count_finished js (0, 0))) < sint (spec_parallelism (tr_spec ?k)))"
  have "IsTrue (e_meta E) ?k ''CloudTestRun'' \<Longrightarrow> c \<noteq> None"
    using assms(2) phaseD(2) [OF ph] by (auto simp: client_ok_def)
  then obtain cs where cs: "list_all no_patch cs" "run_state (FinishJobs E ?k c) tr = (Inr b, tr @ cs)"
    unfolding b_def by (rule FinishJobs_run)
  have b if late: "N \<le> length tr"
  proof -
    obtain js where js: "e_listJobs E tr (ListOptions k0) = Inr js" "length js < 2147483648"
      "sint (spec_parallelism (tr_spec k0)) \<le> int (length (filter (\<lambda>j. ji_active j = 0) js))"
      using finished [of tr] phaseD(1) [OF ph] late by auto
    have "length (filter (\<lambda>j. ji_active j = 0) js) < 2147483648"
      by (rule le_less_trans [OF length_filter_le js(2)])
    then have "sint (fst (count_finished js (0, 0))) = int (length (filter (\<lambda>j. ji_active j = 0) js))"
      by (simp add: count_finished_fst sint_of_nat_small)
    then show ?thesis using js by (simp add: b_def)
  qed
  then show thesis using that [OF _ cs] by (meson not_le)
qed

lemma started_to_stopped:
  assumes ph: "phase ''started'' S d tr" and ok: "ordinary S" "client_ok S c"
    and running: "S ''TestRunRunning'' = Some ConditionTrue"
  shows "phase ''stopped'' (S(''TestRunRunning'' \<mapsto> ConditionFalse)) d (after_stage c tr) \<or> waits tr (after_stage c tr)"
proof -
  let ?k = "with_status (status_at tr)"
  obtain b cs where b: "b \<or> length tr < N" "list_all no_patch cs"
    "run_state (FinishJobs E ?k c) tr = (Inr b, tr @ cs)"
    by (rule FinishJobs_result [OF ph ok(2)])
  have watch: "after_stage c tr = snd (run_state (watch_run E ?k c) tr)"
    using phaseD(1,2) [OF ph] ok(1) by (simp add: reconcile_stage_def reconcile_started_def ordinary_def)
  define tr1 where "tr1 = tr @ cs"
  have ph1: "phase ''started'' S d tr1" unfolding tr1_def by (rule phase_no_patch [OF ph b(2)])
  have st1: "status_at tr1 = status_at tr" unfolding tr1_def by (rule status_at_no_patch [OF b(2)])
  note known = phaseD [OF ph1]
  show ?thesis
  proof (cases b)
    case True
    obtain ps calls where upd:
      "\<And>st. st_conditions st = st_conditions (status_at tr1) \<Longrightarrow>
        TestRun_UpdateCondition (e_meta E) (e_clock E tr1 0) (with_status st) ''TestRunRunning'' ConditionFalse =
          Inr (with_status (st\<lparr>st_conditions := ps\<rparr>))"
      "\<And>p. st_conditions p = ps \<Longrightarrow> st_stage p = ''stopped'' \<Longrightarrow> st_testRunID p = fst d \<Longrightarrow> st_aggregationVars p = snd d \<Longrightarrow>
        run_state (UpdateStatus E (with_status p)) (tr1 @ [ReadClock]) =
          ((with_status (status_at (tr1 @ ReadClock # calls)), True, None), tr1 @ ReadClock # calls)"
      "phase ''stopped'' (S(''TestRunRunning'' \<mapsto> ConditionFalse)) d (tr1 @ ReadClock # calls)"
      by (rule update_and_patch [OF ph1, of "''TestRunRunning''" ConditionFalse "''stopped''" d])
        (auto simp: stage_step_def operator_condition_types_def)
    have "after_stage c tr = snd (run_state (mark_stopped E ?k) tr1)"
      using b(3) True unfolding watch by (simp add: watch_run_def unless_panic_def tr1_def)
    also have "\<dots> = tr1 @ ReadClock # calls"
      using upd(1) [of "status_at tr"] upd(2) [of "(status_at tr)\<lparr>st_conditions := ps, st_stage := ''stopped''\<rparr>"]
        known(2,3,4) running st1
      by (simp add: mark_stopped_def update_condition_run unless_panic_def finish_def set_stage_def)
    finally show ?thesis using upd(3) by simp
  next
    case False
    have "\<exists>ds. after_stage c tr = tr1 @ ds \<and> list_all no_patch ds"
    proof (cases "IsTrue (e_meta E) ?k ''CloudTestRun''")
      case True
      then obtain ds where "run_state (ShouldAbort E ?k c) tr1 = (Inr False, tr1 @ ds)" "list_all no_patch ds"
        using ok(2) phaseD(2) [OF ph] unfolding client_ok_def by (auto simp del: status_known) (metis status_known(1))
      then show ?thesis
        using b(3) False unfolding watch by (auto simp: watch_run_def unless_panic_def finish_def tr1_def)
    next
      case no_cloud: False
      then show ?thesis
        using b(3) False unfolding watch by (auto simp: watch_run_def unless_panic_def finish_def tr1_def)
    qed
    then show ?thesis using False b(1,2) by (auto simp: waits_def tr1_def)
  qed
qed

section \<open>The whole reconciliation\<close>

abbreviation after_reconcile :: "trace \<Rightarrow> trace" where
  "after_reconcile tr \<equiv> snd (run_state (Reconcile E (NamespacedName k0)) tr)"

lemma Reconcile_stored:
  "after_reconcile tr = snd (run_state (reconcile E (with_status (status_at tr))) (tr @ [GetTestRun (NamespacedName k0)]))"
  using spec(1) get [of tr] by (simp add: Reconcile_def stored_def)

text \<open>A reconciliation hands the stored test run to the handler of its stage, or it waits.\<close>

definition handled :: "(string \<rightharpoonup> ConditionStatus) \<Rightarrow> string \<times> string \<Rightarrow> bool" where
  "handled S d \<longleftrightarrow> ordinary S \<and> (\<forall>g tr. phase g S d tr \<longrightarrow> waits tr (after_reconcile tr)
     \<or> (\<exists>c cs. client_ok S c \<and> list_all no_patch cs \<and> after_reconcile tr = after_stage c (tr @ cs)))"

lemma handled_stage:
  assumes "handled S d" and "phase g S d tr"
    and stage: "\<And>c tr. client_ok S c \<Longrightarrow> phase g S d tr \<Longrightarrow> Q (after_stage c tr) \<or> waits tr (after_stage c tr)"
  shows "Q (after_reconcile tr) \<or> waits tr (after_reconcile tr)"
proof (cases "waits tr (after_reconcile tr)")
  case False
  then obtain c cs where "client_ok S c" "list_all no_patch cs" "after_reconcile tr = after_stage c (tr @ cs)"
    using assms(1,2) unfolding handled_def by blast
  then show ?thesis using stage [of c "tr @ cs"] phase_no_patch [OF assms(2)] waits_prefix by metis
qed simp

abbreviation leads :: "nat \<Rightarrow> trace \<Rightarrow> (trace \<Rightarrow> bool) \<Rightarrow> bool" where
  "leads \<equiv> reconciliations.leads E (NamespacedName k0) N"

lemmas leads_step_until = reconciliations.leads_step_until [of _ _ E "NamespacedName k0" N]
lemmas leads_step = reconciliations.leads_step [of _ _ E "NamespacedName k0" N]
lemmas leads_trans = reconciliations.leads_trans [of E "NamespacedName k0" N]
lemmas leads_weaken = reconciliations.leads_weaken [of E "NamespacedName k0" N]
lemmas leads_now = reconciliations.leads_now

text \<open>Calls once made stay made.\<close>

lemma stage_leads:
  assumes "\<And>tr. phase g S d tr \<Longrightarrow> Q (after_reconcile tr) \<or> waits tr (after_reconcile tr)" and "phase g S d tr"
  shows "leads 1 tr (\<lambda>tr'. Q tr' \<and> extends tr tr')"
proof (rule leads_step [of "\<lambda>tr'. phase g S d tr' \<and> extends tr tr'"])
  let ?P = "\<lambda>tr'. phase g S d tr' \<and> extends tr tr'"
  show "?P tr" using assms(2) by simp
  fix tr' assume P: "?P tr'"
  have "extends tr (after_reconcile tr')" using P Reconcile_extends extends_trans by blast
  then show "(Q (after_reconcile tr') \<and> extends tr (after_reconcile tr')) \<or> ?P (after_reconcile tr') \<and> length tr' < N"
    using assms(1) [of tr'] P waits_phase by blast
qed

lemma handled_leads:
  assumes h: "handled S d" and start: "phase g S d tr"
    and stage: "\<And>c tr. client_ok S c \<Longrightarrow> phase g S d tr \<Longrightarrow> Q (after_stage c tr) \<or> waits tr (after_stage c tr)"
  shows "leads 1 tr (\<lambda>tr'. Q tr' \<and> extends tr tr')"
  using handled_stage [of S d g _ Q, OF h _ stage] by (intro stage_leads [OF _ start])

text \<open>Once the runners are created.\<close>

definition all_created :: "string \<Rightarrow> trace \<Rightarrow> bool" where
  "all_created trid tr \<longleftrightarrow> runners_created E k0 trid tr \<and> starter_created k0 tr"

lemma all_created_mono: "extends tr tr' \<Longrightarrow> all_created trid tr \<Longrightarrow> all_created trid tr'"
  using created_mono by (auto simp: all_created_def)

lemma created_to_stopped:
  assumes h: "handled S d" "handled (S(''TestRunRunning'' \<mapsto> ConditionTrue)) d"
    and start: "phase ''created'' S d tr" "runners_created E k0 trid tr"
  shows "leads 2 tr (\<lambda>tr'. phase ''stopped'' (S(''TestRunRunning'' \<mapsto> ConditionFalse)) d tr'
    \<and> all_created trid tr' \<and> extends tr tr')"
proof -
  let ?R = "S(''TestRunRunning'' \<mapsto> ConditionTrue)"
  have ok: "ordinary S" "ordinary ?R" using h by (simp_all add: handled_def)
  let ?started = "\<lambda>tr'. (phase ''started'' ?R d tr' \<and> starter_created k0 tr') \<and> extends tr tr'"
  have 1: "leads 1 tr ?started"
    by (rule handled_leads [OF h(1) start(1)], rule created_to_started [OF _ ok(1)])
  have 2: "leads 1 tr1 (\<lambda>tr'. phase ''stopped'' (S(''TestRunRunning'' \<mapsto> ConditionFalse)) d tr'
      \<and> all_created trid tr' \<and> extends tr tr')" if tr1: "?started tr1" for tr1
  proof -
    have "leads 1 tr1 (\<lambda>tr'. phase ''stopped'' (S(''TestRunRunning'' \<mapsto> ConditionFalse)) d tr' \<and> extends tr1 tr')"
    proof (rule handled_leads [OF h(2)])
      show "phase ''started'' ?R d tr1" using tr1 by simp
      show "phase ''stopped'' (S(''TestRunRunning'' \<mapsto> ConditionFalse)) d (after_stage c tr) \<or> waits tr (after_stage c tr)"
        if "client_ok ?R c" "phase ''started'' ?R d tr" for c tr
        using started_to_stopped [OF that(2) ok(2) that(1)] by simp
    qed
    moreover have "all_created trid tr1"
      using tr1 created_mono(1) [OF _ start(2)] by (auto simp: all_created_def)
    ultimately show ?thesis
      using tr1 all_created_mono extends_trans by (elim reconciliations.leads_mono) blast
  qed
  show ?thesis using leads_trans [OF 1 2] by (simp add: numeral_eq_Suc)
qed

end

section \<open>Example\<close>

text \<open>
  A cluster for the example: up to the \<open>N\<close>-th call no pod is there, no service can be listed and the
  jobs are active; then what is listed follows the stage of the stored test run.
\<close>

definition cluster_env :: "nat \<Rightarrow> TestRun \<Rightarrow> env" where
  "cluster_env N k = idle_env\<lparr>e_clock := \<lambda>tr i. 10 * int (length tr) + int i,
     e_getTestRun := \<lambda>tr _. Found (stored k tr), e_patchTestRun := \<lambda>_ k6. Inr (stored_run k6),
     e_unmarshalInspect := \<lambda>_. Inr \<lparr>io_extName = '''', io_extProjectID = 0, io_cloudName = '''',
       io_cloudProjectID = 0, io_totalDuration = 60, io_maxVUs = 10, io_thresholds = []\<rparr>,
     e_listPods := \<lambda>tr opts. Inr (
       if length tr < N then []
       else if opts = initializer_pods k then [\<lparr>pi_name = ''i'', pi_phase = ''Succeeded''\<rparr>]
       else if stage_at k tr = ''created'' then replicate 3 \<lparr>pi_name = ''a'', pi_phase = ''Running''\<rparr>
       else []),
     e_listServices := \<lambda>tr _. if length tr < N then Inl ''timeout''
       else Inr [\<lparr>si_name = ''a-service-1'', si_clusterIP = ''10.0.0.1''\<rparr>],
     e_listJobs := \<lambda>tr _. Inr (
       if stage_at k tr = ''started''
       then replicate 3 \<lparr>ji_name = ''a'', ji_active = (if length tr < N then 1 else 0), ji_failed = 0\<rparr>
       else [])\<rparr>"

lemma cluster_env_simps [simp]:
  "e_meta (cluster_env N k) = documented_meta"
  "e_clock (cluster_env N k) tr i = 10 * int (length tr) + int i"
  "e_getTestRun (cluster_env N k) tr nn = Found (stored k tr)"
  "e_patchTestRun (cluster_env N k) tr k6 = Inr (stored_run k6)"
  "e_getJob (cluster_env N k) tr nn = NotFound" "e_createJob (cluster_env N k) tr j = None"
  "e_createService (cluster_env N k) tr s = None" "e_setControllerReference (cluster_env N k) tr nm = None"
  "e_readPodLogs (cluster_env N k) tr nm = Inr ''''" "e_httpGet (cluster_env N k) tr url = Inr (200, Inr '''')"
  "e_newRequest (cluster_env N k) cl url = None" "e_runStatusTimedOut (cluster_env N k) = 4"
  by (simp_all add: cluster_env_def idle_env_def)

lemma initializer_pods_other: "ListOptions k \<noteq> initializer_pods k"
  by (simp add: ListOptions_def initializer_pods_def)

lemma cluster_env_lists:
  "e_listPods (cluster_env N k) tr (initializer_pods k) =
     Inr (if length tr < N then [] else [\<lparr>pi_name = ''i'', pi_phase = ''Succeeded''\<rparr>])"
  "N \<le> length tr \<Longrightarrow> stage_at k tr = ''created'' \<Longrightarrow> e_listPods (cluster_env N k) tr (ListOptions k) =
     Inr (replicate 3 \<lparr>pi_name = ''a'', pi_phase = ''Running''\<rparr>)"
  "N \<le> length tr \<Longrightarrow> stage_at k tr = ''started'' \<Longrightarrow> e_listJobs (cluster_env N k) tr opts =
     Inr (replicate 3 \<lparr>ji_name = ''a'', ji_active = 0, ji_failed = 0\<rparr>)"
  "N \<le> length tr \<Longrightarrow> e_listServices (cluster_env N k) tr opts =
     Inr [\<lparr>si_name = ''a-service-1'', si_clusterIP = ''10.0.0.1''\<rparr>]"
  using initializer_pods_other [of k] by (auto simp: cluster_env_def)

lemma ten_vus_suffice: "\<not> too_few_vus 10 3"
  by code_simp

end
