(* ===== verification/K6_Lifecycle.thy ===== *)
theory K6_Lifecycle
  imports K6_Stages
begin

text \<open>
  The life of a test run without cloud output, over several reconciliations. The locale
  \<open>steady_cluster\<close> extends the cluster of \<open>K6_Stages\<close> for such test runs. \<open>runs_to_finished\<close> says that
  \<open>Reconcile\<close> then brings the test run to the stage \<open>finished\<close>, however often it is called in between.
\<close>

section \<open>A run without cloud output\<close>

definition local_statuses :: "string \<rightharpoonup> ConditionStatus" where
  "local_statuses = start_statuses(''CloudTestRun'' \<mapsto> ConditionFalse)"

locale steady_cluster = stage_cluster E k0 N for E :: env and k0 :: TestRun and N :: nat +
  assumes no_cloud: "\<not> HasCloudOut (fst (ParseCLI (Argv (tr_spec k0))))"
begin

text \<open>The handlers are called without a client, and need none.\<close>

lemma handled_local:
  assumes "ordinary S" and "S ''CloudTestRun'' \<noteq> Some ConditionTrue"
  shows "handled S d"
  unfolding handled_def
proof (intro conjI allI impI disjI2)
  fix g tr assume "phase g S d tr"
  then have "\<not> isCloudTestRun (e_meta E) (with_status (status_at tr))"
    using assms phaseD(2) by (simp add: isCloudTestRun_def ordinary_def)
  then have "after_reconcile tr = after_stage None (tr @ [GetTestRun (NamespacedName k0)])"
    unfolding Reconcile_stored by (simp add: reconcile_def reconcile_with_def)
  then show "\<exists>c cs. client_ok S c \<and> list_all no_patch cs \<and> after_reconcile tr = after_stage c (tr @ cs)"
    using assms(2) by (intro exI [of _ None] exI [of _ "[GetTestRun (NamespacedName k0)]"]) (simp add: client_ok_def)
qed (rule assms)

text \<open>The validation of a script without cloud output settles \<open>CloudTestRun\<close>.\<close>

lemma validations_pass:
  assumes ph: "phase ''initialization'' S d tr" and unknown: "S ''CloudTestRun'' \<noteq> Some ConditionFalse"
    and inspect: "run_state (inspectTestRun E (with_status (status_at tr))) tr = (InspectReady out, tr @ calls)"
    "list_all no_patch calls" "\<not> too_few_vus (io_maxVUs out) (spec_parallelism (tr_spec k0))"
  obtains v tr2 where
    "run_state (RunValidations E (with_status (status_at tr)) c) tr = (Inr (with_status (status_at tr2), v), tr2)"
    "v_ready v" "v_error v = None" "phase ''initialization'' (S(''CloudTestRun'' \<mapsto> ConditionFalse)) d tr2"
proof -
  define tr1 where "tr1 = tr @ calls"
  have ph1: "phase ''initialization'' S d tr1" unfolding tr1_def by (rule phase_no_patch [OF ph inspect(2)])
  have st1: "status_at tr1 = status_at tr" unfolding tr1_def by (rule status_at_no_patch [OF inspect(2)])
  note known = phaseD [OF ph1]
  obtain ps upd where upd:
    "\<And>st. st_conditions st = st_conditions (status_at tr1) \<Longrightarrow>
      TestRun_UpdateCondition (e_meta E) (e_clock E tr1 0) (with_status st) ''CloudTestRun'' ConditionFalse =
        Inr (with_status (st\<lparr>st_conditions := ps\<rparr>))"
    "\<And>p. st_conditions p = ps \<Longrightarrow> st_stage p = ''initialization'' \<Longrightarrow> st_testRunID p = fst d \<Longrightarrow> st_aggregationVars p = snd d \<Longrightarrow>
      run_state (UpdateStatus E (with_status p)) (tr1 @ [ReadClock]) =
        ((with_status (status_at (tr1 @ ReadClock # upd)), True, None), tr1 @ ReadClock # upd)"
    "phase ''initialization'' (S(''CloudTestRun'' \<mapsto> ConditionFalse)) d (tr1 @ ReadClock # upd)"
    by (rule update_and_patch [OF ph1, of "''CloudTestRun''" ConditionFalse "''initialization''" d])
      (use unknown in \<open>auto simp: operator_condition_types_def\<close>)
  let ?v = "\<lparr>v_result = after_seconds 5, v_ready = True, v_error = None\<rparr>"
  have "run_state (RunValidations E (with_status (status_at tr)) c) tr =
      (Inr (with_status (status_at (tr1 @ ReadClock # upd)), ?v), tr1 @ ReadClock # upd)"
    using inspect(1,3) upd(1) [of "status_at tr"] upd(2) [of "(status_at tr)\<lparr>st_conditions := ps\<rparr>"] no_cloud st1 known(1,3,4)
    by (simp add: RunValidations_def cloud_output_conditions_def read_clock_def tr1_def [symmetric])
  then show thesis using upd(3) by (intro that [of "tr1 @ ReadClock # upd" ?v]) simp_all
qed

lemma initialization_to_initialized:
  assumes ph: "phase ''initialization'' start_statuses d tr"
  shows "phase ''initialized'' local_statuses d (after_stage c tr) \<or> waits tr (after_stage c tr)"
proof (rule inspection [OF ph, of "status_at tr"])
  assume "length tr < N" "run_state (inspectTestRun E (with_status (status_at tr))) tr =
    (InspectNotReady, tr @ [ListPods (initializer_pods k0)])"
  then show ?thesis using initialization_waits [OF ph] by blast
next
  fix calls out
  assume Ready: "run_state (inspectTestRun E (with_status (status_at tr))) tr = (InspectReady out, tr @ calls)"
    "list_all no_patch calls" "\<not> too_few_vus (io_maxVUs out) (spec_parallelism (tr_spec k0))"
  have "start_statuses ''CloudTestRun'' \<noteq> Some ConditionFalse" by (simp add: start_statuses_def)
  then obtain v tr2 where v: "run_state (RunValidations E (with_status (status_at tr)) c) tr =
      (Inr (with_status (status_at tr2), v), tr2)"
    "v_ready v" "v_error v = None" "phase ''initialization'' local_statuses d tr2"
    unfolding local_statuses_def by (rule validations_pass [OF ph _ Ready])
  obtain upd where
    "run_state (UpdateStatus E (set_stage ''initialized'' (with_status (status_at tr2)))) tr2 =
      ((with_status (status_at (tr2 @ upd)), True, None), tr2 @ upd)"
    "phase ''initialized'' local_statuses d (tr2 @ upd)"
    by (rule move_and_patch [OF v(4), of "''initialized''"]) (auto simp: stage_step_def)
  then show ?thesis
    using phaseD(1) [OF ph] phaseD(2) [OF v(4)] v(1-3)
    by (simp add: reconcile_stage_def reconcile_initialization_def unless_panic_def finish_def local_statuses_def)
qed

lemma initialized_to_created:
  assumes ph: "phase ''initialized'' S d tr" and ok: "ordinary S" "data_ok d" "S ''CloudTestRun'' \<noteq> Some ConditionTrue"
  shows "phase ''created'' S d (after_stage c tr) \<and> runners_created E k0 (fst d) (after_stage c tr)"
  using create_jobs_moves [OF ph ok(1,2)] phaseD(1,2) [OF ph] ok(3)
  by (simp add: reconcile_stage_def CreateJobs_def Let_def)

lemma stopped_to_finished:
  assumes ph: "phase ''stopped'' S d tr" and ok: "ordinary S" "S ''CloudTestRun'' \<noteq> Some ConditionTrue"
  shows "phase ''finished'' S d (after_stage c tr)"
proof -
  obtain upd where
    "run_state (UpdateStatus E (set_stage ''finished'' (with_status (status_at tr)))) tr =
      ((with_status (status_at (tr @ upd)), True, None), tr @ upd)"
    "phase ''finished'' S d (tr @ upd)"
    using move_and_patch [OF ph, of "''finished''"] by (auto simp: stage_step_def)
  then show ?thesis
    using phaseD(1,2) [OF ph] ok
    by (simp add: reconcile_stage_def reconcile_stopped_def finalize_and_finish_def mark_finished_def finish_def ordinary_def)
qed

section \<open>The way to the end\<close>

text \<open>A finished test run for which everything was created.\<close>

definition complete_at :: "trace \<Rightarrow> bool" where
  "complete_at tr \<longleftrightarrow> st_stage (status_at tr) = ''finished'' \<and> all_created '''' tr"

lemma initialized_leads:
  assumes ph: "phase ''initialized'' S ('''', '''') tr" and ok: "ordinary S" "S ''CloudTestRun'' \<noteq> Some ConditionTrue"
  shows "leads 4 tr complete_at"
proof -
  have data: "data_ok ('''', '''')" by (simp add: data_ok_def)
  have ok': "ordinary (S(''TestRunRunning'' \<mapsto> s))" "(S(''TestRunRunning'' \<mapsto> s)) ''CloudTestRun'' \<noteq> Some ConditionTrue" for s
    using ok by (simp_all add: ordinary_def)
  have 1: "leads 1 tr (\<lambda>tr'. (phase ''created'' S ('''', '''') tr' \<and> runners_created E k0 '''' tr') \<and> extends tr tr')"
    by (rule handled_leads [OF handled_local [OF ok] ph])
      (use initialized_to_created [OF _ ok(1) data ok(2)] in auto)
  have 3: "leads 1 tr' complete_at"
    if tr': "phase ''stopped'' (S(''TestRunRunning'' \<mapsto> ConditionFalse)) ('''', '''') tr' \<and> all_created '''' tr' \<and> extends tr1 tr'"
    for tr' tr1
  proof -
    have "leads 1 tr' (\<lambda>tr2. phase ''finished'' (S(''TestRunRunning'' \<mapsto> ConditionFalse)) ('''', '''') tr2 \<and> extends tr' tr2)"
      by (rule handled_leads [OF handled_local [OF ok']])
        (use tr' stopped_to_finished [OF _ ok'] in blast)+
    then show ?thesis
      by (rule reconciliations.leads_mono) (use tr' all_created_mono phaseD(1) in \<open>auto simp: complete_at_def\<close>)
  qed
  have "leads (2 + 1) tr' complete_at" if "phase ''created'' S ('''', '''') tr'" "runners_created E k0 '''' tr'" for tr'
    by (rule leads_trans [OF created_to_stopped [OF handled_local [OF ok] handled_local [OF ok'] that]]) (rule 3)
  then show ?thesis using leads_trans [OF 1, of 3 complete_at] by (simp add: numeral_eq_Suc)
qed

lemma fresh_to_finished: "leads 6 [] complete_at"
proof -
  let ?d = "('''', '''')"
  have ok: "ordinary start_statuses" "start_statuses ''CloudTestRun'' \<noteq> Some ConditionTrue"
    "ordinary local_statuses" "local_statuses ''CloudTestRun'' \<noteq> Some ConditionTrue"
    by (simp_all add: ordinary_def start_statuses_def local_statuses_def)
  have "\<not> isCloudTestRun (e_meta E) (with_status (status_at []))"
    using fresh(1) by (simp add: isCloudTestRun_def zero_status_def status_of_def)
  then have first: "after_reconcile [] = after_stage None [GetTestRun (NamespacedName k0)]"
    unfolding Reconcile_stored by (simp add: reconcile_def reconcile_with_def)
  let ?init = "\<lambda>tr. phase ''initialized'' start_statuses ?d tr \<or> phase ''initialization'' start_statuses ?d tr"
  have "?init (after_reconcile [])"
    using fresh_to_initialization [of "[GetTestRun (NamespacedName k0)]" None] unfolding first by auto
  then have 1: "leads 1 [] ?init" by (intro leads_step [of "\<lambda>tr. tr = []"]) simp_all
  have "leads 5 tr complete_at" if init: "?init tr" for tr
    using init
  proof
    assume "phase ''initialized'' start_statuses ?d tr"
    then show ?thesis using initialized_leads [OF _ ok(1,2)] leads_weaken [of 4 tr complete_at 5] by simp
  next
    assume ph: "phase ''initialization'' start_statuses ?d tr"
    have "leads 1 tr (\<lambda>tr'. phase ''initialized'' local_statuses ?d tr' \<and> extends tr tr')"
      by (rule handled_leads [OF handled_local [OF ok(1,2)] ph])
        (use initialization_to_initialized in auto)
    then show ?thesis using leads_trans [of 1 tr _ 4 complete_at] initialized_leads [OF _ ok(3,4)] by (simp add: numeral_eq_Suc)
  qed
  then show ?thesis using leads_trans [OF 1, of 5 complete_at] by simp
qed

end

section \<open>The property\<close>

lemma example_run_parsed:
  "fst (ParseCLI (Argv (tr_spec (example_run n)))) = \<lparr>ArchiveArgs = [''--vus'', ''10''], HasCloudOut = False\<rparr>"
  "snd (ParseCLI (Argv (tr_spec (example_run n)))) = None" "spec_testRunID (tr_spec (example_run n)) = ''''"
  "\<not> isl (ParseScript (tr_spec (example_run n)))"
  by code_simp+

interpretation example_cluster: steady_cluster "cluster_env 40 (example_run ''a'')" "example_run ''a''" 40
  by (intro steady_cluster.intro steady_cluster_axioms.intro stage_cluster.intro stage_cluster_axioms.intro
      status_server.intro status_server_axioms.intro)
    (simp_all add: documented.status_conditions_axioms example_run_parsed cluster_env_lists
      running_pods_replicate cluster_env_def [THEN arg_cong [where f = e_unmarshalInspect]] ten_vus_suffice)

text \<open>
  C2. A test run without cloud output ends. Take a fresh test run whose arguments and script can be
  read, and a cluster that stores what is patched, creates what it is asked to create and has no
  initializer that fails. Up to the \<open>N\<close>-th call pods may be missing, lists may fail, services may not
  answer and jobs may be active, in any pattern; from then on the initializer has succeeded with
  enough VUs, as many pods run as the parallelism says and the services answer once the runners are
  created, and the runner jobs are inactive once the test is started. Then, with a clock that moves on
  between calls, at most \<open>6 + N\<close> reconciliations bring the stage of the stored test run to
  \<open>finished\<close>, and by then have created the job of every runner and the starter.
\<close>

theorem runs_to_finished:
  assumes "steady_cluster E k0 N"
  shows "\<exists>n \<le> 6 + N. stage_at k0 (reconciled E (NamespacedName k0) n) = ''finished''
    \<and> runners_created E k0 '''' (reconciled E (NamespacedName k0) n)
    \<and> starter_created k0 (reconciled E (NamespacedName k0) n)"
proof -
  obtain n where n: "n \<le> 6 + N" "steady_cluster.complete_at E k0 (reconciled E (NamespacedName k0) n)"
    using reconciliations.leads_bound [OF steady_cluster.fresh_to_finished [OF assms]] by (auto simp: reconciled_def)
  note at_n = n(2) [unfolded steady_cluster.complete_at_def [OF assms]]
  then show ?thesis
    using n(1) stage_cluster.all_created_def [OF steady_cluster.axioms(1) [OF assms]] by (auto simp: stage_at_def stored_def)
qed

theorem runs_to_finished_witness:
  "\<exists>n \<le> 46. stage_at (example_run ''a'')
     (reconciled (cluster_env 40 (example_run ''a'')) (NamespacedName (example_run ''a'')) n) = ''finished''"
  using runs_to_finished [OF example_cluster.steady_cluster_axioms] by simp blast

section \<open>A creation that failed half way\<close>

lemma Reconcile_leaves_runners:
  assumes "e_getTestRun E tr req = Found k6" and "st_stage (tr_status k6) = ''initialized''"
    and "\<not> isCloudTestRun (e_meta E) k6"
    and "e_getJob E (tr @ [GetTestRun req]) (first_runner k6) \<noteq> NotFound"
  shows "\<exists>cs. snd (run_state (Reconcile E req) tr) = tr @ cs
    \<and> set cs \<subseteq> {GetTestRun req, GetJob (first_runner k6), ReadClock}"
proof -
  have cloud: "\<not> IsTrue (e_meta E) k6 ''CloudTestRun''" using assms(3) by (simp add: isCloudTestRun_def)
  have "snd (run_state (CreateJobs E k6 None) (tr @ [GetTestRun req])) =
      tr @ [GetTestRun req, GetJob (first_runner k6), ReadClock]"
    using assms(4) cloud
    by (cases "e_getJob E (tr @ [GetTestRun req]) (first_runner k6)")
      (simp_all add: CreateJobs_def create_jobs_with_def createJobSpecs_def Let_def first_runner_def read_clock_def
        finish_def split: prod.splits)
  then show ?thesis
    using assms(1-3) by (simp add: Reconcile_def reconcile_def reconcile_with_def reconcile_stage_def finish_def)
qed

text \<open>
  C34. The creation of the runners is not resumed. Take a test run without cloud output in the stage
  \<open>initialized\<close> whose first runner's job is there, as it is after the creation of a later runner or
  the patch of the status has failed. However often it is reconciled, the operator only reads: no
  missing job is created and the stage is never written.
\<close>

theorem runner_creation_not_resumed:
  assumes "\<And>tr. e_getTestRun E tr req = Found k6" and "st_stage (tr_status k6) = ''initialized''"
    and "\<not> isCloudTestRun (e_meta E) k6" and "\<And>tr. e_getJob E tr (first_runner k6) = Found ()"
  shows "set (reconciled E req n) \<subseteq> {GetTestRun req, GetJob (first_runner k6), ReadClock}"
proof (induction n)
  case (Suc n)
  obtain cs where "snd (run_state (Reconcile E req) (reconciled E req n)) = reconciled E req n @ cs"
    "set cs \<subseteq> {GetTestRun req, GetJob (first_runner k6), ReadClock}"
    using Reconcile_leaves_runners [of E "reconciled E req n" req k6] assms by auto
  then show ?case using Suc by auto
qed simp

text \<open>A run whose first runner is there, on a server that is otherwise idle.\<close>

definition partly_created :: TestRun where
  "partly_created = set_stage ''initialized'' (example_run ''a'')"

definition partly_created_env :: env where
  "partly_created_env = idle_env\<lparr>e_getTestRun := \<lambda>_ _. Found partly_created, e_getJob := \<lambda>_ _. Found ()\<rparr>"

theorem runner_creation_not_resumed_witness:
  "\<forall>j. CreateJob j \<notin> set (reconciled partly_created_env (NamespacedName partly_created) 5)"
proof -
  have "set (reconciled partly_created_env (NamespacedName partly_created) 5)
      \<subseteq> {GetTestRun (NamespacedName partly_created), GetJob (first_runner partly_created), ReadClock}"
  proof (rule runner_creation_not_resumed)
    show "\<not> isCloudTestRun (e_meta partly_created_env) partly_created" by code_simp
  qed (simp_all add: partly_created_env_def partly_created_def set_stage_def)
  then show ?thesis by auto
qed

end
