(* ===== verification/K6_Cloud_Life.thy ===== *)
theory K6_Cloud_Life
  imports K6_Stages
begin

text \<open>
  The life of a test run with cloud output. Besides the stages of every test run the operator has to
  create a test run in Grafana Cloud k6 once the script has been inspected, hand its id to the
  runners, and report its end. It waits five seconds before both requests. The locale
  \<open>cloud_cluster\<close> extends the cluster of \<open>K6_Stages\<close> by a cloud that cooperates.
\<close>

section \<open>A run with cloud output\<close>

text \<open>The id is one the cloud returned for a request to create a test run.\<close>

definition issued :: "env \<Rightarrow> string \<Rightarrow> trace \<Rightarrow> bool" where
  "issued E trid tr \<longleftrightarrow> (\<exists>tr1 cl url body config. extends (tr1 @ [CloudCreateTestRun cl url body]) tr
     \<and> e_cloudCreateTestRun E tr1 body = Inr (trid, config))"

lemma issued_mono: "issued E trid tr \<Longrightarrow> extends tr tr' \<Longrightarrow> issued E trid tr'"
  unfolding issued_def using extends_trans by blast

text \<open>The statuses while the cloud test run is not created yet, and then.\<close>

definition unregistered_statuses :: "string \<rightharpoonup> ConditionStatus" where
  "unregistered_statuses = start_statuses(''CloudTestRun'' \<mapsto> ConditionTrue, ''CloudTestRunCreated'' \<mapsto> ConditionFalse,
     ''CloudTestRunFinalized'' \<mapsto> ConditionFalse)"

definition registered_statuses :: "string \<rightharpoonup> ConditionStatus" where
  "registered_statuses = unregistered_statuses(''CloudTestRunCreated'' \<mapsto> ConditionTrue)"

lemmas cloud_statuses = unregistered_statuses_def registered_statuses_def start_statuses_def

text \<open>
  The reconciliation that finds out about the cloud output has no client yet, and goes on to the
  creation of the cloud test run. It returns since the condition has just been set; if the calls in
  between took five seconds, it panics.
\<close>

lemma CreateTestRun_no_client: "unless_panic (CreateTestRun E opts n None) f = State_Monad.return (Panicked nil_client)"
  by (simp add: CreateTestRun_def createTestRun_def unless_panic_def)

lemma SetupCloudTest_panics:
  assumes "run_state (inspectTestRun E k6) tr = (InspectReady out, tr')" and "IsFalse (e_meta E) k6 ''CloudTestRunCreated''"
    and "fst (LastUpdate (e_meta E) (e_clock E tr' 0) k6 ''CloudTestRunCreated'') + seconds 5 \<le> e_clock E tr' 1"
    and "\<not> isl (ParseScript (tr_spec k6))"
  shows "fst (run_state (SetupCloudTest E k6 None) tr) = Panicked nil_client"
  using assms
  by (cases "ParseScript (tr_spec k6)") (auto simp: SetupCloudTest_def CreateTestRun_no_client read_clock_def Let_def)

text \<open>
  From the \<open>N\<close>-th call on the token is there and the cloud answers. Five seconds pass while \<open>W\<close> calls
  are made.
\<close>

locale cloud_cluster = stage_cluster E k0 N for E :: env and k0 :: TestRun and N :: nat +
  fixes W :: nat
  assumes cloud: "HasCloudOut (fst (ParseCLI (Argv (tr_spec k0))))"
    and token: "N \<le> length tr \<Longrightarrow>
      \<exists>ti. fst (run_state (Load E (NewTokenInfo (spec_token (tr_spec k0)) (tr_namespace k0))) tr) = (ti, None) \<and> ti_ready ti"
    and requests: "e_newRequest E cl url = None"
    and create: "N \<le> length tr \<Longrightarrow> \<exists>trid config. e_cloudCreateTestRun E tr body = Inr (trid, config) \<and> trid \<noteq> ''''"
      "e_cloudCreateTestRun E tr body = Inr (trid, config) \<Longrightarrow> no_bar config"
    and not_aborted: "e_cloudGetTestRun E tr url = Inr data \<Longrightarrow> \<not> Aborted (e_runStatusTimedOut E) (trd_runStatus data)"
    and finish_answer: "N \<le> length tr \<Longrightarrow> e_cloudTestFinished E tr trid = None"
    and time_passes: "length tr + W \<le> length tr' \<Longrightarrow> e_clock E tr 0 + seconds 5 \<le> e_clock E tr' j"
begin

text \<open>Calls that do not touch the status.\<close>

definition idles :: "trace \<Rightarrow> trace \<Rightarrow> bool" where
  "idles tr tr' \<longleftrightarrow> (\<exists>cs. tr' = tr @ cs \<and> list_all no_patch cs)"

lemma waits_idles: "waits tr tr' \<longleftrightarrow> length tr < N \<and> idles tr tr'"
  by (simp add: waits_def idles_def)

text \<open>Five seconds have passed since the conditions were set.\<close>

definition settled :: "nat \<Rightarrow> conditions \<Rightarrow> bool" where
  "settled B cs \<longleftrightarrow> (\<forall>c \<in> set cs. \<forall>tr j. B \<le> length tr \<longrightarrow> ctime c + seconds 5 \<le> e_clock E tr j)"

lemma past_settled:
  assumes "past tr cs"
  shows "settled (length tr + W) cs"
  unfolding settled_def
proof (intro ballI allI impI)
  fix c and tr' :: trace and j assume "c \<in> set cs" "length tr + W \<le> length tr'"
  then have "ctime c < e_clock E tr 0" "e_clock E tr 0 + seconds 5 \<le> e_clock E tr' j"
    using assms time_passes by (auto simp: past_def)
  then show "ctime c + seconds 5 \<le> e_clock E tr' j" by simp
qed

lemma LastUpdate_settled:
  assumes "settled B (st_conditions st)" and "status_of (e_meta E) (st_conditions st) t \<noteq> None" and "B \<le> length tr"
  shows "\<not> e_clock E tr j - fst (LastUpdate (e_meta E) now (with_status st) t) < seconds 5"
proof -
  obtain c where c: "lookup (st_conditions st) t = Some c" using assms(2) by (auto simp: status_of_def)
  then have "ctime c + seconds 5 \<le> e_clock E tr j"
    using assms(1,3) lookup_Some_type by (auto simp: settled_def)
  then show ?thesis using c by (simp add: LastUpdate_def)
qed

section \<open>The client\<close>

lemma find_secret_no_patch: "only no_patch (find_secret E ti)"
  unfolding find_secret_def by (intro only_rules) simp_all

lemma Load_no_patch: "only no_patch (Load E ti)"
  unfolding Load_def Let_def by (intro only_rules ensures_bind [OF find_secret_no_patch]) simp_all

lemma Load_result:
  obtains (Loaded) ti cs where
    "run_state (Load E (NewTokenInfo (spec_token (tr_spec k0)) (tr_namespace k0))) tr = ((ti, None), tr @ cs)"
    "ti_ready ti" "list_all no_patch cs"
  | (Not_loaded) ti err cs where
    "run_state (Load E (NewTokenInfo (spec_token (tr_spec k0)) (tr_namespace k0))) tr = ((ti, err), tr @ cs)"
    "err \<noteq> None \<or> \<not> ti_ready ti" "list_all no_patch cs" "length tr < N"
proof -
  obtain r cs where run: "run_state (Load E (NewTokenInfo (spec_token (tr_spec k0)) (tr_namespace k0))) tr = (r, tr @ cs)"
    "list_all no_patch cs" by (rule no_patch_run [OF Load_no_patch])
  obtain ti err where r: "r = (ti, err)" by fastforce
  show thesis
  proof (cases "err = None \<and> ti_ready ti")
    case True
    then show thesis using Loaded run r by simp
  next
    case False
    then have "length tr < N" using token [of tr] run(1) r by (cases "N \<le> length tr") auto
    then show thesis using Not_loaded run r False by blast
  qed
qed

lemma ShouldAbort_goes_on:
  "\<exists>cs. run_state (ShouldAbort E (with_status st) (Some cl)) tr = (Inr False, tr @ cs) \<and> list_all no_patch cs"
proof -
  let ?url = "test_run_url (ApiURL (e_baseURL E cl)) (TestRunID (with_status st)) ''id,run_status''"
  have "(case map_sum id trd_runStatus (e_cloudGetTestRun E tr ?url) of Inl _ \<Rightarrow> False
      | Inr status \<Rightarrow> Aborted (e_runStatusTimedOut E) status) = False"
    using not_aborted by (cases "e_cloudGetTestRun E tr ?url") auto
  then show ?thesis
    by (auto simp: ShouldAbort_def GetTestRunState_def getTestRun_def requests split: sum.splits)
qed

lemma handled_cloud:
  assumes "ordinary S" and "S ''CloudTestRun'' = Some ConditionTrue"
  shows "handled S d"
  unfolding handled_def
proof (intro conjI allI impI)
  fix g tr assume ph: "phase g S d tr"
  let ?k = "with_status (status_at tr)" and ?tr1 = "tr @ [GetTestRun (NamespacedName k0)]"
  let ?load = "Load E (NewTokenInfo (spec_token (tr_spec k0)) (tr_namespace k0))"
  have true: "isCloudTestRun (e_meta E) ?k" "IsFalse (e_meta E) ?k ''CloudTestRunAborted''"
    using assms phaseD(2) [OF ph] by (simp_all add: isCloudTestRun_def ordinary_def)
  show "waits tr (after_reconcile tr)
      \<or> (\<exists>c cs. client_ok S c \<and> list_all no_patch cs \<and> after_reconcile tr = after_stage c (tr @ cs))"
  proof (rule Load_result [of ?tr1])
    fix ti err cs
    assume "run_state ?load ?tr1 = ((ti, err), ?tr1 @ cs)" "err \<noteq> None \<or> \<not> ti_ready ti" "list_all no_patch cs"
      "length ?tr1 < N"
    then have "waits tr (after_reconcile tr)"
      unfolding Reconcile_stored
      using true by (auto simp: reconcile_def createClient_def finish_def waits_def split: option.splits)
    then show ?thesis ..
  next
    fix ti cs
    assume loaded: "run_state ?load ?tr1 = ((ti, None), ?tr1 @ cs)" "ti_ready ti" "list_all no_patch cs"
    obtain cl where client: "run_state (createClient E ?k) ?tr1 = (Inr (Some cl), ?tr1 @ cs)"
      using loaded(1,2) by (simp add: createClient_def)
    obtain ds where abort: "run_state (ShouldAbort E ?k (Some cl)) (?tr1 @ cs) = (Inr False, (?tr1 @ cs) @ ds)" "list_all no_patch ds"
      using ShouldAbort_goes_on by blast
    define calls where "calls = GetTestRun (NamespacedName k0) # cs @ ds"
    have calls: "list_all no_patch calls" using loaded(3) abort(2) by (simp add: calls_def)
    have "after_reconcile tr = snd (run_state (reconcile_stage E ?k (Some cl)) (tr @ calls))"
      unfolding Reconcile_stored using true client abort(1)
      by (simp add: reconcile_def reconcile_with_def unless_panic_def calls_def)
    then have "after_reconcile tr = after_stage (Some cl) (tr @ calls)"
      unfolding status_at_no_patch [OF calls] .
    moreover have "client_ok S (Some cl)" using ShouldAbort_goes_on by (simp add: client_ok_def)
    ultimately show ?thesis using calls by blast
  qed
qed (rule assms)

lemma client_there: "client_ok S c \<Longrightarrow> S ''CloudTestRun'' = Some ConditionTrue \<Longrightarrow> \<exists>cl. c = Some cl"
  by (auto simp: client_ok_def)

lemma cloud_ok [simp]:
  "ordinary unregistered_statuses" "ordinary registered_statuses" "ordinary (registered_statuses(''TestRunRunning'' \<mapsto> s))"
  "ordinary start_statuses"
  by (simp_all add: ordinary_def cloud_statuses)

section \<open>Stage: initialization\<close>

text \<open>The first validation: the conditions of a cloud test run, which is not created yet.\<close>

lemma conditions_of_cloud_run:
  assumes ph: "phase ''initialization'' start_statuses d tr"
  obtains p where "run_state (cloud_output_conditions E True (with_status (status_at tr))) tr =
      (Inr (with_status ((status_at tr)\<lparr>st_conditions := p\<rparr>)), tr @ [ReadClock])"
    "revises (e_meta E) (e_clock E tr 0) (e_clock E tr 4) (st_conditions (status_at tr)) p"
    "status_of (e_meta E) p = unregistered_statuses"
proof -
  let ?M = "e_meta E" and ?cs = "st_conditions (status_at tr)" and ?clk = "e_clock E tr"
  note known = phaseD [OF ph]
  have older: "\<forall>c \<in> set ?cs. ctime c < ?clk 0" using known(6) by (simp add: past_def)
  have clk: "?clk 0 \<le> ?clk 4" "?clk 0 \<le> ?clk 1" "?clk 1 \<le> ?clk 4" "?clk 0 \<le> ?clk 2" "?clk 2 \<le> ?clk 4"
    using clock_reads [of 0 4 tr] clock_reads [of 0 1 tr] clock_reads [of 1 4 tr] clock_reads [of 0 2 tr]
      clock_reads [of 2 4 tr] by simp_all
  have types: "t \<in> set operator_condition_types"
    if "t \<in> {''CloudTestRun'', ''CloudTestRunCreated'', ''CloudTestRunFinalized''}" for t
    using that by (auto simp: operator_condition_types_def)
  obtain p1 where 1: "UpdateCondition ?M (?clk 0) ?cs ''CloudTestRun'' ConditionTrue = Inr p1"
    "revises ?M (?clk 0) (?clk 4) ?cs p1" "status_of ?M p1 = start_statuses(''CloudTestRun'' \<mapsto> ConditionTrue)"
    by (rule revises_update [OF revises_same [OF known(5)] older, of "?clk 0" "?clk 4" "''CloudTestRun''" ConditionTrue])
      (use clk types known(2) in simp_all)
  obtain p2 where 2: "UpdateCondition ?M (?clk 1) p1 ''CloudTestRunCreated'' ConditionFalse = Inr p2"
    "revises ?M (?clk 0) (?clk 4) ?cs p2" "status_of ?M p2 = (status_of ?M p1)(''CloudTestRunCreated'' \<mapsto> ConditionFalse)"
    by (rule revises_update [OF 1(2) older, of "?clk 1" "''CloudTestRunCreated''" ConditionFalse])
      (use clk types in simp_all)
  obtain p3 where 3: "UpdateCondition ?M (?clk 2) p2 ''CloudTestRunFinalized'' ConditionFalse = Inr p3"
    "revises ?M (?clk 0) (?clk 4) ?cs p3" "status_of ?M p3 = (status_of ?M p2)(''CloudTestRunFinalized'' \<mapsto> ConditionFalse)"
    by (rule revises_update [OF 2(2) older, of "?clk 2" "''CloudTestRunFinalized''" ConditionFalse])
      (use clk types in simp_all)
  have "IsUnknown ?M (with_status ((status_at tr)\<lparr>st_conditions := p1\<rparr>)) ''CloudTestRunCreated''"
    using 1(3) by (simp add: start_statuses_def)
  then have "run_state (cloud_output_conditions E True (with_status (status_at tr))) tr =
      (Inr (with_status ((status_at tr)\<lparr>st_conditions := p3\<rparr>)), tr @ [ReadClock])"
    using 1(1) 2(1) 3(1)
    by (simp add: cloud_output_conditions_def read_clock_def TestRun_UpdateCondition_def set_conditions_def numeral_2_eq_2
        del: status_known)
  then show thesis
    using that 3(2,3) 1(3) 2(3) by (simp add: unregistered_statuses_def)
qed

text \<open>Without a client nothing is requested, even if the handler panics.\<close>

lemma SetupCloudTest_no_client: "idles tr (snd (run_state (SetupCloudTest E k None) tr))"
proof -
  have "only no_patch (SetupCloudTest E k None)"
    unfolding SetupCloudTest_def CreateTestRun_no_client inspectTestRun_def Let_def
    by (intro only_rules no_patches.only_finish ensures_bind [where R = "\<lambda>_. True"]) simp_all
  then show ?thesis unfolding idles_def by (metis no_patch_run snd_conv)
qed

lemma first_validation:
  assumes ph: "phase ''initialization'' start_statuses d tr"
  shows "phase ''initialization'' unregistered_statuses d (after_stage None tr) \<or> waits tr (after_stage None tr)"
proof (rule inspection [OF ph, of "status_at tr"])
  assume "length tr < N" "run_state (inspectTestRun E (with_status (status_at tr))) tr =
    (InspectNotReady, tr @ [ListPods (initializer_pods k0)])"
  then show ?thesis using initialization_waits [OF ph] by blast
next
  fix calls out
  assume inspect: "run_state (inspectTestRun E (with_status (status_at tr))) tr = (InspectReady out, tr @ calls)"
    "list_all no_patch calls" "\<not> too_few_vus (io_maxVUs out) (spec_parallelism (tr_spec k0))"
  define tr1 where "tr1 = tr @ calls"
  have ph1: "phase ''initialization'' start_statuses d tr1" unfolding tr1_def by (rule phase_no_patch [OF ph inspect(2)])
  have st1: "status_at tr1 = status_at tr" unfolding tr1_def by (rule status_at_no_patch [OF inspect(2)])
  note known = phaseD [OF ph1]
  obtain ps where ps: "run_state (cloud_output_conditions E True (with_status (status_at tr1))) tr1 =
      (Inr (with_status ((status_at tr1)\<lparr>st_conditions := ps\<rparr>)), tr1 @ [ReadClock])"
    "revises (e_meta E) (e_clock E tr1 0) (e_clock E tr1 4) (st_conditions (status_at tr1)) ps"
    "status_of (e_meta E) ps = unregistered_statuses"
    by (rule conditions_of_cloud_run [OF ph1])
  define p where "p = (status_at tr1)\<lparr>st_conditions := ps\<rparr>"
  have p: "st_conditions p = ps" "st_stage p = ''initialization''" "st_testRunID p = fst d" "st_aggregationVars p = snd d"
    using known by (simp_all add: p_def)
  obtain b upd where upd:
    "run_state (UpdateStatus E (with_status p)) (tr1 @ [ReadClock]) =
      ((with_status (status_at (tr1 @ [ReadClock] @ upd)), b, None), tr1 @ [ReadClock] @ upd)"
    "phase (st_stage p) (status_of (e_meta E) (st_conditions p)) (st_testRunID p, st_aggregationVars p) (tr1 @ [ReadClock] @ upd)"
    "st_stage p \<noteq> ''initialization'' \<or> status_of (e_meta E) (st_conditions p) \<noteq> start_statuses \<Longrightarrow> b"
    by (rule UpdateStatus_stores [OF ph1, of "[ReadClock]" p]) (use ps p in simp_all)
  define tr2 where "tr2 = tr1 @ [ReadClock] @ upd"
  have ph2: "phase ''initialization'' unregistered_statuses d tr2" using upd(2) ps(3) by (simp add: p tr2_def)
  let ?v = "\<lparr>v_result = after_seconds 5, v_ready = True, v_error = None\<rparr>"
  have proposal: "p = (status_at tr)\<lparr>st_conditions := ps\<rparr>" using st1 by (simp add: p_def)
  have "run_state (RunValidations E (with_status (status_at tr)) None) tr = (Inr (with_status (status_at tr2), ?v), tr2)"
    using inspect(1,3) ps(1) upd(1) cloud st1
    by (simp add: RunValidations_def tr1_def [symmetric] tr2_def proposal)
  then have "after_stage None tr = snd (run_state (SetupCloudTest E (with_status (status_at tr2)) None) tr2)"
    using phaseD(1) [OF ph] phaseD(2) [OF ph2]
    by (simp add: reconcile_stage_def reconcile_initialization_def unless_panic_def cloud_initialization_def cloud_statuses)
  then show ?thesis
    using SetupCloudTest_no_client [of tr2 "with_status (status_at tr2)"] phase_no_patch [OF ph2] by (auto simp: idles_def)
qed

text \<open>A later validation says nothing new.\<close>

lemma conditions_restated:
  assumes ph: "phase ''initialization'' S d tr"
    and S: "S ''CloudTestRun'' = Some ConditionTrue" "S ''CloudTestRunFinalized'' = Some ConditionFalse"
      "S ''CloudTestRunCreated'' = Some ConditionTrue \<or> S ''CloudTestRunCreated'' = Some ConditionFalse"
  obtains p where "run_state (cloud_output_conditions E True (with_status (status_at tr))) tr =
      (Inr (with_status ((status_at tr)\<lparr>st_conditions := p\<rparr>)), tr @ [ReadClock])"
    "restates (st_conditions (status_at tr)) p"
proof -
  let ?M = "e_meta E" and ?cs = "st_conditions (status_at tr)" and ?clk = "e_clock E tr"
  note known = phaseD [OF ph]
  have types: "t \<in> set operator_condition_types" if "t \<in> {''CloudTestRun'', ''CloudTestRunFinalized''}" for t
    using that by (auto simp: operator_condition_types_def)
  obtain p1 where 1: "UpdateCondition ?M (?clk 0) ?cs ''CloudTestRun'' ConditionTrue = Inr p1" "restates ?cs p1"
    by (rule restates_update [OF restates_same [OF known(5)], of "''CloudTestRun''" ConditionTrue "?clk 0"])
      (use types known(2) S in simp_all)
  obtain p2 where 2: "UpdateCondition ?M (?clk 1) p1 ''CloudTestRunFinalized'' ConditionFalse = Inr p2" "restates ?cs p2"
    by (rule restates_update [OF 1(2), of "''CloudTestRunFinalized''" ConditionFalse "?clk 1"])
      (use types known(2) S in simp_all)
  have "\<not> IsUnknown ?M (with_status ((status_at tr)\<lparr>st_conditions := p1\<rparr>)) ''CloudTestRunCreated''"
    using 1(2) known(2) S(3) by (auto simp: restates_def)
  then have "run_state (cloud_output_conditions E True (with_status (status_at tr))) tr =
      (Inr (with_status ((status_at tr)\<lparr>st_conditions := p2\<rparr>)), tr @ [ReadClock])"
    using 1(1) 2(1)
    by (simp add: cloud_output_conditions_def read_clock_def TestRun_UpdateCondition_def set_conditions_def
        del: status_known)
  then show thesis using that 2(2) by blast
qed

lemma later_validation:
  assumes ph: "phase ''initialization'' S d tr"
    and S: "S ''CloudTestRun'' = Some ConditionTrue" "S ''CloudTestRunFinalized'' = Some ConditionFalse"
      "S ''CloudTestRunCreated'' = Some ConditionTrue \<or> S ''CloudTestRunCreated'' = Some ConditionFalse"
    and inspect: "run_state (inspectTestRun E (with_status (status_at tr))) tr = (InspectReady out, tr @ calls)"
    "list_all no_patch calls" "\<not> too_few_vus (io_maxVUs out) (spec_parallelism (tr_spec k0))"
  obtains cs where "list_all no_patch cs"
    "after_stage c tr = snd (run_state (cloud_initialization E (with_status (status_at (tr @ cs))) c) (tr @ cs))"
proof -
  define tr1 where "tr1 = tr @ calls"
  have ph1: "phase ''initialization'' S d tr1" unfolding tr1_def by (rule phase_no_patch [OF ph inspect(2)])
  have st1: "status_at tr1 = status_at tr" unfolding tr1_def by (rule status_at_no_patch [OF inspect(2)])
  note known = phaseD [OF ph1]
  obtain ps where ps: "run_state (cloud_output_conditions E True (with_status (status_at tr1))) tr1 =
      (Inr (with_status ((status_at tr1)\<lparr>st_conditions := ps\<rparr>)), tr1 @ [ReadClock])"
    "restates (st_conditions (status_at tr1)) ps"
    by (rule conditions_restated [OF ph1 S])
  let ?p = "(status_at tr1)\<lparr>st_conditions := ps\<rparr>" and ?get = "GetTestRun (NamespacedName k0)"
  have upd: "run_state (UpdateStatus E (with_status ?p)) (tr1 @ [ReadClock]) =
      ((with_status (status_at tr1), False, None), tr1 @ [ReadClock] @ [?get])"
    by (rule UpdateStatus_keeps [OF ph1]) (use ps(2) known in simp_all)
  define cs where "cs = calls @ [ReadClock, ?get]"
  have cs: "list_all no_patch cs" using inspect(2) by (simp add: cs_def)
  have st2: "status_at (tr @ cs) = status_at tr" by (rule status_at_no_patch [OF cs])
  let ?v = "\<lparr>v_result = after_seconds 5, v_ready = True, v_error = None\<rparr>"
  have "run_state (RunValidations E (with_status (status_at tr)) c) tr = (Inr (with_status (status_at tr), ?v), tr @ cs)"
    using inspect(1,3) ps(1) upd cloud unfolding st1
    by (simp add: RunValidations_def tr1_def cs_def)
  then have "after_stage c tr = snd (run_state (cloud_initialization E (with_status (status_at tr)) c) (tr @ cs))"
    using phaseD(1,2) [OF ph] S(1) by (simp add: reconcile_stage_def reconcile_initialization_def unless_panic_def)
  then show thesis using that [OF cs] st2 by simp
qed

lemma registered_to_initialized:
  assumes ph: "phase ''initialization'' registered_statuses d tr"
  shows "phase ''initialized'' registered_statuses d (after_stage c tr) \<or> waits tr (after_stage c tr)"
proof (rule inspection [OF ph, of "status_at tr"])
  assume "length tr < N" "run_state (inspectTestRun E (with_status (status_at tr))) tr =
    (InspectNotReady, tr @ [ListPods (initializer_pods k0)])"
  then show ?thesis using initialization_waits [OF ph] by blast
next
  fix calls out
  assume inspect: "run_state (inspectTestRun E (with_status (status_at tr))) tr = (InspectReady out, tr @ calls)"
    "list_all no_patch calls" "\<not> too_few_vus (io_maxVUs out) (spec_parallelism (tr_spec k0))"
  obtain cs where cs: "list_all no_patch cs"
    "after_stage c tr = snd (run_state (cloud_initialization E (with_status (status_at (tr @ cs))) c) (tr @ cs))"
    by (rule later_validation [OF ph _ _ _ inspect]) (simp_all add: cloud_statuses)
  note ph1 = phase_no_patch [OF ph cs(1)]
  obtain upd where
    "run_state (UpdateStatus E (set_stage ''initialized'' (with_status (status_at (tr @ cs))))) (tr @ cs) =
      ((with_status (status_at ((tr @ cs) @ upd)), True, None), (tr @ cs) @ upd)"
    "phase ''initialized'' registered_statuses d ((tr @ cs) @ upd)"
    by (rule move_and_patch [OF ph1, of "''initialized''"]) (auto simp: stage_step_def)
  moreover have "status_of (e_meta E) (st_conditions (status_at (tr @ cs))) = registered_statuses"
    by (rule phaseD(2) [OF ph1])
  then have "cloud_initialization E (with_status (status_at (tr @ cs))) c =
      State_Monad.bind (UpdateStatus E (set_stage ''initialized'' (with_status (status_at (tr @ cs)))))
        (\<lambda>(_, _, err). finish no_requeue err)"
    by (simp add: cloud_initialization_def cloud_statuses del: fold_append)
  ultimately show ?thesis unfolding cs(2) by (simp add: finish_def del: fold_append)
qed

text \<open>The creation of the cloud test run, five seconds after the conditions were set.\<close>

lemma data_encoded: "no_bar config \<Longrightarrow> data_ok (trid, EncodeAggregationConfig config)"
  by (simp add: data_ok_def Decode_Encode)

lemma record_stores:
  fixes trid :: string and config :: runtime_config
  assumes ph: "phase ''initialization'' unregistered_statuses ('''', '''') tr" and trid: "trid \<noteq> ''''"
  defines "tr_end \<equiv> snd (run_state (record_cloud_test_run E (with_status (status_at tr)) trid config) tr)"
  shows "phase ''initialization'' registered_statuses (trid, EncodeAggregationConfig config) tr_end \<and> extends tr tr_end"
proof -
  let ?d = "(trid, EncodeAggregationConfig config)"
  note known = phaseD [OF ph]
  obtain ps upd where upd:
    "\<And>st. st_conditions st = st_conditions (status_at tr) \<Longrightarrow>
      TestRun_UpdateCondition (e_meta E) (e_clock E tr 0) (with_status st) ''CloudTestRunCreated'' ConditionTrue =
        Inr (with_status (st\<lparr>st_conditions := ps\<rparr>))"
    "\<And>p. st_conditions p = ps \<Longrightarrow> st_stage p = ''initialization'' \<Longrightarrow> st_testRunID p = fst ?d \<Longrightarrow> st_aggregationVars p = snd ?d \<Longrightarrow>
      run_state (UpdateStatus E (with_status p)) (tr @ [ReadClock]) =
        ((with_status (status_at (tr @ ReadClock # upd)), True, None), tr @ ReadClock # upd)"
    "phase ''initialization'' (unregistered_statuses(''CloudTestRunCreated'' \<mapsto> ConditionTrue)) ?d (tr @ ReadClock # upd)"
    by (rule update_and_patch [OF ph, of "''CloudTestRunCreated''" ConditionTrue "''initialization''" ?d])
      (use trid in \<open>auto simp: cloud_statuses operator_condition_types_def\<close>)
  have "run_state (update_condition E (with_status ((status_at tr)\<lparr>st_testRunID := trid\<rparr>)) ''CloudTestRunCreated'' ConditionTrue) tr =
      (Inr (with_status ((status_at tr)\<lparr>st_testRunID := trid, st_conditions := ps\<rparr>)), tr @ [ReadClock])"
    using upd(1) [of "(status_at tr)\<lparr>st_testRunID := trid\<rparr>"] by (simp add: update_condition_run)
  moreover have "run_state (UpdateStatus E (with_status ((status_at tr)\<lparr>st_testRunID := trid, st_conditions := ps,
        st_aggregationVars := EncodeAggregationConfig config\<rparr>))) (tr @ [ReadClock]) =
      ((with_status (status_at (tr @ ReadClock # upd)), True, None), tr @ ReadClock # upd)"
    by (rule upd(2)) (simp_all add: known)
  ultimately have "tr_end = tr @ ReadClock # upd"
    unfolding tr_end_def by (simp add: record_cloud_test_run_def Let_def unless_panic_def finish_def)
  then show ?thesis using upd(3) by (simp add: registered_statuses_def)
qed

lemma SetupCloudTest_step:
  fixes cl :: cloud_client
  assumes ph: "phase ''initialization'' unregistered_statuses ('''', '''') tr"
    and settled: "settled B (st_conditions (status_at tr))"
  defines "tr_end \<equiv> snd (run_state (SetupCloudTest E (with_status (status_at tr)) (Some cl)) tr)"
  shows "(\<exists>d. phase ''initialization'' registered_statuses d tr_end \<and> fst d \<noteq> '''' \<and> data_ok d \<and> issued E (fst d) tr_end)
    \<or> idles tr tr_end \<and> (length tr < N \<or> length tr < B)"
proof (rule inspection [OF ph, of "status_at tr"])
  assume "length tr < N" "run_state (inspectTestRun E (with_status (status_at tr))) tr =
    (InspectNotReady, tr @ [ListPods (initializer_pods k0)])"
  then show ?thesis by (simp add: tr_end_def SetupCloudTest_def finish_def idles_def)
next
  let ?k = "with_status (status_at tr)"
  note known = phaseD [OF ph]
  fix calls out
  assume inspect: "run_state (inspectTestRun E ?k) tr = (InspectReady out, tr @ calls)" "list_all no_patch calls"
  define tr1 where "tr1 = tr @ calls"
  define young where "young \<longleftrightarrow>
    e_clock E tr1 1 - fst (LastUpdate (e_meta E) (e_clock E tr1 0) ?k ''CloudTestRunCreated'') < seconds 5"
  define opts where "opts = (if length (TestName out) < 1
    then map_sum (\<lambda>_. nil_client) (\<lambda>script. SetTestName (s_Filename script) out) (ParseScript (tr_spec k0)) else Inr out)"
  have steps: "tr_end = (if young then tr1 @ [ReadClock]
      else snd (run_state (case opts of Inl p \<Rightarrow> State_Monad.return (Panicked p)
        | Inr opts \<Rightarrow> unless_panic (CreateTestRun E opts (spec_parallelism (tr_spec k0)) (Some cl)) (\<lambda>r.
            case r of Inl _ \<Rightarrow> finish (after_seconds 5) None
            | Inr (referenceID, config) \<Rightarrow> record_cloud_test_run E ?k referenceID config)) (tr1 @ [ReadClock])))"
  proof -
    have same: "tr_spec ?k = tr_spec k0" by simp
    show ?thesis
      unfolding tr_end_def SetupCloudTest_def same
      using inspect(1) known(2)
      by (simp add: read_clock_def Let_def finish_def young_def opts_def tr1_def cloud_statuses)
  qed
  show ?thesis
  proof (cases young)
    case True
    have "length tr < B"
      using LastUpdate_settled [OF settled, of "''CloudTestRunCreated''" tr1 1] True known(2)
      by (cases "B \<le> length tr1") (auto simp: young_def cloud_statuses tr1_def)
    then show ?thesis using True inspect(2) by (auto simp: steps idles_def tr1_def)
  next
    case False
    obtain o1 where o1: "opts = Inr o1"
      using spec(3) by (cases "ParseScript (tr_spec k0)"; cases "length (TestName out) < 1") (auto simp: opts_def)
    define body where "body = CreateTestRun_body (e_defaultProject E) o1 (spec_parallelism (tr_spec k0))"
    define call where "call = CloudCreateTestRun cl (e_baseURL E cl @ ''/tests'') body"
    define tr2 where "tr2 = tr1 @ [ReadClock]"
    have idle: "idles tr (tr2 @ [call])" "length tr < length tr2" "list_all no_patch (calls @ [ReadClock, call])"
      using inspect(2) by (simp_all add: idles_def tr2_def tr1_def call_def)
    have request: "tr_end = (case e_cloudCreateTestRun E tr2 body of
        Inl err \<Rightarrow> tr2 @ [call]
      | Inr (trid, config) \<Rightarrow> if trid = '''' then tr2 @ [call]
          else snd (run_state (record_cloud_test_run E ?k trid config) (tr2 @ [call])))"
      using False by (auto simp: steps o1 CreateTestRun_def createTestRun_def requests unless_panic_def finish_def Let_def
          body_def [symmetric] call_def tr2_def split: sum.splits)
    show ?thesis
    proof (cases "\<exists>trid config. e_cloudCreateTestRun E tr2 body = Inr (trid, config) \<and> trid \<noteq> ''''")
      case True
      then obtain trid config where answer: "e_cloudCreateTestRun E tr2 body = Inr (trid, config)" "trid \<noteq> ''''" by blast
      have at: "tr2 @ [call] = tr @ calls @ [ReadClock, call]" by (simp add: tr2_def tr1_def)
      have ph2: "phase ''initialization'' unregistered_statuses ('''', '''') (tr2 @ [call])"
        "status_at (tr2 @ [call]) = status_at tr"
        unfolding at by (rule phase_no_patch [OF ph idle(3)], rule status_at_no_patch [OF idle(3)])
      have "phase ''initialization'' registered_statuses (trid, EncodeAggregationConfig config) tr_end
          \<and> extends (tr2 @ [call]) tr_end"
        using record_stores [OF ph2(1) answer(2), of config] answer unfolding ph2(2) by (simp add: request)
      moreover from this have "issued E trid tr_end"
        unfolding issued_def call_def using answer(1) by blast
      ultimately show ?thesis using answer(2) data_encoded [OF create(2) [OF answer(1)]] by force
    next
      case False
      then have "length tr2 < N" using create(1) [of tr2 body] by (meson not_le)
      moreover have "tr_end = tr2 @ [call]" using False by (auto simp: request split: sum.splits)
      ultimately show ?thesis using idle by simp
    qed
  qed
qed

text \<open>The data of a cloud test run that the cloud has created.\<close>

definition created_run :: "string \<times> string \<Rightarrow> trace \<Rightarrow> bool" where
  "created_run d tr \<longleftrightarrow> fst d \<noteq> '''' \<and> data_ok d \<and> issued E (fst d) tr"

lemma created_run_mono: "created_run d tr \<Longrightarrow> extends tr tr' \<Longrightarrow> created_run d tr'"
  using issued_mono by (auto simp: created_run_def)

lemma unregistered_step:
  assumes ph: "phase ''initialization'' unregistered_statuses ('''', '''') tr"
    and settled: "settled B (st_conditions (status_at tr))" and c: "client_ok unregistered_statuses c"
  shows "(\<exists>d. phase ''initialization'' registered_statuses d (after_stage c tr) \<and> created_run d (after_stage c tr))
    \<or> idles tr (after_stage c tr) \<and> (length tr < N \<or> length tr < B)"
proof (rule inspection [OF ph, of "status_at tr"])
  assume "length tr < N" "run_state (inspectTestRun E (with_status (status_at tr))) tr =
    (InspectNotReady, tr @ [ListPods (initializer_pods k0)])"
  then show ?thesis using initialization_waits [OF ph] by (auto simp: waits_idles)
next
  fix calls out
  assume inspect: "run_state (inspectTestRun E (with_status (status_at tr))) tr = (InspectReady out, tr @ calls)"
    "list_all no_patch calls" "\<not> too_few_vus (io_maxVUs out) (spec_parallelism (tr_spec k0))"
  obtain cl where cl: "c = Some cl" using client_there [OF c] by (auto simp: cloud_statuses)
  obtain cs where cs: "list_all no_patch cs"
    "after_stage c tr = snd (run_state (cloud_initialization E (with_status (status_at (tr @ cs))) c) (tr @ cs))"
    by (rule later_validation [OF ph _ _ _ inspect]) (simp_all add: cloud_statuses)
  note ph1 = phase_no_patch [OF ph cs(1)]
  have "status_of (e_meta E) (st_conditions (status_at (tr @ cs))) = unregistered_statuses"
    by (rule phaseD(2) [OF ph1])
  then have "cloud_initialization E (with_status (status_at (tr @ cs))) c = SetupCloudTest E (with_status (status_at (tr @ cs))) (Some cl)"
    by (simp add: cloud_initialization_def cloud_statuses cl del: fold_append)
  moreover have "settled B (st_conditions (status_at (tr @ cs)))" unfolding status_at_no_patch [OF cs(1)] by (rule settled)
  ultimately show ?thesis
    using SetupCloudTest_step [OF ph1, of B cl] cs by (auto simp: idles_def created_run_def simp del: fold_append)
qed

section \<open>Stages: initialized and stopped\<close>

lemma initialized_to_created:
  assumes ph: "phase ''initialized'' registered_statuses d tr" and data: "data_ok d"
  shows "(phase ''created'' registered_statuses d (after_stage c tr) \<and> runners_created E k0 (fst d) (after_stage c tr))
    \<or> waits tr (after_stage c tr)"
proof (rule Load_result [of tr])
  let ?k = "with_status (status_at tr)"
  have S: "IsTrue (e_meta E) ?k ''CloudTestRun'' \<and> IsTrue (e_meta E) ?k ''CloudTestRunCreated''"
    using phaseD(2) [OF ph] by (simp add: cloud_statuses)
  have start: "after_stage c tr = snd (run_state (CreateJobs E ?k c) tr)"
    using phaseD(1) [OF ph] by (simp add: reconcile_stage_def)
  let ?load = "Load E (NewTokenInfo (spec_token (tr_spec k0)) (tr_namespace k0))"
  {
    fix ti err cs
    assume "run_state ?load tr = ((ti, err), tr @ cs)" "err \<noteq> None \<or> \<not> ti_ready ti" "list_all no_patch cs" "length tr < N"
    then show ?thesis
      unfolding start using S by (auto simp: CreateJobs_def Let_def finish_def waits_def split: option.splits)
  next
    fix ti cs
    assume loaded: "run_state ?load tr = ((ti, None), tr @ cs)" "ti_ready ti" "list_all no_patch cs"
    have "after_stage c tr = snd (run_state (create_jobs_with E (with_status (status_at (tr @ cs))) c ti) (tr @ cs))"
      unfolding start status_at_no_patch [OF loaded(3)] using S loaded(1,2) by (simp add: CreateJobs_def Let_def)
    then show ?thesis using create_jobs_moves [OF phase_no_patch [OF ph loaded(3)] _ data] by simp
  }
qed

lemma stopped_step:
  assumes ph: "phase ''stopped'' S d tr" and S: "ordinary S" "S ''CloudTestRun'' = Some ConditionTrue"
      "S ''CloudTestRunFinalized'' = Some ConditionFalse" "S ''TestRunRunning'' \<noteq> None"
    and settled: "settled B (st_conditions (status_at tr))" and c: "client_ok S c"
  shows "(st_stage (status_at (after_stage c tr)) = ''finished'' \<and> st_testRunID (status_at (after_stage c tr)) = fst d
      \<and> (\<exists>cl. CloudTestFinished cl (fst d) \<in> set (after_stage c tr)))
    \<or> idles tr (after_stage c tr) \<and> (length tr < N \<or> length tr < B)"
proof -
  let ?k = "with_status (status_at tr)" and ?clk = "e_clock E tr"
  note known = phaseD [OF ph]
  obtain cl where cl: "c = Some cl" using client_there [OF c S(2)] by blast
  define young where "young \<longleftrightarrow> ?clk 1 - fst (LastUpdate (e_meta E) (?clk 0) ?k ''TestRunRunning'') < seconds 5"
  have start: "after_stage c tr = snd (run_state (finalize_and_finish E ?k c) tr)"
    using known(1,2) S(1) by (simp add: reconcile_stage_def reconcile_stopped_def ordinary_def)
  have final: "IsTrue (e_meta E) ?k ''CloudTestRun'' \<and> IsFalse (e_meta E) ?k ''CloudTestRunFinalized''"
    using known(2) S by simp
  show ?thesis
  proof (cases young)
    case True
    have "length tr < B"
      using LastUpdate_settled [OF settled, of "''TestRunRunning''" tr 1] True known(2) S(4)
      by (cases "B \<le> length tr") (auto simp: young_def)
    moreover have "after_stage c tr = tr @ [ReadClock]"
      unfolding start using final True by (simp add: finalize_and_finish_def read_clock_def young_def finish_def Let_def)
    ultimately show ?thesis by (simp add: idles_def)
  next
    case False
    define tr1 where "tr1 = tr @ [ReadClock]"
    define call where "call = CloudTestFinished cl (fst d)"
    define tr2 where "tr2 = tr @ [ReadClock, call]"
    have calls: "list_all no_patch [ReadClock, call]" by (simp add: call_def)
    have ph2: "phase ''stopped'' S d tr2" unfolding tr2_def by (rule phase_no_patch [OF ph calls])
    have st2: "status_at tr2 = status_at tr" unfolding tr2_def by (rule status_at_no_patch [OF calls])
    have finish: "after_stage c tr = (case e_cloudTestFinished E tr1 (fst d) of
        Some _ \<Rightarrow> tr2
      | None \<Rightarrow> snd (run_state (unless_panic (update_condition E ?k ''CloudTestRunFinalized'' ConditionTrue) (mark_finished E)) tr2))"
      unfolding start using final False known(3)
      by (simp add: finalize_and_finish_def read_clock_def young_def finish_def Let_def cl FinishTestRun_def
          unless_panic_def tr1_def tr2_def call_def split: option.splits)
    show ?thesis
    proof (cases "e_cloudTestFinished E tr1 (fst d)")
      case (Some err)
      then have "length tr1 < N" using finish_answer [of tr1 "fst d"] by (cases "N \<le> length tr1") auto
      then show ?thesis using Some calls by (auto simp: finish idles_def tr1_def tr2_def)
    next
      case None
      obtain ps upd where upd:
        "\<And>st. st_conditions st = st_conditions (status_at tr2) \<Longrightarrow>
          TestRun_UpdateCondition (e_meta E) (e_clock E tr2 0) (with_status st) ''CloudTestRunFinalized'' ConditionTrue =
            Inr (with_status (st\<lparr>st_conditions := ps\<rparr>))"
        "\<And>p. st_conditions p = ps \<Longrightarrow> st_stage p = ''finished'' \<Longrightarrow> st_testRunID p = fst d \<Longrightarrow> st_aggregationVars p = snd d \<Longrightarrow>
          run_state (UpdateStatus E (with_status p)) (tr2 @ [ReadClock]) =
            ((with_status (status_at (tr2 @ ReadClock # upd)), True, None), tr2 @ ReadClock # upd)"
        "phase ''finished'' (S(''CloudTestRunFinalized'' \<mapsto> ConditionTrue)) d (tr2 @ ReadClock # upd)"
        by (rule update_and_patch [OF ph2, of "''CloudTestRunFinalized''" ConditionTrue "''finished''" d])
          (auto simp: stage_step_def operator_condition_types_def)
      have "run_state (UpdateStatus E (with_status ((status_at tr)\<lparr>st_conditions := ps, st_stage := ''finished''\<rparr>))) (tr2 @ [ReadClock]) =
          ((with_status (status_at (tr2 @ ReadClock # upd)), True, None), tr2 @ ReadClock # upd)"
        by (rule upd(2)) (simp_all add: known)
      then have "after_stage c tr = tr2 @ ReadClock # upd"
        using None upd(1) [of "status_at tr"] st2
        by (simp add: finish update_condition_run unless_panic_def mark_finished_def set_stage_def finish_def)
      then show ?thesis using phaseD(1,3) [OF upd(3)] by (auto simp: tr2_def call_def simp del: fold_append)
    qed
  qed
qed

section \<open>The way to the end\<close>

text \<open>A stage in which the handler may also wait for five seconds to pass.\<close>

lemma settled_leads:
  assumes h: "handled S d" and start: "phase g S d tr"
    and step: "\<And>B c tr. client_ok S c \<Longrightarrow> phase g S d tr \<Longrightarrow> settled B (st_conditions (status_at tr)) \<Longrightarrow>
      Q (after_stage c tr) \<or> idles tr (after_stage c tr) \<and> (length tr < N \<or> length tr < B)"
  shows "leads (1 + W) tr (\<lambda>tr'. Q tr' \<and> extends tr tr')"
proof -
  let ?B = "length tr + W"
  let ?P = "\<lambda>tr'. phase g S d tr' \<and> settled ?B (st_conditions (status_at tr')) \<and> extends tr tr'"
  have "leads (1 + (?B - length tr)) tr (\<lambda>tr'. Q tr' \<and> extends tr tr')"
  proof (rule leads_step_until [of ?P])
    show "?P tr" using start past_settled [OF phaseD(6) [OF start]] by simp
    fix tr' assume P: "?P tr'"
    have "Q (after_reconcile tr') \<or> idles tr' (after_reconcile tr') \<and> (length tr' < N \<or> length tr' < ?B)"
    proof (cases "waits tr' (after_reconcile tr')")
      case False
      then obtain c cs where handler: "client_ok S c" "list_all no_patch cs" "after_reconcile tr' = after_stage c (tr' @ cs)"
        using h P unfolding handled_def by blast
      have "phase g S d (tr' @ cs)" "settled ?B (st_conditions (status_at (tr' @ cs)))"
        using P phase_no_patch handler(2) unfolding status_at_no_patch [OF handler(2)] by blast+
      from step [OF handler(1) this] show ?thesis
        unfolding handler(3) using handler(2) by (auto simp: idles_def)
    qed (simp add: waits_idles)
    moreover have "extends tr (after_reconcile tr')" using P Reconcile_extends extends_trans by blast
    moreover have "?P (after_reconcile tr')" if idle: "idles tr' (after_reconcile tr')"
    proof -
      obtain cs where cs: "after_reconcile tr' = tr' @ cs" "list_all no_patch cs" using idle by (auto simp: idles_def)
      show ?thesis
        using P phase_no_patch [OF _ cs(2)] extends_trans [OF _ extends_append]
        unfolding cs(1) status_at_no_patch [OF cs(2)] by blast
    qed
    ultimately show "(Q (after_reconcile tr') \<and> extends tr (after_reconcile tr'))
        \<or> ?P (after_reconcile tr') \<and> (length tr' < N \<or> length tr' < ?B)" by blast
  qed
  then show ?thesis by simp
qed

text \<open>A finished test run that the cloud knows by its id.\<close>

definition complete_at :: "trace \<Rightarrow> bool" where
  "complete_at tr \<longleftrightarrow> (\<exists>trid cl. st_stage (status_at tr) = ''finished'' \<and> st_testRunID (status_at tr) = trid
     \<and> trid \<noteq> '''' \<and> issued E trid tr \<and> all_created trid tr \<and> CloudTestFinished cl trid \<in> set tr)"

lemma handled_registered:
  "handled registered_statuses d" "handled (registered_statuses(''TestRunRunning'' \<mapsto> s)) d"
proof -
  have true: "registered_statuses ''CloudTestRun'' = Some ConditionTrue" by (simp add: cloud_statuses)
  show "handled registered_statuses d" by (rule handled_cloud [OF cloud_ok(2) true])
  show "handled (registered_statuses(''TestRunRunning'' \<mapsto> s)) d" by (rule handled_cloud [OF cloud_ok(3)]) (simp add: true)
qed

lemma stopped_leads:
  assumes ph: "phase ''stopped'' (registered_statuses(''TestRunRunning'' \<mapsto> ConditionFalse)) d tr"
    and run: "created_run d tr" "all_created (fst d) tr"
  shows "leads (1 + W) tr complete_at"
proof -
  have "leads (1 + W) tr (\<lambda>tr'. (st_stage (status_at tr') = ''finished'' \<and> st_testRunID (status_at tr') = fst d
      \<and> (\<exists>cl. CloudTestFinished cl (fst d) \<in> set tr')) \<and> extends tr tr')"
    by (rule settled_leads [OF handled_registered(2) ph], rule stopped_step [OF _ cloud_ok(3)])
      (assumption | simp add: cloud_statuses)+
  then show ?thesis
    by (rule reconciliations.leads_mono)
      (use run issued_mono all_created_mono in \<open>auto simp: complete_at_def created_run_def\<close>)
qed

lemma registered_leads:
  assumes ph: "phase ''initialization'' registered_statuses d tr" and run: "created_run d tr"
  shows "leads (5 + W) tr complete_at"
proof -
  have data: "data_ok d" using run by (simp add: created_run_def)
  have 1: "leads 1 tr (\<lambda>tr'. phase ''initialized'' registered_statuses d tr' \<and> extends tr tr')"
    by (rule handled_leads [OF handled_registered(1) ph]) (rule registered_to_initialized)
  have 2: "leads 1 tr' (\<lambda>tr''. (phase ''created'' registered_statuses d tr'' \<and> runners_created E k0 (fst d) tr'') \<and> extends tr' tr'')"
    if "phase ''initialized'' registered_statuses d tr'" for tr'
    by (rule handled_leads [OF handled_registered(1) that]) (rule initialized_to_created [OF _ data])
  have 5: "leads (1 + W) tr3 complete_at"
    if "phase ''stopped'' (registered_statuses(''TestRunRunning'' \<mapsto> ConditionFalse)) d tr3 \<and> all_created (fst d) tr3
      \<and> extends tr2 tr3" "created_run d tr2" for tr2 tr3
    using stopped_leads that created_run_mono by blast
  have 4: "leads (3 + W) tr2 complete_at"
    if "phase ''created'' registered_statuses d tr2" "runners_created E k0 (fst d) tr2" "created_run d tr2" for tr2
  proof -
    have "leads (2 + (1 + W)) tr2 complete_at"
      by (rule leads_trans [OF created_to_stopped [OF handled_registered(1,2) that(1,2)]]) (rule 5 [OF _ that(3)])
    then show ?thesis by (simp add: numeral_eq_Suc)
  qed
  have 3: "leads (4 + W) tr1 complete_at"
    if tr1: "phase ''initialized'' registered_statuses d tr1 \<and> extends tr tr1" for tr1
  proof -
    have here: "created_run d tr1" using created_run_mono [OF run] tr1 by blast
    have "leads (1 + (3 + W)) tr1 complete_at"
      by (rule leads_trans [OF 2 [OF conjunct1 [OF tr1]]]) (use 4 created_run_mono [OF here] in blast)
    then show ?thesis by (simp add: numeral_eq_Suc)
  qed
  have "leads (1 + (4 + W)) tr complete_at" by (rule leads_trans [OF 1 3])
  then show ?thesis by (simp add: numeral_eq_Suc)
qed

lemma fresh_to_finished: "leads (8 + 2 * W) [] complete_at"
proof -
  let ?d = "('''', '''')"
  have "\<not> isCloudTestRun (e_meta E) (with_status (status_at []))"
    using fresh(1) by (simp add: isCloudTestRun_def zero_status_def status_of_def)
  then have first: "after_reconcile [] = after_stage None [GetTestRun (NamespacedName k0)]"
    unfolding Reconcile_stored by (simp add: reconcile_def reconcile_with_def)
  have "phase ''initialization'' start_statuses ?d (after_reconcile [])"
    using fresh_to_initialization [of "[GetTestRun (NamespacedName k0)]" None] cloud unfolding first by auto
  then have 1: "leads 1 [] (phase ''initialization'' start_statuses ?d)"
    by (intro leads_step [of "\<lambda>tr. tr = []"]) simp_all
  have 2: "leads 1 tr (\<lambda>tr'. phase ''initialization'' unregistered_statuses ?d tr' \<and> extends tr tr')"
    if ph: "phase ''initialization'' start_statuses ?d tr" for tr
  proof (rule stage_leads [OF _ ph])
    fix tr assume ph: "phase ''initialization'' start_statuses ?d tr"
    then have "\<not> isCloudTestRun (e_meta E) (with_status (status_at tr))"
      using phaseD(2) [OF ph] by (simp add: isCloudTestRun_def start_statuses_def)
    then have "after_reconcile tr = after_stage None (tr @ [GetTestRun (NamespacedName k0)])"
      unfolding Reconcile_stored by (simp add: reconcile_def reconcile_with_def)
    then show "phase ''initialization'' unregistered_statuses ?d (after_reconcile tr) \<or> waits tr (after_reconcile tr)"
      using first_validation [OF phase_no_patch [OF ph, of "[GetTestRun (NamespacedName k0)]"]]
        waits_prefix [of "[GetTestRun (NamespacedName k0)]" tr "after_reconcile tr"] by (simp del: fold_append) blast
  qed
  have unregistered: "handled unregistered_statuses ?d"
    by (rule handled_cloud [OF cloud_ok(1)]) (simp add: cloud_statuses)
  have 3: "leads (1 + W) tr (\<lambda>tr'. (\<exists>d. phase ''initialization'' registered_statuses d tr' \<and> created_run d tr') \<and> extends tr tr')"
    if "phase ''initialization'' unregistered_statuses ?d tr" for tr
    by (rule settled_leads [OF unregistered that], rule unregistered_step)
  have 4: "leads (6 + 2 * W) tr complete_at" if ph: "phase ''initialization'' unregistered_statuses ?d tr" for tr
  proof -
    have "leads ((1 + W) + (5 + W)) tr complete_at"
      by (rule leads_trans [OF 3 [OF ph]]) (use registered_leads in blast)
    then show ?thesis by (simp add: numeral_eq_Suc)
  qed
  have 5: "leads (1 + (6 + 2 * W)) tr complete_at" if ph: "phase ''initialization'' start_statuses ?d tr" for tr
    by (rule leads_trans [OF 2 [OF ph]]) (use 4 in blast)
  have "leads (1 + (1 + (6 + 2 * W))) [] complete_at" by (rule leads_trans [OF 1 5])
  then show ?thesis by (simp add: numeral_eq_Suc)
qed

end

section \<open>The property\<close>

text \<open>
  The cluster of the examples with a cloud that refuses everything up to the \<open>N\<close>-th call, and a clock
  that shows another second at each call.
\<close>

definition cloud_env :: "nat \<Rightarrow> TestRun \<Rightarrow> env" where
  "cloud_env N k = (cluster_env N k)\<lparr>e_clock := \<lambda>tr i. seconds (int (length tr)) + int i,
     e_listSecrets := \<lambda>tr _. Inr (if length tr < N then [] else [[(''token'', ''t'')]]),
     e_cloudGetTestRun := \<lambda>_ _. Inr (example_data []),
     e_cloudCreateTestRun := \<lambda>tr _. if length tr < N then Inl ''unavailable'' else Inr (''77'',
       \<lparr>rc_aggregationPeriod = ''3s'', rc_aggregationWaitPeriod = ''8s'', rc_metricPushInterval = ''6s'',
        rc_metricPushConcurrency = 10\<rparr>),
     e_cloudTestFinished := \<lambda>tr _. if length tr < N then Some ''unavailable'' else None\<rparr>"

definition cloud_run :: TestRun where
  "cloud_run = (example_run ''a'')\<lparr>tr_spec := (tr_spec (example_run ''a''))\<lparr>
     spec_args := [''--vus'', ''10'', ''--out'', ''cloud'']\<rparr>\<rparr>"

lemma cloud_run_simps:
  "spec_parallelism (tr_spec cloud_run) = 3" "spec_token (tr_spec cloud_run) = ''''"
  "spec_testRunID (tr_spec cloud_run) = ''''" "tr_status cloud_run = zero_status"
  "HasCloudOut (fst (ParseCLI (Argv (tr_spec cloud_run))))" "snd (ParseCLI (Argv (tr_spec cloud_run))) = None"
  "\<not> isl (ParseScript (tr_spec cloud_run))"
  by code_simp+

lemma cloud_env_token:
  "N \<le> length tr \<Longrightarrow> \<exists>ti. fst (run_state (Load (cloud_env N k) (NewTokenInfo '''' ns)) tr) = (ti, None) \<and> ti_ready ti"
  by (simp add: Load_def find_secret_def NewTokenInfo_def cloud_env_def gomap_get_simps Let_def)

lemma cloud_env_clock:
  "length tr < length tr' \<Longrightarrow> i < 5 \<Longrightarrow> e_clock (cloud_env N k) tr i < e_clock (cloud_env N k) tr' j"
  "i < j \<Longrightarrow> e_clock (cloud_env N k) tr i < e_clock (cloud_env N k) tr j"
  "length tr + 5 \<le> length tr' \<Longrightarrow> e_clock (cloud_env N k) tr 0 + seconds 5 \<le> e_clock (cloud_env N k) tr' j"
  by (simp_all add: cloud_env_def seconds_def)

lemma cloud_env_answers:
  "e_cloudCreateTestRun (cloud_env N k) tr body = Inr (trid, config) \<Longrightarrow> no_bar config"
  "N \<le> length tr \<Longrightarrow> \<exists>trid. (\<exists>config. e_cloudCreateTestRun (cloud_env N k) tr body = Inr (trid, config)) \<and> trid \<noteq> ''''"
  "e_cloudGetTestRun (cloud_env N k) tr url = Inr data \<Longrightarrow>
    \<not> Aborted (e_runStatusTimedOut (cloud_env N k)) (trd_runStatus data)"
  "N \<le> length tr \<Longrightarrow> e_cloudTestFinished (cloud_env N k) tr trid = None"
  by (auto simp: cloud_env_def no_bar_def Aborted_def example_data_def split: if_splits)

lemma cloud_env_cluster:
  "e_meta (cloud_env N k) = documented_meta" "e_getTestRun (cloud_env N k) = e_getTestRun (cluster_env N k)"
  "e_patchTestRun (cloud_env N k) = e_patchTestRun (cluster_env N k)" "e_getJob (cloud_env N k) = e_getJob (cluster_env N k)"
  "e_createJob (cloud_env N k) = e_createJob (cluster_env N k)"
  "e_createService (cloud_env N k) = e_createService (cluster_env N k)"
  "e_setControllerReference (cloud_env N k) = e_setControllerReference (cluster_env N k)"
  "e_readPodLogs (cloud_env N k) = e_readPodLogs (cluster_env N k)" "e_httpGet (cloud_env N k) = e_httpGet (cluster_env N k)"
  "e_listPods (cloud_env N k) = e_listPods (cluster_env N k)" "e_listJobs (cloud_env N k) = e_listJobs (cluster_env N k)"
  "e_listServices (cloud_env N k) = e_listServices (cluster_env N k)"
  "e_newRequest (cloud_env N k) = e_newRequest (cluster_env N k)"
  "e_unmarshalInspect (cloud_env N k) = e_unmarshalInspect (cluster_env N k)"
  by (simp_all add: cloud_env_def)

interpretation example_cloud: cloud_cluster "cloud_env 40 cloud_run" cloud_run 40 5
  by (intro cloud_cluster.intro cloud_cluster_axioms.intro stage_cluster.intro stage_cluster_axioms.intro
      status_server.intro status_server_axioms.intro)
    (simp_all add: documented.status_conditions_axioms cloud_run_simps cluster_env_lists running_pods_replicate
      cluster_env_def [THEN arg_cong [where f = e_unmarshalInspect]] ten_vus_suffice cloud_env_cluster cloud_env_token
      cloud_env_clock cloud_env_answers)

text \<open>
  C3. A test run with cloud output ends, and the cloud knows it. Take a fresh test run whose arguments
  ask for cloud output, a cluster as for \<open>runs_to_finished\<close>, and a cloud that does not ask for an abort.
  Up to the \<open>N\<close>-th call the token may be missing and the cloud may refuse to create the test run
  or to hear of its end, in any pattern; from then on they answer. Let five seconds pass while \<open>W\<close>
  calls are made. Then at most \<open>8 + 2 W + N\<close> reconciliations bring the stage to \<open>finished\<close>. The
  status has the id that the cloud returned when it created its test run; every runner's job was
  created with this id, the starter was created, and the cloud was told that this test run is over.
\<close>

theorem cloud_run_to_finished:
  assumes "cloud_cluster E k0 N W"
  shows "\<exists>n \<le> 8 + 2 * W + N. \<exists>trid cl. stage_at k0 (reconciled E (NamespacedName k0) n) = ''finished''
    \<and> st_testRunID (tr_status (stored k0 (reconciled E (NamespacedName k0) n))) = trid \<and> trid \<noteq> ''''
    \<and> issued E trid (reconciled E (NamespacedName k0) n)
    \<and> runners_created E k0 trid (reconciled E (NamespacedName k0) n)
    \<and> starter_created k0 (reconciled E (NamespacedName k0) n)
    \<and> CloudTestFinished cl trid \<in> set (reconciled E (NamespacedName k0) n)"
proof -
  obtain n where n: "n \<le> 8 + 2 * W + N" "cloud_cluster.complete_at E k0 (reconciled E (NamespacedName k0) n)"
    using reconciliations.leads_bound [OF cloud_cluster.fresh_to_finished [OF assms]] by (auto simp: reconciled_def)
  note at_n = n(2) [unfolded cloud_cluster.complete_at_def [OF assms]
      stage_cluster.all_created_def [OF cloud_cluster.axioms(1) [OF assms]]]
  then show ?thesis using n(1) by (auto simp: stage_at_def stored_def)
qed

theorem cloud_run_to_finished_witness:
  "\<exists>n \<le> 58. stage_at cloud_run (reconciled (cloud_env 40 cloud_run) (NamespacedName cloud_run) n) = ''finished''"
  using cloud_run_to_finished [OF example_cloud.cloud_cluster_axioms] by simp blast

end
