(* ===== verification/K6_PLZ_Props.thy ===== *)
theory K6_PLZ_Props
  imports K6_PLZ
begin

text \<open>
  Properties of private load zones: the test runs a worker creates, and the protocol of the
  controller with the finalizer of a zone, its registration in the cloud and the registry of workers.
\<close>

section \<open>The arguments of the runners\<close>

lemma dropWhile_hd: "dropWhile P xs = y # ys \<Longrightarrow> \<not> P y"
  by (induction xs) (auto split: if_splits)

lemma flag_values_rest:
  assumes "[] \<notin> set as" "drop (length (flag_values as)) as = b # bs"
  shows "is_flag b"
proof -
  have "flag_values as = takeWhile (\<lambda>a. a \<noteq> [] \<and> \<not> is_flag a) as"
    using assms(1) by (cases as) (auto simp: flag_values_def split: list.splits)
  then have "dropWhile (\<lambda>a. a \<noteq> [] \<and> \<not> is_flag a) as = b # bs"
    using assms(2) by (metis append_eq_conv_conj takeWhile_dropWhile_id)
  moreover from this have "b \<in> set as" by (metis list.set_intros(1) set_dropWhileD)
  ultimately show ?thesis using dropWhile_hd assms(1) by fastforce
qed

text \<open>Arguments that start with a flag and have no empty one are all read.\<close>

lemma cli_groups_all:
  "[] \<notin> set as \<Longrightarrow> as = [] \<or> is_flag (hd as) \<Longrightarrow> snd (cli_groups as) = []"
proof (induction as rule: cli_groups.induct)
  case (2 a as)
  let ?rest = "drop (length (flag_values as)) as"
  have "[] \<notin> set ?rest" using "2.prems"(1) by (meson in_set_dropD list.set_intros(2))
  moreover have "?rest = [] \<or> is_flag (hd ?rest)"
    using flag_values_rest [of as] "2.prems"(1) by (cases ?rest) auto
  ultimately have "snd (cli_groups ?rest) = []" using 2 by simp
  then show ?case using "2.prems"(2) by (auto simp: Let_def split: prod.splits)
qed simp

lemma key_value_args_nonempty: "[] \<notin> set (key_value_args (CHR ''-'' # f) m ks)"
  by (auto simp: key_value_args_def)

lemma Preprocess_args_nonempty:
  assumes "Preprocess host trd = Inr a"
  shows "[] \<notin> set (trd_tagArgs a)" "[] \<notin> set (trd_envArgs a)"
  using Preprocess_fields [OF assms] key_value_args_nonempty [of "''-tag''"] key_value_args_nonempty [of "''e''"]
  by (simp_all add: preprocessTags_def Let_def)

lemma plzk6Args_parse:
  assumes "Preprocess host trd = Inr a"
  shows "snd (ParseCLI (plzk6Args name i a)) = None" "HasCloudOut (fst (ParseCLI (plzk6Args name i a)))"
proof -
  let ?args = "plzk6Args name i a"
  obtain rest where args: "?args = ''--out'' # ''cloud'' # rest" by (simp add: plzk6Args_def)
  have "[] \<notin> set ?args"
    using Preprocess_args_nonempty [OF assms] by (simp add: plzk6Args_def plzLogOutputFormat_def)
  then have r: "snd (cli_groups ?args) = []"
    by (rule cli_groups_all) (simp add: args is_flag_def)
  obtain gs where gs: "cli_groups ?args = (gs, [])" using r by (metis prod.collapse)
  have "\<exists>g \<in> set gs. is_cloud_out g"
    using gs unfolding args
    by (auto simp: is_flag_def flag_values_def is_cloud_out_def Let_def split: prod.splits)
  then show "snd (ParseCLI ?args) = None" "HasCloudOut (fst (ParseCLI ?args))"
    by (simp_all add: ParseCLI_eq [OF gs])
qed

section \<open>The test runs of a worker\<close>

abbreviation is_creation :: "call \<Rightarrow> bool" where
  "is_creation c \<equiv> \<exists>k. c = CreateTestRunResource k"

text \<open>What holds of a test run that a worker of the zone creates.\<close>

definition plz_test_run :: "PrivateLoadZone \<Rightarrow> TestRun \<Rightarrow> bool" where
  "plz_test_run plz k \<longleftrightarrow>
     tr_namespace k = plz_namespace plz \<and> tr_name k = PLZTestName (TestRunID k)
     \<and> Validate (tr_spec k) = ([], None) \<and> HasCloudOut (fst (ParseCLI (Argv (tr_spec k))))
     \<and> ParseScript (tr_spec k) = Inr \<lparr>s_Name = ''LocalFile'', s_ReadOnly = False, s_Filename = ''archive.tar'',
          s_Path = ''/test/'', s_Type = ''LocalFile''\<rparr>
     \<and> spec_cleanup (tr_spec k) = ''post'' \<and> tr_status k = zero_status"

lemma createTemplate_mounts:
  "pod_volumeMounts (spec_runner (tr_spec (createTemplate plz))) =
     [\<lparr>vm_name = ''archive-volume'', vm_mountPath = ''/test'', vm_readOnly = False\<rparr>]"
  by (simp add: createTemplate_def plz_security_def plz_runner_def Let_def split: list.splits option.splits)

lemma complete_template:
  assumes "Preprocess host data = Inr trData"
  obtains k where "complete_tr name (createTemplate plz) trData = Inr k" "plz_test_run plz k"
proof -
  obtain k where k: "complete_tr name (createTemplate plz) trData = Inr k"
    by (simp add: complete_tr_def createTemplate_mounts)
  then have args: "spec_args (tr_spec k) = plzk6Args name (trd_TestRunID trData) trData"
    and more: "tr_namespace k = plz_namespace plz" "tr_name k = PLZTestName (trd_TestRunID trData)"
    "spec_testRunID (tr_spec k) = trd_TestRunID trData" "spec_scuttle (tr_spec k) = zero_scuttle"
    "spec_script (tr_spec k) = zero_script\<lparr>ks_localFile := ''/test/archive.tar''\<rparr>"
    "spec_cleanup (tr_spec k) = ''post''" "tr_status k = zero_status"
    by (auto simp: complete_tr_def createTemplate_mounts Let_def)
      (simp_all add: createTemplate_def zero_spec_def)
  have "Argv (tr_spec k) = plzk6Args name (trd_TestRunID trData) trData"
    by (simp add: Argv_def usesArgs_def args plzk6Args_def)
  then have "Validate (tr_spec k) = ([], None)" "HasCloudOut (fst (ParseCLI (Argv (tr_spec k))))"
    using plzk6Args_parse [OF assms] more(4) by (simp_all add: Validate_def zero_scuttle_def)
  moreover have "TestRunID k = trd_TestRunID trData"
    by (simp add: TestRunID_def more trd_TestRunID_def)
  moreover have "ParseScript (tr_spec k) = Inr \<lparr>s_Name = ''LocalFile'', s_ReadOnly = False,
      s_Filename = ''archive.tar'', s_Path = ''/test/'', s_Type = ''LocalFile''\<rparr>"
    unfolding ParseScript_def more(5) by (simp add: zero_script_def) code_simp
  ultimately show ?thesis using that [OF k] more by (simp add: plz_test_run_def)
qed

lemma getTestRun_run:
  obtains r ds where "run_state (getTestRun E cl url) tr = (r, tr @ ds)" "ds = [] \<or> ds = [CloudGetTestRun cl url]"
  by (cases "e_newRequest E cl url") (simp_all add: getTestRun_def)

lemma SendTestRunEvents_run:
  obtains ds where "run_state (SendTestRunEvents E (Some cl) i es) tr = (None, tr @ ds)"
    "ds = [] \<or> (\<exists>url. ds = [CloudSendEvents cl url es])"
proof (cases "length es = 0 \<or> e_newRequest E cl (TrimSuffix (e_baseURL E cl) ''/v1'' @ ''/orchestrator/v1/testruns/'' @ i @ ''/events'') \<noteq> None")
  case True
  then show ?thesis by (intro that [of "[]"]) (auto simp: SendTestRunEvents_def Let_def split: option.splits)
qed (auto simp: SendTestRunEvents_def Let_def intro: that)

lemma create_test_run_run:
  obtains ds where "run_state (create_test_run E w i k) tr =
      (None, tr @ [SetControllerReference (tr_name k), CreateTestRunResource k] @ ds)"
    "filter is_creation ds = []"
    "\<forall>n. DeleteTestRun n \<in> set ds \<longrightarrow> (\<exists>stored t. e_createTestRunResource E t k = Inr stored
       \<and> spec_args (tr_spec stored) = [] \<and> n = NamespacedName stored)"
proof -
  let ?tr = "tr @ [SetControllerReference (tr_name k)]"
  let ?tr2 = "?tr @ [CreateTestRunResource k]"
  show ?thesis
  proof (cases "\<exists>stored. e_createTestRunResource E ?tr k = Inr stored \<and> spec_args (tr_spec stored) = []")
    case True
    then obtain stored where stored: "e_createTestRunResource E ?tr k = Inr stored" "spec_args (tr_spec stored) = []" by blast
    obtain ds where ds: "run_state (SendTestRunEvents E (Some (w_client w)) i outdated_crd_events) ?tr2 = (None, ?tr2 @ ds)"
      "ds = [] \<or> (\<exists>url. ds = [CloudSendEvents (w_client w) url outdated_crd_events])" by (rule SendTestRunEvents_run)
    show ?thesis
      by (rule that [of "ds @ [DeleteTestRun (NamespacedName stored)]"])
        (use stored ds in \<open>auto simp: create_test_run_def\<close>)
  next
    case False
    then show ?thesis
      by (intro that [of "[]"]) (auto simp: create_test_run_def split: sum.splits)
  qed
qed

text \<open>
  C16. Whatever the outside answers, \<open>handle\<close> does not panic, asks first whether the test run exists,
  and creates at most one test run, only if it does not. The test run is one of the zone, named
  after its id, passes validation and runs with cloud output; it is deleted again only if the server
  stored it without its arguments.
\<close>

theorem handle_creates_one_test_run:
  assumes "w_template w = createTemplate plz" and "run_state (handle E w i) tr = (p, tr')"
  shows "p = None \<and> (\<exists>cs. tr' = tr @ cs
    \<and> hd cs = GetTestRun \<lparr>nn_namespace = plz_namespace plz, nn_name = PLZTestName i\<rparr>
    \<and> (\<forall>k. CreateTestRunResource k \<in> set cs \<longrightarrow>
         e_getTestRun E tr \<lparr>nn_namespace = plz_namespace plz, nn_name = PLZTestName i\<rparr> = NotFound
         \<and> plz_test_run plz k)
    \<and> length (filter is_creation cs) \<le> 1
    \<and> (\<forall>n. DeleteTestRun n \<in> set cs \<longrightarrow>
         (\<exists>k stored t. CreateTestRunResource k \<in> set cs \<and> e_createTestRunResource E t k = Inr stored
            \<and> spec_args (tr_spec stored) = [] \<and> n = NamespacedName stored)))"
proof -
  let ?nn = "\<lparr>nn_namespace = plz_namespace plz, nn_name = PLZTestName i\<rparr>"
  have ns: "tr_namespace (Template_Create (w_template w)) = plz_namespace plz"
    by (simp add: assms(1) Template_Create_def createTemplate_def)
  have only_asked: ?thesis if "run_state (handle E w i) tr = (None, tr @ GetTestRun ?nn # ds)"
    "ds = [] \<or> (\<exists>url. ds = [CloudGetTestRun (w_client w) url])" for ds
    using that assms(2) by (intro conjI exI [of _ "GetTestRun ?nn # ds"]) auto
  show ?thesis
  proof (cases "e_getTestRun E tr ?nn")
    case NotFound
    obtain url where url: "GetTestRunData E (w_client w) i = getTestRun E (w_client w) url"
      by (simp add: GetTestRunData_def)
    obtain r ds where got: "run_state (getTestRun E (w_client w) url) (tr @ [GetTestRun ?nn]) = (r, (tr @ [GetTestRun ?nn]) @ ds)"
      "ds = [] \<or> ds = [CloudGetTestRun (w_client w) url]" by (rule getTestRun_run)
    show ?thesis
    proof (cases "\<exists>data trData. r = Inr data \<and> Preprocess (e_cloudHostVar E) data = Inr trData")
      case True
      then obtain data trData where data: "r = Inr data" "Preprocess (e_cloudHostVar E) data = Inr trData" by blast
      obtain k where k: "complete_tr (plz_name (w_plz w)) (createTemplate plz) trData = Inr k" "plz_test_run plz k"
        using complete_template [OF data(2)] by blast
      have run: "run_state (handle E w i) tr = run_state (create_test_run E w i k) (tr @ GetTestRun ?nn # ds)"
        using NotFound got(1) data k(1) ns assms(1) by (simp add: handle_def Template_Create_def url Let_def)
      obtain es where es: "run_state (create_test_run E w i k) (tr @ GetTestRun ?nn # ds) =
          (None, (tr @ GetTestRun ?nn # ds) @ [SetControllerReference (tr_name k), CreateTestRunResource k] @ es)"
        "filter is_creation es = []"
        "\<forall>n. DeleteTestRun n \<in> set es \<longrightarrow> (\<exists>stored t. e_createTestRunResource E t k = Inr stored
           \<and> spec_args (tr_spec stored) = [] \<and> n = NamespacedName stored)"
        by (rule create_test_run_run)
      have "CreateTestRunResource l \<notin> set es" for l using es(2) by (auto simp: filter_empty_conv)
      then show ?thesis using assms(2) run es NotFound k(2) got(2)
        by (intro conjI exI [of _ "GetTestRun ?nn # ds @ [SetControllerReference (tr_name k), CreateTestRunResource k] @ es"]) auto
    next
      case False
      then have "run_state (handle E w i) tr = (None, tr @ GetTestRun ?nn # ds)"
        using NotFound got(1) ns by (auto simp: handle_def url Let_def split: sum.splits)
      from only_asked [OF this] got(2) show ?thesis by blast
    qed
  next
    case (Found k)
    then have "run_state (handle E w i) tr = (None, tr @ [GetTestRun ?nn])"
      using ns by (simp add: handle_def Let_def)
    from only_asked [OF this] show ?thesis by blast
  next
    case (GetFailed e)
    then have "run_state (handle E w i) tr = (None, tr @ [GetTestRun ?nn])"
      using ns by (simp add: handle_def Let_def)
    from only_asked [OF this] show ?thesis by blast
  qed
qed

definition example_plz :: PrivateLoadZone where
  "example_plz =
     \<lparr>plz_name = ''zone'', plz_namespace = ''load'', plz_deleting = False, plz_finalizers = [],
      plz_annotations = [(''team'', ''a'')],
      plz_spec = \<lparr>plzs_token = ''tok'', plzs_resources = zero_resources, plzs_serviceAccountName = '''',
        plzs_nodeSelector = [], plzs_image = '''', plzs_imagePullSecrets = [], plzs_secrets = [],
        plzs_podTemplate = \<lparr>pt_annotations = [], pt_labels = [], pt_tolerations = [],
          pt_containerSecurityContexts = [], pt_securityContext = None\<rparr>\<rparr>,
      plz_conditions = []\<rparr>"

theorem handle_creates_one_test_run_witness:
  "fst (run_state (handle (idle_env\<lparr>e_cloudGetTestRun := \<lambda>_ _. Inr (example_data [])\<rparr>)
      (NewPLZWorker idle_env example_plz ''t'') ''7'') []) = None"
  by (rule handle_creates_one_test_run [THEN conjunct1, OF _ prod.collapse [symmetric]])
    (simp add: NewPLZWorker_def)

section \<open>The finalizer\<close>

definition is_deregistration :: "call \<Rightarrow> bool" where
  "is_deregistration c \<longleftrightarrow> (\<exists>cl url. c = CloudDeRegisterPLZ cl url)"

text \<open>Every worker is registered under the name of its zone.\<close>

definition workers_named :: "workers \<Rightarrow> bool" where
  "workers_named ws \<longleftrightarrow> (\<forall>n w. gomap_get ws n = Some w \<longrightarrow> plz_name (w_plz w) = n)"

text \<open>The API server returns the zone it is asked for.\<close>

definition zone_names_kept :: "env \<Rightarrow> namespaced_name \<Rightarrow> bool" where
  "zone_names_kept E req \<longleftrightarrow>
     (\<forall>tr plz. e_getPLZ E tr req = Found plz \<longrightarrow> PLZ_key plz = req)
     \<and> (\<forall>tr p p'. PLZ_key p = req \<longrightarrow> e_patchPLZ E tr p = Inr p' \<longrightarrow> PLZ_key p' = req)"

text \<open>
  The call that deregisters a zone with a client, if it can be built.
\<close>

definition deregistration :: "env \<Rightarrow> cloud_client \<Rightarrow> string \<Rightarrow> trace" where
  "deregistration E cl name =
     (let url = load_zone_url (e_baseURL E cl) name in
      if e_newRequest E cl url = None then [CloudDeRegisterPLZ cl url] else [])"

text \<open>
  The calls \<open>cs\<close> of a reconciliation that writes \<open>p\<close> to the zone, \<open>tr\<close> being the history so far. The
  release of a zone is the deregistration of this very zone by its worker and the update without the
  finalizer, and nothing else. The registration has the zone registered last, the cloud accepts it,
  and the update that follows sets the finalizer and the id that was registered.
\<close>

definition release_calls :: "env \<Rightarrow> finalizer_api \<Rightarrow> workers \<Rightarrow> PrivateLoadZone \<Rightarrow> trace \<Rightarrow> PrivateLoadZone \<Rightarrow> bool" where
  "release_calls E F ws plz cs p \<longleftrightarrow>
     p = plz\<lparr>plz_finalizers := fz_remove F (plz_finalizers plz) plzFinalizer\<rparr>
     \<and> (\<exists>w. GetWorker ws (plz_name plz) = Inr w \<and> cs = deregistration E (w_client w) (plz_name plz) @ [UpdatePLZ p])"

definition register_calls :: "env \<Rightarrow> finalizer_api \<Rightarrow> PrivateLoadZone \<Rightarrow> trace \<Rightarrow> trace \<Rightarrow> PrivateLoadZone \<Rightarrow> bool" where
  "register_calls E F plz tr cs p \<longleftrightarrow>
     fz_contains F (plz_finalizers p) plzFinalizer \<and> PLZ_key p = PLZ_key plz
     \<and> (\<exists>pre cl d. cs = pre @ [CloudRegisterPLZ cl (load_zones_url (e_baseURL E cl)) d, UpdatePLZ p]
          \<and> (\<forall>q. UpdatePLZ q \<notin> set pre)
          \<and> reg_loadZoneID d = plz_name plz \<and> plz_annotations p = [(plzUIDAnnotation, reg_uid d)]
          \<and> e_cloudRegisterPLZ E (tr @ pre) d = None)"

text \<open>When the controller may write to a zone, and with which calls.\<close>

definition update_allowed ::
    "env \<Rightarrow> finalizer_api \<Rightarrow> workers \<Rightarrow> PrivateLoadZone \<Rightarrow> trace \<Rightarrow> trace \<Rightarrow> PrivateLoadZone \<Rightarrow> bool" where
  "update_allowed E F ws plz tr cs p \<longleftrightarrow>
     (if plz_deleting plz
      then fz_contains F (plz_finalizers plz) plzFinalizer \<and> release_calls E F ws plz cs p
      else (PLZ_IsUnknown (e_meta E) plz ''PLZRegistered'' \<or> PLZ_IsFalse (e_meta E) plz ''PLZRegistered'')
        \<and> \<not> fz_contains F (plz_finalizers plz) plzFinalizer \<and> register_calls E F plz tr cs p)"

lemma UpdateCondition_plz:
  "\<exists>cs'. UpdateCondition M now cs ''PLZRegistered'' ConditionFalse = Inr cs'"
  "\<exists>cs'. UpdateCondition M now cs ''PLZRegistered'' ConditionTrue = Inr cs'"
  by (simp_all add: UpdateCondition_def reasons_def gomap_get_simps)

definition no_update :: "call \<Rightarrow> bool" where
  "no_update c \<longleftrightarrow> (\<forall>p. c \<noteq> UpdatePLZ p)"

lemma only_find_secret: "only no_update (find_secret E ti)"
  unfolding find_secret_def by (intro only_rules) (simp_all add: no_update_def)

lemma only_loadToken: "only no_update (loadToken E n ns)"
  unfolding loadToken_def Load_def Let_def
  by (intro only_rules ensures_bind [OF ensures_bind [OF only_find_secret]]) simp_all

lemma only_PLZ_UpdateStatus: "only no_update (PLZ_UpdateStatus E plz)"
  unfolding PLZ_UpdateStatus_def by (intro only_rules) (simp_all add: no_update_def)

lemma only_watch_plz: "only no_update (watch_plz E ws worker plz)"
  unfolding watch_plz_def by (intro only_rules ensures_bind [OF only_loadToken]) simp_all

lemma only_confirm_plz: "only no_update (confirm_plz E ws worker plz)"
  unfolding confirm_plz_def
  by (intro only_rules ensures_bind [OF only_PLZ_UpdateStatus] only_watch_plz) (simp_all add: no_update_def)

lemma no_update_notin: "list_all no_update cs \<Longrightarrow> UpdatePLZ p \<notin> set cs"
  by (auto simp: list_all_iff no_update_def)

lemma only_no_updateE:
  assumes "only no_update m"
  obtains r cs where "run_state m tr = (r, tr @ cs)" "\<forall>p. UpdatePLZ p \<notin> set cs"
proof -
  obtain r tr' where "run_state m tr = (r, tr')" by fastforce
  with assms show ?thesis by (metis ensures_run no_update_notin that)
qed

text \<open>The registration of a zone, from the answers of the outside.\<close>

lemma PLZ_Register_run:
  obtains plz1 uid where "plz_finalizers plz1 = plz_finalizers plz" "PLZ_key plz1 = PLZ_key plz"
    "e_cloudRegisterPLZ E (tr @ [ReadClock, NewUUID]) (registration_data E plz1 uid) = None"
    "run_state (PLZ_Register E client plz) tr = (Inr (plz1, Inr uid), tr @ [ReadClock, NewUUID,
       CloudRegisterPLZ client (load_zones_url (e_baseURL E client)) (registration_data E plz1 uid)])"
  | plz1 err cs where "run_state (PLZ_Register E client plz) tr = (Inr (plz1, Inl err), tr @ cs)"
    "\<forall>p. UpdatePLZ p \<notin> set cs"
proof -
  obtain cs where cs: "UpdateCondition (e_meta E) (e_clock E tr 0) (plz_conditions plz) ''PLZRegistered'' ConditionFalse = Inr cs"
    using UpdateCondition_plz(1) by blast
  define plz1 where "plz1 = plz\<lparr>plz_conditions := take (length (plz_conditions plz)) cs\<rparr>"
  define uid where "uid = e_uuid E (tr @ [ReadClock])"
  define reg where "reg = run_state (RegisterPLZ E client (registration_data E plz1 uid)) (tr @ [ReadClock, NewUUID])"
  have run: "run_state (PLZ_Register E client plz) tr =
      (case reg of (err, tr') \<Rightarrow> (Inr (plz1, case err of Some e \<Rightarrow> Inl e | None \<Rightarrow> Inr uid), tr'))"
    unfolding plz1_def uid_def reg_def
    by (simp add: PLZ_Register_def PLZ_UpdateCondition_def cs read_clock_def split: prod.splits)
  show ?thesis
  proof (cases "fst reg")
    case None
    then have "e_cloudRegisterPLZ E (tr @ [ReadClock, NewUUID]) (registration_data E plz1 uid) = None"
      "reg = (None, tr @ [ReadClock, NewUUID,
         CloudRegisterPLZ client (load_zones_url (e_baseURL E client)) (registration_data E plz1 uid)])"
      by (auto simp: reg_def RegisterPLZ_def Let_def split: option.splits)
    then show ?thesis using run by (intro that(1) [of plz1 uid]) (simp_all add: plz1_def PLZ_key_def)
  next
    case (Some e)
    then obtain cs where "reg = (Some e, tr @ cs)" "\<forall>p. UpdatePLZ p \<notin> set cs"
      by (auto simp: reg_def RegisterPLZ_def Let_def split: option.splits)
    then show ?thesis using run by (intro that(2) [of plz1 e cs]) simp_all
  qed
qed

lemma protect_plz_run:
  assumes "finalizers F"
  obtains r cs where "run_state (protect_plz E F ws w plz uid) tr = (r, tr @ cs)"
    "cs = [] \<or> (\<exists>p. fz_contains F (plz_finalizers p) plzFinalizer \<and> PLZ_key p = PLZ_key plz
       \<and> plz_annotations p = [(plzUIDAnnotation, uid)] \<and> cs = [UpdatePLZ p])"
proof -
  define p where "p = plz\<lparr>plz_finalizers := fz_add F (plz_finalizers plz) plzFinalizer,
    plz_annotations := [(plzUIDAnnotation, uid)]\<rparr>"
  have "fz_contains F (plz_finalizers p) plzFinalizer" "PLZ_key p = PLZ_key plz"
    "plz_annotations p = [(plzUIDAnnotation, uid)]"
    by (simp_all add: p_def PLZ_key_def finalizers.contains_add [OF assms])
  then show ?thesis
    by (intro that [of "fst (run_state (protect_plz E F ws w plz uid) tr)"
          "if snd (AddWorker ws (plz_name plz) w) = None then [UpdatePLZ p] else []"])
      (auto simp: protect_plz_def p_def [symmetric] Let_def prod_eq_iff split: prod.splits option.splits sum.splits)
qed

lemma register_plz_trace:
  assumes "finalizers F"
  obtains r cs where "run_state (register_plz E F ws plz) tr = (r, tr @ cs)"
    "\<forall>p. UpdatePLZ p \<in> set cs \<longrightarrow> register_calls E F plz tr cs p"
proof -
  obtain t ts where t: "run_state (loadToken E (plzs_token (plz_spec plz)) (plz_namespace plz)) tr = (t, tr @ ts)"
    "\<forall>p. UpdatePLZ p \<notin> set ts" by (rule only_no_updateE [OF only_loadToken])
  show ?thesis
  proof (cases t)
    case (Inl res)
    then show ?thesis using t by (intro that [of _ ts]) (auto simp: register_plz_def)
  next
    case (Inr token)
    define w where "w = NewPLZWorker E plz token"
    have w: "w_plz w = plz" by (simp add: w_def NewPLZWorker_def)
    let ?url = "load_zones_url (e_baseURL E (w_client w))"
    consider (registered) plz1 uid where
        "PLZ_key plz1 = PLZ_key plz"
        "e_cloudRegisterPLZ E ((tr @ ts) @ [ReadClock, NewUUID]) (registration_data E plz1 uid) = None"
        "run_state (PLZ_Register E (w_client w) plz) (tr @ ts) = (Inr (plz1, Inr uid),
           (tr @ ts) @ [ReadClock, NewUUID, CloudRegisterPLZ (w_client w) ?url (registration_data E plz1 uid)])"
      | (refused) plz1 err cs where
        "run_state (PLZ_Register E (w_client w) plz) (tr @ ts) = (Inr (plz1, Inl err), (tr @ ts) @ cs)"
        "\<forall>p. UpdatePLZ p \<notin> set cs"
      by (rule PLZ_Register_run)
    then show ?thesis
    proof cases
      case registered
      let ?d = "registration_data E plz1 uid"
      let ?reg = "[ReadClock, NewUUID, CloudRegisterPLZ (w_client w) ?url ?d]"
      obtain r cs where cs: "run_state (protect_plz E F ws (w\<lparr>w_plz := plz1\<rparr>) plz1 uid) ((tr @ ts) @ ?reg) =
          (r, ((tr @ ts) @ ?reg) @ cs)"
        "cs = [] \<or> (\<exists>p. fz_contains F (plz_finalizers p) plzFinalizer \<and> PLZ_key p = PLZ_key plz1
           \<and> plz_annotations p = [(plzUIDAnnotation, uid)] \<and> cs = [UpdatePLZ p])"
        by (rule protect_plz_run [OF assms])
      have run: "run_state (register_plz E F ws plz) tr = (r, tr @ ts @ ?reg @ cs)"
        using t(1) Inr registered(3) cs(1) w by (simp add: register_plz_def w_def [symmetric] Let_def)
      have d: "reg_loadZoneID ?d = plz_name plz" "reg_uid ?d = uid"
        using registered(1) by (simp_all add: registration_data_def PLZ_key_def)
      have "register_calls E F plz tr (ts @ ?reg @ cs) p" if p: "UpdatePLZ p \<in> set (ts @ ?reg @ cs)" for p
      proof -
        have "cs = [UpdatePLZ p]" "fz_contains F (plz_finalizers p) plzFinalizer" "PLZ_key p = PLZ_key plz"
          "plz_annotations p = [(plzUIDAnnotation, uid)]"
          using cs(2) p t(2) registered(1) by auto
        then show ?thesis
          unfolding register_calls_def using d registered(2) t(2)
          by (intro conjI exI [of _ "ts @ [ReadClock, NewUUID]"] exI [of _ "w_client w"] exI [of _ ?d]) simp_all
      qed
      then show ?thesis using run by (intro that) auto
    next
      case refused
      then have "run_state (register_plz E F ws plz) tr = (((ws, Returned no_requeue (Some err))), tr @ ts @ cs)"
        using t(1) Inr w by (simp add: register_plz_def w_def [symmetric] Let_def)
      with refused(2) t(2) show ?thesis by (intro that) auto
    qed
  qed
qed

lemma DeRegisterPLZ_run: "snd (run_state (DeRegisterPLZ E cl name) tr) = tr @ deregistration E cl name"
  by (simp add: DeRegisterPLZ_def deregistration_def Let_def split: option.splits)

lemma delete_plz_trace:
  assumes "workers_named ws" and "GetWorker ws (plz_name plz) = Inr w"
  obtains r cs where "run_state (delete_plz E F ws w plz) tr = (r, tr @ cs)"
    "\<forall>p. UpdatePLZ p \<in> set cs \<longrightarrow> release_calls E F ws plz cs p"
proof -
  define p where "p = plz\<lparr>plz_finalizers := fz_remove F (plz_finalizers plz) plzFinalizer\<rparr>"
  let ?cs = "deregistration E (w_client w) (plz_name plz) @ [UpdatePLZ p]"
  have "plz_name (w_plz w) = plz_name plz"
    using assms by (auto simp: workers_named_def GetWorker_def split: option.splits)
  then have run: "snd (run_state (delete_plz E F ws w plz) tr) = tr @ ?cs"
    using DeRegisterPLZ_run [of E "w_client w" "plz_name plz" tr]
    by (auto simp: delete_plz_def Deregister_def PLZ_Deregister_def p_def [symmetric] Let_def split: sum.splits prod.splits)
  have "q = p" if "UpdatePLZ q \<in> set ?cs" for q
    using that by (auto simp: deregistration_def Let_def split: if_splits)
  then have "\<forall>q. UpdatePLZ q \<in> set ?cs \<longrightarrow> release_calls E F ws plz ?cs q"
    using assms(2) by (auto simp: release_calls_def p_def)
  then show ?thesis
    using run by (intro that [of "fst (run_state (delete_plz E F ws w plz) tr)" ?cs]) (simp_all add: prod_eq_iff)
qed

lemma reconcile_plz_trace:
  assumes "finalizers F" and "workers_named ws"
  obtains r cs where "run_state (reconcile_plz E F ws plz) tr = (r, tr @ cs)"
    "\<forall>p. UpdatePLZ p \<in> set cs \<longrightarrow> update_allowed E F ws plz tr cs p"
proof -
  define worker where "worker = (case GetWorker ws (plz_name plz) of Inl _ \<Rightarrow> None | Inr w \<Rightarrow> Some w)"
  let ?fz = "fz_contains F (plz_finalizers plz) plzFinalizer"
  define new where "new \<longleftrightarrow> PLZ_IsUnknown (e_meta E) plz ''PLZRegistered'' \<or> PLZ_IsFalse (e_meta E) plz ''PLZRegistered''"
  have eq: "reconcile_plz E F ws plz =
     (if \<not> plz_deleting plz \<and> new then (if ?fz then confirm_plz E ws worker plz else register_plz E F ws plz)
      else if plz_deleting plz \<and> ?fz then
        (case worker of Some w \<Rightarrow> delete_plz E F ws w plz | None \<Rightarrow> watch_plz E ws worker plz)
      else watch_plz E ws worker plz)"
    unfolding worker_def new_def by (simp only: reconcile_plz_def Let_def)
  have found: "GetWorker ws (plz_name plz) = Inr w" if "worker = Some w" for w
    using that by (simp add: worker_def split: sum.splits)
  consider (register) "\<not> plz_deleting plz" new "\<not> ?fz" "reconcile_plz E F ws plz = register_plz E F ws plz"
    | (delete) w where "plz_deleting plz" ?fz "worker = Some w" "reconcile_plz E F ws plz = delete_plz E F ws w plz"
    | (confirm) "reconcile_plz E F ws plz = confirm_plz E ws worker plz"
    | (watch) "reconcile_plz E F ws plz = watch_plz E ws worker plz"
    using eq by (cases worker; cases "plz_deleting plz"; cases new; cases ?fz) simp_all
  then show ?thesis
  proof cases
    case register
    obtain r cs where "run_state (register_plz E F ws plz) tr = (r, tr @ cs)"
      "\<forall>p. UpdatePLZ p \<in> set cs \<longrightarrow> register_calls E F plz tr cs p" by (rule register_plz_trace [OF assms(1)])
    with register show ?thesis by (intro that [of r cs]) (simp_all add: update_allowed_def new_def)
  next
    case delete
    obtain r cs where "run_state (delete_plz E F ws w plz) tr = (r, tr @ cs)"
      "\<forall>p. UpdatePLZ p \<in> set cs \<longrightarrow> release_calls E F ws plz cs p"
      by (rule delete_plz_trace [OF assms(2) found [OF delete(3)]])
    with delete show ?thesis by (intro that [of r cs]) (simp_all add: update_allowed_def)
  next
    case confirm
    obtain r cs where "run_state (confirm_plz E ws worker plz) tr = (r, tr @ cs)" "\<forall>p. UpdatePLZ p \<notin> set cs"
      by (rule only_no_updateE [OF only_confirm_plz])
    with confirm show ?thesis by (intro that [of r cs]) simp_all
  next
    case watch
    obtain r cs where "run_state (watch_plz E ws worker plz) tr = (r, tr @ cs)" "\<forall>p. UpdatePLZ p \<notin> set cs"
      by (rule only_no_updateE [OF only_watch_plz])
    with watch show ?thesis by (intro that [of r cs]) simp_all
  qed
qed

subsection \<open>Workers keep their names\<close>

lemma workers_named_simps:
  "workers_named []"
  "workers_named ws \<Longrightarrow> plz_name (w_plz w) = n \<Longrightarrow> workers_named (store_worker ws n w)"
  "workers_named ws \<Longrightarrow> plz_name (w_plz w) = n \<Longrightarrow> workers_named (fst (AddWorker ws n w))"
  "workers_named ws \<Longrightarrow> workers_named (DeleteWorker ws n)"
  by (auto simp: workers_named_def store_worker_def AddWorker_def DeleteWorker_def gomap_get_simps
      split: option.splits if_splits)

lemma PLZ_UpdateStatus_key:
  assumes "zone_names_kept E (PLZ_key plz)"
  shows "PLZ_key (fst (fst (run_state (PLZ_UpdateStatus E plz) tr))) = PLZ_key plz"
proof (cases "e_getPLZ E tr (PLZ_key plz)")
  case (Found cur)
  have "PLZ_key cur = PLZ_key plz" using assms Found unfolding zone_names_kept_def by blast
  then have same: "PLZ_key (cur\<lparr>plz_conditions := cs\<rparr>) = PLZ_key plz" for cs by (simp add: PLZ_key_def)
  have patched: "PLZ_key p' = PLZ_key plz" if "e_patchPLZ E t (cur\<lparr>plz_conditions := cs\<rparr>) = Inr p'" for t cs p'
    using assms same that unfolding zone_names_kept_def by blast
  obtain cs b where merge: "PLZ_SetIfNewer (e_meta E) (plz_conditions cur) (plz_conditions plz) = (cs, b)" by fastforce
  show ?thesis
    using Found merge same [of cs] patched
    by (cases b) (auto simp: PLZ_UpdateStatus_def Let_def split: sum.splits)
qed (simp_all add: PLZ_UpdateStatus_def)

lemma unrestricted: "only P m \<Longrightarrow> only (\<lambda>_. True) m"
  by (rule ensures_weaken) simp_all

lemma PLZ_UpdateStatus_keeps:
  assumes "zone_names_kept E (PLZ_key plz)"
  shows "ensures (\<lambda>_. True) (\<lambda>r. PLZ_key (fst r) = PLZ_key plz) (PLZ_UpdateStatus E plz)"
  using only_PLZ_UpdateStatus [of E plz] PLZ_UpdateStatus_key [OF assms]
  unfolding ensures_in_def by (metis (mono_tags, lifting) list.pred_True)

lemma PLZ_UpdateCondition_key:
  "PLZ_UpdateCondition M now plz t st = Inr plz' \<Longrightarrow> PLZ_key plz' = PLZ_key plz"
  by (auto simp: PLZ_UpdateCondition_def PLZ_key_def map_sum_def split: sum.splits)

lemma named_watch:
  assumes "workers_named ws" and "\<And>w. worker = Some w \<Longrightarrow> plz_name (w_plz w) = plz_name plz"
  shows "ensures (\<lambda>_. True) (\<lambda>r. workers_named (fst r)) (watch_plz E ws worker plz)"
proof -
  have "workers_named ws'" if "AddWorker ws (plz_name plz) (NewPLZWorker E plz t) = (ws', e)" for ws' e t
    using workers_named_simps(3) [OF assms(1), of "NewPLZWorker E plz t" "plz_name plz"] that
    by (simp add: NewPLZWorker_def)
  moreover have "workers_named (store_worker ws (plz_name plz) (StartFactory w))" if "worker = Some w" for w
    using assms(1) assms(2) [OF that] by (intro workers_named_simps) (simp_all add: StartFactory_def)
  ultimately show ?thesis
    unfolding watch_plz_def using assms(1)
    by (intro only_rules ensures_bind [OF unrestricted [OF only_loadToken]]) auto
qed

lemma named_confirm:
  assumes "workers_named ws" and "\<And>w. worker = Some w \<Longrightarrow> plz_name (w_plz w) = plz_name plz"
    and "zone_names_kept E (PLZ_key plz)"
  shows "ensures (\<lambda>_. True) (\<lambda>r. workers_named (fst r)) (confirm_plz E ws worker plz)"
proof -
  have rest: "ensures (\<lambda>_. True) (\<lambda>r. workers_named (fst r)) (case r of (plz2, _, err) \<Rightarrow>
      case err of Some e \<Rightarrow> ends ws no_requeue (Some e) | None \<Rightarrow> watch_plz E ws worker plz2)"
    if "PLZ_key (fst r) = PLZ_key plz" for r
  proof -
    have "plz_name (fst r) = plz_name plz" using that by (simp add: PLZ_key_def)
    then show ?thesis using assms(1,2)
      by (intro only_rules named_watch) (auto simp: PLZ_key_def)
  qed
  have "ensures (\<lambda>_. True) (\<lambda>r. workers_named (fst r)) (State_Monad.bind (PLZ_UpdateStatus E plz1) (\<lambda>r. case r of (plz2, _, err) \<Rightarrow>
      case err of Some e \<Rightarrow> ends ws no_requeue (Some e) | None \<Rightarrow> watch_plz E ws worker plz2))"
    if "PLZ_key plz1 = PLZ_key plz" for plz1
    by (rule ensures_bind [OF PLZ_UpdateStatus_keeps]) (use rest assms(3) that in auto)
  moreover have "PLZ_key (PLZ_Initialize now plz) = PLZ_key plz" for now
    by (simp add: PLZ_Initialize_def PLZ_key_def)
  ultimately show ?thesis
    unfolding confirm_plz_def using assms(1)
    by (intro only_rules) (auto dest!: PLZ_UpdateCondition_key)
qed

lemma named_protect:
  assumes "workers_named ws" and "plz_name (w_plz w) = plz_name plz"
  shows "ensures (\<lambda>_. True) (\<lambda>r. workers_named (fst r)) (protect_plz E F ws w plz uid)"
  unfolding protect_plz_def Let_def
  using assms(1) workers_named_simps(3) [OF assms]
  by (intro only_rules) auto

lemma named_register:
  assumes "workers_named ws"
  shows "ensures (\<lambda>_. True) (\<lambda>r. workers_named (fst r)) (register_plz E F ws plz)"
  unfolding register_plz_def PLZ_Register_def RegisterPLZ_def Let_def
  using assms
  by (intro only_rules ensures_bind [OF unrestricted [OF only_loadToken]]
      ensures_bind [where R = "\<lambda>_. True"] named_protect) auto

lemma named_delete:
  assumes "workers_named ws" and "plz_name (w_plz w) = plz_name plz"
  shows "ensures (\<lambda>_. True) (\<lambda>r. workers_named (fst r)) (delete_plz E F ws w plz)"
proof -
  have "workers_named (store_worker ws (plz_name plz) (StopFactory w))"
    using assms by (intro workers_named_simps) (simp_all add: StopFactory_def)
  then show ?thesis
    unfolding delete_plz_def Deregister_def PLZ_Deregister_def DeRegisterPLZ_def Let_def
    by (intro only_rules ensures_bind [where R = "\<lambda>_. True"]) (auto intro: workers_named_simps)
qed

lemma named_reconcile:
  assumes "workers_named ws" and "zone_names_kept E (PLZ_key plz)"
  shows "ensures (\<lambda>_. True) (\<lambda>r. workers_named (fst r)) (reconcile_plz E F ws plz)"
proof -
  have "plz_name (w_plz w) = plz_name plz" if "GetWorker ws (plz_name plz) = Inr w" for w
    using assms(1) that by (auto simp: workers_named_def GetWorker_def split: option.splits)
  then show ?thesis
    unfolding reconcile_plz_def Let_def
    by (intro only_rules named_confirm named_register named_watch named_delete)
      (use assms in \<open>auto split: sum.splits\<close>)
qed

text \<open>
  C8. The controller of private load zones writes to a zone itself, not only to its status, in two cases
  only. It sets its finalizer on a zone that is not being deleted, not registered and without it:
  then the last call before the update was the registration of this zone, which the cloud accepted,
  and the update records the id it was registered with. And it removes the finalizer from a zone that
  is being deleted and has it: then its only calls are the request to deregister this very zone, made
  with the client of the zone's worker, and the update after it. The request is left out only when
  the HTTP library cannot build it, and its answer does not matter. Every worker stays registered
  under the name of its zone, provided the API server returns the zone it is asked for.
\<close>

theorem PLZ_Reconcile_finalizer_protocol:
  assumes "finalizers F" and "workers_named ws" and "zone_names_kept E req"
    and "run_state (PLZ_Reconcile E F ws req) tr = ((ws', out), tr')"
  shows "workers_named ws' \<and> (\<exists>cs. tr' = tr @ GetPLZ req # cs
    \<and> (\<forall>p. UpdatePLZ p \<in> set cs \<longrightarrow>
         (\<exists>plz. e_getPLZ E tr req = Found plz \<and> update_allowed E F ws plz (tr @ [GetPLZ req]) cs p)))"
proof (cases "e_getPLZ E tr req")
  case (Found plz)
  let ?tr = "tr @ [GetPLZ req]"
  obtain r cs where run: "run_state (reconcile_plz E F ws plz) ?tr = (r, ?tr @ cs)"
    "\<forall>p. UpdatePLZ p \<in> set cs \<longrightarrow> update_allowed E F ws plz ?tr cs p" by (rule reconcile_plz_trace [OF assms(1,2)])
  have "PLZ_key plz = req" using assms(3) Found by (simp add: zone_names_kept_def)
  then have "workers_named (fst r)"
    using ensures_run [OF named_reconcile [OF assms(2)] run(1)] assms(3) by metis
  then show ?thesis using assms(4) Found run by (auto simp: PLZ_Reconcile_def)
qed (use assms in \<open>auto simp: PLZ_Reconcile_def\<close>)

theorem PLZ_Reconcile_finalizer_protocol_witness:
  "\<exists>ws' cs. fst (fst (run_state (PLZ_Reconcile (idle_env\<lparr>e_getPLZ := \<lambda>_ _. Found example_plz\<rparr>) documented_finalizers []
        (PLZ_key example_plz)) [])) = ws' \<and> workers_named ws'
    \<and> snd (run_state (PLZ_Reconcile (idle_env\<lparr>e_getPLZ := \<lambda>_ _. Found example_plz\<rparr>) documented_finalizers []
        (PLZ_key example_plz)) []) = [] @ GetPLZ (PLZ_key example_plz) # cs
    \<and> (\<forall>p. UpdatePLZ p \<in> set cs \<longrightarrow>
         update_allowed (idle_env\<lparr>e_getPLZ := \<lambda>_ _. Found example_plz\<rparr>) documented_finalizers [] example_plz
           [GetPLZ (PLZ_key example_plz)] cs p)"
proof -
  let ?E = "idle_env\<lparr>e_getPLZ := \<lambda>_ _. Found example_plz\<rparr>"
  have "zone_names_kept ?E (PLZ_key example_plz)"
    unfolding zone_names_kept_def by (simp) (simp add: idle_env_def)
  then have "workers_named (fst (fst (run_state (PLZ_Reconcile ?E documented_finalizers [] (PLZ_key example_plz)) [])))
      \<and> (\<exists>cs. snd (run_state (PLZ_Reconcile ?E documented_finalizers [] (PLZ_key example_plz)) []) = [] @ GetPLZ (PLZ_key example_plz) # cs
        \<and> (\<forall>p. UpdatePLZ p \<in> set cs \<longrightarrow> (\<exists>plz. e_getPLZ ?E [] (PLZ_key example_plz) = Found plz
             \<and> update_allowed ?E documented_finalizers [] plz ([] @ [GetPLZ (PLZ_key example_plz)]) cs p)))"
    by (rule PLZ_Reconcile_finalizer_protocol [OF documented_fz.finalizers_axioms workers_named_simps(1)])
      (simp add: prod_eq_iff)
  then show ?thesis by simp
qed

section \<open>A registration that was interrupted\<close>

text \<open>A zone that waits for its registration, whose token is there and which the cloud accepts.\<close>

definition registrable :: "env \<Rightarrow> finalizer_api \<Rightarrow> PrivateLoadZone \<Rightarrow> bool" where
  "registrable E F plz \<longleftrightarrow>
     \<not> plz_deleting plz \<and> PLZ_IsUnknown (e_meta E) plz ''PLZRegistered''
     \<and> \<not> fz_contains F (plz_finalizers plz) plzFinalizer
     \<and> (\<forall>t. \<exists>token. fst (run_state (loadToken E (plzs_token (plz_spec plz)) (plz_namespace plz)) t) = Inr token)
     \<and> (\<forall>cl url. e_newRequest E cl url = None) \<and> (\<forall>t d. e_cloudRegisterPLZ E t d = None)"

lemma PLZ_Register_accepted:
  assumes "\<forall>cl url. e_newRequest E cl url = None" "\<forall>t d. e_cloudRegisterPLZ E t d = None"
  obtains plz1 uid cs where "run_state (PLZ_Register E client plz) tr = (Inr (plz1, Inr uid), tr @ cs)"
    "plz_name plz1 = plz_name plz" "\<forall>p. UpdatePLZ p \<notin> set cs"
proof -
  obtain cs where "UpdateCondition (e_meta E) (e_clock E tr 0) (plz_conditions plz) ''PLZRegistered'' ConditionFalse = Inr cs"
    using UpdateCondition_plz(1) by blast
  then show ?thesis
    using assms by (auto simp: PLZ_Register_def PLZ_UpdateCondition_def RegisterPLZ_def read_clock_def Let_def intro: that)
qed

text \<open>A registrable zone is registered in the cloud, then \<open>protect_plz\<close> decides.\<close>

lemma reconcile_registrable:
  assumes "registrable E F plz"
  obtains w plz1 uid cs where
    "run_state (reconcile_plz E F ws plz) tr = run_state (protect_plz E F ws w plz1 uid) (tr @ cs)"
    "plz_name plz1 = plz_name plz" "\<forall>p. UpdatePLZ p \<notin> set cs"
proof -
  have plz: "reconcile_plz E F ws plz = register_plz E F ws plz"
    using assms by (simp add: reconcile_plz_def registrable_def Let_def)
  obtain t ts where t: "run_state (loadToken E (plzs_token (plz_spec plz)) (plz_namespace plz)) tr = (t, tr @ ts)"
    "\<forall>p. UpdatePLZ p \<notin> set ts" by (rule only_no_updateE [OF only_loadToken])
  moreover obtain token where "fst (run_state (loadToken E (plzs_token (plz_spec plz)) (plz_namespace plz)) tr) = Inr token"
    using assms unfolding registrable_def by blast
  ultimately have token: "t = Inr token" by simp
  define w where "w = NewPLZWorker E plz token"
  have "\<forall>cl url. e_newRequest E cl url = None" "\<forall>t d. e_cloudRegisterPLZ E t d = None"
    using assms by (simp_all add: registrable_def)
  then obtain plz1 uid cs where "run_state (PLZ_Register E (w_client w) (w_plz w)) (tr @ ts) = (Inr (plz1, Inr uid), (tr @ ts) @ cs)"
    "plz_name plz1 = plz_name (w_plz w)" "\<forall>p. UpdatePLZ p \<notin> set cs"
    by (rule PLZ_Register_accepted)
  moreover from this(2) have "plz_name plz1 = plz_name plz" by (simp add: w_def NewPLZWorker_def)
  ultimately show ?thesis
    using t token by (intro that [of "w\<lparr>w_plz := plz1\<rparr>" plz1 uid "ts @ cs"])
      (simp_all add: plz register_plz_def w_def [symmetric] Let_def)
qed

text \<open>
  C33. A registration that is interrupted is never completed: when the first write to the zone fails
  (a conflict, say), the reconciliation returns the error but the worker stays in the registry, and
  every later reconciliation of the zone, after registering it in the cloud once more, finds that
  worker, gives up without an error and without asking to be called again, and never writes to the
  zone.
\<close>

theorem interrupted_registration_is_not_resumed:
  assumes "registrable E F plz" and "\<forall>t. e_getPLZ E t req = Found plz"
    and "isl (GetWorker ws (plz_name plz))"
    and "\<forall>t p. (\<forall>q. UpdatePLZ q \<notin> set t) \<longrightarrow> e_updatePLZ E t p = Inl err" and "\<forall>q. UpdatePLZ q \<notin> set tr"
  shows "\<exists>ws1 tr1. run_state (PLZ_Reconcile E F ws req) tr = ((ws1, Returned no_requeue (Some err)), tr1)
    \<and> (\<forall>t. \<exists>cs. run_state (PLZ_Reconcile E F ws1 req) t = ((ws1, Returned no_requeue None), t @ cs)
         \<and> (\<forall>p. UpdatePLZ p \<notin> set cs))"
proof -
  obtain w plz1 uid cs where first:
    "run_state (reconcile_plz E F ws plz) (tr @ [GetPLZ req]) = run_state (protect_plz E F ws w plz1 uid) ((tr @ [GetPLZ req]) @ cs)"
    "plz_name plz1 = plz_name plz" "\<forall>p. UpdatePLZ p \<notin> set cs" by (rule reconcile_registrable [OF assms(1)])
  define ws1 where "ws1 = fst (AddWorker ws (plz_name plz) w)"
  have added: "AddWorker ws (plz_name plz) w = (ws1, None)"
    using plz_workers.add_free [OF assms(3)] by (simp add: ws1_def prod_eq_iff)
  have "e_updatePLZ E ((tr @ [GetPLZ req]) @ cs) p = Inl err" for p
    using assms(4,5) first(3) by simp
  then have "\<exists>tr1. run_state (PLZ_Reconcile E F ws req) tr = ((ws1, Returned no_requeue (Some err)), tr1)"
    using first assms(2) added by (simp add: PLZ_Reconcile_def protect_plz_def Let_def)
  moreover have "\<exists>ds. run_state (PLZ_Reconcile E F ws1 req) t = ((ws1, Returned no_requeue None), t @ ds)
      \<and> (\<forall>p. UpdatePLZ p \<notin> set ds)" for t
  proof -
    obtain w' plz2 uid' ds where again:
      "run_state (reconcile_plz E F ws1 plz) (t @ [GetPLZ req]) = run_state (protect_plz E F ws1 w' plz2 uid') ((t @ [GetPLZ req]) @ ds)"
      "plz_name plz2 = plz_name plz" "\<forall>p. UpdatePLZ p \<notin> set ds" by (rule reconcile_registrable [OF assms(1)])
    have "\<not> isl (GetWorker ws1 (plz_name plz))"
      using plz_workers.get_add [OF assms(3), of w "plz_name plz"] by (simp add: ws1_def)
    then have "snd (AddWorker ws1 (plz_name plz) w') \<noteq> None" by (simp add: plz_workers.add_taken)
    then obtain m e where "AddWorker ws1 (plz_name plz) w' = (m, Some e)" by (cases "AddWorker ws1 (plz_name plz) w'") auto
    then show ?thesis using again assms(2)
      by (intro exI [of _ "GetPLZ req # ds"]) (simp add: PLZ_Reconcile_def protect_plz_def)
  qed
  ultimately show ?thesis by blast
qed

theorem interrupted_registration_is_not_resumed_witness:
  "\<exists>ws1 tr1. run_state (PLZ_Reconcile (idle_env\<lparr>e_getPLZ := \<lambda>_ _. Found example_plz,
        e_updatePLZ := \<lambda>_ _. Inl ''conflict''\<rparr>) documented_finalizers [] (PLZ_key example_plz)) []
      = ((ws1, Returned no_requeue (Some ''conflict'')), tr1)"
proof -
  let ?E = "idle_env\<lparr>e_getPLZ := \<lambda>_ _. Found example_plz, e_updatePLZ := \<lambda>_ _. Inl ''conflict''\<rparr>"
  have "\<exists>token. fst (run_state (loadToken ?E ''tok'' ''load'') t) = Inr token" for t
    by (simp add: loadToken_def Load_def find_secret_def NewTokenInfo_def idle_env_def gomap_get_def Let_def)
  then have "registrable ?E documented_finalizers example_plz"
    by (simp add: registrable_def example_plz_def documented_finalizers_def PLZ_IsUnknown_def PLZ_IsTrue_def
        PLZ_IsFalse_def documented_meta_def has_status_def) (simp add: idle_env_def)
  then have "\<exists>ws1 tr1. run_state (PLZ_Reconcile ?E documented_finalizers [] (PLZ_key example_plz)) [] =
        ((ws1, Returned no_requeue (Some ''conflict'')), tr1)
      \<and> (\<forall>t. \<exists>cs. run_state (PLZ_Reconcile ?E documented_finalizers ws1 (PLZ_key example_plz)) t =
          ((ws1, Returned no_requeue None), t @ cs) \<and> (\<forall>p. UpdatePLZ p \<notin> set cs))"
    by (rule interrupted_registration_is_not_resumed) (simp_all add: GetWorker_def gomap_get_def)
  then show ?thesis by blast
qed

section \<open>Two remarks on the registration\<close>

text \<open>On a zone without conditions the update of the condition is lost.\<close>

lemma register_condition_lost:
  "plz_conditions plz = [] \<Longrightarrow> PLZ_UpdateCondition M now plz ''PLZRegistered'' ConditionFalse = Inr plz"
  using UpdateCondition_plz(1) [of M now "[]"] by (cases plz) (auto simp: PLZ_UpdateCondition_def)

text \<open>The annotations of the user do not survive the registration.\<close>

lemma protect_plz_annotations:
  "only (\<lambda>c. \<forall>p. c = UpdatePLZ p \<longrightarrow> plz_annotations p = [(plzUIDAnnotation, uid)]) (protect_plz E F ws w plz uid)"
  unfolding protect_plz_def Let_def by (intro only_rules) simp_all

end
