(* ===== verification/K6_PLZ_Life.thy ===== *)
theory K6_PLZ_Life
  imports K6_PLZ_Props K6_Progress
begin

text \<open>
  The life of a private load zone, over several reconciliations. The zone lives on the API server,
  the workers in the memory of the operator: a restart leaves the zone and empties the registry. The
  locale \<open>zone_cluster\<close> describes a server that stores what it is given and a cloud that cooperates
  from some point of the history on.
\<close>

section \<open>The zone on the server\<close>

text \<open>An update writes the metadata of the zone, a patch of the status its conditions.\<close>

fun written :: "call \<Rightarrow> PrivateLoadZone \<Rightarrow> PrivateLoadZone" where
  "written (UpdatePLZ p) z = z\<lparr>plz_finalizers := plz_finalizers p, plz_annotations := plz_annotations p\<rparr>"
| "written (PatchPLZStatus old p) z = z\<lparr>plz_conditions := as_stored (plz_conditions p)\<rparr>"
| "written _ z = z"

definition zone_at :: "PrivateLoadZone \<Rightarrow> trace \<Rightarrow> PrivateLoadZone" where
  "zone_at z0 tr = fold written tr z0"

lemma zone_at_Nil [simp]: "zone_at z0 [] = z0"
  by (simp add: zone_at_def)

lemma zone_at_append: "zone_at z0 (tr @ cs) = fold written cs (zone_at z0 tr)"
  by (simp add: zone_at_def)

lemma written_same:
  "plz_name (written c z) = plz_name z" "plz_namespace (written c z) = plz_namespace z"
  "plz_spec (written c z) = plz_spec z" "plz_deleting (written c z) = plz_deleting z"
  by (cases c; simp)+

lemma zone_at_same [simp]:
  "plz_name (zone_at z0 tr) = plz_name z0" "plz_namespace (zone_at z0 tr) = plz_namespace z0"
  "plz_spec (zone_at z0 tr) = plz_spec z0" "plz_deleting (zone_at z0 tr) = plz_deleting z0"
  "PLZ_key (zone_at z0 tr) = PLZ_key z0"
  by (induction tr rule: rev_induct) (simp_all add: zone_at_append written_same PLZ_key_def)

definition no_write :: "call \<Rightarrow> bool" where
  "no_write c \<longleftrightarrow> (\<forall>p. c \<noteq> UpdatePLZ p) \<and> (\<forall>old p. c \<noteq> PatchPLZStatus old p)"

lemma no_write_simps [simp]:
  "no_write (GetPLZ nn)" "no_write (GetSecret nn)" "no_write (ListSecrets opts)" "no_write ReadClock" "no_write NewUUID"
  "no_write (CloudRegisterPLZ cl url d)" "no_write (CloudDeRegisterPLZ cl url)"
  "\<not> no_write (UpdatePLZ p)" "\<not> no_write (PatchPLZStatus old p)"
  by (simp_all add: no_write_def)

lemma zone_at_no_write: "list_all no_write cs \<Longrightarrow> zone_at z0 (tr @ cs) = zone_at z0 tr"
proof (induction cs arbitrary: tr)
  case (Cons c cs)
  have "written c z = z" for z using Cons.prems by (cases c) simp_all
  then show ?case using Cons by (simp add: zone_at_append)
qed simp

text \<open>The calls that load a token or register a zone write nothing.\<close>

lemma find_secret_no_write: "only no_write (find_secret E ti)"
  unfolding find_secret_def by (intro only_rules) simp_all

lemma loadToken_no_write: "only no_write (loadToken E n ns)"
  unfolding loadToken_def Load_def Let_def
  by (intro only_rules ensures_bind [OF ensures_bind [OF find_secret_no_write]]) simp_all

lemma PLZ_Register_no_write: "only no_write (PLZ_Register E cl plz)"
  unfolding PLZ_Register_def RegisterPLZ_def Let_def
  by (intro only_rules ensures_bind [where R = "\<lambda>_. True"]) simp_all

lemma no_write_run:
  assumes "only no_write m"
  obtains r cs where "run_state m tr = (r, tr @ cs)" "list_all no_write cs"
  using ensures_run [OF assms] by (metis prod.collapse)

section \<open>Steps\<close>

text \<open>One reconciliation: what becomes of the registry and of the history.\<close>

definition plz_step :: "env \<Rightarrow> finalizer_api \<Rightarrow> namespaced_name \<Rightarrow> workers \<times> trace \<Rightarrow> workers \<times> trace" where
  "plz_step E F req = (\<lambda>(ws, tr). case run_state (PLZ_Reconcile E F ws req) tr of ((ws', _), tr') \<Rightarrow> (ws', tr'))"

definition plz_reconciled :: "env \<Rightarrow> finalizer_api \<Rightarrow> namespaced_name \<Rightarrow> nat \<Rightarrow> workers \<Rightarrow> workers \<times> trace" where
  "plz_reconciled E F req n ws = (plz_step E F req ^^ n) (ws, [])"

lemma reconcile_plz_extends: "only (\<lambda>_. True) (reconcile_plz E F ws plz)"
proof -
  have token: "only (\<lambda>_. True) (loadToken E n ns)" for n ns
    unfolding loadToken_def Load_def Let_def find_secret_def
    by (intro only_rules ensures_bind [where R = "\<lambda>_. True"]) simp_all
  have watch: "only (\<lambda>_. True) (watch_plz E ws w plz)" for w plz
    unfolding watch_plz_def by (intro only_rules ensures_bind [OF token]) simp_all
  show ?thesis
    unfolding reconcile_plz_def confirm_plz_def register_plz_def protect_plz_def delete_plz_def PLZ_UpdateStatus_def
      PLZ_Register_def RegisterPLZ_def DeRegisterPLZ_def Deregister_def PLZ_Deregister_def Let_def
    by (intro only_rules watch ensures_bind [where R = "\<lambda>_. True"] token) simp_all
qed

interpretation zone_steps: progressing "plz_step E F req" "\<lambda>(ws, tr). length tr" N for E F req N
proof
  fix s :: "workers \<times> trace"
  obtain ws tr where s: "s = (ws, tr)" by fastforce
  have more: "length tr' \<le> length (snd (run_state (reconcile_plz E F ws plz) tr'))" for plz tr'
    by (metis ensures_run [OF reconcile_plz_extends] prod.collapse length_append le_add1)
  show "(case s of (ws, tr) \<Rightarrow> length tr) < (case plz_step E F req s of (ws, tr) \<Rightarrow> length tr)"
  proof (cases "e_getPLZ E tr req")
    case (Found plz)
    then show ?thesis
      using more [of "tr @ [GetPLZ req]" plz] by (auto simp: s plz_step_def PLZ_Reconcile_def split: prod.splits)
  qed (simp_all add: s plz_step_def PLZ_Reconcile_def)
qed

section \<open>A cluster that cooperates\<close>

text \<open>
  The server stores what it is given, the times of conditions in whole seconds; a zone that is being
  deleted is gone once it has no finalizer.
  From the \<open>N\<close>-th call on the token is there and the cloud accepts registrations.
\<close>

locale zone_cluster =
  status_conditions "e_meta E" + finalizers F for E :: env and F :: finalizer_api +
  fixes z0 :: PrivateLoadZone and N :: nat
  assumes found: "e_getPLZ E tr (PLZ_key z0) =
      (if plz_deleting z0 \<and> plz_finalizers (zone_at z0 tr) = [] then NotFound else Found (zone_at z0 tr))"
    and stores: "e_updatePLZ E tr p = Inr p" "e_patchPLZ E tr p = Inr (p\<lparr>plz_conditions := as_stored (plz_conditions p)\<rparr>)"
    and requests: "e_newRequest E cl url = None"
    and token: "N \<le> length tr \<Longrightarrow>
      \<exists>t. fst (run_state (loadToken E (plzs_token (plz_spec z0)) (plz_namespace z0)) tr) = Inr t"
    and accepted: "N \<le> length tr \<Longrightarrow> e_cloudRegisterPLZ E tr d = None"
begin

abbreviation get_call :: call where
  "get_call \<equiv> GetPLZ (PLZ_key z0)"

abbreviation after :: "workers \<times> trace \<Rightarrow> workers \<times> trace" where
  "after \<equiv> plz_step E F (PLZ_key z0)"

definition protected_at :: "trace \<Rightarrow> bool" where
  "protected_at tr \<longleftrightarrow> plzFinalizer \<in> set (plz_finalizers (zone_at z0 tr))"

definition registered_at :: "trace \<Rightarrow> bool" where
  "registered_at tr \<longleftrightarrow> PLZ_IsTrue (e_meta E) (zone_at z0 tr) ''PLZRegistered''"

definition worker :: "workers \<Rightarrow> PLZWorker option" where
  "worker ws = gomap_get ws (plz_name z0)"

lemma at_no_write:
  assumes "list_all no_write cs"
  shows "protected_at (tr @ cs) = protected_at tr" "registered_at (tr @ cs) = registered_at tr"
    "zone_at z0 (tr @ cs) = zone_at z0 tr"
  using assms by (simp_all add: protected_at_def registered_at_def zone_at_no_write)

lemma GetWorker_eq: "(case GetWorker ws (plz_name z0) of Inl _ \<Rightarrow> None | Inr w \<Rightarrow> Some w) = worker ws"
  by (simp add: GetWorker_def worker_def split: option.splits)

text \<open>A token: there, or not yet and then the cluster need not be ready.\<close>

lemma token_run:
  obtains (Loaded) t cs where "run_state (loadToken E (plzs_token (plz_spec z0)) (plz_namespace z0)) tr = (Inr t, tr @ cs)"
    "list_all no_write cs"
  | (Not_loaded) res cs where "run_state (loadToken E (plzs_token (plz_spec z0)) (plz_namespace z0)) tr = (Inl res, tr @ cs)"
    "list_all no_write cs" "length tr < N"
proof -
  obtain r cs where run: "run_state (loadToken E (plzs_token (plz_spec z0)) (plz_namespace z0)) tr = (r, tr @ cs)"
    "list_all no_write cs" by (rule no_write_run [OF loadToken_no_write])
  show thesis
  proof (cases r)
    case (Inl res)
    then have "length tr < N" using token [of tr] run(1) by (cases "N \<le> length tr") auto
    with Not_loaded run Inl show thesis by blast
  qed (use Loaded run in blast)
qed

text \<open>What a step does with a zone that is there.\<close>

lemma after_eq:
  assumes "\<not> plz_deleting z0 \<or> plz_finalizers (zone_at z0 tr) \<noteq> []"
    and "run_state (reconcile_plz E F ws (zone_at z0 tr)) (tr @ [get_call]) = ((ws', out), tr')"
  shows "after (ws, tr) = (ws', tr')"
  using assms found [of tr] by (auto simp: plz_step_def PLZ_Reconcile_def)

section \<open>Registration\<close>

text \<open>A zone of which the operator has taken no notice yet.\<close>

definition unseen :: "workers \<times> trace \<Rightarrow> bool" where
  "unseen = (\<lambda>(ws, tr). \<not> protected_at tr \<and> plz_conditions (zone_at z0 tr) = [] \<and> worker ws = None)"

lemma no_conditions:
  "plz_conditions z = [] \<Longrightarrow> \<not> PLZ_IsTrue (e_meta E) z t"
  "plz_conditions z = [] \<Longrightarrow> \<not> PLZ_IsFalse (e_meta E) z t"
  by (simp_all add: PLZ_IsTrue_def PLZ_IsFalse_def is_true_iff is_false_iff status_of_def)

lemma PLZ_Register_result:
  assumes "plz_conditions plz = []"
  obtains (Registered) uid cs where "run_state (PLZ_Register E cl plz) tr = (Inr (plz, Inr uid), tr @ cs)" "list_all no_write cs"
  | (Refused) err cs where "run_state (PLZ_Register E cl plz) tr = (Inr (plz, Inl err), tr @ cs)" "list_all no_write cs"
    "length tr < N"
proof -
  obtain r cs where run: "run_state (PLZ_Register E cl plz) tr = (r, tr @ cs)" "list_all no_write cs"
    by (rule no_write_run [OF PLZ_Register_no_write])
  moreover have "\<exists>a. r = Inr (plz, a) \<and> (N \<le> length tr \<longrightarrow> \<not> isl a)"
    using run(1) requests accepted register_condition_lost [OF assms]
    by (auto simp: PLZ_Register_def RegisterPLZ_def Let_def read_clock_def)
  ultimately show thesis using Registered Refused by (metis not_le sum.collapse(2) sum.exhaust_sel isl_def)
qed

lemma unseen_step:
  assumes "\<not> plz_deleting z0" and "unseen (ws, tr)"
  shows "(\<exists>ws' tr'. after (ws, tr) = (ws', tr') \<and> protected_at tr' \<and> plz_conditions (zone_at z0 tr') = [] \<and> worker ws' \<noteq> None)
    \<or> unseen (after (ws, tr)) \<and> length tr < N"
proof -
  let ?z = "zone_at z0 tr"
  have z: "\<not> plzFinalizer \<in> set (plz_finalizers ?z)" "plz_conditions ?z = []" "worker ws = None"
    using assms(2) by (simp_all add: unseen_def protected_at_def)
  have register: "reconcile_plz E F ws ?z = register_plz E F ws ?z"
    using z assms(1) by (simp add: reconcile_plz_def Let_def PLZ_IsUnknown_def no_conditions contains)
  have wait: ?thesis if "after (ws, tr) = (ws, tr @ cs)" "list_all no_write cs" "length tr < N" for cs
    using that assms(2) by (simp add: unseen_def at_no_write)
  show ?thesis
  proof (rule token_run [of "tr @ [get_call]"])
    fix res cs
    assume not_loaded: "run_state (loadToken E (plzs_token (plz_spec z0)) (plz_namespace z0)) (tr @ [get_call]) =
        (Inl res, (tr @ [get_call]) @ cs)" "list_all no_write cs" "length (tr @ [get_call]) < N"
    then have "after (ws, tr) = (ws, tr @ get_call # cs)"
      using assms(1) register by (intro after_eq) (simp_all add: register_plz_def)
    then show ?thesis using wait not_loaded(2,3) by simp
  next
    fix t cs
    assume loaded: "run_state (loadToken E (plzs_token (plz_spec z0)) (plz_namespace z0)) (tr @ [get_call]) =
        (Inr t, (tr @ [get_call]) @ cs)" "list_all no_write cs"
    define w where "w = NewPLZWorker E ?z t"
    have w: "w_plz w = ?z" by (simp add: w_def NewPLZWorker_def)
    show ?thesis
    proof (rule PLZ_Register_result [OF z(2), of "w_client w" "(tr @ [get_call]) @ cs"])
      fix err ds
      assume refused: "run_state (PLZ_Register E (w_client w) ?z) ((tr @ [get_call]) @ cs) =
        (Inr (?z, Inl err), ((tr @ [get_call]) @ cs) @ ds)" "list_all no_write ds" "length ((tr @ [get_call]) @ cs) < N"
      then have "after (ws, tr) = (ws, tr @ get_call # cs @ ds)"
        using assms(1) register loaded(1) by (intro after_eq) (simp_all add: register_plz_def w_def [symmetric] Let_def w)
      then show ?thesis using wait [of "get_call # cs @ ds"] refused(2,3) loaded(2) by simp
    next
      fix uid ds
      assume registered: "run_state (PLZ_Register E (w_client w) ?z) ((tr @ [get_call]) @ cs) =
        (Inr (?z, Inr uid), ((tr @ [get_call]) @ cs) @ ds)" "list_all no_write ds"
      let ?p = "?z\<lparr>plz_finalizers := fz_add F (plz_finalizers ?z) plzFinalizer, plz_annotations := [(plzUIDAnnotation, uid)]\<rparr>"
      have free: "AddWorker ws (plz_name z0) w' = (gomap_set ws (plz_name z0) w', None)" for w'
        using z(3) by (simp add: AddWorker_def worker_def)
      let ?ws = "gomap_set ws (plz_name z0) (w\<lparr>w_plz := ?z\<rparr>)" and ?cs = "get_call # cs @ ds @ [UpdatePLZ ?p]"
      have "after (ws, tr) = (?ws, tr @ ?cs)"
        using assms(1) register loaded(1) registered(1)
        by (intro after_eq) (simp_all add: register_plz_def w_def [symmetric] Let_def w protect_plz_def free stores)
      moreover have "zone_at z0 (tr @ get_call # cs @ ds) = ?z"
        using loaded(2) registered(2) by (intro zone_at_no_write) simp
      then have "zone_at z0 (tr @ ?cs) = ?p"
        using zone_at_append [of z0 "tr @ get_call # cs @ ds" "[UpdatePLZ ?p]"] by simp
      moreover have "plzFinalizer \<in> set (plz_finalizers ?p)" by (simp add: add)
      ultimately show ?thesis using z(2) by (intro disjI1 exI [of _ ?ws] exI [of _ "tr @ ?cs"]) (simp add: protected_at_def worker_def)
    qed
  qed
qed

section \<open>Watching\<close>

definition polled :: "workers \<Rightarrow> bool" where
  "polled ws \<longleftrightarrow> (\<exists>w. worker ws = Some w \<and> IsPolling (w_poller w))"

definition ready :: "workers \<times> trace \<Rightarrow> bool" where
  "ready = (\<lambda>(ws, tr). protected_at tr \<and> registered_at tr \<and> polled ws)"

lemma StartFactory_polls: "IsPolling (w_poller (StartFactory w))"
  by (simp add: StartFactory_def IsPolling_def Start_def)

text \<open>A registered zone gets a worker if it has none, otherwise its worker polls.\<close>

lemma watch_run:
  assumes "PLZ_IsTrue (e_meta E) plz ''PLZRegistered''"
    and "plz_name plz = plz_name z0" "plz_namespace plz = plz_namespace z0" "plz_spec plz = plz_spec z0"
  obtains (Polls) w ws' where "worker ws = Some w" "worker ws' = Some (StartFactory w)"
    "run_state (watch_plz E ws (worker ws) plz) tr = ((ws', Returned no_requeue None), tr)"
  | (Added) ws' out cs where "worker ws = None" "worker ws' \<noteq> None" "list_all no_write cs"
    "run_state (watch_plz E ws (worker ws) plz) tr = ((ws', out), tr @ cs)"
  | (Waits) out cs where "worker ws = None" "list_all no_write cs" "length tr < N"
    "run_state (watch_plz E ws (worker ws) plz) tr = ((ws, out), tr @ cs)"
proof (cases "worker ws")
  case (Some w)
  then show thesis
    using assms(1,2) by (intro Polls [of w "store_worker ws (plz_name z0) (StartFactory w)"])
      (simp_all add: watch_plz_def store_worker_def worker_def)
next
  case None
  show thesis
  proof (rule token_run [of tr])
    fix res cs
    assume not_loaded: "run_state (loadToken E (plzs_token (plz_spec z0)) (plz_namespace z0)) tr = (Inl res, tr @ cs)"
      "list_all no_write cs" "length tr < N"
    then show thesis
      using assms None by (intro Waits [of cs "Returned res None"]) (simp_all add: watch_plz_def)
  next
    fix t cs
    assume loaded: "run_state (loadToken E (plzs_token (plz_spec z0)) (plz_namespace z0)) tr = (Inr t, tr @ cs)"
      "list_all no_write cs"
    have "AddWorker ws (plz_name z0) w = (gomap_set ws (plz_name z0) w, None)" for w
      using None by (simp add: AddWorker_def worker_def)
    then show thesis
      using assms None loaded
      by (intro Added [of "gomap_set ws (plz_name z0) (NewPLZWorker E plz t)" cs "Returned requeue None"])
        (simp_all add: watch_plz_def worker_def)
  qed
qed

text \<open>The condition \<open>PLZRegistered\<close> is set on a zone that has none.\<close>

lemma confirm_conditions:
  obtains cs where "PLZ_UpdateCondition (e_meta E) now (PLZ_Initialize t z) ''PLZRegistered'' ConditionTrue =
      Inr (z\<lparr>plz_conditions := cs\<rparr>)"
    "PLZ_SetIfNewer (e_meta E) [] cs = (cs, True)"
    "status_of (e_meta E) cs ''PLZRegistered'' = Some ConditionTrue"
proof -
  let ?unknown = "[\<lparr>ctype = ''PLZRegistered'', cstatus = ConditionUnknown, ctime = t,
       creason = ''PLZRegisteredUnknown'', cmessage = ''''\<rparr>]"
  obtain cs where cs: "UpdateCondition (e_meta E) now ?unknown ''PLZRegistered'' ConditionTrue = Inr cs"
    "status_of (e_meta E) cs = (status_of (e_meta E) ?unknown)(''PLZRegistered'' \<mapsto> ConditionTrue)"
    "types_of cs = types_of ?unknown"
    by (rule UpdateCondition_effect [of "''PLZRegistered''" now ?unknown ConditionTrue])
      (auto simp: operator_condition_types_def)
  then obtain c where c: "cs = [c]" by (cases cs) auto
  have "PLZ_SetIfNewer (e_meta E) [] cs = (cs, True)"
    by (simp add: PLZ_SetIfNewer_def SetIfNewer_None_eq accept_condition_def accepted_def c existing_conditions_def)
  then show thesis
    using that [of cs] cs c by (simp add: PLZ_UpdateCondition_def PLZ_Initialize_def)
qed

text \<open>A zone with the finalizer that is not marked as registered.\<close>

definition unconfirmed :: "workers \<times> trace \<Rightarrow> bool" where
  "unconfirmed = (\<lambda>(ws, tr). protected_at tr \<and> plz_conditions (zone_at z0 tr) = [])"

definition known :: "workers \<times> trace \<Rightarrow> bool" where
  "known = (\<lambda>(ws, tr). protected_at tr \<and> registered_at tr)"

lemma unconfirmed_step:
  assumes "\<not> plz_deleting z0" and "unconfirmed (ws, tr)"
  shows "known (after (ws, tr))" and "worker ws \<noteq> None \<Longrightarrow> ready (after (ws, tr))"
proof -
  let ?z = "zone_at z0 tr" and ?tr1 = "tr @ [get_call, ReadClock]"
  have z: "plzFinalizer \<in> set (plz_finalizers ?z)" "plz_conditions ?z = []"
    using assms(2) by (simp_all add: unconfirmed_def protected_at_def)
  obtain cs where cs: "PLZ_UpdateCondition (e_meta E) (e_clock E (tr @ [get_call]) 1)
      (PLZ_Initialize (e_clock E (tr @ [get_call]) 0) ?z) ''PLZRegistered'' ConditionTrue = Inr (?z\<lparr>plz_conditions := cs\<rparr>)"
    "PLZ_SetIfNewer (e_meta E) [] cs = (cs, True)" "status_of (e_meta E) cs ''PLZRegistered'' = Some ConditionTrue"
    by (rule confirm_conditions)
  let ?q = "?z\<lparr>plz_conditions := cs\<rparr>" and ?p = "?z\<lparr>plz_conditions := as_stored cs\<rparr>"
  define tr2 where "tr2 = tr @ [get_call, ReadClock, get_call, PatchPLZStatus [] ?q]"
  have same: "zone_at z0 ?tr1 = ?z" by (rule zone_at_no_write) simp
  have update: "run_state (PLZ_UpdateStatus E ?q) ?tr1 = ((?p, True, None), tr2)"
    using found [of ?tr1] assms(1) z(2) cs(2) unfolding same
    by (simp add: PLZ_UpdateStatus_def PLZ_key_def Let_def stores tr2_def)
  have watch: "run_state (reconcile_plz E F ws ?z) (tr @ [get_call]) = run_state (watch_plz E ws (worker ws) ?p) tr2"
    using z assms(1) cs(1) update unfolding reconcile_plz_def zone_at_same GetWorker_eq
    by (simp add: Let_def PLZ_IsUnknown_def no_conditions contains confirm_plz_def read_clock_def)
  have step: "after (ws, tr) = (ws', tr')"
    if "run_state (watch_plz E ws (worker ws) ?p) tr2 = ((ws', out), tr')" for ws' out tr'
    using after_eq [of tr ws ws' out tr'] watch assms(1) that by simp
  have "zone_at z0 tr2 = ?p" by (simp add: tr2_def zone_at_append)
  then have at2: "protected_at tr2" "registered_at tr2" and true: "PLZ_IsTrue (e_meta E) ?p ''PLZRegistered''"
    using z(1) cs(3) by (simp_all add: protected_at_def registered_at_def PLZ_IsTrue_def is_true_iff)
  have "known (after (ws, tr)) \<and> (worker ws \<noteq> None \<longrightarrow> ready (after (ws, tr)))"
  proof (rule watch_run [OF true, of ws tr2])
    fix w ws' assume "worker ws = Some w" "worker ws' = Some (StartFactory w)"
      "run_state (watch_plz E ws (worker ws) ?p) tr2 = ((ws', Returned no_requeue None), tr2)"
    then show ?thesis using step at2 by (simp add: known_def ready_def polled_def StartFactory_polls)
  next
    fix ws' out ds assume "worker ws = None" "list_all no_write ds"
      "run_state (watch_plz E ws (worker ws) ?p) tr2 = ((ws', out), tr2 @ ds)"
    then show ?thesis using step at2 by (simp add: known_def at_no_write)
  next
    fix out ds assume "worker ws = None" "list_all no_write ds"
      "run_state (watch_plz E ws (worker ws) ?p) tr2 = ((ws, out), tr2 @ ds)"
    then show ?thesis using step at2 by (simp add: known_def at_no_write)
  qed simp_all
  then show "known (after (ws, tr))" and "worker ws \<noteq> None \<Longrightarrow> ready (after (ws, tr))" by blast+
qed

text \<open>A registered zone that is not to be released is left as it is.\<close>

lemma watch_step:
  assumes here: "registered_at tr" "\<not> plz_deleting z0 \<or> plz_finalizers (zone_at z0 tr) \<noteq> []"
    and keep: "\<not> plz_deleting z0 \<or> worker ws = None \<or> \<not> protected_at tr"
  obtains ws' tr' where "after (ws, tr) = (ws', tr')" "zone_at z0 tr' = zone_at z0 tr" "set tr \<subseteq> set tr'"
    "if worker ws = None then worker ws' \<noteq> None \<or> ws' = ws \<and> length tr < N else polled ws'"
proof -
  let ?z = "zone_at z0 tr" and ?tr1 = "tr @ [get_call]"
  have true: "PLZ_IsTrue (e_meta E) ?z ''PLZRegistered''" using here(1) by (simp add: registered_at_def)
  then have "\<not> PLZ_IsFalse (e_meta E) ?z ''PLZRegistered''"
    by (simp add: PLZ_IsTrue_def PLZ_IsFalse_def is_true_iff is_false_iff)
  with true keep have "reconcile_plz E F ws ?z = watch_plz E ws (worker ws) ?z"
    unfolding reconcile_plz_def zone_at_same GetWorker_eq
    by (auto simp: Let_def PLZ_IsUnknown_def protected_at_def contains split: option.splits)
  then have step: "after (ws, tr) = (ws', tr')"
    if "run_state (watch_plz E ws (worker ws) ?z) ?tr1 = ((ws', out), tr')" for ws' out tr'
    using after_eq [OF here(2), of ws ws' out tr'] that by simp
  have same: "zone_at z0 (tr @ get_call # cs) = ?z" if "list_all no_write cs" for cs
    using that by (intro zone_at_no_write) simp
  show thesis
  proof (rule watch_run [OF true, of ws ?tr1])
    fix w ws' assume "worker ws = Some w" "worker ws' = Some (StartFactory w)"
      "run_state (watch_plz E ws (worker ws) ?z) ?tr1 = ((ws', Returned no_requeue None), ?tr1)"
    then show thesis using step same [of "[]"] by (intro that [of ws' ?tr1]) (auto simp: StartFactory_polls polled_def)
  next
    fix ws' out cs assume "worker ws = None" "worker ws' \<noteq> None" "list_all no_write cs"
      "run_state (watch_plz E ws (worker ws) ?z) ?tr1 = ((ws', out), ?tr1 @ cs)"
    then show thesis using step same by (intro that [of ws' "?tr1 @ cs"]) auto
  next
    fix out cs assume "worker ws = None" "list_all no_write cs" "length ?tr1 < N"
      "run_state (watch_plz E ws (worker ws) ?z) ?tr1 = ((ws, out), ?tr1 @ cs)"
    then show thesis using step same by (intro that [of ws "?tr1 @ cs"]) auto
  qed simp_all
qed

abbreviation leads :: "nat \<Rightarrow> workers \<times> trace \<Rightarrow> (workers \<times> trace \<Rightarrow> bool) \<Rightarrow> bool" where
  "leads \<equiv> zone_steps.leads E F (PLZ_key z0) N"

lemmas leads_step = zone_steps.leads_step [of _ _ E F "PLZ_key z0" N]
lemmas leads_trans = zone_steps.leads_trans [of E F "PLZ_key z0" N]
lemmas leads_weaken = zone_steps.leads_weaken [of E F "PLZ_key z0" N]

text \<open>
  The zone stays as it is while a missing worker is added. \<open>R\<close> is anything that holds of the zone
  and of the calls made.
\<close>

lemma worker_leads:
  assumes start: "registered_at tr" "\<not> plz_deleting z0 \<or> plz_finalizers (zone_at z0 tr) \<noteq> []" "worker ws = None" "C \<subseteq> set tr"
  shows "leads 1 (ws, tr) (\<lambda>(ws', tr'). worker ws' \<noteq> None \<and> zone_at z0 tr' = zone_at z0 tr \<and> C \<subseteq> set tr')"
proof (rule leads_step)
  let ?P = "\<lambda>(ws', tr'). worker ws' = None \<and> zone_at z0 tr' = zone_at z0 tr \<and> C \<subseteq> set tr'"
  show "?P (ws, tr)" using start by simp
  fix s assume "?P s"
  then obtain ws1 tr1 where s: "s = (ws1, tr1)" "worker ws1 = None" "zone_at z0 tr1 = zone_at z0 tr" "C \<subseteq> set tr1"
    by (cases s) auto
  have "registered_at tr1" "\<not> plz_deleting z0 \<or> plz_finalizers (zone_at z0 tr1) \<noteq> []"
    using s(3) start(1,2) by (simp_all add: registered_at_def)
  then obtain ws' tr' where "after (ws1, tr1) = (ws', tr')" "zone_at z0 tr' = zone_at z0 tr1" "set tr1 \<subseteq> set tr'"
    "if worker ws1 = None then worker ws' \<noteq> None \<or> ws' = ws1 \<and> length tr1 < N else polled ws'"
    by (rule watch_step [of tr1 ws1]) (simp_all add: s(2))
  then show "(case after s of (ws', tr') \<Rightarrow> worker ws' \<noteq> None \<and> zone_at z0 tr' = zone_at z0 tr \<and> C \<subseteq> set tr')
      \<or> ?P (after s) \<and> (case s of (ws, tr) \<Rightarrow> length tr) < N"
    using s by auto
qed

lemma polled_leads:
  assumes start: "registered_at tr" "\<not> plz_deleting z0 \<or> plz_finalizers (zone_at z0 tr) \<noteq> [] \<and> \<not> protected_at tr" "C \<subseteq> set tr"
  shows "leads 2 (ws, tr) (\<lambda>(ws', tr'). polled ws' \<and> zone_at z0 tr' = zone_at z0 tr \<and> C \<subseteq> set tr')"
proof -
  let ?Q = "\<lambda>(ws', tr'). polled ws' \<and> zone_at z0 tr' = zone_at z0 tr \<and> C \<subseteq> set tr'"
  let ?W = "\<lambda>(ws', tr'). worker ws' \<noteq> None \<and> zone_at z0 tr' = zone_at z0 tr \<and> C \<subseteq> set tr'"
  have polls: "leads 1 s ?Q" if "?W s" for s
  proof (rule leads_step [of ?W])
    fix s assume "?W s"
    then obtain ws1 tr1 where s: "s = (ws1, tr1)" "worker ws1 \<noteq> None" "zone_at z0 tr1 = zone_at z0 tr" "C \<subseteq> set tr1"
      by (cases s) auto
    have "registered_at tr1" "\<not> plz_deleting z0 \<or> plz_finalizers (zone_at z0 tr1) \<noteq> []"
      "\<not> plz_deleting z0 \<or> worker ws1 = None \<or> \<not> protected_at tr1"
      using s(3) start(1,2) by (auto simp: registered_at_def protected_at_def)
    then obtain ws' tr' where "after (ws1, tr1) = (ws', tr')" "zone_at z0 tr' = zone_at z0 tr1" "set tr1 \<subseteq> set tr'"
      "if worker ws1 = None then worker ws' \<noteq> None \<or> ws' = ws1 \<and> length tr1 < N else polled ws'"
      by (rule watch_step [of tr1 ws1])
    then show "?Q (after s) \<or> ?W (after s) \<and> (case s of (ws, tr) \<Rightarrow> length tr) < N"
      using s by auto
  qed (rule that)
  show ?thesis
  proof (cases "worker ws = None")
    case True
    have "leads 1 (ws, tr) ?W" using worker_leads [of tr ws C] start True by blast
    from leads_trans [OF this polls] show ?thesis by (simp add: numeral_2_eq_2)
  next
    case False
    then have "leads 1 (ws, tr) ?Q" using start(3) by (intro polls) simp
    then show ?thesis by (rule leads_weaken) simp
  qed
qed

lemma known_leads: "\<not> plz_deleting z0 \<Longrightarrow> known s \<Longrightarrow> leads 2 s ready"
proof -
  assume "\<not> plz_deleting z0" "known s"
  then obtain ws tr where s: "s = (ws, tr)" "registered_at tr" "protected_at tr" by (cases s) (simp add: known_def)
  have "leads 2 (ws, tr) (\<lambda>(ws', tr'). polled ws' \<and> zone_at z0 tr' = zone_at z0 tr \<and> {} \<subseteq> set tr')"
    by (rule polled_leads) (use s \<open>\<not> plz_deleting z0\<close> in simp_all)
  from leads_trans [OF this zone_steps.leads_now, of ready] s show ?thesis
    by (auto simp: ready_def registered_at_def protected_at_def)
qed

lemma unconfirmed_leads: "\<not> plz_deleting z0 \<Longrightarrow> unconfirmed s \<Longrightarrow> leads 3 s ready"
proof -
  assume a: "\<not> plz_deleting z0" "unconfirmed s"
  have "leads 1 s known"
    by (rule leads_step [of unconfirmed]) (use a unconfirmed_step(1) in auto)
  from leads_trans [OF this known_leads [OF a(1)]] show ?thesis by (simp add: numeral_eq_Suc)
qed

lemma unseen_leads: "\<not> plz_deleting z0 \<Longrightarrow> unseen s \<Longrightarrow> leads 2 s ready"
proof -
  assume a: "\<not> plz_deleting z0" "unseen s"
  let ?P = "\<lambda>(ws, tr). protected_at tr \<and> plz_conditions (zone_at z0 tr) = [] \<and> worker ws \<noteq> None"
  have "leads 1 s ?P"
  proof (rule leads_step [of unseen])
    fix s assume "unseen s"
    then show "?P (after s) \<or> unseen (after s) \<and> (case s of (ws, tr) \<Rightarrow> length tr) < N"
      using unseen_step [OF a(1), of "fst s" "snd s"] by (cases s) auto
  qed (rule a(2))
  moreover have "leads 1 s' ready" if "?P s'" for s'
  proof (rule leads_step [of ?P])
    fix s assume "?P s"
    then show "ready (after s) \<or> ?P (after s) \<and> (case s of (ws, tr) \<Rightarrow> length tr) < N"
      using unconfirmed_step(2) [OF a(1), of "fst s" "snd s"] by (cases s) (simp add: unconfirmed_def)
  qed (rule that)
  ultimately show ?thesis using leads_trans [of 1 s ?P 1 ready] by (simp add: numeral_2_eq_2)
qed

lemma zone_leads:
  assumes "\<not> plz_deleting z0" and "unseen s \<or> unconfirmed s \<or> known s"
  shows "leads 3 s ready"
  using assms(2)
proof (elim disjE)
  assume "unseen s" then show ?thesis using leads_weaken [OF unseen_leads [OF assms(1)], of s 3] by simp
next
  assume "unconfirmed s" then show ?thesis by (rule unconfirmed_leads [OF assms(1)])
next
  assume "known s" then show ?thesis using leads_weaken [OF known_leads [OF assms(1)], of s 3] by simp
qed

section \<open>Deletion\<close>

lemma DeRegisterPLZ_called:
  "run_state (DeRegisterPLZ E cl n) tr =
    (e_cloudDeRegisterPLZ E tr (load_zone_url (e_baseURL E cl) n),
     tr @ [CloudDeRegisterPLZ cl (load_zone_url (e_baseURL E cl) n)])"
  by (simp add: DeRegisterPLZ_def requests Let_def)

text \<open>The worker of a zone that is being deleted stops, and the zone is released.\<close>

definition deregister_call :: "cloud_client \<Rightarrow> string \<Rightarrow> call" where
  "deregister_call cl name = CloudDeRegisterPLZ cl (load_zone_url (e_baseURL E cl) name)"

definition released :: "bool \<Rightarrow> workers \<times> trace \<Rightarrow> bool" where
  "released named = (\<lambda>(ws, tr). \<not> protected_at tr \<and> worker ws = None \<and>
     (\<exists>pre cl name p. tr = pre @ [deregister_call cl name, UpdatePLZ p] \<and> protected_at pre
        \<and> (named \<longrightarrow> name = plz_name z0)))"

lemma released_deregistration: "released named (ws, tr) \<Longrightarrow> list_ex is_deregistration tr"
  by (auto simp: released_def deregister_call_def is_deregistration_def)

lemma keeps_names: "zone_names_kept E (PLZ_key z0)"
  using found stores unfolding zone_names_kept_def by (auto simp: PLZ_key_def split: if_splits)

lemma named_after:
  assumes "workers_named ws"
  shows "workers_named (fst (after (ws, tr)))"
proof (cases "e_getPLZ E tr (PLZ_key z0)")
  case (Found plz)
  have "PLZ_key plz = PLZ_key z0" using Found keeps_names unfolding zone_names_kept_def by blast
  then have "workers_named (fst (fst (run_state (reconcile_plz E F ws plz) tr')))" for tr'
    using ensures_run [OF named_reconcile [OF assms]] keeps_names by (metis prod.collapse)
  then show ?thesis using Found by (simp add: plz_step_def PLZ_Reconcile_def split: prod.splits) (metis fst_conv)
qed (use assms in \<open>simp_all add: plz_step_def PLZ_Reconcile_def\<close>)

lemma delete_step:
  assumes "plz_deleting z0" and "protected_at tr" and "worker ws \<noteq> None" and "named \<longrightarrow> workers_named ws"
  obtains ws' tr' p where "after (ws, tr) = (ws', tr')" "released named (ws', tr')"
    "zone_at z0 tr' = (zone_at z0 tr)\<lparr>plz_finalizers := fz_remove F (plz_finalizers (zone_at z0 tr)) plzFinalizer\<rparr>"
proof -
  let ?z = "zone_at z0 tr"
  let ?p = "?z\<lparr>plz_finalizers := fz_remove F (plz_finalizers ?z) plzFinalizer\<rparr>"
  obtain w where w: "worker ws = Some w" using assms(3) by auto
  let ?call = "CloudDeRegisterPLZ (w_client w) (load_zone_url (e_baseURL E (w_client w)) (plz_name (w_plz w)))"
  let ?ws = "DeleteWorker (store_worker ws (plz_name z0) (StopFactory w)) (plz_name z0)"
  have here: "plzFinalizer \<in> set (plz_finalizers ?z)" using assms(2) by (simp add: protected_at_def)
  then have there: "\<not> plz_deleting z0 \<or> plz_finalizers ?z \<noteq> []" by auto
  have "reconcile_plz E F ws ?z = delete_plz E F ws w ?z"
    unfolding reconcile_plz_def zone_at_same GetWorker_eq using assms(1) here w by (simp add: Let_def contains)
  then have after: "after (ws, tr) = (?ws, tr @ [get_call, ?call, UpdatePLZ ?p])"
    by (intro after_eq [OF there]) (simp add: delete_plz_def Deregister_def PLZ_Deregister_def Let_def DeRegisterPLZ_called stores)
  have zone: "zone_at z0 (tr @ [get_call, ?call, UpdatePLZ ?p]) = ?p"
    by (simp add: zone_at_append)
  have "released named (?ws, tr @ [get_call, ?call, UpdatePLZ ?p])"
    unfolding released_def prod.case
  proof (intro conjI exI)
    show "\<not> protected_at (tr @ [get_call, ?call, UpdatePLZ ?p])"
      unfolding protected_at_def zone by (simp add: remove)
    show "tr @ [get_call, ?call, UpdatePLZ ?p] =
        (tr @ [get_call]) @ [deregister_call (w_client w) (plz_name (w_plz w)), UpdatePLZ ?p]"
      by (simp add: deregister_call_def)
    show "protected_at (tr @ [get_call])" using assms(2) by (simp add: at_no_write)
    show "named \<longrightarrow> plz_name (w_plz w) = plz_name z0"
      using assms(4) w by (auto simp: workers_named_def worker_def)
  qed (simp add: worker_def DeleteWorker_def)
  with after zone show thesis using that by blast
qed

lemma released_leads:
  assumes "plz_deleting z0" and "protected_at tr" and "registered_at tr \<or> worker ws \<noteq> None"
    and names: "named \<longrightarrow> workers_named ws"
  shows "leads 2 (ws, tr) (\<lambda>(ws', tr'). released named (ws', tr') \<and> zone_at z0 tr' =
    (zone_at z0 tr)\<lparr>plz_finalizers := fz_remove F (plz_finalizers (zone_at z0 tr)) plzFinalizer\<rparr>)"
proof -
  let ?Q = "\<lambda>(ws', tr'). released named (ws', tr') \<and> zone_at z0 tr' =
    (zone_at z0 tr)\<lparr>plz_finalizers := fz_remove F (plz_finalizers (zone_at z0 tr)) plzFinalizer\<rparr>"
  let ?I = "\<lambda>s. named \<longrightarrow> workers_named (fst s)"
  let ?W = "\<lambda>s. (case s of (ws', tr') \<Rightarrow> worker ws' \<noteq> None \<and> zone_at z0 tr' = zone_at z0 tr \<and> {} \<subseteq> set tr') \<and> ?I s"
  have stable: "?I (after s)" if "?I s" for s using that named_after [of "fst s" "snd s"] by simp
  have deletes: "leads 1 s ?Q" if "?W s" for s
  proof (rule leads_step [of ?W])
    fix s assume "?W s"
    then obtain ws1 tr1 where s: "s = (ws1, tr1)" "worker ws1 \<noteq> None" "zone_at z0 tr1 = zone_at z0 tr"
      "named \<longrightarrow> workers_named ws1" by (cases s) auto
    have "protected_at tr1" using s(3) assms(2) by (simp add: protected_at_def)
    then obtain ws' tr' where "after (ws1, tr1) = (ws', tr')" "released named (ws', tr')" "zone_at z0 tr' =
      (zone_at z0 tr1)\<lparr>plz_finalizers := fz_remove F (plz_finalizers (zone_at z0 tr1)) plzFinalizer\<rparr>"
      using delete_step [OF assms(1) _ s(2,4)] by metis
    then show "?Q (after s) \<or> ?W (after s) \<and> (case s of (ws, tr) \<Rightarrow> length tr) < N" using s by auto
  qed (rule that)
  show ?thesis
  proof (cases "worker ws = None")
    case True
    have "plz_finalizers (zone_at z0 tr) \<noteq> []" using assms(2) by (auto simp: protected_at_def)
    then have "leads 1 (ws, tr) (\<lambda>(ws', tr'). worker ws' \<noteq> None \<and> zone_at z0 tr' = zone_at z0 tr \<and> {} \<subseteq> set tr')"
      using worker_leads [of tr ws "{}"] assms True by blast
    then have "leads 1 (ws, tr) ?W"
      by (rule zone_steps.leads_invariant [where R = ?I]) (use names stable in auto)
    from leads_trans [OF this deletes] show ?thesis by (simp add: numeral_2_eq_2)
  next
    case False
    then have "leads 1 (ws, tr) ?Q" using names by (intro deletes) simp
    then show ?thesis by (rule leads_weaken) simp
  qed
qed

section \<open>What lasts\<close>

lemma polled_stays:
  assumes "registered_at tr" and "\<not> plz_deleting z0 \<or> plz_finalizers (zone_at z0 tr) \<noteq> [] \<and> \<not> protected_at tr"
    and "polled ws"
  shows "\<exists>ws' tr'. (after ^^ m) (ws, tr) = (ws', tr') \<and> polled ws' \<and> zone_at z0 tr' = zone_at z0 tr \<and> set tr \<subseteq> set tr'"
proof (induction m)
  case (Suc m)
  then obtain ws1 tr1 where s: "(after ^^ m) (ws, tr) = (ws1, tr1)" "polled ws1" "zone_at z0 tr1 = zone_at z0 tr"
    "set tr \<subseteq> set tr1" by blast
  have "registered_at tr1" "\<not> plz_deleting z0 \<or> plz_finalizers (zone_at z0 tr1) \<noteq> []"
    "\<not> plz_deleting z0 \<or> worker ws1 = None \<or> \<not> protected_at tr1"
    using s(3) assms(1,2) by (auto simp: registered_at_def protected_at_def)
  then obtain ws' tr' where "after (ws1, tr1) = (ws', tr')" "zone_at z0 tr' = zone_at z0 tr1" "set tr1 \<subseteq> set tr'"
    "if worker ws1 = None then worker ws' \<noteq> None \<or> ws' = ws1 \<and> length tr1 < N else polled ws'"
    by (rule watch_step [of tr1 ws1])
  then show ?case using s by (intro exI [of _ ws'] exI [of _ tr']) (auto simp: polled_def)
qed (use assms(3) in auto)

lemma from_then_on:
  assumes "leads k s Q" and "\<And>s' m. Q s' \<Longrightarrow> R ((after ^^ m) s')"
  shows "\<exists>n \<le> k + N. \<forall>m \<ge> n. R ((after ^^ m) s)"
proof -
  obtain n where n: "n \<le> k + N" "Q ((after ^^ n) s)" using zone_steps.leads_bound [OF assms(1)] by blast
  have "R ((after ^^ m) s)" if "n \<le> m" for m
  proof -
    have "(after ^^ m) s = (after ^^ (m - n)) ((after ^^ n) s)"
      using funpow_add [of "m - n" n after] that by simp
    then show ?thesis using assms(2) [OF n(2)] by simp
  qed
  then show ?thesis using n(1) by blast
qed

lemma ready_stays: "\<not> plz_deleting z0 \<Longrightarrow> ready s \<Longrightarrow> ready ((after ^^ m) s)"
  using polled_stays [of "snd s" "fst s" m]
  by (cases s) (auto simp: ready_def registered_at_def protected_at_def)

text \<open>A zone that someone else's finalizer keeps there is polled for again after its release.\<close>

lemma released_polled_leads:
  assumes "plz_deleting z0" and "protected_at tr" and "registered_at tr"
    and other: "f \<in> set (plz_finalizers (zone_at z0 tr))" "f \<noteq> plzFinalizer"
  shows "leads 4 (ws, tr) (\<lambda>(ws', tr'). polled ws' \<and> \<not> protected_at tr' \<and> registered_at tr'
    \<and> plz_finalizers (zone_at z0 tr') \<noteq> [] \<and> list_ex is_deregistration tr')"
proof -
  let ?z = "(zone_at z0 tr)\<lparr>plz_finalizers := fz_remove F (plz_finalizers (zone_at z0 tr)) plzFinalizer\<rparr>"
  let ?Q = "\<lambda>(ws', tr'). polled ws' \<and> \<not> protected_at tr' \<and> registered_at tr'
    \<and> plz_finalizers (zone_at z0 tr') \<noteq> [] \<and> list_ex is_deregistration tr'"
  have kept: "f \<in> set (plz_finalizers ?z)" "plzFinalizer \<notin> set (plz_finalizers ?z)" using other by (simp_all add: remove)
  have true: "PLZ_IsTrue (e_meta E) ?z ''PLZRegistered''"
    using assms(3) by (simp add: registered_at_def PLZ_IsTrue_def)
  have polls: "leads 2 s ?Q" if P: "(\<lambda>(ws', tr'). released False (ws', tr') \<and> zone_at z0 tr' = ?z) s" for s
  proof -
    obtain ws1 tr1 where s: "s = (ws1, tr1)" "zone_at z0 tr1 = ?z" "list_ex is_deregistration tr1"
      using P by (cases s) (auto dest: released_deregistration)
    have at1: "registered_at tr1" "\<not> protected_at tr1" "plz_finalizers (zone_at z0 tr1) \<noteq> []"
      using true kept unfolding registered_at_def protected_at_def s(2) by auto
    then have "leads 2 (ws1, tr1) (\<lambda>(ws', tr'). polled ws' \<and> zone_at z0 tr' = zone_at z0 tr1 \<and> set tr1 \<subseteq> set tr')"
      by (intro polled_leads) simp_all
    moreover have "leads 0 s' ?Q" if "(\<lambda>(ws', tr'). polled ws' \<and> zone_at z0 tr' = zone_at z0 tr1 \<and> set tr1 \<subseteq> set tr') s'" for s'
      using that at1 s(3) by (intro zone_steps.leads_now) (auto simp: registered_at_def protected_at_def list_ex_iff)
    ultimately have "leads (2 + 0) (ws1, tr1) ?Q" by (rule leads_trans)
    then show ?thesis by (simp add: s(1))
  qed
  from leads_trans [OF released_leads [OF assms(1,2), where named = False] polls] assms(3) show ?thesis by simp
qed

end

section \<open>Properties\<close>

text \<open>
  C5. A private load zone is taken into service and stays there. Let the server store what it is
  given, and let the token be there and the cloud accept registrations from the \<open>N\<close>-th call on. Take a
  zone that is not being deleted: the operator has taken no notice of it, or it has the finalizer and
  was marked as registered or not, as it is when the operator was restarted between any two
  reconciliations. Then after at most \<open>3 + N\<close> reconciliations, and from then on after any number of
  further ones, the zone has the finalizer, is marked as registered, and its worker polls the cloud.
\<close>

theorem zone_is_taken_into_service:
  assumes "zone_cluster E F z0 N" and "\<not> plz_deleting z0"
    and "plz_conditions z0 = [] \<and> isl (GetWorker ws (plz_name z0))
      \<or> plzFinalizer \<in> set (plz_finalizers z0)
        \<and> (plz_conditions z0 = [] \<or> PLZ_IsTrue (e_meta E) z0 ''PLZRegistered'')"
  shows "\<exists>n \<le> 3 + N. \<forall>m \<ge> n. \<exists>ws' tr w. plz_reconciled E F (PLZ_key z0) m ws = (ws', tr)
    \<and> plzFinalizer \<in> set (plz_finalizers (zone_at z0 tr))
    \<and> PLZ_IsTrue (e_meta E) (zone_at z0 tr) ''PLZRegistered''
    \<and> GetWorker ws' (plz_name z0) = Inr w \<and> IsPolling (w_poller w)"
proof -
  note defs = zone_cluster.unseen_def [OF assms(1)] zone_cluster.unconfirmed_def [OF assms(1)]
    zone_cluster.known_def [OF assms(1)] zone_cluster.protected_at_def [OF assms(1)]
    zone_cluster.registered_at_def [OF assms(1)] zone_cluster.worker_def [OF assms(1)]
  have "zone_steps.leads E F (PLZ_key z0) N 3 (ws, []) (zone_cluster.ready E z0)"
    by (rule zone_cluster.zone_leads [OF assms(1,2)])
      (use assms(3) in \<open>auto simp: defs GetWorker_def split: option.splits\<close>)
  from zone_cluster.from_then_on [OF assms(1) this, where R = "zone_cluster.ready E z0"]
  obtain n where n: "n \<le> 3 + N" "\<And>m. n \<le> m \<Longrightarrow> zone_cluster.ready E z0 (plz_reconciled E F (PLZ_key z0) m ws)"
    using zone_cluster.ready_stays [OF assms(1,2)] unfolding plz_reconciled_def by blast
  have "\<exists>ws' tr w. s = (ws', tr) \<and> plzFinalizer \<in> set (plz_finalizers (zone_at z0 tr))
      \<and> PLZ_IsTrue (e_meta E) (zone_at z0 tr) ''PLZRegistered''
      \<and> GetWorker ws' (plz_name z0) = Inr w \<and> IsPolling (w_poller w)" if "zone_cluster.ready E z0 s" for s
    using that by (cases s) (auto simp: zone_cluster.ready_def [OF assms(1)] zone_cluster.polled_def [OF assms(1)] defs GetWorker_def)
  then show ?thesis using n by blast
qed

text \<open>A cluster for the examples: up to the \<open>N\<close>-th call there is no token and the cloud refuses.\<close>

definition zone_env :: "nat \<Rightarrow> PrivateLoadZone \<Rightarrow> env" where
  "zone_env N z = idle_env\<lparr>
     e_getPLZ := \<lambda>tr _. if plz_deleting z \<and> plz_finalizers (zone_at z tr) = [] then NotFound else Found (zone_at z tr),
     e_patchPLZ := \<lambda>_ p. Inr (p\<lparr>plz_conditions := as_stored (plz_conditions p)\<rparr>),
     e_getSecret := \<lambda>tr _. if length tr < N then Inl ''no secret yet'' else Inr [(''token'', ''t'')],
     e_cloudRegisterPLZ := \<lambda>tr _. if length tr < N then Some (''E'', ''later'') else None\<rparr>"

lemma zone_env_cluster:
  assumes "plzs_token (plz_spec z) \<noteq> []"
  shows "zone_cluster (zone_env N z) documented_finalizers z N"
proof (intro zone_cluster.intro zone_cluster_axioms.intro)
  show "status_conditions (e_meta (zone_env N z))"
    by (simp add: zone_env_def documented.status_conditions_axioms)
  show "finalizers documented_finalizers" by (rule documented_fz.finalizers_axioms)
  show "\<exists>t. fst (run_state (loadToken (zone_env N z) (plzs_token (plz_spec z)) (plz_namespace z)) tr) = Inr t"
    if "N \<le> length tr" for tr
    using assms that
    by (simp add: loadToken_def Load_def find_secret_def NewTokenInfo_def zone_env_def gomap_get_simps Let_def)
qed (simp_all add: zone_env_def, simp_all add: idle_env_def)

interpretation example_zone: zone_cluster "zone_env 9 example_plz" documented_finalizers example_plz 9
  by (rule zone_env_cluster) (simp add: example_plz_def)

theorem zone_is_taken_into_service_witness:
  "\<exists>n \<le> 12. \<exists>ws tr w. plz_reconciled (zone_env 9 example_plz) documented_finalizers (PLZ_key example_plz) n [] = (ws, tr)
     \<and> PLZ_IsTrue documented_meta (zone_at example_plz tr) ''PLZRegistered''
     \<and> GetWorker ws (plz_name example_plz) = Inr w \<and> IsPolling (w_poller w)"
proof -
  have "e_meta (zone_env 9 example_plz) = documented_meta" by (simp add: zone_env_def)
  moreover have "\<not> plz_deleting example_plz" "plz_conditions example_plz = []" by (simp_all add: example_plz_def)
  moreover have "isl (GetWorker [] (plz_name example_plz))" by (simp add: GetWorker_def gomap_get_simps)
  ultimately show ?thesis
    using zone_is_taken_into_service [OF example_zone.zone_cluster_axioms, of "[]"] by fastforce
qed

text \<open>
  C14. A zone that is being deleted is released. Let the server store what it is given and drop a deleted
  zone without finalizers, let the token be there from the \<open>N\<close>-th call on, as in C5, let requests be
  well-formed for the HTTP library, and let the registry hold workers under the names of their zones,
  which every reconciliation keeps (C8). Take a zone that is being deleted and has the finalizer, and
  that is marked as registered or still has its worker (it has lost it if the operator was restarted).
  Then at most \<open>2 + N\<close> reconciliations lead to a history whose last two calls are the request to
  deregister this zone, made while it still has the finalizer, and the update that takes the finalizer
  away; and no worker is left behind.
\<close>

theorem deleted_zone_is_released:
  assumes "zone_cluster E F z0 N" and "plz_deleting z0" and "plzFinalizer \<in> set (plz_finalizers z0)"
    and "PLZ_IsTrue (e_meta E) z0 ''PLZRegistered'' \<or> \<not> isl (GetWorker ws (plz_name z0))" and "workers_named ws"
  shows "\<exists>n \<le> 2 + N. \<exists>ws' pre cl p. plz_reconciled E F (PLZ_key z0) n ws =
      (ws', pre @ [CloudDeRegisterPLZ cl (load_zone_url (e_baseURL E cl) (plz_name z0)), UpdatePLZ p])
    \<and> plzFinalizer \<in> set (plz_finalizers (zone_at z0 pre)) \<and> plzFinalizer \<notin> set (plz_finalizers p)
    \<and> isl (GetWorker ws' (plz_name z0))"
proof -
  note defs = zone_cluster.released_def [OF assms(1)] zone_cluster.protected_at_def [OF assms(1)]
    zone_cluster.registered_at_def [OF assms(1)] zone_cluster.worker_def [OF assms(1)]
    zone_cluster.deregister_call_def [OF assms(1)]
  have start: "zone_cluster.protected_at z0 []"
    "zone_cluster.registered_at E z0 [] \<or> zone_cluster.worker z0 ws \<noteq> None"
    using assms(3,4) by (auto simp: defs GetWorker_def split: option.splits)
  obtain n where n: "n \<le> 2 + N" "zone_cluster.released E z0 True (plz_reconciled E F (PLZ_key z0) n ws)"
    using zone_steps.leads_bound [OF zone_cluster.released_leads [OF assms(1,2) start, where named = True]] assms(5)
    unfolding plz_reconciled_def by fastforce
  obtain ws' tr where s: "plz_reconciled E F (PLZ_key z0) n ws = (ws', tr)" by fastforce
  obtain pre cl p where tr: "tr = pre @ [CloudDeRegisterPLZ cl (load_zone_url (e_baseURL E cl) (plz_name z0)), UpdatePLZ p]"
    "plzFinalizer \<in> set (plz_finalizers (zone_at z0 pre))" "plzFinalizer \<notin> set (plz_finalizers (zone_at z0 tr))"
    "isl (GetWorker ws' (plz_name z0))"
    using n(2) unfolding s by (auto simp: defs GetWorker_def)
  moreover have "plz_finalizers (zone_at z0 tr) = plz_finalizers p" by (simp add: tr(1) zone_at_append)
  ultimately show ?thesis using n(1) s by auto
qed

definition deleted_plz :: PrivateLoadZone where
  "deleted_plz = example_plz\<lparr>plz_deleting := True, plz_finalizers := [plzFinalizer],
     plz_conditions := [example_condition ''PLZRegistered'' ConditionTrue 1]\<rparr>"

lemma deleted_plz_registered:
  "plz_conditions z = [example_condition ''PLZRegistered'' ConditionTrue 1] \<Longrightarrow> PLZ_IsTrue documented_meta z ''PLZRegistered''"
  by (simp add: PLZ_IsTrue_def documented.is_true_iff status_of_def example_condition_def)

theorem deleted_zone_is_released_witness:
  "\<exists>n \<le> 7. \<exists>ws pre cl p. plz_reconciled (zone_env 5 deleted_plz) documented_finalizers (PLZ_key deleted_plz) n [] =
      (ws, pre @ [CloudDeRegisterPLZ cl (load_zone_url (e_baseURL (zone_env 5 deleted_plz) cl) (plz_name deleted_plz)), UpdatePLZ p])
     \<and> plzFinalizer \<notin> set (plz_finalizers p)"
proof -
  have "zone_cluster (zone_env 5 deleted_plz) documented_finalizers deleted_plz 5"
    by (rule zone_env_cluster) (simp add: deleted_plz_def example_plz_def)
  moreover have "e_meta (zone_env 5 deleted_plz) = documented_meta" by (simp add: zone_env_def)
  ultimately show ?thesis
    using deleted_zone_is_released [of "zone_env 5 deleted_plz" documented_finalizers deleted_plz 5 "[]"]
      deleted_plz_registered [of deleted_plz] workers_named_simps(1) by (fastforce simp: deleted_plz_def)
qed

text \<open>
  C35. A deletion can hang for good. If a zone is deleted after its first reconciliation, which set the
  finalizer, and before the second, which would have marked it as registered, and the operator is
  restarted in between, then however often the zone is reconciled, the operator does nothing but read
  it: the finalizer stays, and the cloud is never asked to deregister the zone.
\<close>

theorem deletion_can_hang:
  assumes "\<And>tr. e_getPLZ E tr req = Found z" and "plz_deleting z"
    and "\<not> PLZ_IsTrue (e_meta E) z ''PLZRegistered''" and "isl (GetWorker ws (plz_name z))"
  shows "plz_reconciled E F req n ws = (ws, replicate n (GetPLZ req))"
proof (induction n)
  case (Suc n)
  obtain err where "GetWorker ws (plz_name z) = Inl err" using assms(4) by (auto simp: isl_def)
  then have "reconcile_plz E F ws z = watch_plz E ws None z"
    using assms(2) by (simp add: reconcile_plz_def Let_def)
  then have "plz_step E F req (ws, tr) = (ws, tr @ [GetPLZ req])" for tr
    using assms(1,3) by (simp add: plz_step_def PLZ_Reconcile_def watch_plz_def)
  then show ?case using Suc by (simp add: plz_reconciled_def replicate_append_same)
qed (simp add: plz_reconciled_def)

definition half_registered_plz :: PrivateLoadZone where
  "half_registered_plz = example_plz\<lparr>plz_deleting := True, plz_finalizers := [plzFinalizer]\<rparr>"

theorem deletion_can_hang_witness:
  "plz_reconciled (idle_env\<lparr>e_getPLZ := \<lambda>_ _. Found half_registered_plz\<rparr>) documented_finalizers
     (PLZ_key half_registered_plz) 4 [] = ([], replicate 4 (GetPLZ (PLZ_key half_registered_plz)))"
proof (rule deletion_can_hang)
  show "\<not> PLZ_IsTrue (e_meta (idle_env\<lparr>e_getPLZ := \<lambda>_ _. Found half_registered_plz\<rparr>)) half_registered_plz ''PLZRegistered''"
    by (simp add: half_registered_plz_def example_plz_def PLZ_IsTrue_def documented.is_true_iff status_of_def)
qed (simp_all add: half_registered_plz_def GetWorker_def gomap_get_simps)

text \<open>
  C36. A released zone can be polled for again. If a finalizer of someone else keeps a zone that is being
  deleted, then on such a server at most \<open>4 + N\<close> reconciliations deregister and release it, and
  take it into service once more: from then on, after any number of reconciliations, a worker polls
  the cloud for the zone the cloud was asked to forget.
\<close>

theorem released_zone_is_polled_again:
  assumes "zone_cluster E F z0 N" and "plz_deleting z0" and "plzFinalizer \<in> set (plz_finalizers z0)"
    and "PLZ_IsTrue (e_meta E) z0 ''PLZRegistered''" and "f \<in> set (plz_finalizers z0)" and "f \<noteq> plzFinalizer"
  shows "\<exists>n \<le> 4 + N. \<forall>m \<ge> n. \<exists>ws' tr w. plz_reconciled E F (PLZ_key z0) m ws = (ws', tr)
    \<and> list_ex is_deregistration tr \<and> plzFinalizer \<notin> set (plz_finalizers (zone_at z0 tr))
    \<and> GetWorker ws' (plz_name z0) = Inr w \<and> IsPolling (w_poller w)"
proof -
  note defs = zone_cluster.protected_at_def [OF assms(1)] zone_cluster.registered_at_def [OF assms(1)]
    zone_cluster.worker_def [OF assms(1)] zone_cluster.polled_def [OF assms(1)]
  define Q where "Q = (\<lambda>(ws', tr'). zone_cluster.polled z0 ws' \<and> \<not> zone_cluster.protected_at z0 tr'
    \<and> zone_cluster.registered_at E z0 tr' \<and> plz_finalizers (zone_at z0 tr') \<noteq> [] \<and> list_ex is_deregistration tr')"
  have start: "zone_cluster.protected_at z0 []" "zone_cluster.registered_at E z0 []" "f \<in> set (plz_finalizers (zone_at z0 []))"
    using assms(3-5) by (auto simp: defs)
  have leads: "zone_steps.leads E F (PLZ_key z0) N 4 (ws, []) Q"
    unfolding Q_def by (rule zone_cluster.released_polled_leads [OF assms(1,2) start assms(6)])
  have stays: "Q ((plz_step E F (PLZ_key z0) ^^ m) s)" if "Q s" for s m
    using that zone_cluster.polled_stays [OF assms(1), of "snd s" "fst s" m]
    by (cases s) (auto simp: Q_def zone_cluster.protected_at_def [OF assms(1)]
        zone_cluster.registered_at_def [OF assms(1)] list_ex_iff, blast)
  obtain n where n: "n \<le> 4 + N" "\<And>m. n \<le> m \<Longrightarrow> Q (plz_reconciled E F (PLZ_key z0) m ws)"
    using zone_cluster.from_then_on [OF assms(1) leads, where R = Q] stays unfolding plz_reconciled_def by blast
  have "\<exists>ws' tr w. s = (ws', tr) \<and> list_ex is_deregistration tr \<and> plzFinalizer \<notin> set (plz_finalizers (zone_at z0 tr))
      \<and> GetWorker ws' (plz_name z0) = Inr w \<and> IsPolling (w_poller w)" if "Q s" for s
    using that by (cases s) (auto simp: Q_def defs GetWorker_def)
  then show ?thesis using n by blast
qed

definition kept_plz :: PrivateLoadZone where
  "kept_plz = deleted_plz\<lparr>plz_finalizers := [plzFinalizer, ''foregroundDeletion'']\<rparr>"

theorem released_zone_is_polled_again_witness:
  "\<exists>n \<le> 4. \<exists>ws tr w. plz_reconciled (zone_env 0 kept_plz) documented_finalizers (PLZ_key kept_plz) n [] = (ws, tr)
     \<and> list_ex is_deregistration tr \<and> GetWorker ws (plz_name kept_plz) = Inr w \<and> IsPolling (w_poller w)"
proof -
  have cluster: "zone_cluster (zone_env 0 kept_plz) documented_finalizers kept_plz 0"
    by (rule zone_env_cluster) (simp add: kept_plz_def deleted_plz_def example_plz_def)
  have "\<exists>n \<le> 4 + 0. \<forall>m \<ge> n. \<exists>ws' tr w. plz_reconciled (zone_env 0 kept_plz) documented_finalizers (PLZ_key kept_plz) m [] = (ws', tr)
    \<and> list_ex is_deregistration tr \<and> plzFinalizer \<notin> set (plz_finalizers (zone_at kept_plz tr))
    \<and> GetWorker ws' (plz_name kept_plz) = Inr w \<and> IsPolling (w_poller w)"
  proof (rule released_zone_is_polled_again [OF cluster])
    show "PLZ_IsTrue (e_meta (zone_env 0 kept_plz)) kept_plz ''PLZRegistered''"
      using deleted_plz_registered [of kept_plz] by (simp add: kept_plz_def deleted_plz_def zone_env_def)
    show "''foregroundDeletion'' \<noteq> plzFinalizer" by (simp add: plzFinalizer_def)
  qed (simp_all add: kept_plz_def deleted_plz_def)
  then show ?thesis by fastforce
qed

end
