(* ===== verification/K6_Factory.thy ===== *)
theory K6_Factory
  imports K6_PLZ_Props
begin

text \<open>
  The factory of a private load zone: the goroutine that \<open>StartFactory\<close> (\<open>pkg/plz/worker.go\<close>) starts
  takes the ids of waiting test runs from the channel of the poller, one after the other, and calls
  \<open>handle\<close> for each. The poller lists a test run at every interval until it has been started, so ids
  come more than once; the server decides which test runs exist.
\<close>

section \<open>The loop of the factory\<close>

text \<open>The ids are those received until the channel is closed; \<open>Some\<close> is a panic.\<close>

fun run_factory :: "env \<Rightarrow> PLZWorker \<Rightarrow> string list \<Rightarrow> (string option) prog" where
  "run_factory E w [] = State_Monad.return None"
| "run_factory E w (testRunId # ids) = do {
     p \<leftarrow> handle E w testRunId;
     (case p of
        Some msg \<Rightarrow> State_Monad.return (Some msg)
      | None \<Rightarrow> run_factory E w ids)
   }"

section \<open>The test runs on the server\<close>

text \<open>How often a test run of a name was created, by the calls of a list made at some history.\<close>

fun creations :: "env \<Rightarrow> namespaced_name \<Rightarrow> trace \<Rightarrow> trace \<Rightarrow> nat" where
  "creations E n tr [] = 0"
| "creations E n tr (CreateTestRunResource k # cs) =
     (if NamespacedName k = n \<and> \<not> isl (e_createTestRunResource E tr k) then 1 else 0)
     + creations E n (tr @ [CreateTestRunResource k]) cs"
| "creations E n tr (c # cs) = creations E n (tr @ [c]) cs"

definition created :: "env \<Rightarrow> namespaced_name \<Rightarrow> trace \<Rightarrow> nat" where
  "created E n tr = creations E n [] tr"

lemma creations_append: "creations E n tr (cs @ ds) = creations E n tr cs + creations E n (tr @ cs) ds"
  by (induction E n tr cs rule: creations.induct) simp_all

lemma created_append: "created E n (tr @ cs) = created E n tr + creations E n tr cs"
  by (simp add: created_def creations_append)

lemma created_Nil [simp]: "created E n [] = 0"
  by (simp add: created_def)

lemma creations_other: "filter is_creation cs = [] \<Longrightarrow> creations E n tr cs = 0"
proof (induction cs arbitrary: tr)
  case (Cons c cs)
  then show ?case by (cases c) (auto split: if_splits)
qed simp

definition plz_run_key :: "PrivateLoadZone \<Rightarrow> string \<Rightarrow> namespaced_name" where
  "plz_run_key plz i = \<lparr>nn_namespace = plz_namespace plz, nn_name = PLZTestName i\<rparr>"

definition run_data_url :: "env \<Rightarrow> cloud_client \<Rightarrow> string \<Rightarrow> string" where
  "run_data_url E client i = test_run_url (TrimSuffix (e_baseURL E client) ''/v1'') i
     ''id,run_status,k8s_load_zones_config,k6_runtime_config,test_run_token,secrets_config,load_zone_distribution''"

text \<open>
  What the factory relies on. A test run that was created is there, or cannot be read; its arguments
  are stored; and the data of a test run carry the id they were asked for. The first is an
  idealisation: the client of the manager reads from a cache that may lag behind its own writes; then
  the server, which knows the name, refuses the second creation.
\<close>

locale test_run_server =
  fixes E :: env and client :: cloud_client
  assumes there: "0 < created E n tr \<Longrightarrow> e_getTestRun E tr n \<noteq> NotFound"
    and with_args: "e_createTestRunResource E tr k = Inr stored \<Longrightarrow> spec_args (tr_spec stored) \<noteq> []"
    and same_id: "e_cloudGetTestRun E tr (run_data_url E client i) = Inr data \<Longrightarrow> trd_TestRunID data = i"
begin

text \<open>The test run is missing from the server, and everything that is needed to create it works.\<close>

definition can_be_created :: "namespaced_name \<Rightarrow> string \<Rightarrow> bool" where
  "can_be_created n i \<longleftrightarrow>
     (\<forall>tr. created E n tr = 0 \<longrightarrow> e_getTestRun E tr n = NotFound)
     \<and> e_newRequest E client (run_data_url E client i) = None
     \<and> (\<forall>tr. \<exists>data trData. e_cloudGetTestRun E tr (run_data_url E client i) = Inr data
          \<and> Preprocess (e_cloudHostVar E) data = Inr trData)
     \<and> (\<forall>tr k. spec_args (tr_spec k) \<noteq> [] \<longrightarrow> \<not> isl (e_createTestRunResource E tr k))"

lemma Preprocess_id: "Preprocess host data = Inr trData \<Longrightarrow> trd_TestRunID trData = trd_TestRunID data"
  by (auto simp: Preprocess_def Let_def trd_TestRunID_def preprocessTags_def split: if_splits)

lemma complete_key:
  assumes "complete_tr name (createTemplate plz) trData = Inr k"
  shows "NamespacedName k = plz_run_key plz (trd_TestRunID trData)" and "spec_args (tr_spec k) \<noteq> []"
  using assms by (auto simp: complete_tr_def createTemplate_mounts Let_def NamespacedName_def plz_run_key_def plzk6Args_def)
    (simp add: createTemplate_def)

lemma create_run:
  "run_state (create_test_run E w i k) tr = (None, tr @ [SetControllerReference (tr_name k), CreateTestRunResource k])"
  using with_args by (auto simp: create_test_run_def split: sum.splits)

text \<open>One turn: only the test run asked for is created, and only if it has not been before.\<close>

lemma handle_step:
  fixes i :: string
  assumes w: "w_template w = createTemplate plz" "w_client w = client"
  defines "key \<equiv> plz_run_key plz i"
  obtains cs where "run_state (handle E w i) tr = (None, tr @ cs)"
    "\<And>n. n \<noteq> key \<Longrightarrow> creations E n tr cs = 0"
    "creations E key tr cs \<le> (if created E key tr = 0 then 1 else 0)"
    "can_be_created key i \<Longrightarrow> 0 < created E key (tr @ cs)"
proof -
  have ns: "tr_namespace (Template_Create (w_template w)) = plz_namespace plz"
    by (simp add: w Template_Create_def createTemplate_def)
  let ?url = "run_data_url E client i" and ?get = "GetTestRun key"
  note result = that
  have quiet: thesis if "run_state (handle E w i) tr = (None, tr @ cs)" "filter is_creation cs = []"
    "\<not> can_be_created key i \<or> 0 < created E key tr" for cs
    by (rule result [OF that(1)]) (use that(2,3) in \<open>auto simp: creations_other created_append\<close>)
  show thesis
  proof (cases "e_getTestRun E tr key")
    case (Found k)
    then have "run_state (handle E w i) tr = (None, tr @ [?get])"
      using ns by (simp add: handle_def Let_def key_def plz_run_key_def)
    then show thesis using Found by (intro quiet) (auto simp: can_be_created_def)
  next
    case (GetFailed e)
    then have "run_state (handle E w i) tr = (None, tr @ [?get])"
      using ns by (simp add: handle_def Let_def key_def plz_run_key_def)
    then show thesis using GetFailed by (intro quiet) (auto simp: can_be_created_def)
  next
    case NotFound
    then have new: "created E key tr = 0" using there by blast
    let ?tr1 = "tr @ [?get, CloudGetTestRun client ?url]"
    have get: "run_state (GetTestRunData E client i) (tr @ [?get]) =
        (case e_newRequest E client ?url of
           Some err \<Rightarrow> (Inl err, tr @ [?get])
         | None \<Rightarrow> (e_cloudGetTestRun E (tr @ [?get]) ?url, ?tr1))"
      by (simp add: GetTestRunData_def getTestRun_def run_data_url_def split: option.splits)
    show thesis
    proof (cases "\<exists>data trData. e_newRequest E client ?url = None
        \<and> e_cloudGetTestRun E (tr @ [?get]) ?url = Inr data \<and> Preprocess (e_cloudHostVar E) data = Inr trData")
      case True
      then obtain data trData where data: "e_newRequest E client ?url = None"
        "e_cloudGetTestRun E (tr @ [?get]) ?url = Inr data" "Preprocess (e_cloudHostVar E) data = Inr trData" by blast
      obtain k where k: "complete_tr (plz_name (w_plz w)) (createTemplate plz) trData = Inr k"
        using complete_template [OF data(3)] by blast
      have name: "NamespacedName k = key"
        using complete_key(1) [OF k] Preprocess_id [OF data(3)] same_id [OF data(2)] by (simp add: key_def)
      let ?cs = "[?get, CloudGetTestRun client ?url, SetControllerReference (tr_name k), CreateTestRunResource k]"
      have run: "run_state (handle E w i) tr = (None, tr @ ?cs)"
        using NotFound get data k ns w
        by (simp add: handle_def Template_Create_def Let_def key_def [unfolded plz_run_key_def, symmetric] create_run)
      show thesis
        by (rule result [OF run]) (use name new complete_key(2) [OF k] in \<open>auto simp: created_append can_be_created_def\<close>)
    next
      case False
      then have "\<exists>cs. run_state (handle E w i) tr = (None, tr @ cs) \<and> filter is_creation cs = []"
        using NotFound get ns w(2)
        by (auto simp: handle_def Let_def key_def [unfolded plz_run_key_def, symmetric] split: option.splits sum.splits)
      moreover have "\<not> can_be_created key i" using False unfolding can_be_created_def by blast
      ultimately show thesis using quiet by blast
    qed
  qed
qed

lemma factory_step:
  assumes w: "w_template w = createTemplate plz" "w_client w = client" and once: "\<forall>n. created E n tr \<le> 1"
  obtains cs where "run_state (run_factory E w ids) tr = (None, tr @ cs)" "\<forall>n. created E n (tr @ cs) \<le> 1"
    "\<And>n. n \<notin> plz_run_key plz ` set ids \<Longrightarrow> creations E n tr cs = 0"
    "\<And>i. i \<in> set ids \<Longrightarrow> can_be_created (plz_run_key plz i) i \<Longrightarrow> 0 < created E (plz_run_key plz i) (tr @ cs)"
  using once
proof (induction ids arbitrary: tr thesis)
  case Nil
  show ?case by (rule Nil(1) [of "[]"]) (use Nil(2) in simp_all)
next
  case (Cons i ids)
  let ?key = "plz_run_key plz i"
  obtain cs where cs: "run_state (handle E w i) tr = (None, tr @ cs)"
    "\<And>n. n \<noteq> ?key \<Longrightarrow> creations E n tr cs = 0"
    "creations E ?key tr cs \<le> (if created E ?key tr = 0 then 1 else 0)"
    "can_be_created ?key i \<Longrightarrow> 0 < created E ?key (tr @ cs)" using handle_step [OF w, of i tr] by blast
  have "created E n (tr @ cs) \<le> 1" for n
    using cs(2) [of n] cs(3) Cons.prems(2) by (cases "n = ?key") (auto simp: created_append split: if_splits)
  then obtain ds where ds: "run_state (run_factory E w ids) (tr @ cs) = (None, (tr @ cs) @ ds)"
    "\<forall>n. created E n ((tr @ cs) @ ds) \<le> 1"
    "\<And>n. n \<notin> plz_run_key plz ` set ids \<Longrightarrow> creations E n (tr @ cs) ds = 0"
    "\<And>j. j \<in> set ids \<Longrightarrow> can_be_created (plz_run_key plz j) j \<Longrightarrow> 0 < created E (plz_run_key plz j) ((tr @ cs) @ ds)"
    using Cons.IH [of "tr @ cs"] by blast
  show ?case
  proof (rule Cons.prems(1) [of "cs @ ds"])
    show "run_state (run_factory E w (i # ids)) tr = (None, tr @ cs @ ds)" using cs(1) ds(1) by simp
    show "\<forall>n. created E n (tr @ cs @ ds) \<le> 1" using ds(2) by simp
    show "creations E n tr (cs @ ds) = 0" if "n \<notin> plz_run_key plz ` set (i # ids)" for n
      using that cs(2) [of n] ds(3) [of n] by (simp add: creations_append)
    show "0 < created E (plz_run_key plz j) (tr @ cs @ ds)"
      if "j \<in> set (i # ids)" "can_be_created (plz_run_key plz j) j" for j
      using that cs(4) ds(4) [of j] by (auto simp: created_append [of E _ "tr @ cs" ds, simplified append_assoc])
  qed
qed

end

section \<open>The property\<close>

text \<open>
  C9. A factory creates each test run once. However often the ids of waiting test runs come from the
  poller, and in whatever order: on a server on which a created test run is there, no test run is
  created twice, none is created whose id was not received, and one is created for each id that was
  received and for which the server and the cloud do what is asked of them. The loop never panics.
\<close>

theorem factory_creates_each_run_once:
  assumes "test_run_server E (w_client w)" and "w_template w = createTemplate plz"
    and "run_state (run_factory E w ids) [] = (p, tr)"
  shows "p = None
    \<and> (\<forall>n. created E n tr \<le> 1 \<and> (created E n tr = 1 \<longrightarrow> n \<in> plz_run_key plz ` set ids))
    \<and> (\<forall>i \<in> set ids. test_run_server.can_be_created E (w_client w) (plz_run_key plz i) i \<longrightarrow> created E (plz_run_key plz i) tr = 1)"
proof -
  obtain cs where cs: "run_state (run_factory E w ids) [] = (None, [] @ cs)" "\<forall>n. created E n ([] @ cs) \<le> 1"
    "\<And>n. n \<notin> plz_run_key plz ` set ids \<Longrightarrow> creations E n [] cs = 0"
    "\<And>i. i \<in> set ids \<Longrightarrow> test_run_server.can_be_created E (w_client w) (plz_run_key plz i) i \<Longrightarrow>
      0 < created E (plz_run_key plz i) ([] @ cs)"
    by (rule test_run_server.factory_step [OF assms(1,2) HOL.refl, of "[]" ids]) simp_all
  have tr: "p = None" "tr = cs" using cs(1) assms(3) by simp_all
  have "created E n tr = 1 \<Longrightarrow> n \<in> plz_run_key plz ` set ids" for n
    using cs(3) [of n] by (cases "n \<in> plz_run_key plz ` set ids") (simp_all add: tr created_def)
  moreover have "created E (plz_run_key plz i) tr = 1"
    if "i \<in> set ids" "test_run_server.can_be_created E (w_client w) (plz_run_key plz i) i" for i
    using cs(4) [OF that] cs(2) by (simp add: tr le_antisym Suc_leI)
  ultimately show ?thesis using cs(2) tr by simp
qed

text \<open>A server and a cloud that know of one waiting test run, with the id 7.\<close>

definition factory_worker :: PLZWorker where
  "factory_worker = NewPLZWorker idle_env example_plz ''t''"

definition factory_env :: env where
  "factory_env = idle_env\<lparr>
     e_createTestRunResource := \<lambda>_ k. if spec_args (tr_spec k) = [] then Inl ''invalid'' else Inr k,
     e_getTestRun := \<lambda>tr n.
       if 0 < created (idle_env\<lparr>e_createTestRunResource := \<lambda>_ k. if spec_args (tr_spec k) = [] then Inl ''invalid'' else Inr k\<rparr>) n tr
       then Found (example_run ''a'') else NotFound,
     e_cloudGetTestRun := \<lambda>_ url. if url = run_data_url idle_env (w_client factory_worker) ''7''
       then Inr (example_data []) else Inl ''no such test run''\<rparr>"

lemma creations_cong:
  "e_createTestRunResource E = e_createTestRunResource E' \<Longrightarrow> creations E n tr cs = creations E' n tr cs"
  by (induction E n tr cs rule: creations.induct) simp_all

lemma factory_env_created:
  "e_getTestRun factory_env tr n = (if 0 < created factory_env n tr then Found (example_run ''a'') else NotFound)"
proof -
  let ?B = "idle_env\<lparr>e_createTestRunResource := \<lambda>_ k. if spec_args (tr_spec k) = [] then Inl ''invalid'' else Inr k\<rparr>"
  have "created factory_env n tr = created ?B n tr"
    unfolding created_def by (rule creations_cong) (simp add: factory_env_def)
  then show ?thesis by (simp add: factory_env_def)
qed

lemma seven: "trd_TestRunID (example_data []) = ''7''"
  by code_simp

interpretation example_factory: test_run_server factory_env "w_client factory_worker"
proof
  show "trd_TestRunID data = i"
    if "e_cloudGetTestRun factory_env tr (run_data_url factory_env (w_client factory_worker) i) = Inr data" for tr i data
    using that by (auto simp: factory_env_def run_data_url_def test_run_url_def idle_env_def
        seven split: if_splits)
qed (auto simp: factory_env_created, auto simp: factory_env_def split: if_splits)

lemma example_run_waits: "example_factory.can_be_created (plz_run_key example_plz ''7'') ''7''"
proof -
  have "\<exists>trData. Preprocess (e_cloudHostVar factory_env) (example_data []) = Inr trData"
    by (simp add: Preprocess_def example_data_def Let_def)
  moreover have "run_data_url factory_env (w_client factory_worker) ''7'' = run_data_url idle_env (w_client factory_worker) ''7''"
    by (simp add: run_data_url_def factory_env_def)
  ultimately show ?thesis
    by (simp add: example_factory.can_be_created_def factory_env_created) (simp add: factory_env_def idle_env_def)
qed

theorem factory_creates_each_run_once_witness:
  "created factory_env (plz_run_key example_plz ''7'')
     (snd (run_state (run_factory factory_env factory_worker [''7'', ''8'', ''7'']) [])) = 1"
proof -
  have "w_template factory_worker = createTemplate example_plz" by (simp add: factory_worker_def NewPLZWorker_def)
  from factory_creates_each_run_once [OF example_factory.test_run_server_axioms this prod.collapse [symmetric], of "[''7'', ''8'', ''7'']"]
  show ?thesis using example_run_waits by simp
qed

end
