(* ===== verification/K6_Memory.thy ===== *)
theory K6_Memory
  imports K6_Prelude
begin

text \<open>
  The generated copy functions of the API types (\<open>src/api/v1alpha1/zz_generated.deepcopy.go\<close>).
  The other theories pass test runs, zones and statuses as values; the code passes pointers and
  relies on these functions where it must not share: \<open>UpdateStatus\<close> keeps a copy of the status it
  proposes while the test run is read again into the same object and a copy of the object that the
  patch is computed from, \<open>Template.Create\<close> copies the template, and the initializer gets a copy of
  the runner's pod. Here the memory is explicit.
  \<^item> A heap is a list of cells; a cell is a variable, the array behind slices, or a map. A pointer
    is the address of a variable and a path of fields in it (\<open>&k6.Status\<close>), a slice an address, an
    offset and a length. A struct is the list of its fields and lies inside its variable.
  \<^item> \<open>goty\<close> describes the types, \<open>view\<close> reads a value of a type: its content as a tree without
    addresses, and the cells that it reaches. It is \<open>None\<close> where the value is not one of the type,
    so that \<open>view h T v \<noteq> None\<close> is typing.
  \<^item> Each \<open>DeepCopyInto\<close> is a program that takes the struct behind \<open>in\<close> and yields the one it leaves
    behind \<open>out\<close>; the blocks are those of the code in the code's order. \<open>out\<close> is never reachable
    from \<open>in\<close> (\<open>DeepCopy\<close> and the loops over slices pass memory they have just allocated).
  \<^item> The types of the Kubernetes libraries and their own \<open>DeepCopyInto\<close> are parameters: \<open>ext\<close>
    describes the types, \<open>X\<close> is the copying. \<open>library_copies\<close> states what their documentation
    promises: the copy is deep, and the types that the generated code copies by assignment hold no
    references (\<open>time.Time\<close>, whose pointer to a location is never written through, counts as a
    scalar).
  The lemmas: what a value reads depends only on the cells it reaches (\<open>view_frame\<close>); each building
  block of the generated code makes deep copies; therefore so does each of the functions, and a copy
  and its original are isolated from writes through the other one.
\<close>

section \<open>Values in memory\<close>

datatype scalar = StringV string | IntV int | BoolV bool

datatype gval =
    Scalar scalar
  | NilRef
  | Pointer nat "string list"
  | SliceRef nat nat nat
  | MapRef nat
  | Struct "(string \<times> gval) list"

datatype cell = Var gval | Backing "gval list" | MapCells "(string \<times> gval) list"

type_synonym heap = "cell list"
type_synonym 'a mem = "(heap, 'a) state"

datatype goty =
    ScalarT
  | PointerT goty
  | SliceT goty
  | MapT goty
  | StructT "(string \<times> goty) list"

datatype tree =
    ScalarTree scalar
  | NilTree
  | PointerTree tree
  | SliceTree "tree list"
  | MapTree "string \<rightharpoonup> tree"
  | StructTree "(string \<times> tree) list"

definition cell_at :: "heap \<Rightarrow> nat \<Rightarrow> cell option" where
  "cell_at h a = (if a < length h then Some (h ! a) else None)"

primrec follow :: "string list \<Rightarrow> gval \<Rightarrow> gval option" where
  "follow [] v = Some v"
| "follow (n # p) v =
     (case v of
        Struct fs \<Rightarrow> (case map_of fs n of Some w \<Rightarrow> follow p w | None \<Rightarrow> None)
      | _ \<Rightarrow> None)"

definition var_at :: "heap \<Rightarrow> nat \<Rightarrow> string list \<Rightarrow> gval option" where
  "var_at h a p = (case cell_at h a of Some (Var w) \<Rightarrow> follow p w | _ \<Rightarrow> None)"

definition elements_at :: "heap \<Rightarrow> nat \<Rightarrow> nat \<Rightarrow> nat \<Rightarrow> gval list option" where
  "elements_at h a off n =
     (case cell_at h a of
        Some (Backing xs) \<Rightarrow> if off + n \<le> length xs then Some (take n (drop off xs)) else None
      | _ \<Rightarrow> None)"

definition entries_at :: "heap \<Rightarrow> nat \<Rightarrow> (string \<times> gval) list option" where
  "entries_at h a =
     (case cell_at h a of
        Some (MapCells kvs) \<Rightarrow> if distinct (map fst kvs) then Some kvs else None
      | _ \<Rightarrow> None)"

text \<open>The views of several values together, in order.\<close>

definition joined :: "('a list \<Rightarrow> tree) \<Rightarrow> nat list \<Rightarrow> ('a \<times> nat list) option list \<Rightarrow> (tree \<times> nat list) option" where
  "joined g as vs = map_option (\<lambda>ws. (g (map fst ws), as @ concat (map snd ws))) (those vs)"

fun view :: "heap \<Rightarrow> goty \<Rightarrow> gval \<Rightarrow> (tree \<times> nat list) option" where
  "view h ScalarT v = (case v of Scalar s \<Rightarrow> Some (ScalarTree s, []) | _ \<Rightarrow> None)"
| "view h (PointerT T) v =
     (case v of
        NilRef \<Rightarrow> Some (NilTree, [])
      | Pointer a p \<Rightarrow>
          (case var_at h a p of
             Some w \<Rightarrow> map_option (\<lambda>(t, F). (PointerTree t, a # F)) (view h T w)
           | None \<Rightarrow> None)
      | _ \<Rightarrow> None)"
| "view h (SliceT T) v =
     (case v of
        NilRef \<Rightarrow> Some (NilTree, [])
      | SliceRef a off n \<Rightarrow>
          (case elements_at h a off n of
             Some xs \<Rightarrow> joined SliceTree [a] (map (\<lambda>x. view h T x) xs)
           | None \<Rightarrow> None)
      | _ \<Rightarrow> None)"
| "view h (MapT T) v =
     (case v of
        NilRef \<Rightarrow> Some (NilTree, [])
      | MapRef a \<Rightarrow>
          (case entries_at h a of
             Some kvs \<Rightarrow>
               joined (\<lambda>ts. MapTree (map_of (zip (map fst kvs) ts))) [a]
                 (map (\<lambda>kv. view h T (snd kv)) kvs)
           | None \<Rightarrow> None)
      | _ \<Rightarrow> None)"
| "view h (StructT fs) v =
     (case v of
        Struct vs \<Rightarrow>
          if map fst vs = map fst fs
          then joined (\<lambda>ts. StructTree (zip (map fst fs) ts)) []
                 (map (\<lambda>nT. case map_of vs (fst nT) of Some w \<Rightarrow> view h (snd nT) w | None \<Rightarrow> None) fs)
          else None
      | _ \<Rightarrow> None)"

text \<open>A type without references.\<close>

fun plain_type :: "goty \<Rightarrow> bool" where
  "plain_type ScalarT = True"
| "plain_type (StructT fs) = list_all (\<lambda>nT. plain_type (snd nT)) fs"
| "plain_type _ = False"

section \<open>The operations on memory\<close>

definition new_cell :: "cell \<Rightarrow> nat mem" where
  "new_cell c = State (\<lambda>h. (length h, h @ [c]))"

definition load :: "nat \<Rightarrow> string list \<Rightarrow> gval mem" where
  "load a p = State (\<lambda>h. (case var_at h a p of Some w \<Rightarrow> w | None \<Rightarrow> NilRef, h))"

definition load_elements :: "nat \<Rightarrow> nat \<Rightarrow> nat \<Rightarrow> gval list mem" where
  "load_elements a off n = State (\<lambda>h. (case elements_at h a off n of Some xs \<Rightarrow> xs | None \<Rightarrow> [], h))"

definition load_entries :: "nat \<Rightarrow> (string \<times> gval) list mem" where
  "load_entries a = State (\<lambda>h. (case entries_at h a of Some kvs \<Rightarrow> kvs | None \<Rightarrow> [], h))"

definition store :: "nat \<Rightarrow> cell \<Rightarrow> unit mem" where
  "store a c = State (\<lambda>h. ((), h[a := c]))"

definition store_element :: "nat \<Rightarrow> nat \<Rightarrow> gval \<Rightarrow> unit mem" where
  "store_element a i v =
     State (\<lambda>h. ((), case cell_at h a of Some (Backing xs) \<Rightarrow> h[a := Backing (xs[i := v])] | _ \<Rightarrow> h))"

definition store_entry :: "nat \<Rightarrow> string \<Rightarrow> gval \<Rightarrow> unit mem" where
  "store_entry a k v =
     State (\<lambda>h. ((), case cell_at h a of Some (MapCells kvs) \<Rightarrow> h[a := MapCells (AList.update k v kvs)] | _ \<Rightarrow> h))"

definition get_field :: "string \<Rightarrow> gval \<Rightarrow> gval" where
  "get_field n v =
     (case v of Struct fs \<Rightarrow> (case map_of fs n of Some w \<Rightarrow> w | None \<Rightarrow> NilRef) | _ \<Rightarrow> NilRef)"

definition set_field :: "string \<Rightarrow> gval \<Rightarrow> gval \<Rightarrow> gval" where
  "set_field n x v =
     (case v of Struct fs \<Rightarrow> Struct (map (\<lambda>(m, w). (m, if m = n then x else w)) fs) | _ \<Rightarrow> v)"

section \<open>The blocks of the generated code\<close>

text \<open>
  \<open>*out = new(T)\<close> and \<open>(*in).DeepCopyInto(*out)\<close> under the guard \<open>in != nil\<close>. Fresh memory holds the
  zero value until the copy is written; nothing reads it before.
\<close>

definition copy_pointer :: "(gval \<Rightarrow> gval mem) \<Rightarrow> gval \<Rightarrow> gval mem" where
  "copy_pointer f v =
     (case v of
        Pointer a p \<Rightarrow> do {
          b \<leftarrow> new_cell (Var NilRef);
          x \<leftarrow> load a p;
          y \<leftarrow> f x;
          _ \<leftarrow> store b (Var y);
          State_Monad.return (Pointer b [])
        }
      | _ \<Rightarrow> State_Monad.return v)"

text \<open>\<open>*out = new(T)\<close> and \<open>**out = **in\<close>.\<close>

definition copy_pointer_value :: "gval \<Rightarrow> gval mem" where
  "copy_pointer_value v =
     (case v of
        Pointer a p \<Rightarrow> do {
          x \<leftarrow> load a p;
          b \<leftarrow> new_cell (Var x);
          State_Monad.return (Pointer b [])
        }
      | _ \<Rightarrow> State_Monad.return v)"

text \<open>\<open>*out = make([]T, len(*in))\<close> and \<open>for i := range *in { (*in)[i].DeepCopyInto(&(*out)[i]) }\<close>.\<close>

primrec copy_elements :: "(gval \<Rightarrow> gval mem) \<Rightarrow> gval list mem \<Rightarrow> nat \<Rightarrow> nat list \<Rightarrow> unit mem" where
  "copy_elements f src b [] = State_Monad.return ()"
| "copy_elements f src b (i # is) = do {
     xs \<leftarrow> src;
     y \<leftarrow> f (xs ! i);
     _ \<leftarrow> store_element b i y;
     copy_elements f src b is
   }"

definition copy_slice :: "(gval \<Rightarrow> gval mem) \<Rightarrow> gval \<Rightarrow> gval mem" where
  "copy_slice f v =
     (case v of
        SliceRef a off n \<Rightarrow> do {
          b \<leftarrow> new_cell (Backing (replicate n NilRef));
          _ \<leftarrow> copy_elements f (load_elements a off n) b [0..<n];
          State_Monad.return (SliceRef b 0 n)
        }
      | _ \<Rightarrow> State_Monad.return v)"

text \<open>\<open>*out = make([]T, len(*in))\<close> and \<open>copy(*out, *in)\<close>.\<close>

definition copy_slice_values :: "gval \<Rightarrow> gval mem" where
  "copy_slice_values v =
     (case v of
        SliceRef a off n \<Rightarrow> do {
          b \<leftarrow> new_cell (Backing (replicate n NilRef));
          xs \<leftarrow> load_elements a off n;
          _ \<leftarrow> store b (Backing xs);
          State_Monad.return (SliceRef b 0 n)
        }
      | _ \<Rightarrow> State_Monad.return v)"

text \<open>
  \<open>*out = make(map[string]string, len(*in))\<close> and \<open>for key, val := range *in { (*out)[key] = val }\<close>; the
  order of the list of entries stands for the order of the iteration, which Go leaves open.
\<close>

primrec copy_entries :: "nat \<Rightarrow> (string \<times> gval) list \<Rightarrow> unit mem" where
  "copy_entries b [] = State_Monad.return ()"
| "copy_entries b (kv # kvs) = do {
     _ \<leftarrow> store_entry b (fst kv) (snd kv);
     copy_entries b kvs
   }"

definition copy_map :: "gval \<Rightarrow> gval mem" where
  "copy_map v =
     (case v of
        MapRef a \<Rightarrow> do {
          b \<leftarrow> new_cell (MapCells []);
          kvs \<leftarrow> load_entries a;
          _ \<leftarrow> copy_entries b kvs;
          State_Monad.return (MapRef b)
        }
      | _ \<Rightarrow> State_Monad.return v)"

text \<open>\<open>*out = *in\<close>, then the blocks for single fields in order.\<close>

primrec copy_fields :: "(string \<times> (gval \<Rightarrow> gval mem)) list \<Rightarrow> gval \<Rightarrow> gval \<Rightarrow> gval mem" where
  "copy_fields [] v out = State_Monad.return out"
| "copy_fields (b # bs) v out = do {
     x \<leftarrow> snd b (get_field (fst b) v);
     copy_fields bs v (set_field (fst b) x out)
   }"

definition copy_struct :: "(string \<times> (gval \<Rightarrow> gval mem)) list \<Rightarrow> gval \<Rightarrow> gval mem" where
  "copy_struct bs v = copy_fields bs v v"

definition assign :: "gval \<Rightarrow> gval mem" where
  "assign v = State_Monad.return v"

text \<open>
  The body of every \<open>DeepCopy\<close>: nil for nil, otherwise \<open>out := new(T)\<close>, \<open>in.DeepCopyInto(out)\<close> and
  \<open>return out\<close>.
\<close>

definition deep_copy :: "(gval \<Rightarrow> gval mem) \<Rightarrow> gval \<Rightarrow> gval mem" where
  "deep_copy into p = (if p = NilRef then State_Monad.return NilRef else copy_pointer into p)"

section \<open>What a value reads\<close>

named_theorems mem "the operations on memory"

lemma those_Some: "those vs = Some ws \<longleftrightarrow> vs = map Some ws"
proof (induction vs arbitrary: ws)
  case Nil
  then show ?case by auto
next
  case (Cons v vs)
  then show ?case by (cases v; cases ws) auto
qed

lemma joined_Some:
  "joined g as vs = Some (t, F) \<longleftrightarrow>
   (\<exists>ws. vs = map Some ws \<and> t = g (map fst ws) \<and> F = as @ concat (map snd ws))"
  by (auto simp: joined_def those_Some)

lemma joined_map:
  "joined g as (map f xs) = Some (t, F) \<longleftrightarrow>
   (\<exists>ws. length ws = length xs \<and> (\<forall>i<length xs. f (xs ! i) = Some (ws ! i)) \<and>
         t = g (map fst ws) \<and> F = as @ concat (map snd ws))"
proof -
  have "map f xs = map Some ws \<longleftrightarrow> length ws = length xs \<and> (\<forall>i<length xs. f (xs ! i) = Some (ws ! i))" for ws
    by (auto simp: list_eq_iff_nth_eq)
  then show ?thesis unfolding joined_Some by blast
qed

lemma plain_type_view: "view h T v = Some (t, F) \<Longrightarrow> plain_type T \<Longrightarrow> F = []"
proof (induction h T v arbitrary: t F rule: view.induct)
  case (1 h v)
  then show ?case by (auto split: gval.splits)
next
  case (5 h fs v)
  from "5.prems"(1) obtain vs ws where v: "v = Struct vs" and l: "length ws = length fs"
    and w: "\<And>i. i < length fs \<Longrightarrow>
        (case map_of vs (fst (fs ! i)) of Some w \<Rightarrow> view h (snd (fs ! i)) w | None \<Rightarrow> None) = Some (ws ! i)"
    and F: "F = concat (map snd ws)"
    by (auto simp: joined_map split: gval.splits if_splits)
  have "snd x = []" if x: "x \<in> set ws" for x
  proof -
    obtain i where i: "i < length fs" "x = ws ! i" using x l by (auto simp: in_set_conv_nth)
    then obtain u where u: "map_of vs (fst (fs ! i)) = Some u" "view h (snd (fs ! i)) u = Some x"
      using w [OF i(1)] by (auto split: option.splits)
    have "plain_type (snd (fs ! i))" using "5.prems"(2) i(1) by (auto simp: list_all_length)
    then show ?thesis
      using "5.IH" [of vs "fs ! i" u "fst x" "snd x"] v u i(1) "5.prems"(1)
      by (auto split: if_splits)
  qed
  then show ?case by (simp add: F)
qed auto

text \<open>Two heaps that agree on the cells a value reaches show the same value.\<close>

definition same_cells :: "nat list \<Rightarrow> heap \<Rightarrow> heap \<Rightarrow> bool" where
  "same_cells F h h' \<longleftrightarrow> (\<forall>a\<in>set F. cell_at h' a = cell_at h a)"

lemma same_cells_append [simp]: "same_cells (F @ G) h h' \<longleftrightarrow> same_cells F h h' \<and> same_cells G h h'"
  and same_cells_Cons [simp]: "same_cells (a # F) h h' \<longleftrightarrow> cell_at h' a = cell_at h a \<and> same_cells F h h'"
  and same_cells_Nil [simp]: "same_cells [] h h'"
  by (auto simp: same_cells_def)

lemma same_cells_concat: "same_cells (concat Fs) h h' \<longleftrightarrow> (\<forall>F\<in>set Fs. same_cells F h h')"
  by (auto simp: same_cells_def)

lemma joined_frame:
  assumes j: "joined g as (map f xs) = Some (t, F)" and c: "same_cells F h h'"
    and f: "\<And>x r. x \<in> set xs \<Longrightarrow> f x = Some r \<Longrightarrow> same_cells (snd r) h h' \<Longrightarrow> f' x = Some r"
  shows "joined g as (map f' xs) = Some (t, F)"
proof -
  obtain ws where ws: "length ws = length xs" "\<And>i. i < length xs \<Longrightarrow> f (xs ! i) = Some (ws ! i)"
    "t = g (map fst ws)" "F = as @ concat (map snd ws)"
    using j unfolding joined_map by blast
  have "f' (xs ! i) = Some (ws ! i)" if i: "i < length xs" for i
    using f [OF nth_mem [OF i] ws(2) [OF i]] c ws(1,4) i by (auto simp: same_cells_concat)
  then show ?thesis using ws unfolding joined_map by blast
qed

lemma view_frame: "view h T v = Some (t, F) \<Longrightarrow> same_cells F h h' \<Longrightarrow> view h' T v = Some (t, F)"
proof (induction h T v arbitrary: t F rule: view.induct)
  case (1 h v)
  then show ?case by simp
next
  case (2 h T v)
  show ?case
  proof (cases v)
    case (Pointer a p)
    with 2 obtain w t' F' where w: "var_at h a p = Some w" "view h T w = Some (t', F')"
      "t = PointerTree t'" "F = a # F'"
      by (auto split: option.splits)
    moreover have "var_at h' a p = Some w" using w "2.prems"(2) by (simp add: var_at_def)
    moreover have "view h' T w = Some (t', F')"
      using "2.IH" [OF Pointer w(1) w(2)] w(4) "2.prems"(2) by simp
    ultimately show ?thesis by (simp add: Pointer)
  qed (use 2 in auto)
next
  case (3 h T v)
  show ?case
  proof (cases v)
    case (SliceRef a off n)
    with "3.prems" obtain xs where xs: "elements_at h a off n = Some xs"
      and j: "joined SliceTree [a] (map (view h T) xs) = Some (t, F)"
      by (auto split: option.splits)
    have "a \<in> set F" using j unfolding joined_Some by auto
    then have "elements_at h' a off n = Some xs"
      using xs "3.prems"(2) by (simp add: elements_at_def same_cells_def)
    moreover have "joined SliceTree [a] (map (view h' T) xs) = Some (t, F)"
      using j "3.prems"(2)
    proof (rule joined_frame)
      fix x r assume x: "x \<in> set xs" "view h T x = Some r" "same_cells (snd r) h h'"
      then show "view h' T x = Some r"
        using "3.IH" [OF SliceRef xs x(1), of "fst r" "snd r"] by simp
    qed
    ultimately show ?thesis by (simp add: SliceRef)
  qed (use 3 in auto)
next
  case (4 h T v)
  show ?case
  proof (cases v)
    case (MapRef a)
    let ?g = "\<lambda>kvs ts. MapTree (map_of (zip (map fst kvs) ts))"
    from MapRef "4.prems" obtain kvs where kvs: "entries_at h a = Some kvs"
      and j: "joined (?g kvs) [a] (map (\<lambda>kv. view h T (snd kv)) kvs) = Some (t, F)"
      by (auto split: option.splits)
    have "a \<in> set F" using j unfolding joined_Some by auto
    then have "entries_at h' a = Some kvs"
      using kvs "4.prems"(2) by (simp add: entries_at_def same_cells_def)
    moreover have "joined (?g kvs) [a] (map (\<lambda>kv. view h' T (snd kv)) kvs) = Some (t, F)"
      using j "4.prems"(2)
    proof (rule joined_frame)
      fix x r assume x: "x \<in> set kvs" "view h T (snd x) = Some r" "same_cells (snd r) h h'"
      then show "view h' T (snd x) = Some r"
        using "4.IH" [OF MapRef kvs x(1), of "fst r" "snd r"] by simp
    qed
    ultimately show ?thesis by (simp add: MapRef)
  qed (use 4 in auto)
next
  case (5 h fs v)
  from "5.prems"(1) obtain vs where v: "v = Struct vs" and names: "map fst vs = map fst fs"
    by (auto split: gval.splits if_splits)
  let ?f = "\<lambda>h nT. case map_of vs (fst nT) of Some w \<Rightarrow> view h (snd nT) w | None \<Rightarrow> None"
  let ?g = "\<lambda>ts. StructTree (zip (map fst fs) ts)"
  from "5.prems"(1) v names have j: "joined ?g [] (map (?f h) fs) = Some (t, F)" by simp
  have "joined ?g [] (map (?f h') fs) = Some (t, F)"
    using j "5.prems"(2)
  proof (rule joined_frame)
    fix x r assume x: "x \<in> set fs" "?f h x = Some r" "same_cells (snd r) h h'"
    then obtain u where "map_of vs (fst x) = Some u" "view h (snd x) u = Some r"
      by (auto split: option.splits)
    then show "?f h' x = Some r"
      using "5.IH" [OF v names x(1), of u "fst r" "snd r"] x(3) by simp
  qed
  then show ?case by (simp add: v names)
qed

lemma joined_reaches:
  assumes j: "joined g as (map f xs) = Some (t, F)" and as: "\<And>a. a \<in> set as \<Longrightarrow> P a"
    and f: "\<And>x r a. x \<in> set xs \<Longrightarrow> f x = Some r \<Longrightarrow> a \<in> set (snd r) \<Longrightarrow> P a"
    and a: "a \<in> set F"
  shows "P a"
proof -
  obtain ws where ws: "length ws = length xs" "\<And>i. i < length xs \<Longrightarrow> f (xs ! i) = Some (ws ! i)"
    "F = as @ concat (map snd ws)"
    using j unfolding joined_map by blast
  show ?thesis
  proof (cases "a \<in> set as")
    case False
    with a ws(3) obtain r where r: "r \<in> set ws" "a \<in> set (snd r)" by auto
    then obtain i where i: "i < length ws" "r = ws ! i" by (auto simp: in_set_conv_nth)
    then have i': "i < length xs" using ws(1) by simp
    show ?thesis using f [OF nth_mem [OF i'] ws(2) [OF i']] r(2) i(2) by blast
  qed (rule as)
qed

lemma view_reaches: "view h T v = Some (t, F) \<Longrightarrow> a \<in> set F \<Longrightarrow> a < length h"
proof (induction h T v arbitrary: t F a rule: view.induct)
  case (1 h v)
  then show ?case by (auto split: gval.splits)
next
  case (2 h T v)
  show ?case
  proof (cases v)
    case (Pointer b p)
    with 2 obtain w t' F' where w: "var_at h b p = Some w" "view h T w = Some (t', F')" "F = b # F'"
      by (auto split: option.splits)
    moreover have "b < length h" using w by (auto simp: var_at_def cell_at_def split: if_splits)
    ultimately show ?thesis using "2.IH" [OF Pointer w(1) w(2)] "2.prems"(2) by auto
  qed (use 2 in auto)
next
  case (3 h T v)
  show ?case
  proof (cases v)
    case (SliceRef b off n)
    with "3.prems" obtain xs where xs: "elements_at h b off n = Some xs"
      and j: "joined SliceTree [b] (map (view h T) xs) = Some (t, F)"
      by (auto split: option.splits)
    have b: "b < length h" using xs by (auto simp: elements_at_def cell_at_def split: if_splits)
    show ?thesis
      by (rule joined_reaches [OF j _ _ "3.prems"(2)])
        (use b "3.IH" [OF SliceRef xs] in force)+
  qed (use 3 in auto)
next
  case (4 h T v)
  show ?case
  proof (cases v)
    case (MapRef b)
    from MapRef "4.prems" obtain kvs where kvs: "entries_at h b = Some kvs"
      and j: "joined (\<lambda>ts. MapTree (map_of (zip (map fst kvs) ts))) [b]
                (map (\<lambda>kv. view h T (snd kv)) kvs) = Some (t, F)"
      by (auto split: option.splits)
    have b: "b < length h" using kvs by (auto simp: entries_at_def cell_at_def split: if_splits)
    show ?thesis
      by (rule joined_reaches [OF j _ _ "4.prems"(2)])
        (use b "4.IH" [OF MapRef kvs] in force)+
  qed (use 4 in auto)
next
  case (5 h fs v)
  from "5.prems"(1) obtain vs where v: "v = Struct vs" and names: "map fst vs = map fst fs"
    by (auto split: gval.splits if_splits)
  let ?f = "\<lambda>nT. case map_of vs (fst nT) of Some w \<Rightarrow> view h (snd nT) w | None \<Rightarrow> None"
  from "5.prems"(1) v names
  have j: "joined (\<lambda>ts. StructTree (zip (map fst fs) ts)) [] (map ?f fs) = Some (t, F)" by simp
  show ?case
  proof (rule joined_reaches [OF j _ _ "5.prems"(2)])
    fix x r c assume x: "x \<in> set fs" "?f x = Some r" "c \<in> set (snd r)"
    then obtain u where "map_of vs (fst x) = Some u" "view h (snd x) u = Some r"
      by (auto split: option.splits)
    then show "c < length h" using "5.IH" [OF v names x(1), of u "fst r" "snd r"] x(3) by simp
  qed simp
qed

lemma cell_at_append [simp]: "a < length h \<Longrightarrow> cell_at (h @ cs) a = cell_at h a"
  by (simp add: cell_at_def nth_append)

lemma cell_at_update [simp]: "a \<noteq> b \<Longrightarrow> cell_at (h[b := c]) a = cell_at h a"
  by (simp add: cell_at_def)

lemma view_append: "view h T v = Some (t, F) \<Longrightarrow> view (h @ cs) T v = Some (t, F)"
  using view_frame [of h T v t F "h @ cs"] view_reaches [of h T v t F]
  by (simp add: same_cells_def)

section \<open>Deep copies\<close>

text \<open>
  A deep copy of a value of the type has the same content, only reaches new memory, and leaves every
  cell that was there as it was.
\<close>

definition deep_copies :: "goty \<Rightarrow> (gval \<Rightarrow> gval mem) \<Rightarrow> bool" where
  "deep_copies T f \<longleftrightarrow>
     (\<forall>h v t F. view h T v = Some (t, F) \<longrightarrow>
        (\<exists>cs v' F'. run_state (f v) h = (v', h @ cs) \<and> view (h @ cs) T v' = Some (t, F') \<and>
           (\<forall>a\<in>set F'. length h \<le> a)))"

lemma deep_copiesI:
  assumes "\<And>h v t F. view h T v = Some (t, F) \<Longrightarrow>
    \<exists>cs v' F'. run_state (f v) h = (v', h @ cs) \<and> view (h @ cs) T v' = Some (t, F') \<and>
      (\<forall>a\<in>set F'. length h \<le> a)"
  shows "deep_copies T f"
  using assms unfolding deep_copies_def by blast

lemma deep_copiesE:
  assumes "deep_copies T f" "view h T v = Some (t, F)"
  obtains cs v' F' where "run_state (f v) h = (v', h @ cs)" "view (h @ cs) T v' = Some (t, F')"
    "\<And>a. a \<in> set F' \<Longrightarrow> length h \<le> a"
  using assms unfolding deep_copies_def by blast

named_theorems copies "which blocks make deep copies"

lemma assign_copies [copies]: "plain_type T \<Longrightarrow> deep_copies T assign"
proof (rule deep_copiesI)
  fix h v t F assume "plain_type T" "view h T v = Some (t, F)"
  then show "\<exists>cs v' F'. run_state (assign v) h = (v', h @ cs) \<and> view (h @ cs) T v' = Some (t, F') \<and>
      (\<forall>a\<in>set F'. length h \<le> a)"
    by (intro exI [of _ "[]"] exI [of _ v] exI [of _ F])
      (auto simp: assign_def dest: plain_type_view)
qed

lemma copy_pointer_copies [copies]:
  assumes f: "deep_copies T f"
  shows "deep_copies (PointerT T) (copy_pointer f)"
proof (rule deep_copiesI)
  fix h v t F assume v: "view h (PointerT T) v = Some (t, F)"
  show "\<exists>cs v' F'. run_state (copy_pointer f v) h = (v', h @ cs) \<and>
      view (h @ cs) (PointerT T) v' = Some (t, F') \<and> (\<forall>a\<in>set F'. length h \<le> a)"
  proof (cases v)
    case (Pointer a p)
    with v obtain w t' F0 where w: "var_at h a p = Some w" "view h T w = Some (t', F0)" "t = PointerTree t'"
      by (auto split: option.splits)
    let ?h1 = "h @ [Var NilRef]"
    obtain cs v' F' where r: "run_state (f w) ?h1 = (v', ?h1 @ cs)" "view (?h1 @ cs) T v' = Some (t', F')"
      and new: "\<And>b. b \<in> set F' \<Longrightarrow> length ?h1 \<le> b"
      by (rule deep_copiesE [OF f view_append [OF w(2)]]) blast
    let ?h2 = "h @ Var v' # cs"
    have a: "a < length h" using w(1) by (auto simp: var_at_def cell_at_def split: if_splits)
    have "run_state (copy_pointer f v) h = (Pointer (length h) [], ?h2)"
      using a w(1) r(1) by (simp add: Pointer copy_pointer_def new_cell_def load_def store_def var_at_def)
    moreover have "view ?h2 T v' = Some (t', F')"
      by (rule view_frame [OF r(2)])
        (use new in \<open>force simp: same_cells_def cell_at_def nth_append nth_Cons' \<close>)
    ultimately show ?thesis
      using new w(3)
      by (intro exI [of _ "Var v' # cs"] exI [of _ "Pointer (length h) []"] exI [of _ "length h # F'"])
        (force simp: var_at_def cell_at_def)
  qed (use v in \<open>auto simp: copy_pointer_def\<close>)
qed

lemma copy_pointer_value_copies [copies]:
  assumes "plain_type T"
  shows "deep_copies (PointerT T) copy_pointer_value"
proof (rule deep_copiesI)
  fix h v t F assume v: "view h (PointerT T) v = Some (t, F)"
  show "\<exists>cs v' F'. run_state (copy_pointer_value v) h = (v', h @ cs) \<and>
      view (h @ cs) (PointerT T) v' = Some (t, F') \<and> (\<forall>a\<in>set F'. length h \<le> a)"
  proof (cases v)
    case (Pointer a p)
    with v obtain w t' F0 where w: "var_at h a p = Some w" "view h T w = Some (t', F0)" "t = PointerTree t'"
      by (auto split: option.splits)
    have "run_state (copy_pointer_value v) h = (Pointer (length h) [], h @ [Var w])"
      using w(1) by (simp add: Pointer copy_pointer_value_def new_cell_def load_def)
    moreover have "view (h @ [Var w]) T w = Some (t', [])"
      using view_append [OF w(2)] plain_type_view [OF w(2) assms] by simp
    ultimately show ?thesis
      using w(3)
      by (intro exI [of _ "[Var w]"] exI [of _ "Pointer (length h) []"] exI [of _ "[length h]"])
        (force simp: var_at_def cell_at_def)
  qed (use v in \<open>auto simp: copy_pointer_value_def\<close>)
qed

text \<open>Writing one cell and allocating more leaves alone what does not reach that cell.\<close>

lemma view_swap:
  assumes v: "view (h @ c # cs) T v = Some (t, F)" and b: "\<And>a. a \<in> set F \<Longrightarrow> length h < a"
  shows "view (h @ c' # cs @ cs') T v = Some (t, F)"
proof (rule view_frame [OF v])
  have "cell_at (h @ c' # cs @ cs') a = cell_at (h @ c # cs) a" if "a \<in> set F" for a
    using b [OF that] view_reaches [OF v that] by (auto simp: cell_at_def nth_append nth_Cons')
  then show "same_cells F (h @ c # cs) (h @ c' # cs @ cs')" by (simp add: same_cells_def)
qed

lemma joined_trees:
  assumes "length xs = length ts"
    and "\<And>i. i < length ts \<Longrightarrow> \<exists>F. f (xs ! i) = Some (ts ! i, F) \<and> (\<forall>a\<in>set F. P a)"
  shows "\<exists>F. joined g as (map f xs) = Some (g ts, as @ F) \<and> (\<forall>a\<in>set F. P a)"
proof -
  obtain F where F: "\<And>i. i < length ts \<Longrightarrow> f (xs ! i) = Some (ts ! i, F i)"
    "\<And>i a. i < length ts \<Longrightarrow> a \<in> set (F i) \<Longrightarrow> P a"
    using assms(2) by metis
  let ?ws = "map (\<lambda>i. (ts ! i, F i)) [0..<length ts]"
  have "joined g as (map f xs) = Some (g (map fst ?ws), as @ concat (map snd ?ws))"
    unfolding joined_map using assms(1) F(1) by (intro exI [of _ ?ws]) auto
  moreover have "map fst ?ws = ts" by (simp add: map_nth o_def)
  ultimately show ?thesis using F(2) by (intro exI [of _ "concat (map snd ?ws)"]) auto
qed

text \<open>The loop over the elements, from index \<open>k\<close> on.\<close>

definition filled :: "heap \<Rightarrow> nat \<Rightarrow> goty \<Rightarrow> tree list \<Rightarrow> nat \<Rightarrow> gval list \<Rightarrow> bool" where
  "filled h b T ts k ys \<longleftrightarrow> length ys = length ts \<and>
     (\<forall>i<k. \<exists>F. view h T (ys ! i) = Some (ts ! i, F) \<and> (\<forall>a\<in>set F. b < a))"

lemma copy_elements_fills:
  assumes f: "deep_copies T f" and xs: "elements_at h a off n = Some xs"
    and ts: "length ts = n" "\<And>i. i < n \<Longrightarrow> \<exists>F. view h T (xs ! i) = Some (ts ! i, F)"
  shows "k \<le> n \<Longrightarrow> filled (h @ Backing ys # cs) (length h) T ts k ys \<Longrightarrow>
    \<exists>ys' cs'. run_state (copy_elements f (load_elements a off n) (length h) [k..<n]) (h @ Backing ys # cs) =
        ((), h @ Backing ys' # cs') \<and> filled (h @ Backing ys' # cs') (length h) T ts n ys'"
proof (induction "n - k" arbitrary: k ys cs)
  case 0
  then show ?case by auto
next
  case (Suc m)
  then have k: "k < n" by simp
  let ?b = "length h" and ?h1 = "h @ Backing ys # cs"
  have a: "a < length h" using xs by (auto simp: elements_at_def cell_at_def split: if_splits)
  then have load: "elements_at ?h1 a off n = Some xs" using xs by (simp add: elements_at_def)
  obtain F where "view h T (xs ! k) = Some (ts ! k, F)" using ts(2) [OF k] by blast
  then have src: "view ?h1 T (xs ! k) = Some (ts ! k, F)" by (rule view_append)
  obtain cs1 y F1 where r: "run_state (f (xs ! k)) ?h1 = (y, ?h1 @ cs1)"
    and y: "view (?h1 @ cs1) T y = Some (ts ! k, F1)" and new: "\<And>c. c \<in> set F1 \<Longrightarrow> length ?h1 \<le> c"
    by (rule deep_copiesE [OF f src]) blast
  let ?ys = "ys[k := y]"
  let ?h2 = "h @ Backing ?ys # cs @ cs1"
  have len: "length ys = n" using Suc.prems(2) ts(1) by (simp add: filled_def)
  have ny: "length h < c" if "c \<in> set F1" for c using new [OF that] by simp
  have vy: "view ?h2 T y = Some (ts ! k, F1)"
    using view_swap [of h "Backing ys" "cs @ cs1" T y "ts ! k" F1 "Backing ?ys" "[]"] y ny by simp
  have fill: "filled ?h2 ?b T ts (Suc k) ?ys"
    unfolding filled_def
  proof (intro conjI allI impI)
    show "length ?ys = length ts" using len ts(1) by simp
    fix i assume i: "i < Suc k"
    show "\<exists>F. view ?h2 T (?ys ! i) = Some (ts ! i, F) \<and> (\<forall>c\<in>set F. ?b < c)"
    proof (cases "i = k")
      case True
      then show ?thesis using vy ny k len by auto
    next
      case False
      then obtain G where G: "view ?h1 T (ys ! i) = Some (ts ! i, G)" "\<And>c. c \<in> set G \<Longrightarrow> ?b < c"
        using Suc.prems(2) i by (auto simp: filled_def less_Suc_eq)
      then show ?thesis using view_swap [OF G, of "Backing ?ys" cs1] False by auto
    qed
  qed
  have m: "m = n - Suc k" using Suc.hyps(2) by simp
  obtain ys' cs' where rest:
    "run_state (copy_elements f (load_elements a off n) ?b [Suc k..<n]) ?h2 = ((), h @ Backing ys' # cs')"
    "filled (h @ Backing ys' # cs') ?b T ts n ys'"
    using Suc.hyps(1) [OF m Suc_leI [OF k] fill] by blast
  have st: "run_state (store_element ?b k y) (?h1 @ cs1) = ((), ?h2)"
    by (simp add: store_element_def cell_at_def)
  have "run_state (copy_elements f (load_elements a off n) ?b [k..<n]) ?h1 = ((), h @ Backing ys' # cs')"
    using r st rest(1) by (simp add: upt_conv_Cons [OF k] load_elements_def load)
  then show ?case using rest(2) by blast
qed

lemma copy_slice_copies [copies]:
  assumes f: "deep_copies T f"
  shows "deep_copies (SliceT T) (copy_slice f)"
proof (rule deep_copiesI)
  fix h v t F assume v: "view h (SliceT T) v = Some (t, F)"
  show "\<exists>cs v' F'. run_state (copy_slice f v) h = (v', h @ cs) \<and>
      view (h @ cs) (SliceT T) v' = Some (t, F') \<and> (\<forall>a\<in>set F'. length h \<le> a)"
  proof (cases v)
    case (SliceRef a off n)
    with v obtain xs where xs: "elements_at h a off n = Some xs"
      and j: "joined SliceTree [a] (map (view h T) xs) = Some (t, F)"
      by (auto split: option.splits)
    obtain ws where ws: "length ws = length xs" "\<And>i. i < length xs \<Longrightarrow> view h T (xs ! i) = Some (ws ! i)"
      and t: "t = SliceTree (map fst ws)"
      using j unfolding joined_map by blast
    let ?ts = "map fst ws" and ?b = "length h" and ?zero = "replicate n NilRef"
    have n: "length xs = n" using xs by (auto simp: elements_at_def split: option.splits cell.splits if_splits)
    have elements: "\<exists>F. view h T (xs ! i) = Some (?ts ! i, F)" if "i < n" for i
      using ws n that by (intro exI [of _ "snd (ws ! i)"]) simp
    have "filled (h @ [Backing ?zero]) ?b T ?ts 0 ?zero" using ws n by (simp add: filled_def)
    then obtain ys cs where
      loop: "run_state (copy_elements f (load_elements a off n) ?b [0..<n]) (h @ [Backing ?zero]) =
               ((), h @ Backing ys # cs)"
      and full: "filled (h @ Backing ys # cs) ?b T ?ts n ys"
      using copy_elements_fills [OF f xs _ elements, of 0 ?zero "[]"] ws n by auto
    let ?h = "h @ Backing ys # cs"
    have run: "run_state (copy_slice f v) h = (SliceRef ?b 0 n, ?h)"
      using loop by (simp add: SliceRef copy_slice_def new_cell_def)
    have "\<exists>G. joined SliceTree [?b] (map (view ?h T) ys) = Some (SliceTree ?ts, [?b] @ G) \<and>
        (\<forall>c\<in>set G. ?b < c)"
      by (rule joined_trees) (use full ws n in \<open>auto simp: filled_def\<close>)
    then obtain G where G: "joined SliceTree [?b] (map (view ?h T) ys) = Some (t, ?b # G)"
      "\<And>c. c \<in> set G \<Longrightarrow> ?b < c"
      using t by auto
    have "elements_at ?h ?b 0 n = Some ys"
      using full ws n by (simp add: elements_at_def cell_at_def filled_def)
    then have "view ?h (SliceT T) (SliceRef ?b 0 n) = Some (t, ?b # G)" using G(1) by simp
    then show ?thesis
      using run G(2) by (intro exI [of _ "Backing ys # cs"] exI [of _ "SliceRef ?b 0 n"] exI [of _ "?b # G"]) force
  qed (use v in \<open>auto simp: copy_slice_def\<close>)
qed

lemma joined_plain:
  assumes j: "joined g as (map f xs) = Some (t, F)"
    and f: "\<And>x r. x \<in> set xs \<Longrightarrow> f x = Some r \<Longrightarrow> f' x = Some r \<and> snd r = []"
  shows "joined g bs (map f' xs) = Some (t, bs)"
proof -
  obtain ws where ws: "length ws = length xs" "\<And>i. i < length xs \<Longrightarrow> f (xs ! i) = Some (ws ! i)"
    "t = g (map fst ws)"
    using j unfolding joined_map by blast
  have each: "f' (xs ! i) = Some (ws ! i)" "snd (ws ! i) = []" if "i < length xs" for i
    using f [OF nth_mem [OF that] ws(2) [OF that]] by auto
  then have "\<forall>r\<in>set ws. snd r = []" using ws(1) by (metis in_set_conv_nth)
  then have "concat (map snd ws) = []" by simp
  then show ?thesis using ws each unfolding joined_map by auto
qed

lemma plain_elements:
  assumes "plain_type T" "view h T x = Some r"
  shows "view (h @ cs) T x = Some r \<and> snd r = []"
proof (cases r)
  case (Pair t F)
  then show ?thesis using view_append [of h T x t F cs] plain_type_view [of h T x t F] assms by simp
qed

lemma copy_slice_values_copies [copies]:
  assumes plain: "plain_type T"
  shows "deep_copies (SliceT T) copy_slice_values"
proof (rule deep_copiesI)
  fix h v t F assume v: "view h (SliceT T) v = Some (t, F)"
  show "\<exists>cs v' F'. run_state (copy_slice_values v) h = (v', h @ cs) \<and>
      view (h @ cs) (SliceT T) v' = Some (t, F') \<and> (\<forall>a\<in>set F'. length h \<le> a)"
  proof (cases v)
    case (SliceRef a off n)
    with v obtain xs where xs: "elements_at h a off n = Some xs"
      and j: "joined SliceTree [a] (map (view h T) xs) = Some (t, F)"
      by (auto split: option.splits)
    let ?b = "length h" and ?h = "h @ [Backing xs]"
    have n: "length xs = n" using xs by (auto simp: elements_at_def split: option.splits cell.splits if_splits)
    have "a < length h" using xs by (auto simp: elements_at_def cell_at_def split: if_splits)
    then have "run_state (copy_slice_values v) h = (SliceRef ?b 0 n, ?h)"
      using xs by (simp add: SliceRef copy_slice_values_def new_cell_def load_elements_def store_def elements_at_def)
    moreover have "joined SliceTree [?b] (map (view ?h T) xs) = Some (t, [?b])"
      using joined_plain [OF j] plain_elements [OF plain] by blast
    moreover have "elements_at ?h ?b 0 n = Some xs" using n by (simp add: elements_at_def cell_at_def)
    ultimately show ?thesis
      by (intro exI [of _ "[Backing xs]"] exI [of _ "SliceRef ?b 0 n"] exI [of _ "[?b]"]) simp
  qed (use v in \<open>auto simp: copy_slice_values_def\<close>)
qed

lemma copy_entries_run:
  "distinct (map fst (written @ kvs)) \<Longrightarrow>
   run_state (copy_entries (length h) kvs) (h @ [MapCells written]) = ((), h @ [MapCells (written @ kvs)])"
proof (induction kvs arbitrary: written)
  case (Cons kv kvs)
  have "AList.update k v xs = xs @ [(k, v)]" if "k \<notin> fst ` set xs" for k :: string and v :: gval and xs
    using that by (induction xs) auto
  then have "AList.update (fst kv) (snd kv) written = written @ [kv]"
    using Cons.prems by (cases kv) simp
  then show ?case
    using Cons.IH [of "written @ [kv]"] Cons.prems by (simp add: store_entry_def cell_at_def)
qed simp

lemma copy_map_copies [copies]:
  assumes plain: "plain_type T"
  shows "deep_copies (MapT T) copy_map"
proof (rule deep_copiesI)
  fix h v t F assume v: "view h (MapT T) v = Some (t, F)"
  show "\<exists>cs v' F'. run_state (copy_map v) h = (v', h @ cs) \<and>
      view (h @ cs) (MapT T) v' = Some (t, F') \<and> (\<forall>a\<in>set F'. length h \<le> a)"
  proof (cases v)
    case (MapRef a)
    let ?g = "\<lambda>kvs ts. MapTree (map_of (zip (map fst kvs) ts))"
    from MapRef v obtain kvs where kvs: "entries_at h a = Some kvs"
      and j: "joined (?g kvs) [a] (map (\<lambda>kv. view h T (snd kv)) kvs) = Some (t, F)"
      by (auto split: option.splits)
    let ?b = "length h" and ?h = "h @ [MapCells kvs]"
    have d: "distinct (map fst kvs)"
      using kvs by (auto simp: entries_at_def split: option.splits cell.splits if_splits)
    have "a < length h" using kvs by (auto simp: entries_at_def cell_at_def split: if_splits)
    then have "run_state (copy_map v) h = (MapRef ?b, ?h)"
      using kvs copy_entries_run [of "[]" kvs h] d
      by (simp add: MapRef copy_map_def new_cell_def load_entries_def entries_at_def)
    moreover have "joined (?g kvs) [?b] (map (\<lambda>kv. view ?h T (snd kv)) kvs) = Some (t, [?b])"
      by (rule joined_plain [OF j]) (rule plain_elements [OF plain])
    moreover have "entries_at ?h ?b = Some kvs" using d by (simp add: entries_at_def cell_at_def)
    ultimately have "run_state (copy_map v) h = (MapRef ?b, ?h)" "view ?h (MapT T) (MapRef ?b) = Some (t, [?b])"
      by simp_all
    then show ?thesis
      by (intro exI [of _ "[MapCells kvs]"] exI [of _ "MapRef ?b"] exI [of _ "[?b]"]) (simp del: view.simps)
  qed (use v in \<open>auto simp: copy_map_def\<close>)
qed

text \<open>
  The blocks of a struct: each copies a field of the struct deeply, and the fields without a block
  hold no references.
\<close>

definition covers :: "(string \<times> goty) list \<Rightarrow> (string \<times> (gval \<Rightarrow> gval mem)) list \<Rightarrow> bool" where
  "covers fs bs \<longleftrightarrow> distinct (map fst fs) \<and>
     list_all (\<lambda>b. case map_of fs (fst b) of Some T \<Rightarrow> deep_copies T (snd b) | None \<Rightarrow> False) bs \<and>
     list_all (\<lambda>nT. fst nT \<in> fst ` set bs \<or> plain_type (snd nT)) fs"

text \<open>
  The state of \<open>out\<close> when the fields in \<open>D\<close> have been written: these are copies with the trees \<open>ts\<close>,
  the others are still those of \<open>in\<close>.
\<close>

definition half_copied ::
    "heap \<Rightarrow> nat \<Rightarrow> (string \<times> goty) list \<Rightarrow> tree list \<Rightarrow> (string \<times> gval) list \<Rightarrow> string set \<Rightarrow>
     (string \<times> gval) list \<Rightarrow> bool" where
  "half_copied h l fs ts vs D os \<longleftrightarrow> map fst os = map fst fs \<and>
     (\<forall>i<length fs. \<exists>w. map_of os (fst (fs ! i)) = Some w \<and>
        (if fst (fs ! i) \<in> D
         then \<exists>G. view h (snd (fs ! i)) w = Some (ts ! i, G) \<and> (\<forall>a\<in>set G. l \<le> a)
         else map_of vs (fst (fs ! i)) = Some w))"

lemma set_field_Struct:
  "set_field n x (Struct os) = Struct (map (\<lambda>(m, w). (m, if m = n then x else w)) os)"
  by (simp add: set_field_def)

lemma map_fst_set [simp]: "map (fst \<circ> (\<lambda>(m, w). (m, f m w))) os = map fst os"
  by (induction os) auto

lemma map_of_set:
  "map_of (map (\<lambda>(m, w). (m, if m = n then x else w)) os) k =
   (if k = n then map_option (\<lambda>_. x) (map_of os n) else map_of os k)"
  by (induction os) auto

lemma copy_fields_half_copied:
  assumes v: "view h (StructT fs) (Struct vs) = Some (StructTree (zip (map fst fs) ts), F)"
    and l: "length ts = length fs" and d: "distinct (map fst fs)"
  shows "list_all (\<lambda>b. case map_of fs (fst b) of Some T \<Rightarrow> deep_copies T (snd b) | None \<Rightarrow> False) bs \<Longrightarrow>
    half_copied (h @ cs) (length h) fs ts vs D os \<Longrightarrow>
    \<exists>cs' os'. run_state (copy_fields bs (Struct vs) (Struct os)) (h @ cs) = (Struct os', h @ cs') \<and>
      half_copied (h @ cs') (length h) fs ts vs (D \<union> fst ` set bs) os'"
proof (induction bs arbitrary: cs D os)
  case Nil
  then show ?case by auto
next
  case (Cons b bs)
  obtain n f where b: "b = (n, f)" by (cases b)
  with Cons.prems(1) obtain T where T: "map_of fs n = Some T" "deep_copies T f"
    by (auto split: option.splits)
  obtain i where i: "i < length fs" "fs ! i = (n, T)"
    using map_of_SomeD [OF T(1)] by (auto simp: in_set_conv_nth)
  have unique: "j = i" if "j < length fs" "fst (fs ! j) = n" for j
    using d that i unfolding distinct_conv_nth by (metis fst_conv length_map nth_map)
  obtain ws where ws: "length ws = length fs"
    "\<And>j. j < length fs \<Longrightarrow>
      (case map_of vs (fst (fs ! j)) of Some w \<Rightarrow> view h (snd (fs ! j)) w | None \<Rightarrow> None) = Some (ws ! j)"
    "StructTree (zip (map fst fs) ts) = StructTree (zip (map fst fs) (map fst ws))"
    using v by (auto simp: joined_map split: if_splits)
  have "map snd (zip (map fst fs) ts) = map snd (zip (map fst fs) (map fst ws))" using ws(3) by simp
  then have trees: "ts = map fst ws" using ws(1) l by simp
  obtain u where u: "map_of vs n = Some u" "view h T u = Some (ts ! i, snd (ws ! i))"
    using ws(2) [OF i(1)] i ws(1) trees by (auto split: option.splits)
  obtain c1 y G where r: "run_state (f u) (h @ cs) = (y, (h @ cs) @ c1)"
    and y: "view ((h @ cs) @ c1) T y = Some (ts ! i, G)" and new: "\<And>a. a \<in> set G \<Longrightarrow> length (h @ cs) \<le> a"
    by (rule deep_copiesE [OF T(2) view_append [OF u(2)]]) blast
  let ?os = "map (\<lambda>(m, w). (m, if m = n then y else w)) os"
  have half: "half_copied (h @ cs @ c1) (length h) fs ts vs (insert n D) ?os"
    unfolding half_copied_def
  proof (intro conjI allI impI)
    show "map fst ?os = map fst fs" using Cons.prems(2) by (simp add: half_copied_def)
    fix j assume j: "j < length fs"
    obtain w where w: "map_of os (fst (fs ! j)) = Some w"
      "if fst (fs ! j) \<in> D
       then \<exists>G. view (h @ cs) (snd (fs ! j)) w = Some (ts ! j, G) \<and> (\<forall>a\<in>set G. length h \<le> a)
       else map_of vs (fst (fs ! j)) = Some w"
      using Cons.prems(2) j unfolding half_copied_def by blast
    show "\<exists>w. map_of ?os (fst (fs ! j)) = Some w \<and>
        (if fst (fs ! j) \<in> insert n D
         then \<exists>G. view (h @ cs @ c1) (snd (fs ! j)) w = Some (ts ! j, G) \<and> (\<forall>a\<in>set G. length h \<le> a)
         else map_of vs (fst (fs ! j)) = Some w)"
    proof (cases "fst (fs ! j) = n")
      case True
      have "length h \<le> a" if "a \<in> set G" for a using new [OF that] by simp
      then show ?thesis using True unique [OF j True] w(1) y i by (auto simp: map_of_set)
    next
      case False
      show ?thesis
      proof (cases "fst (fs ! j) \<in> D")
        case True
        then obtain G' where "view (h @ cs) (snd (fs ! j)) w = Some (ts ! j, G')" "\<forall>a\<in>set G'. length h \<le> a"
          using w(2) by auto
        then show ?thesis
          using view_append [of "h @ cs" "snd (fs ! j)" w "ts ! j" G' c1] True False w(1)
          by (simp add: map_of_set)
      qed (use w False in \<open>simp add: map_of_set\<close>)
    qed
  qed
  have "run_state (copy_fields (b # bs) (Struct vs) (Struct os)) (h @ cs) =
      run_state (copy_fields bs (Struct vs) (Struct ?os)) (h @ cs @ c1)"
    using r u(1) by (simp add: b get_field_def set_field_Struct)
  moreover have "insert n D \<union> fst ` set bs = D \<union> fst ` set (b # bs)" by (simp add: b)
  ultimately show ?case
    using Cons.IH [of "cs @ c1", OF _ half] Cons.prems(1) by simp
qed

lemma copy_struct_copies:
  assumes "covers fs bs"
  shows "deep_copies (StructT fs) (copy_struct bs)"
proof (rule deep_copiesI)
  fix h v t F assume v: "view h (StructT fs) v = Some (t, F)"
  then obtain vs where V: "v = Struct vs" and names: "map fst vs = map fst fs"
    and j: "joined (\<lambda>ts. StructTree (zip (map fst fs) ts)) []
        (map (\<lambda>nT. case map_of vs (fst nT) of Some w \<Rightarrow> view h (snd nT) w | None \<Rightarrow> None) fs) = Some (t, F)"
    by (auto split: gval.splits if_splits)
  obtain ws where ws: "length ws = length fs"
    "\<And>i. i < length fs \<Longrightarrow>
      (case map_of vs (fst (fs ! i)) of Some w \<Rightarrow> view h (snd (fs ! i)) w | None \<Rightarrow> None) = Some (ws ! i)"
    and t: "t = StructTree (zip (map fst fs) (map fst ws))"
    using j unfolding joined_map by blast
  let ?ts = "map fst ws" and ?D = "fst ` set bs"
  have "half_copied (h @ []) (length h) fs ?ts vs {} vs"
    unfolding half_copied_def using names ws(2) by (force split: option.splits)
  from copy_fields_half_copied [OF _ _ _ _ this, of F bs]
  obtain cs os where run: "run_state (copy_struct bs v) h = (Struct os, h @ cs)"
    and half: "half_copied (h @ cs) (length h) fs ?ts vs ?D os"
    using v assms ws(1) by (auto simp: V t covers_def copy_struct_def simp del: view.simps)
  let ?f = "\<lambda>nT. case map_of os (fst nT) of Some w \<Rightarrow> view (h @ cs) (snd nT) w | None \<Rightarrow> None"
  have "\<exists>G. ?f (fs ! i) = Some (?ts ! i, G) \<and> (\<forall>a\<in>set G. length h \<le> a)" if i: "i < length ?ts" for i
  proof -
    have il: "i < length fs" using i ws(1) by simp
    obtain w where w: "map_of os (fst (fs ! i)) = Some w"
      "if fst (fs ! i) \<in> ?D
       then \<exists>G. view (h @ cs) (snd (fs ! i)) w = Some (?ts ! i, G) \<and> (\<forall>a\<in>set G. length h \<le> a)
       else map_of vs (fst (fs ! i)) = Some w"
      using half il unfolding half_copied_def by blast
    show ?thesis
    proof (cases "fst (fs ! i) \<in> ?D")
      case False
      then have plain: "plain_type (snd (fs ! i))" using assms False nth_mem [OF il] unfolding covers_def list_all_iff by blast
      have "view h (snd (fs ! i)) w = Some (ws ! i)" using ws(2) [OF il] w(2) False by simp
      then show ?thesis using plain_elements [OF plain, of h w "ws ! i" cs] w(1) i by (cases "ws ! i") simp
    qed (use w in auto)
  qed
  from joined_trees [OF _ this, of "\<lambda>ts. StructTree (zip (map fst fs) ts)" "[]"] ws(1)
  obtain G where "joined (\<lambda>ts. StructTree (zip (map fst fs) ts)) [] (map ?f fs) = Some (t, G)"
    "\<forall>a\<in>set G. length h \<le> a"
    using t by auto
  moreover have "map fst os = map fst fs" using half by (simp add: half_copied_def)
  ultimately have "view (h @ cs) (StructT fs) (Struct os) = Some (t, G)" by simp
  then show "\<exists>cs v' F'. run_state (copy_struct bs v) h = (v', h @ cs) \<and>
      view (h @ cs) (StructT fs) v' = Some (t, F') \<and> (\<forall>a\<in>set F'. length h \<le> a)"
    using run \<open>\<forall>a\<in>set G. length h \<le> a\<close> by blast
qed

section \<open>Isolation\<close>

text \<open>\<open>DeepCopy\<close> allocates its result and is otherwise the copying of what the pointer points to.\<close>

lemma deep_copy_copies [copies]: "deep_copies T f \<Longrightarrow> deep_copies (PointerT T) (deep_copy f)"
proof (rule deep_copiesI)
  fix h v t F assume f: "deep_copies T f" and v: "view h (PointerT T) v = Some (t, F)"
  have "deep_copy f v = copy_pointer f v" by (simp add: deep_copy_def copy_pointer_def)
  then show "\<exists>cs v' F'. run_state (deep_copy f v) h = (v', h @ cs) \<and>
      view (h @ cs) (PointerT T) v' = Some (t, F') \<and> (\<forall>a\<in>set F'. length h \<le> a)"
    using copy_pointer_copies [OF f] v unfolding deep_copies_def by simp
qed

text \<open>A later heap, when only cells of \<open>A\<close> have been written and any others allocated.\<close>

definition writes_only :: "nat set \<Rightarrow> heap \<Rightarrow> heap \<Rightarrow> bool" where
  "writes_only A h h' \<longleftrightarrow> (\<forall>a<length h. a \<notin> A \<longrightarrow> cell_at h' a = cell_at h a)"

lemma view_writes_only:
  assumes "view h T v = Some (t, F)" "writes_only A h h'" "set F \<inter> A = {}"
  shows "view h' T v = Some (t, F)"
proof (rule view_frame [OF assms(1)])
  show "same_cells F h h'"
    using assms(2,3) view_reaches [OF assms(1)] by (auto simp: same_cells_def writes_only_def)
qed

text \<open>
  A copying is isolating when the copy shows what the original shows, no later write to memory
  that was there before the copy changes the copy, and no later write to the memory of the copy
  changes anything that could be seen before: the original, and every other value of the program.
\<close>

definition isolates :: "goty \<Rightarrow> (gval \<Rightarrow> gval mem) \<Rightarrow> bool" where
  "isolates T f \<longleftrightarrow>
     (\<forall>h v t F. view h T v = Some (t, F) \<longrightarrow>
        (\<exists>v' h' G. run_state (f v) h = (v', h') \<and> view h' T v' = Some (t, G) \<and>
           (\<forall>h''. writes_only {a. a < length h} h' h'' \<longrightarrow> view h'' T v' = Some (t, G)) \<and>
           (\<forall>h'' U u r. view h U u = Some r \<longrightarrow> writes_only {a. length h \<le> a} h' h'' \<longrightarrow>
              view h'' U u = Some r)))"

lemma isolatesE:
  assumes "isolates T f" "view h T v = Some (t, F)"
  obtains v' h' G where "run_state (f v) h = (v', h')" "view h' T v' = Some (t, G)"
    "\<And>h''. writes_only {a. a < length h} h' h'' \<Longrightarrow> view h'' T v' = Some (t, G)"
    "\<And>h'' U u r. view h U u = Some r \<Longrightarrow> writes_only {a. length h \<le> a} h' h'' \<Longrightarrow> view h'' U u = Some r"
  using assms unfolding isolates_def by blast

lemma deep_copies_isolate: "deep_copies T f \<Longrightarrow> isolates T f"
  unfolding isolates_def
proof (intro allI impI)
  fix h v t F assume f: "deep_copies T f" and v: "view h T v = Some (t, F)"
  obtain cs v' G where run: "run_state (f v) h = (v', h @ cs)"
    and v': "view (h @ cs) T v' = Some (t, G)" and new: "\<And>a. a \<in> set G \<Longrightarrow> length h \<le> a"
    by (rule deep_copiesE [OF f v]) blast
  have "view h'' T v' = Some (t, G)" if "writes_only {a. a < length h} (h @ cs) h''" for h''
    by (rule view_writes_only [OF v' that]) (use new in force)
  moreover have "view h'' U u = Some r"
    if u: "view h U u = Some r" and w: "writes_only {a. length h \<le> a} (h @ cs) h''" for h'' U u r
  proof -
    obtain s H where r: "r = (s, H)" by (cases r)
    have "view (h @ cs) U u = Some (s, H)" using u unfolding r by (rule view_append)
    then show ?thesis unfolding r
      by (rule view_writes_only [OF _ w]) (use view_reaches [of h U u s H] u r in force)
  qed
  ultimately show "\<exists>v' h' G. run_state (f v) h = (v', h') \<and> view h' T v' = Some (t, G) \<and>
           (\<forall>h''. writes_only {a. a < length h} h' h'' \<longrightarrow> view h'' T v' = Some (t, G)) \<and>
           (\<forall>h'' U u r. view h U u = Some r \<longrightarrow> writes_only {a. length h \<le> a} h' h'' \<longrightarrow>
              view h'' U u = Some r)"
    using run v' by blast
qed

text \<open>Copying a slice by assignment shares its array, and a write through either is seen by both.\<close>

lemma assignment_shares: "\<not> isolates (SliceT ScalarT) assign"
proof
  let ?h = "[Backing [Scalar (IntV 1)]]" and ?v = "SliceRef 0 0 1" and ?h' = "[Backing [Scalar (IntV 2)]]"
  have one: "view ?h (SliceT ScalarT) ?v = Some (SliceTree [ScalarTree (IntV 1)], [0])"
    and two: "view ?h' (SliceT ScalarT) ?v = Some (SliceTree [ScalarTree (IntV 2)], [0])"
    by (simp_all add: elements_at_def cell_at_def joined_def)
  assume "isolates (SliceT ScalarT) assign"
  then obtain v' h' G where run: "run_state (assign ?v) ?h = (v', h')"
    and keeps: "\<And>h''. writes_only {a. a < length ?h} h' h'' \<Longrightarrow>
      view h'' (SliceT ScalarT) v' = Some (SliceTree [ScalarTree (IntV 1)], G)"
    by (rule isolatesE [OF _ one]) blast
  have "v' = ?v" "h' = ?h" using run by (auto simp: assign_def)
  then show False using keeps [of ?h'] two by (simp add: writes_only_def)
qed

end
