(* ===== verification/K6_DeepCopy.thy ===== *)
theory K6_DeepCopy
  imports K6_Memory
begin

text \<open>
  The generated copy functions (\<open>src/api/v1alpha1/zz_generated.deepcopy.go\<close>) on the memory of
  \<open>K6_Memory\<close>: for every struct \<open>T\<close> of the API its type \<open>T_type\<close> (the fields of the declaration,
  in their order), \<open>T_DeepCopyInto\<close> with one entry for each block of the function in the order of
  the code, \<open>T_DeepCopy\<close>, and \<open>T_DeepCopyObject\<close> for the four root objects.

  The types of the Kubernetes libraries are parameters: \<open>ext\<close> gives the type of a name (qualified
  as in the generated file), \<open>X\<close> its \<open>DeepCopyInto\<close>. \<open>library_copies\<close> is what their documentation
  says: that the copies are deep, and that the types that are copied by assignment hold no pointers.
\<close>

section \<open>The generated functions\<close>

type_synonym library = "string \<Rightarrow> gval \<Rightarrow> gval mem"

text \<open>
  An interface value: nil, or the name of a type and a pointer. \<open>DeepCopyObject\<close> does not put a nil
  pointer into an interface, which would not be equal to nil.
\<close>

datatype runtime_object = NilObject | Object string gval

definition deep_copy_object :: "string \<Rightarrow> (gval \<Rightarrow> gval mem) \<Rightarrow> gval \<Rightarrow> runtime_object mem" where
  "deep_copy_object n copy p = do {
     c \<leftarrow> copy p;
     State_Monad.return (if c \<noteq> NilRef then Object n c else NilObject)
   }"

definition PodMetadata_type :: goty where
  "PodMetadata_type = StructT
     [(''Annotations'', MapT ScalarT),
      (''Labels'', MapT ScalarT)]"

definition PodMetadata_DeepCopyInto :: "gval \<Rightarrow> gval mem" where
  "PodMetadata_DeepCopyInto = copy_struct
     [(''Annotations'', copy_map),
      (''Labels'', copy_map)]"

definition PodMetadata_DeepCopy :: "gval \<Rightarrow> gval mem" where
  "PodMetadata_DeepCopy = deep_copy PodMetadata_DeepCopyInto"

definition InitContainer_type :: "(string \<Rightarrow> goty) \<Rightarrow> goty" where
  "InitContainer_type ext = StructT
     [(''Name'', ScalarT),
      (''Image'', ScalarT),
      (''Env'', SliceT (ext ''v1.EnvVar'')),
      (''EnvFrom'', SliceT (ext ''v1.EnvFromSource'')),
      (''Command'', SliceT ScalarT),
      (''Args'', SliceT ScalarT),
      (''WorkingDir'', ScalarT),
      (''VolumeMounts'', SliceT (ext ''v1.VolumeMount'')),
      (''Resources'', ext ''v1.ResourceRequirements''),
      (''RestartPolicy'', PointerT (ext ''v1.ContainerRestartPolicy''))]"

definition InitContainer_DeepCopyInto :: "library \<Rightarrow> gval \<Rightarrow> gval mem" where
  "InitContainer_DeepCopyInto X = copy_struct
     [(''Env'', copy_slice (X ''v1.EnvVar'')),
      (''EnvFrom'', copy_slice (X ''v1.EnvFromSource'')),
      (''Command'', copy_slice_values),
      (''Args'', copy_slice_values),
      (''VolumeMounts'', copy_slice (X ''v1.VolumeMount'')),
      (''Resources'', X ''v1.ResourceRequirements''),
      (''RestartPolicy'', copy_pointer_value)]"

definition InitContainer_DeepCopy :: "library \<Rightarrow> gval \<Rightarrow> gval mem" where
  "InitContainer_DeepCopy X = deep_copy (InitContainer_DeepCopyInto X)"

definition Pod_type :: "(string \<Rightarrow> goty) \<Rightarrow> goty" where
  "Pod_type ext = StructT
     [(''Disabled'', ScalarT),
      (''Affinity'', PointerT (ext ''v1.Affinity'')),
      (''AutomountServiceAccountToken'', ScalarT),
      (''Env'', SliceT (ext ''v1.EnvVar'')),
      (''Image'', ScalarT),
      (''ImagePullSecrets'', SliceT (ext ''v1.LocalObjectReference'')),
      (''ImagePullPolicy'', ext ''v1.PullPolicy''),
      (''Metadata'', PodMetadata_type),
      (''NodeSelector'', MapT ScalarT),
      (''Tolerations'', SliceT (ext ''v1.Toleration'')),
      (''TopologySpreadConstraints'', SliceT (ext ''v1.TopologySpreadConstraint'')),
      (''Resources'', ext ''v1.ResourceRequirements''),
      (''ServiceAccountName'', ScalarT),
      (''SecurityContext'', ext ''v1.PodSecurityContext''),
      (''ContainerSecurityContext'', ext ''v1.SecurityContext''),
      (''EnvFrom'', SliceT (ext ''v1.EnvFromSource'')),
      (''ReadinessProbe'', PointerT (ext ''v1.Probe'')),
      (''LivenessProbe'', PointerT (ext ''v1.Probe'')),
      (''InitContainers'', SliceT (InitContainer_type ext)),
      (''Volumes'', SliceT (ext ''v1.Volume'')),
      (''VolumeMounts'', SliceT (ext ''v1.VolumeMount'')),
      (''PriorityClassName'', ScalarT),
      (''SchedulerName'', ScalarT)]"

definition Pod_DeepCopyInto :: "library \<Rightarrow> gval \<Rightarrow> gval mem" where
  "Pod_DeepCopyInto X = copy_struct
     [(''Affinity'', copy_pointer (X ''v1.Affinity'')),
      (''Env'', copy_slice (X ''v1.EnvVar'')),
      (''ImagePullSecrets'', copy_slice_values),
      (''Metadata'', PodMetadata_DeepCopyInto),
      (''NodeSelector'', copy_map),
      (''Tolerations'', copy_slice (X ''v1.Toleration'')),
      (''TopologySpreadConstraints'', copy_slice (X ''v1.TopologySpreadConstraint'')),
      (''Resources'', X ''v1.ResourceRequirements''),
      (''SecurityContext'', X ''v1.PodSecurityContext''),
      (''ContainerSecurityContext'', X ''v1.SecurityContext''),
      (''EnvFrom'', copy_slice (X ''v1.EnvFromSource'')),
      (''ReadinessProbe'', copy_pointer (X ''v1.Probe'')),
      (''LivenessProbe'', copy_pointer (X ''v1.Probe'')),
      (''InitContainers'', copy_slice (InitContainer_DeepCopyInto X)),
      (''Volumes'', copy_slice (X ''v1.Volume'')),
      (''VolumeMounts'', copy_slice (X ''v1.VolumeMount''))]"

definition Pod_DeepCopy :: "library \<Rightarrow> gval \<Rightarrow> gval mem" where
  "Pod_DeepCopy X = deep_copy (Pod_DeepCopyInto X)"

definition K6Scuttle_type :: goty where
  "K6Scuttle_type = StructT
     [(''Enabled'', ScalarT),
      (''EnvoyAdminApi'', ScalarT),
      (''NeverKillIstio'', ScalarT),
      (''NeverKillIstioOnFailure'', ScalarT),
      (''DisableLogging'', ScalarT),
      (''StartWithoutEnvoy'', ScalarT),
      (''WaitForEnvoyTimeout'', ScalarT),
      (''IstioQuitApi'', ScalarT),
      (''GenericQuitEndpoint'', ScalarT),
      (''QuitWithoutEnvoyTimeout'', ScalarT)]"

definition K6Scuttle_DeepCopyInto :: "gval \<Rightarrow> gval mem" where
  "K6Scuttle_DeepCopyInto = copy_struct
     []"

definition K6Scuttle_DeepCopy :: "gval \<Rightarrow> gval mem" where
  "K6Scuttle_DeepCopy = deep_copy K6Scuttle_DeepCopyInto"

definition K6VolumeClaim_type :: goty where
  "K6VolumeClaim_type = StructT
     [(''Name'', ScalarT),
      (''File'', ScalarT),
      (''ReadOnly'', ScalarT)]"

definition K6VolumeClaim_DeepCopyInto :: "gval \<Rightarrow> gval mem" where
  "K6VolumeClaim_DeepCopyInto = copy_struct
     []"

definition K6VolumeClaim_DeepCopy :: "gval \<Rightarrow> gval mem" where
  "K6VolumeClaim_DeepCopy = deep_copy K6VolumeClaim_DeepCopyInto"

definition K6Configmap_type :: goty where
  "K6Configmap_type = StructT
     [(''Name'', ScalarT),
      (''File'', ScalarT)]"

definition K6Configmap_DeepCopyInto :: "gval \<Rightarrow> gval mem" where
  "K6Configmap_DeepCopyInto = copy_struct
     []"

definition K6Configmap_DeepCopy :: "gval \<Rightarrow> gval mem" where
  "K6Configmap_DeepCopy = deep_copy K6Configmap_DeepCopyInto"

definition K6Script_type :: goty where
  "K6Script_type = StructT
     [(''VolumeClaim'', K6VolumeClaim_type),
      (''ConfigMap'', K6Configmap_type),
      (''LocalFile'', ScalarT)]"

definition K6Script_DeepCopyInto :: "gval \<Rightarrow> gval mem" where
  "K6Script_DeepCopyInto = copy_struct
     [(''VolumeClaim'', assign),
      (''ConfigMap'', assign)]"

definition K6Script_DeepCopy :: "gval \<Rightarrow> gval mem" where
  "K6Script_DeepCopy = deep_copy K6Script_DeepCopyInto"

definition TestRunSpec_type :: "(string \<Rightarrow> goty) \<Rightarrow> goty" where
  "TestRunSpec_type ext = StructT
     [(''Script'', K6Script_type),
      (''Parallelism'', ScalarT),
      (''Separate'', ScalarT),
      (''Arguments'', ScalarT),
      (''Args'', SliceT ScalarT),
      (''Ports'', SliceT (ext ''v1.ContainerPort'')),
      (''Initializer'', PointerT (Pod_type ext)),
      (''Starter'', Pod_type ext),
      (''Runner'', Pod_type ext),
      (''Quiet'', ScalarT),
      (''Paused'', ScalarT),
      (''Scuttle'', K6Scuttle_type),
      (''Cleanup'', ScalarT),
      (''TestRunID'', ScalarT),
      (''Token'', ScalarT)]"

definition TestRunSpec_DeepCopyInto :: "library \<Rightarrow> gval \<Rightarrow> gval mem" where
  "TestRunSpec_DeepCopyInto X = copy_struct
     [(''Script'', assign),
      (''Args'', copy_slice_values),
      (''Ports'', copy_slice_values),
      (''Initializer'', copy_pointer (Pod_DeepCopyInto X)),
      (''Starter'', Pod_DeepCopyInto X),
      (''Runner'', Pod_DeepCopyInto X),
      (''Scuttle'', assign)]"

definition TestRunSpec_DeepCopy :: "library \<Rightarrow> gval \<Rightarrow> gval mem" where
  "TestRunSpec_DeepCopy X = deep_copy (TestRunSpec_DeepCopyInto X)"

definition TestRunStatus_type :: "(string \<Rightarrow> goty) \<Rightarrow> goty" where
  "TestRunStatus_type ext = StructT
     [(''Conditions'', SliceT (ext ''metav1.Condition'')),
      (''Stage'', ScalarT),
      (''TestRunID'', ScalarT),
      (''AggregationVars'', ScalarT)]"

definition TestRunStatus_DeepCopyInto :: "library \<Rightarrow> gval \<Rightarrow> gval mem" where
  "TestRunStatus_DeepCopyInto X = copy_struct
     [(''Conditions'', copy_slice (X ''metav1.Condition''))]"

definition TestRunStatus_DeepCopy :: "library \<Rightarrow> gval \<Rightarrow> gval mem" where
  "TestRunStatus_DeepCopy X = deep_copy (TestRunStatus_DeepCopyInto X)"

definition TestRun_type :: "(string \<Rightarrow> goty) \<Rightarrow> goty" where
  "TestRun_type ext = StructT
     [(''TypeMeta'', ext ''metav1.TypeMeta''),
      (''ObjectMeta'', ext ''metav1.ObjectMeta''),
      (''Spec'', TestRunSpec_type ext),
      (''Status'', TestRunStatus_type ext)]"

definition TestRun_DeepCopyInto :: "library \<Rightarrow> gval \<Rightarrow> gval mem" where
  "TestRun_DeepCopyInto X = copy_struct
     [(''TypeMeta'', assign),
      (''ObjectMeta'', X ''metav1.ObjectMeta''),
      (''Spec'', TestRunSpec_DeepCopyInto X),
      (''Status'', TestRunStatus_DeepCopyInto X)]"

definition TestRun_DeepCopy :: "library \<Rightarrow> gval \<Rightarrow> gval mem" where
  "TestRun_DeepCopy X = deep_copy (TestRun_DeepCopyInto X)"

definition TestRun_DeepCopyObject :: "library \<Rightarrow> gval \<Rightarrow> runtime_object mem" where
  "TestRun_DeepCopyObject X = deep_copy_object ''TestRun'' (TestRun_DeepCopy X)"

definition TestRunList_type :: "(string \<Rightarrow> goty) \<Rightarrow> goty" where
  "TestRunList_type ext = StructT
     [(''TypeMeta'', ext ''metav1.TypeMeta''),
      (''ListMeta'', ext ''metav1.ListMeta''),
      (''Items'', SliceT (TestRun_type ext))]"

definition TestRunList_DeepCopyInto :: "library \<Rightarrow> gval \<Rightarrow> gval mem" where
  "TestRunList_DeepCopyInto X = copy_struct
     [(''TypeMeta'', assign),
      (''ListMeta'', X ''metav1.ListMeta''),
      (''Items'', copy_slice (TestRun_DeepCopyInto X))]"

definition TestRunList_DeepCopy :: "library \<Rightarrow> gval \<Rightarrow> gval mem" where
  "TestRunList_DeepCopy X = deep_copy (TestRunList_DeepCopyInto X)"

definition TestRunList_DeepCopyObject :: "library \<Rightarrow> gval \<Rightarrow> runtime_object mem" where
  "TestRunList_DeepCopyObject X = deep_copy_object ''TestRunList'' (TestRunList_DeepCopy X)"

definition PLZSecretsConfig_type :: "(string \<Rightarrow> goty) \<Rightarrow> goty" where
  "PLZSecretsConfig_type ext = StructT
     [(''ConfigMapRef'', PointerT (ext ''v1.ConfigMapEnvSource'')),
      (''SecretRef'', PointerT (ext ''v1.SecretEnvSource''))]"

definition PLZSecretsConfig_DeepCopyInto :: "library \<Rightarrow> gval \<Rightarrow> gval mem" where
  "PLZSecretsConfig_DeepCopyInto X = copy_struct
     [(''ConfigMapRef'', copy_pointer (X ''v1.ConfigMapEnvSource'')),
      (''SecretRef'', copy_pointer (X ''v1.SecretEnvSource''))]"

definition PLZSecretsConfig_DeepCopy :: "library \<Rightarrow> gval \<Rightarrow> gval mem" where
  "PLZSecretsConfig_DeepCopy X = deep_copy (PLZSecretsConfig_DeepCopyInto X)"

definition PrivateLoadZoneConfig_type :: "(string \<Rightarrow> goty) \<Rightarrow> goty" where
  "PrivateLoadZoneConfig_type ext = StructT
     [(''Secrets'', SliceT (PLZSecretsConfig_type ext))]"

definition PrivateLoadZoneConfig_DeepCopyInto :: "library \<Rightarrow> gval \<Rightarrow> gval mem" where
  "PrivateLoadZoneConfig_DeepCopyInto X = copy_struct
     [(''Secrets'', copy_slice (PLZSecretsConfig_DeepCopyInto X))]"

definition PrivateLoadZoneConfig_DeepCopy :: "library \<Rightarrow> gval \<Rightarrow> gval mem" where
  "PrivateLoadZoneConfig_DeepCopy X = deep_copy (PrivateLoadZoneConfig_DeepCopyInto X)"

definition PrivateLoadZoneSpec_type :: "(string \<Rightarrow> goty) \<Rightarrow> goty" where
  "PrivateLoadZoneSpec_type ext = StructT
     [(''Token'', ScalarT),
      (''Resources'', ext ''v1.ResourceRequirements''),
      (''ServiceAccountName'', ScalarT),
      (''NodeSelector'', MapT ScalarT),
      (''Image'', ScalarT),
      (''ImagePullSecrets'', SliceT (ext ''v1.LocalObjectReference'')),
      (''Config'', PrivateLoadZoneConfig_type ext),
      (''PodTemplate'', ext ''v1.PodTemplateSpec'')]"

definition PrivateLoadZoneSpec_DeepCopyInto :: "library \<Rightarrow> gval \<Rightarrow> gval mem" where
  "PrivateLoadZoneSpec_DeepCopyInto X = copy_struct
     [(''Resources'', X ''v1.ResourceRequirements''),
      (''NodeSelector'', copy_map),
      (''ImagePullSecrets'', copy_slice_values),
      (''Config'', PrivateLoadZoneConfig_DeepCopyInto X),
      (''PodTemplate'', X ''v1.PodTemplateSpec'')]"

definition PrivateLoadZoneSpec_DeepCopy :: "library \<Rightarrow> gval \<Rightarrow> gval mem" where
  "PrivateLoadZoneSpec_DeepCopy X = deep_copy (PrivateLoadZoneSpec_DeepCopyInto X)"

definition PrivateLoadZoneStatus_type :: "(string \<Rightarrow> goty) \<Rightarrow> goty" where
  "PrivateLoadZoneStatus_type ext = StructT
     [(''Conditions'', SliceT (ext ''metav1.Condition''))]"

definition PrivateLoadZoneStatus_DeepCopyInto :: "library \<Rightarrow> gval \<Rightarrow> gval mem" where
  "PrivateLoadZoneStatus_DeepCopyInto X = copy_struct
     [(''Conditions'', copy_slice (X ''metav1.Condition''))]"

definition PrivateLoadZoneStatus_DeepCopy :: "library \<Rightarrow> gval \<Rightarrow> gval mem" where
  "PrivateLoadZoneStatus_DeepCopy X = deep_copy (PrivateLoadZoneStatus_DeepCopyInto X)"

definition PrivateLoadZone_type :: "(string \<Rightarrow> goty) \<Rightarrow> goty" where
  "PrivateLoadZone_type ext = StructT
     [(''TypeMeta'', ext ''metav1.TypeMeta''),
      (''ObjectMeta'', ext ''metav1.ObjectMeta''),
      (''Spec'', PrivateLoadZoneSpec_type ext),
      (''Status'', PrivateLoadZoneStatus_type ext)]"

definition PrivateLoadZone_DeepCopyInto :: "library \<Rightarrow> gval \<Rightarrow> gval mem" where
  "PrivateLoadZone_DeepCopyInto X = copy_struct
     [(''TypeMeta'', assign),
      (''ObjectMeta'', X ''metav1.ObjectMeta''),
      (''Spec'', PrivateLoadZoneSpec_DeepCopyInto X),
      (''Status'', PrivateLoadZoneStatus_DeepCopyInto X)]"

definition PrivateLoadZone_DeepCopy :: "library \<Rightarrow> gval \<Rightarrow> gval mem" where
  "PrivateLoadZone_DeepCopy X = deep_copy (PrivateLoadZone_DeepCopyInto X)"

definition PrivateLoadZone_DeepCopyObject :: "library \<Rightarrow> gval \<Rightarrow> runtime_object mem" where
  "PrivateLoadZone_DeepCopyObject X = deep_copy_object ''PrivateLoadZone'' (PrivateLoadZone_DeepCopy X)"

definition PrivateLoadZoneList_type :: "(string \<Rightarrow> goty) \<Rightarrow> goty" where
  "PrivateLoadZoneList_type ext = StructT
     [(''TypeMeta'', ext ''metav1.TypeMeta''),
      (''ListMeta'', ext ''metav1.ListMeta''),
      (''Items'', SliceT (PrivateLoadZone_type ext))]"

definition PrivateLoadZoneList_DeepCopyInto :: "library \<Rightarrow> gval \<Rightarrow> gval mem" where
  "PrivateLoadZoneList_DeepCopyInto X = copy_struct
     [(''TypeMeta'', assign),
      (''ListMeta'', X ''metav1.ListMeta''),
      (''Items'', copy_slice (PrivateLoadZone_DeepCopyInto X))]"

definition PrivateLoadZoneList_DeepCopy :: "library \<Rightarrow> gval \<Rightarrow> gval mem" where
  "PrivateLoadZoneList_DeepCopy X = deep_copy (PrivateLoadZoneList_DeepCopyInto X)"

definition PrivateLoadZoneList_DeepCopyObject :: "library \<Rightarrow> gval \<Rightarrow> runtime_object mem" where
  "PrivateLoadZoneList_DeepCopyObject X = deep_copy_object ''PrivateLoadZoneList'' (PrivateLoadZoneList_DeepCopy X)"

section \<open>Deep copies\<close>

definition copied_types :: "string list" where
  "copied_types =
     [''v1.EnvVar'', ''v1.EnvFromSource'', ''v1.VolumeMount'', ''v1.ResourceRequirements'', ''v1.Affinity'',
      ''v1.Toleration'', ''v1.TopologySpreadConstraint'', ''v1.PodSecurityContext'', ''v1.SecurityContext'',
      ''v1.Probe'', ''v1.Volume'', ''metav1.Condition'', ''metav1.ObjectMeta'', ''metav1.ListMeta'',
      ''v1.ConfigMapEnvSource'', ''v1.SecretEnvSource'', ''v1.PodTemplateSpec'']"

definition assigned_types :: "string list" where
  "assigned_types =
     [''v1.ContainerRestartPolicy'', ''v1.LocalObjectReference'', ''v1.PullPolicy'', ''v1.ContainerPort'',
      ''metav1.TypeMeta'']"

definition library_copies :: "(string \<Rightarrow> goty) \<Rightarrow> library \<Rightarrow> bool" where
  "library_copies ext X \<longleftrightarrow>
     list_all (\<lambda>n. deep_copies (ext n) (X n)) copied_types \<and>
     list_all (\<lambda>n. plain_type (ext n)) assigned_types"

lemma PodMetadata_copies [copies]: "deep_copies PodMetadata_type PodMetadata_DeepCopyInto"
  unfolding PodMetadata_type_def PodMetadata_DeepCopyInto_def
  by (rule copy_struct_copies) (simp add: covers_def copies)

lemmas library_facts = library_copies_def copied_types_def assigned_types_def

lemma K6Scuttle_copies [copies]: "deep_copies K6Scuttle_type K6Scuttle_DeepCopyInto"
  unfolding K6Scuttle_type_def K6Scuttle_DeepCopyInto_def
  by (rule copy_struct_copies) (simp add: covers_def copies)

lemma K6VolumeClaim_copies [copies]: "deep_copies K6VolumeClaim_type K6VolumeClaim_DeepCopyInto"
  unfolding K6VolumeClaim_type_def K6VolumeClaim_DeepCopyInto_def
  by (rule copy_struct_copies) (simp add: covers_def copies)

lemma K6Configmap_copies [copies]: "deep_copies K6Configmap_type K6Configmap_DeepCopyInto"
  unfolding K6Configmap_type_def K6Configmap_DeepCopyInto_def
  by (rule copy_struct_copies) (simp add: covers_def copies)

lemma K6Script_copies [copies]: "deep_copies K6Script_type K6Script_DeepCopyInto"
  unfolding K6Script_type_def K6Script_DeepCopyInto_def K6VolumeClaim_type_def K6Configmap_type_def
  by (rule copy_struct_copies) (simp add: covers_def copies)

lemma InitContainer_copies [copies]:
  "library_copies ext X \<Longrightarrow> deep_copies (InitContainer_type ext) (InitContainer_DeepCopyInto X)"
  unfolding InitContainer_type_def InitContainer_DeepCopyInto_def
  by (rule copy_struct_copies) (simp add: covers_def copies library_facts)

lemma Pod_copies [copies]:
  "library_copies ext X \<Longrightarrow> deep_copies (Pod_type ext) (Pod_DeepCopyInto X)"
  unfolding Pod_type_def Pod_DeepCopyInto_def
  by (rule copy_struct_copies) (simp add: covers_def copies library_facts)

lemma TestRunSpec_copies [copies]:
  "library_copies ext X \<Longrightarrow> deep_copies (TestRunSpec_type ext) (TestRunSpec_DeepCopyInto X)"
  unfolding TestRunSpec_type_def TestRunSpec_DeepCopyInto_def K6Script_type_def K6VolumeClaim_type_def K6Configmap_type_def K6Scuttle_type_def
  by (rule copy_struct_copies) (simp add: covers_def copies library_facts)

lemma TestRunStatus_copies [copies]:
  "library_copies ext X \<Longrightarrow> deep_copies (TestRunStatus_type ext) (TestRunStatus_DeepCopyInto X)"
  unfolding TestRunStatus_type_def TestRunStatus_DeepCopyInto_def
  by (rule copy_struct_copies) (simp add: covers_def copies library_facts)

lemma TestRun_copies [copies]:
  "library_copies ext X \<Longrightarrow> deep_copies (TestRun_type ext) (TestRun_DeepCopyInto X)"
  unfolding TestRun_type_def TestRun_DeepCopyInto_def
  by (rule copy_struct_copies) (simp add: covers_def copies library_facts)

lemma TestRunList_copies [copies]:
  "library_copies ext X \<Longrightarrow> deep_copies (TestRunList_type ext) (TestRunList_DeepCopyInto X)"
  unfolding TestRunList_type_def TestRunList_DeepCopyInto_def
  by (rule copy_struct_copies) (simp add: covers_def copies library_facts)

lemma PLZSecretsConfig_copies [copies]:
  "library_copies ext X \<Longrightarrow> deep_copies (PLZSecretsConfig_type ext) (PLZSecretsConfig_DeepCopyInto X)"
  unfolding PLZSecretsConfig_type_def PLZSecretsConfig_DeepCopyInto_def
  by (rule copy_struct_copies) (simp add: covers_def copies library_facts)

lemma PrivateLoadZoneConfig_copies [copies]:
  "library_copies ext X \<Longrightarrow> deep_copies (PrivateLoadZoneConfig_type ext) (PrivateLoadZoneConfig_DeepCopyInto X)"
  unfolding PrivateLoadZoneConfig_type_def PrivateLoadZoneConfig_DeepCopyInto_def
  by (rule copy_struct_copies) (simp add: covers_def copies library_facts)

lemma PrivateLoadZoneSpec_copies [copies]:
  "library_copies ext X \<Longrightarrow> deep_copies (PrivateLoadZoneSpec_type ext) (PrivateLoadZoneSpec_DeepCopyInto X)"
  unfolding PrivateLoadZoneSpec_type_def PrivateLoadZoneSpec_DeepCopyInto_def
  by (rule copy_struct_copies) (simp add: covers_def copies library_facts)

lemma PrivateLoadZoneStatus_copies [copies]:
  "library_copies ext X \<Longrightarrow> deep_copies (PrivateLoadZoneStatus_type ext) (PrivateLoadZoneStatus_DeepCopyInto X)"
  unfolding PrivateLoadZoneStatus_type_def PrivateLoadZoneStatus_DeepCopyInto_def
  by (rule copy_struct_copies) (simp add: covers_def copies library_facts)

lemma PrivateLoadZone_copies [copies]:
  "library_copies ext X \<Longrightarrow> deep_copies (PrivateLoadZone_type ext) (PrivateLoadZone_DeepCopyInto X)"
  unfolding PrivateLoadZone_type_def PrivateLoadZone_DeepCopyInto_def
  by (rule copy_struct_copies) (simp add: covers_def copies library_facts)

lemma PrivateLoadZoneList_copies [copies]:
  "library_copies ext X \<Longrightarrow> deep_copies (PrivateLoadZoneList_type ext) (PrivateLoadZoneList_DeepCopyInto X)"
  unfolding PrivateLoadZoneList_type_def PrivateLoadZoneList_DeepCopyInto_def
  by (rule copy_struct_copies) (simp add: covers_def copies library_facts)

lemmas DeepCopy_defs =
  InitContainer_DeepCopy_def K6Configmap_DeepCopy_def K6Script_DeepCopy_def
  K6Scuttle_DeepCopy_def K6VolumeClaim_DeepCopy_def PLZSecretsConfig_DeepCopy_def
  Pod_DeepCopy_def PodMetadata_DeepCopy_def PrivateLoadZone_DeepCopy_def
  PrivateLoadZoneConfig_DeepCopy_def PrivateLoadZoneList_DeepCopy_def
  PrivateLoadZoneSpec_DeepCopy_def PrivateLoadZoneStatus_DeepCopy_def TestRun_DeepCopy_def
  TestRunList_DeepCopy_def TestRunSpec_DeepCopy_def TestRunStatus_DeepCopy_def

text \<open>
  C39. Every generated \<open>DeepCopyInto\<close> is type correct and complete: on a well-typed value of its
  struct (with any references, nil or not, in any field) it returns a value of the same type with the
  same content, leaves the memory that was there unchanged, and no field of the result, at any
  depth, still points into that memory, provided the \<open>DeepCopyInto\<close> of the library types do so.
\<close>

theorem DeepCopyInto_types:
  assumes "library_copies ext X"
  shows "deep_copies (InitContainer_type ext) (InitContainer_DeepCopyInto X)
    \<and> deep_copies K6Configmap_type K6Configmap_DeepCopyInto
    \<and> deep_copies K6Script_type K6Script_DeepCopyInto
    \<and> deep_copies K6Scuttle_type K6Scuttle_DeepCopyInto
    \<and> deep_copies K6VolumeClaim_type K6VolumeClaim_DeepCopyInto
    \<and> deep_copies (PLZSecretsConfig_type ext) (PLZSecretsConfig_DeepCopyInto X)
    \<and> deep_copies (Pod_type ext) (Pod_DeepCopyInto X)
    \<and> deep_copies PodMetadata_type PodMetadata_DeepCopyInto
    \<and> deep_copies (PrivateLoadZone_type ext) (PrivateLoadZone_DeepCopyInto X)
    \<and> deep_copies (PrivateLoadZoneConfig_type ext) (PrivateLoadZoneConfig_DeepCopyInto X)
    \<and> deep_copies (PrivateLoadZoneList_type ext) (PrivateLoadZoneList_DeepCopyInto X)
    \<and> deep_copies (PrivateLoadZoneSpec_type ext) (PrivateLoadZoneSpec_DeepCopyInto X)
    \<and> deep_copies (PrivateLoadZoneStatus_type ext) (PrivateLoadZoneStatus_DeepCopyInto X)
    \<and> deep_copies (TestRun_type ext) (TestRun_DeepCopyInto X)
    \<and> deep_copies (TestRunList_type ext) (TestRunList_DeepCopyInto X)
    \<and> deep_copies (TestRunSpec_type ext) (TestRunSpec_DeepCopyInto X)
    \<and> deep_copies (TestRunStatus_type ext) (TestRunStatus_DeepCopyInto X)"
  by (intro conjI copies assms)

text \<open>
  A library for the witnesses: the types that are copied by assignment are scalars, all others a
  pointer to a scalar, so that their copies have to allocate.
\<close>

definition sample_ext :: "string \<Rightarrow> goty" where
  "sample_ext n = (if n \<in> set assigned_types then ScalarT else PointerT ScalarT)"

definition sample_library :: library where
  "sample_library n = copy_pointer_value"

lemma sample_library_copies: "library_copies sample_ext sample_library"
  by (simp add: library_facts sample_ext_def sample_library_def copies)

text \<open>A test run with one condition in its status, and with an array that is longer than the slice.\<close>

definition sample_status :: gval where
  "sample_status = Struct
     [(''Conditions'', SliceRef 1 0 1), (''Stage'', Scalar (StringV ''created'')),
      (''TestRunID'', Scalar (StringV '''')), (''AggregationVars'', Scalar (StringV ''''))]"

definition sample_heap :: heap where
  "sample_heap =
     [Var (Struct [(''Status'', sample_status)]),
      Backing [Pointer 2 [], NilRef],
      Var (Scalar (StringV ''TestRunRunning''))]"

definition sample_tree :: tree where
  "sample_tree = StructTree
     [(''Conditions'', SliceTree [PointerTree (ScalarTree (StringV ''TestRunRunning''))]),
      (''Stage'', ScalarTree (StringV ''created'')), (''TestRunID'', ScalarTree (StringV '''')),
      (''AggregationVars'', ScalarTree (StringV ''''))]"

lemma sample_status_view:
  "view sample_heap (TestRunStatus_type sample_ext) sample_status = Some (sample_tree, [1, 2])"
  by (simp add: sample_heap_def sample_status_def sample_tree_def TestRunStatus_type_def sample_ext_def
      assigned_types_def joined_def elements_at_def var_at_def cell_at_def)

lemma sample_pointer_view:
  "view sample_heap (PointerT (TestRunStatus_type sample_ext)) (Pointer 0 [''Status'']) =
   Some (PointerTree sample_tree, [0, 1, 2])"
proof -
  have "var_at sample_heap 0 [''Status''] = Some sample_status"
    by (simp add: sample_heap_def var_at_def cell_at_def)
  then show ?thesis using sample_status_view by simp
qed

theorem DeepCopyInto_types_witness:
  "\<exists>cs v' F. run_state (TestRunStatus_DeepCopyInto sample_library sample_status) sample_heap = (v', sample_heap @ cs)
     \<and> view (sample_heap @ cs) (TestRunStatus_type sample_ext) v' = Some (sample_tree, F)
     \<and> (\<forall>a\<in>set F. 3 \<le> a)"
proof -
  have "deep_copies (TestRunStatus_type sample_ext) (TestRunStatus_DeepCopyInto sample_library)"
    using DeepCopyInto_types [OF sample_library_copies] by (elim conjE)
  then obtain cs v' F where
    "run_state (TestRunStatus_DeepCopyInto sample_library sample_status) sample_heap = (v', sample_heap @ cs)"
    "view (sample_heap @ cs) (TestRunStatus_type sample_ext) v' = Some (sample_tree, F)"
    "\<And>a. a \<in> set F \<Longrightarrow> length sample_heap \<le> a"
    by (rule deep_copiesE [OF _ sample_status_view]) blast
  moreover have "length sample_heap = 3" by (simp add: sample_heap_def)
  ultimately show ?thesis by auto
qed

text \<open>
  C40. A \<open>DeepCopy\<close> and its original are isolated, also when the original lies inside another object
  (\<open>k6.GetStatus().DeepCopy()\<close>): the copy shows what the original showed; whatever is later written
  to memory that was there at the time of the copy, by reading the test run again into the same
  object, say, the copy stays as it is; and whatever is written through the copy, no value that the
  program had changes. The copy of nil is nil.
\<close>

theorem DeepCopy_isolates:
  assumes "library_copies ext X"
  shows "isolates (PointerT (InitContainer_type ext)) (InitContainer_DeepCopy X)
    \<and> isolates (PointerT K6Configmap_type) K6Configmap_DeepCopy
    \<and> isolates (PointerT K6Script_type) K6Script_DeepCopy
    \<and> isolates (PointerT K6Scuttle_type) K6Scuttle_DeepCopy
    \<and> isolates (PointerT K6VolumeClaim_type) K6VolumeClaim_DeepCopy
    \<and> isolates (PointerT (PLZSecretsConfig_type ext)) (PLZSecretsConfig_DeepCopy X)
    \<and> isolates (PointerT (Pod_type ext)) (Pod_DeepCopy X)
    \<and> isolates (PointerT PodMetadata_type) PodMetadata_DeepCopy
    \<and> isolates (PointerT (PrivateLoadZone_type ext)) (PrivateLoadZone_DeepCopy X)
    \<and> isolates (PointerT (PrivateLoadZoneConfig_type ext)) (PrivateLoadZoneConfig_DeepCopy X)
    \<and> isolates (PointerT (PrivateLoadZoneList_type ext)) (PrivateLoadZoneList_DeepCopy X)
    \<and> isolates (PointerT (PrivateLoadZoneSpec_type ext)) (PrivateLoadZoneSpec_DeepCopy X)
    \<and> isolates (PointerT (PrivateLoadZoneStatus_type ext)) (PrivateLoadZoneStatus_DeepCopy X)
    \<and> isolates (PointerT (TestRun_type ext)) (TestRun_DeepCopy X)
    \<and> isolates (PointerT (TestRunList_type ext)) (TestRunList_DeepCopy X)
    \<and> isolates (PointerT (TestRunSpec_type ext)) (TestRunSpec_DeepCopy X)
    \<and> isolates (PointerT (TestRunStatus_type ext)) (TestRunStatus_DeepCopy X)"
  unfolding DeepCopy_defs by (intro conjI deep_copies_isolate copies assms)

theorem DeepCopy_isolates_witness:
  "\<exists>q h G. run_state (TestRunStatus_DeepCopy sample_library (Pointer 0 [''Status''])) sample_heap = (q, h)
     \<and> (\<forall>h'. writes_only {0, 1, 2} h h' \<longrightarrow>
          view h' (PointerT (TestRunStatus_type sample_ext)) q = Some (PointerTree sample_tree, G))"
proof -
  have "isolates (PointerT (TestRunStatus_type sample_ext)) (TestRunStatus_DeepCopy sample_library)"
    using DeepCopy_isolates [OF sample_library_copies] by (elim conjE)
  then obtain q h G where
    run: "run_state (TestRunStatus_DeepCopy sample_library (Pointer 0 [''Status''])) sample_heap = (q, h)"
    and keeps: "\<And>h'. writes_only {a. a < length sample_heap} h h' \<Longrightarrow>
      view h' (PointerT (TestRunStatus_type sample_ext)) q = Some (PointerTree sample_tree, G)"
    by (rule isolatesE [OF _ sample_pointer_view]) blast
  have "{a. a < length sample_heap} = {0, 1, 2}" by (auto simp: sample_heap_def)
  then show ?thesis using run keeps by metis
qed

text \<open>
  The objects: the interface is nil exactly for a nil pointer, and otherwise it holds the copy.
\<close>

lemma deep_copy_object_result:
  assumes "isolates (PointerT T) copy" "view h (PointerT T) p = Some (t, F)"
  shows "\<exists>h'. run_state (deep_copy_object n copy p) h =
      (if t = NilTree then NilObject else Object n (fst (run_state (copy p) h)), h')"
proof -
  obtain v' h' G where run: "run_state (copy p) h = (v', h')" and v': "view h' (PointerT T) v' = Some (t, G)"
    by (rule isolatesE [OF assms]) blast
  have "v' = NilRef \<longleftrightarrow> t = NilTree" using v' by (auto split: gval.splits option.splits)
  then show ?thesis using run by (simp add: deep_copy_object_def)
qed

text \<open>
  A pointer to a field (\<open>k6.GetStatus()\<close> is \<open>&k6.Status\<close>) of a well-typed object is well typed, so
  that the isolation above applies to it.
\<close>

lemma view_field_pointer:
  assumes "view h (PointerT (StructT fs)) (Pointer a p) = Some (t, F)" "map_of fs n = Some T"
  shows "\<exists>t' F'. view h (PointerT T) (Pointer a (p @ [n])) = Some (t', F')"
proof -
  obtain v s G where v: "var_at h a p = Some v" "view h (StructT fs) v = Some (s, G)"
    using assms(1) by (auto split: option.splits)
  then obtain vs ws where vs: "v = Struct vs" and ws: "\<And>i. i < length fs \<Longrightarrow>
      (case map_of vs (fst (fs ! i)) of Some w \<Rightarrow> view h (snd (fs ! i)) w | None \<Rightarrow> None) = Some (ws ! i)"
    by (auto simp: joined_map split: gval.splits if_splits)
  obtain i where "i < length fs" "fs ! i = (n, T)"
    using map_of_SomeD [OF assms(2)] by (auto simp: in_set_conv_nth)
  then obtain w where w: "map_of vs n = Some w" "view h T w = Some (ws ! i)"
    using ws [of i] by (auto split: option.splits)
  have "follow (p @ q) u = Option.bind (follow p u) (follow q)" for p q u
    by (induction p arbitrary: u) (auto split: gval.splits option.splits)
  then have "var_at h a (p @ [n]) = Some w"
    using v(1) w(1) vs by (auto simp: var_at_def split: option.splits cell.splits)
  then show ?thesis using w(2) by (cases "ws ! i") simp
qed

lemma GetStatus_pointer:
  "view h (PointerT (TestRun_type ext)) (Pointer a p) = Some (t, F) \<Longrightarrow>
   \<exists>t' F'. view h (PointerT (TestRunStatus_type ext)) (Pointer a (p @ [''Status''])) = Some (t', F')"
  unfolding TestRun_type_def by (erule view_field_pointer) simp

end
