(* ===== verification/Spec2Isabelle.thy ===== *)
theory Spec2Isabelle
  imports K6_Segmentation K6_Cloud K6_Control_Props K6_Stage_Props K6_Main K6_History K6_Lifecycle K6_Cloud_Life
    K6_PLZ_Props K6_PLZ_Life K6_Factory K6_DeepCopy
begin

text \<open>
  \<^bold>\<open>k6-operator.\<close> The operator runs load tests of k6 on Kubernetes. A user creates a \<open>TestRun\<close>; its
  controller starts an initializer job that inspects the script, creates one runner job and service
  for each of \<open>parallelism\<close> runners, waits until they are up, creates a starter job that resumes
  them, and watches until they have finished. With a \<open>PrivateLoadZone\<close> the operator registers a zone
  in Grafana Cloud k6, polls the cloud for test runs that wait for the zone, and creates a
  \<open>TestRun\<close> for each of them. This development models the Go code under \<open>src/api\<close>,
  \<open>src/internal/controller\<close>, \<open>src/pkg\<close> and \<open>src/cmd\<close>.

  \<^bold>\<open>Data and pure functions.\<close>
  \<^item> \<open>K6_Prelude\<close>: Go's string functions, maps, and programs with effects (below).
  \<^item> \<open>K6_Segmentation\<close> (\<open>pkg/segmentation\<close>): the segments of the runners; they partition \<open>[0, 1]\<close>.
  \<^item> \<open>K6_CLI\<close> (\<open>pkg/types/k6cli.go\<close>): \<open>ParseCLI\<close> with the loops of the source as recursive
    functions, equal to a reference reading of the arguments as groups of a flag and its values.
  \<^item> \<open>K6_Conditions\<close> (\<open>pkg/types/conditions.go\<close>): \<open>UpdateCondition\<close> and \<open>SetIfNewer\<close>; the
    specification \<open>merge_condition\<close> says what becomes of one condition, and \<open>SetIfNewer\<close> refines it.
  \<^item> \<open>K6_Script\<close> (\<open>pkg/types/script.go\<close>), \<open>K6_TestRun\<close> (\<open>api/v1alpha1\<close>): the script, the resource,
    its initial conditions and the merge of a proposed status with its rules for the stage.
  \<^item> \<open>K6_Memory\<close>, \<open>K6_DeepCopy\<close> (\<open>zz_generated.deepcopy.go\<close>): variables, arrays behind slices and maps
    as the cells of a heap, what a value of a type reads of it, and the generated copy functions.
  \<^item> \<open>K6_Cloud\<close> (\<open>pkg/cloud\<close> without effects): aggregation settings and their round trip through
    the status, the data of a cloud test run and what the runners get of it, events.
  \<^item> \<open>K6_API\<close>, \<open>K6_Jobs\<close> (\<open>pkg/resources\<close>): the Kubernetes objects and the builders of the jobs and
    services. The locale \<open>testrun_object\<close> states what names and labels of all these objects have in
    common; it is interpreted by each builder.

  \<^bold>\<open>Operations with effects.\<close> An operation is a function of the list of all calls made so far, its
  history, and extends it. \<open>K6_Env\<close> has the calls (\<open>call\<close>), and the record \<open>env\<close> with the answer to
  each as a function of the history. Nothing is assumed of the answers in a definition, so a theorem
  about a reconciliation holds whatever the API server, the runners, the cloud and the clock say,
  except for what its hypotheses name.
  \<^item> \<open>K6_Client\<close>: the calls of the cloud, the token and the runners' REST API.
  \<^item> \<open>K6_Controller\<close>, \<open>K6_Reconcile\<close> (\<open>internal/controller\<close>): the controller of test runs, one
    definition for each operation and each case of the switch on the stage. An error is an
    \<open>Inl\<close> or a \<open>Some\<close>, a Go panic is the outcome \<open>Panicked\<close>.
  \<^item> \<open>K6_Policy\<close>: the locale \<open>reconciler_policy\<close> gathers which calls the controller makes; a policy
    that allows them holds of all calls of \<open>Reconcile\<close>, and an invariant of histories that they keep
    is kept. \<open>K6_Control_Props\<close> uses it twice: no patch moves a status back, and a reconciliation
    stays with the test run of its request: each call names the objects of that run, or objects the
    API server has listed for it.
  \<^item> \<open>K6_Stage_Props\<close>: order of creation, counting, and where handlers differ from their comments.
  \<^item> \<open>K6_History\<close>: the stored status over any number of reconciliations, on a server whose reads and
    patches may fail; the policy of \<open>K6_Policy\<close> with the invariant \<open>wf_status\<close>.
  \<^item> \<open>K6_Progress\<close>: iterations whose steps may wait while the outside is not ready, for the
    theories on liveness. The locale \<open>progressing\<close> is interpreted by both controllers.
  \<^item> \<open>K6_Stored\<close>: the status on a server that stores what is patched, times in whole seconds. The
    locale \<open>status_server\<close> says what \<open>UpdateStatus\<close> stores of a status that was made from the stored
    one by updates of conditions.
  \<^item> \<open>K6_Stages\<close>: the locale \<open>stage_cluster\<close> extends it by what every test run needs to end; its lemmas
    take a run from one stage to the next or show that the handler waits.
  \<^item> \<open>K6_Lifecycle\<close>, \<open>K6_Cloud_Life\<close>: the iteration of \<open>Reconcile\<close> on a test run without and with
    cloud output, in the locales \<open>steady_cluster\<close> and \<open>cloud_cluster\<close> that extend \<open>stage_cluster\<close>.
    Six reconciliations and a wait for each call made before the cluster is ready suffice, since a
    reconciliation makes at least one call; with cloud output there are two more, and two periods of
    five seconds in which the operator waits. An iteration that ends in a panic counts as one, as
    the controller runtime recovers it.
  \<^item> \<open>K6_Poller\<close> (\<open>pkg/cloud/conn/poller.go\<close>): the poller as a step relation over the interleavings
    of its methods and goroutines; invariants by rule induction.
  \<^item> \<open>K6_PLZ\<close>, \<open>K6_PLZ_Props\<close> (\<open>pkg/plz\<close>, \<open>plz_controller.go\<close>): workers, their registry (the locale
    \<open>registry\<close>) and the controller of zones with its finalizer. \<open>K6_PLZ_Life\<close>: the iteration of
    its \<open>Reconcile\<close> with the zone on the server and the registry in memory, so that a restart of the
    operator is an iteration that begins with another registry; registration and deletion. That the
    registry holds each worker under the name of its zone (\<open>workers_named\<close>) is kept by all of them.
  \<^item> \<open>K6_Factory\<close>: the loop of \<open>StartFactory\<close> over the ids the poller sends, on a server described by
    the locale \<open>test_run_server\<close>.
  \<^item> \<open>K6_Main\<close> (\<open>cmd/main.go\<close>): the start of the operator, the watched namespaces and the mapping of
    pod events.

  \<^bold>\<open>The properties\<close>, numbered C1 to C40 in the order of their importance, stand in the theory of
  their component. Whole reconciliations and the life of a test run: C1 to C4, C15, C18, C34.
  Handlers: C6, C13, C21, C22, C32, C37, C38. The poller: C7, C28. Private load zones: C5, C8, C9, C14,
  C16, C33, C35, C36. Status and conditions: C10, C17, C19. Segments: C11. Arguments: C12. Cloud
  data: C20, C25, C26, C30. Jobs: C23, C24, C27, C29, C31. Deep copies: C39, C40.

  \<^bold>\<open>Parameters and hypotheses.\<close> Code outside the repository is a parameter. The condition functions of
  \<open>k8s.io/apimachinery\<close> are the record \<open>meta_api\<close> with the locale \<open>status_conditions\<close>, the finalizer
  functions of \<open>controllerutil\<close> the record \<open>finalizer_api\<close> with the locale \<open>finalizers\<close>; both are
  interpreted by functions that follow the documentation. What JSON decoders, the HTTP client and the
  quantities of Kubernetes return are fields of \<open>env\<close>. A field of an object the operator only passes
  on has the type \<open>opaque\<close>.

  \<^bold>\<open>Bounds and termination.\<close> No fuel is used: all loops of the source run over lists, and the
  functions for them are structural or have a measure. Go's 32-bit counters and \<open>parallelism\<close> are
  words of 32 bits read as signed numbers, the number of VUs of a script is a word of 64 bits;
  C21 and C22 need lists shorter than \<open>2^31\<close>. \<open>int\<close> of Go, 64 bits wide on the platforms of the
  operator, is unbounded where it only counts list elements or indexes runners. Durations are
  nanoseconds in \<open>int\<close>. The API server keeps the times of conditions in whole seconds; the theories on
  the life of a resource (\<open>K6_History\<close>, \<open>K6_Stored\<close>, \<open>K6_PLZ_Life\<close>) cut what is stored accordingly.

  \<^bold>\<open>Memory.\<close> Outside \<open>K6_Memory\<close> and \<open>K6_DeepCopy\<close> values are immutable, and a \<open>DeepCopy\<close> is the value
  itself; that the generated functions justify this is C39 and C40. Where
  the source shares memory on purpose or by accident (the value receiver of the zone's
  \<open>UpdateCondition\<close>, the specification \<open>NewInitializerJob\<close> writes to, the pointers in the registry)
  the model says so explicitly.

  \<^bold>\<open>Not modelled.\<close> Logging and metrics. The registration of types and controllers and the parsing of flags,
  which are calls into libraries. Two reconciliations of one resource do not overlap, as
  the work queue of the controller guarantees; other writers act between any two calls, because each
  answer may depend on anything. Requests that the context cuts off are failures of the call.
  \<open>json.Marshal\<close> is modelled for strings that need no escapes.
\<close>

end
